(* ===== verification/Prelude.thy ===== *)
theory Prelude
  imports Main "HOL-Library.AList" "HOL-Library.Sublist" "HOL-Library.Word"
begin

text \<open>
  Shared vocabulary of the development: Go's \<^verbatim>\<open>int64\<close> arithmetic, Go maps and SQL
  tables as association lists, the fragment of \<^verbatim>\<open>strings\<close>, \<^verbatim>\<open>strconv\<close> and \<^verbatim>\<open>net\<close>
  that the daemon uses, and the fact collections the component theories extend.
  A Go \<^verbatim>\<open>error\<close> is its text; a function returning \<^verbatim>\<open>(T, error)\<close> returns \<open>err + 'a\<close>
  (\<open>Inl\<close> the error), one returning only an error returns \<open>err option\<close>, \<open>None\<close> being
  \<^verbatim>\<open>nil\<close>.
\<close>

named_theorems tbl_simps "lookups in association-list tables"
named_theorems int64_simps "arithmetic of wrapped 64-bit integers"

type_synonym err = string

subsection \<open>64-bit integers\<close>

definition in64 :: "int \<Rightarrow> bool" where
  "in64 x \<longleftrightarrow> - (2 ^ 63) \<le> x \<and> x < 2 ^ 63"

definition wrap64 :: "int \<Rightarrow> int" where
  "wrap64 x = (x + 2 ^ 63) mod 2 ^ 64 - 2 ^ 63"

text \<open>\<open>wrap64\<close> is two's-complement reading of the low 64 bits.\<close>

lemma wrap64_word: "wrap64 x = sint (word_of_int x :: 64 word)"
  by (simp add: wrap64_def sint_sbintrunc' signed_take_bit_eq_take_bit_shift take_bit_eq_mod)

lemma in64_wrap64 [simp, intro]: "in64 (wrap64 x)"
proof -
  have "0 \<le> (x + 2 ^ 63) mod (2 ^ 64)" and "(x + 2 ^ 63) mod (2 ^ 64) < 2 ^ 64"
    by simp_all
  then show ?thesis by (simp add: in64_def wrap64_def)
qed

lemma wrap64_id [int64_simps]: "in64 x \<Longrightarrow> wrap64 x = x"
  by (simp add: in64_def wrap64_def)

lemma wrap64_wrap64 [simp]: "wrap64 (wrap64 x) = wrap64 x"
  by (simp add: wrap64_id)

lemma wrap64_0 [simp]: "wrap64 0 = 0"
  by (simp add: wrap64_def)

lemma in64_0 [simp]: "in64 0"
  by (simp add: in64_def)

lemma wrap64_add_left [simp]: "wrap64 (wrap64 a + b) = wrap64 (a + b)"
proof -
  have "wrap64 a + b + 2 ^ 63 = (a + 2 ^ 63) mod 2 ^ 64 + b"
    by (simp add: wrap64_def)
  then show ?thesis
    using mod_add_left_eq [of "a + 2 ^ 63" "2 ^ 64" b] by (simp add: wrap64_def algebra_simps)
qed

lemma wrap64_add_right [simp]: "wrap64 (a + wrap64 b) = wrap64 (a + b)"
  by (metis add.commute wrap64_add_left)

text \<open>Go's integer division truncates towards zero.\<close>

definition go_div :: "int \<Rightarrow> int \<Rightarrow> int" where
  "go_div a b = sgn a * sgn b * (\<bar>a\<bar> div \<bar>b\<bar>)"

definition go_mod :: "int \<Rightarrow> int \<Rightarrow> int" where
  "go_mod a b = a - b * go_div a b"

lemma go_div_nonneg: "0 \<le> a \<Longrightarrow> 0 < b \<Longrightarrow> go_div a b = a div b"
  by (cases "a = 0") (auto simp: go_div_def)

lemma go_mod_nonneg: "0 \<le> a \<Longrightarrow> 0 < b \<Longrightarrow> go_mod a b = a mod b"
  by (simp add: go_mod_def go_div_nonneg minus_mult_div_eq_mod)

subsection \<open>Go maps and tables\<close>

text \<open>
  A Go map read yields the zero value for a missing key. A map that the code iterates
  over is an association list; its order is the order in which the runtime happens to
  visit the keys.
\<close>

definition mget0 :: "('k \<Rightarrow> int option) \<Rightarrow> 'k \<Rightarrow> int" where
  "mget0 m k = (case m k of None \<Rightarrow> 0 | Some v \<Rightarrow> v)"

definition mgetb :: "('k \<Rightarrow> bool option) \<Rightarrow> 'k \<Rightarrow> bool" where
  "mgetb m k = (case m k of None \<Rightarrow> False | Some v \<Rightarrow> v)"

definition mgets :: "('k \<Rightarrow> 'a list option) \<Rightarrow> 'k \<Rightarrow> 'a list" where
  "mgets m k = (case m k of None \<Rightarrow> [] | Some v \<Rightarrow> v)"

lemma mget0_upd [simp]: "mget0 (m(k \<mapsto> v)) k' = (if k' = k then v else mget0 m k')"
  by (simp add: mget0_def)

lemma mgetb_upd [simp]: "mgetb (m(k \<mapsto> v)) k' = (if k' = k then v else mgetb m k')"
  by (simp add: mgetb_def)

lemma mgets_upd [simp]: "mgets (m(k \<mapsto> v)) k' = (if k' = k then v else mgets m k')"
  by (simp add: mgets_def)

lemma mget_empty [simp]: "mget0 Map.empty k = 0" "mgetb Map.empty k = False" "mgets Map.empty k = []"
  by (simp_all add: mget0_def mgetb_def mgets_def)

abbreviation tbl_keys :: "('k \<times> 'v) list \<Rightarrow> 'k list" where
  "tbl_keys t \<equiv> map fst t"

abbreviation tbl_wf :: "('k \<times> 'v) list \<Rightarrow> bool" where
  "tbl_wf t \<equiv> distinct (map fst t)"

text \<open>
  \<^verbatim>\<open>INSERT OR REPLACE\<close> on a keyed table is \<^verbatim>\<open>AList.update\<close>;
  \<^verbatim>\<open>INSERT ... ON CONFLICT DO UPDATE SET value = value + d\<close> is \<open>tbl_add\<close>;
  \<^verbatim>\<open>DELETE ... WHERE\<close> and a \<^verbatim>\<open>SELECT ... WHERE\<close> over part of the key are filters.
\<close>

definition tbl_put :: "'k \<Rightarrow> 'v \<Rightarrow> ('k \<times> 'v) list \<Rightarrow> ('k \<times> 'v) list" where
  "tbl_put k v t = AList.update k v t"

definition tbl_add :: "'k \<Rightarrow> int \<Rightarrow> ('k \<times> int) list \<Rightarrow> ('k \<times> int) list" where
  "tbl_add k d t = AList.map_default k d (\<lambda>v. v + d) t"

definition tbl_ins_ignore :: "'k \<Rightarrow> 'v \<Rightarrow> ('k \<times> 'v) list \<Rightarrow> ('k \<times> 'v) list" where
  "tbl_ins_ignore k v t = (if map_of t k = None then t @ [(k, v)] else t)"

definition tbl_del :: "('k \<Rightarrow> bool) \<Rightarrow> ('k \<times> 'v) list \<Rightarrow> ('k \<times> 'v) list" where
  "tbl_del P t = filter (\<lambda>r. \<not> P (fst r)) t"

definition tbl_part :: "'a \<Rightarrow> (('a \<times> 'b) \<times> 'v) list \<Rightarrow> ('b \<times> 'v) list" where
  "tbl_part a t = map (\<lambda>r. (snd (fst r), snd r)) (filter (\<lambda>r. fst (fst r) = a) t)"

lemma map_of_tbl_put [tbl_simps, simp]: "map_of (tbl_put k v t) = (map_of t)(k \<mapsto> v)"
  by (simp add: tbl_put_def update_conv')

lemma map_of_tbl_add [tbl_simps, simp]:
  "map_of (tbl_add k d t) = (map_of t)(k \<mapsto> mget0 (map_of t) k + d)"
  by (rule ext) (simp add: tbl_add_def map_of_map_default mget0_def split: option.split)

lemma map_of_tbl_del [tbl_simps, simp]:
  "map_of (tbl_del P t) k = (if P k then None else map_of t k)"
  by (induction t) (auto simp: tbl_del_def)

lemma map_of_tbl_part [tbl_simps, simp]: "map_of (tbl_part a t) b = map_of t (a, b)"
  by (induction t) (auto simp: tbl_part_def)

lemma tbl_wf_put [simp, intro]: "tbl_wf t \<Longrightarrow> tbl_wf (tbl_put k v t)"
  by (simp add: tbl_put_def distinct_update)

lemma tbl_wf_add [simp, intro]: "tbl_wf t \<Longrightarrow> tbl_wf (tbl_add k d t)"
  by (simp add: tbl_add_def distinct_map_default)

lemma tbl_wf_del [simp, intro]: "tbl_wf t \<Longrightarrow> tbl_wf (tbl_del P t)"
  by (simp add: tbl_del_def distinct_map_filter)

lemma tbl_wf_ins_ignore [simp, intro]: "tbl_wf t \<Longrightarrow> tbl_wf (tbl_ins_ignore k v t)"
  by (auto simp: tbl_ins_ignore_def map_of_eq_None_iff)

lemma tbl_wf_part [simp, intro]: "tbl_wf t \<Longrightarrow> tbl_wf (tbl_part a t)"
  by (induction t) (force simp: tbl_part_def)+

lemma map_of_tbl_ins_ignore [tbl_simps, simp]:
  "map_of (tbl_ins_ignore k v t) k' =
     (if k' = k then Some (case map_of t k of None \<Rightarrow> v | Some w \<Rightarrow> w) else map_of t k')"
  by (auto simp: tbl_ins_ignore_def map_add_def split: option.split)

lemma tbl_keys_put: "set (tbl_keys (tbl_put k v t)) = insert k (set (tbl_keys t))"
  by (simp add: tbl_put_def dom_update)

lemma tbl_part_Nil [simp]: "tbl_part a [] = []"
  by (simp add: tbl_part_def)

end
