(* ===== verification/Gotext.thy ===== *)
theory Gotext
  imports Prelude
begin

text \<open>
  The text functions of Go's standard library that the daemon calls, on byte strings:
  \<^verbatim>\<open>strings.HasPrefix\<close> (the library's \<open>prefix\<close>), \<^verbatim>\<open>TrimPrefix\<close>, \<^verbatim>\<open>Contains\<close>, \<^verbatim>\<open>SplitN\<close>,
  \<^verbatim>\<open>Split\<close>, \<^verbatim>\<open>Fields\<close>, \<^verbatim>\<open>TrimSpace\<close>, \<^verbatim>\<open>ToLower\<close> (white space and letters as far as ASCII),
  \<^verbatim>\<open>strconv.ParseInt(s, 10, 64)\<close>, \<^verbatim>\<open>strconv.FormatInt(n, 10)\<close> and \<^verbatim>\<open>net.SplitHostPort\<close>.
  The last lemmas show that parsing a printed integer gives it back.
\<close>

subsection \<open>Searching and splitting\<close>

definition trim_prefix :: "string \<Rightarrow> string \<Rightarrow> string" where
  "trim_prefix s p = (if prefix p s then drop (length p) s else s)"

fun contains :: "string \<Rightarrow> string \<Rightarrow> bool" where
  "contains [] sub = (sub = [])"
| "contains (c # cs) sub = (prefix sub (c # cs) \<or> contains cs sub)"

text \<open>\<open>cut_at c s\<close>: the text before and after the first \<open>c\<close>, if there is one.\<close>

fun cut_at :: "char \<Rightarrow> string \<Rightarrow> (string \<times> string) option" where
  "cut_at c [] = None"
| "cut_at c (x # xs) =
     (if x = c then Some ([], xs) else map_option (\<lambda>(a, b). (x # a, b)) (cut_at c xs))"

fun split_on :: "char \<Rightarrow> string \<Rightarrow> string list" where
  "split_on c [] = [[]]"
| "split_on c (x # xs) =
     (case split_on c xs of
        [] \<Rightarrow> [[x]]
      | w # ws \<Rightarrow> if x = c then [] # w # ws else (x # w) # ws)"

definition is_space :: "char \<Rightarrow> bool" where
  "is_space c \<longleftrightarrow> c \<in> {CHR 0x09, CHR 0x0A, CHR 0x0B, CHR 0x0C, CHR 0x0D, CHR '' ''}"

definition trim_space :: "string \<Rightarrow> string" where
  "trim_space s = rev (dropWhile is_space (rev (dropWhile is_space s)))"

fun go_fields_aux :: "string \<Rightarrow> string \<Rightarrow> string list" where
  "go_fields_aux w [] = (if w = [] then [] else [rev w])"
| "go_fields_aux w (c # cs) =
     (if is_space c then (if w = [] then go_fields_aux [] cs else rev w # go_fields_aux [] cs)
      else go_fields_aux (c # w) cs)"

definition go_fields :: "string \<Rightarrow> string list" where
  "go_fields s = go_fields_aux [] s"

definition to_lower_char :: "char \<Rightarrow> char" where
  "to_lower_char c =
     (if (65 :: nat) \<le> of_char c \<and> of_char c \<le> (90 :: nat) then char_of (of_char c + 32 :: nat) else c)"

definition to_lower :: "string \<Rightarrow> string" where
  "to_lower s = map to_lower_char s"

subsection \<open>Integers as text\<close>

datatype num_err = ErrSyntax | ErrRange

definition is_digit :: "char \<Rightarrow> bool" where
  "is_digit c \<longleftrightarrow> 48 \<le> (of_char c :: nat) \<and> (of_char c :: nat) \<le> 57"

definition digit_val :: "char \<Rightarrow> nat" where
  "digit_val c = of_char c - 48"

definition digit_chr :: "nat \<Rightarrow> char" where
  "digit_chr d = char_of (d + 48)"

fun parse_digits :: "nat \<Rightarrow> string \<Rightarrow> num_err + nat" where
  "parse_digits n [] = Inr n"
| "parse_digits n (c # cs) =
     (if \<not> is_digit c then Inl ErrSyntax
      else let m = n * 10 + digit_val c
           in if 2 ^ 64 \<le> m then Inl ErrRange else parse_digits m cs)"

definition parse_uint :: "string \<Rightarrow> num_err + nat" where
  "parse_uint s = (if s = [] then Inl ErrSyntax else parse_digits 0 s)"

definition parse_int :: "string \<Rightarrow> num_err + int" where
  "parse_int s =
     (case s of
        [] \<Rightarrow> Inl ErrSyntax
      | c # cs \<Rightarrow>
          let neg = (c = CHR ''-''); body = (if c = CHR ''-'' \<or> c = CHR ''+'' then cs else s)
          in case parse_uint body of
               Inl e \<Rightarrow> Inl e
             | Inr n \<Rightarrow>
                 if \<not> neg \<and> 2 ^ 63 \<le> n then Inl ErrRange
                 else if neg \<and> 2 ^ 63 < n then Inl ErrRange
                 else Inr (if neg then - int n else int n))"

fun show_nat :: "nat \<Rightarrow> string" where
  "show_nat n = (if n < 10 then [digit_chr n] else show_nat (n div 10) @ [digit_chr (n mod 10)])"

declare show_nat.simps [simp del]

definition show_int :: "int \<Rightarrow> string" where
  "show_int x = (if x < 0 then CHR ''-'' # show_nat (nat (- x)) else show_nat (nat x))"

text \<open>The verb \<^verbatim>\<open>%q\<close>: a quoted string with the ASCII escapes of \<^verbatim>\<open>strconv.Quote\<close>.\<close>

definition hex_digit :: "nat \<Rightarrow> char" where
  "hex_digit d = (if d < 10 then char_of (d + 48) else char_of (d + 87))"

definition quote_char :: "char \<Rightarrow> string" where
  "quote_char c =
     (if c = CHR 0x22 then [CHR 0x5C, CHR 0x22]
      else if c = CHR 0x5C then [CHR 0x5C, CHR 0x5C]
      else if c = CHR 0x07 then CHR 0x5C # ''a''
      else if c = CHR 0x08 then CHR 0x5C # ''b''
      else if c = CHR 0x0C then CHR 0x5C # ''f''
      else if c = CHR 0x0A then CHR 0x5C # ''n''
      else if c = CHR 0x0D then CHR 0x5C # ''r''
      else if c = CHR 0x09 then CHR 0x5C # ''t''
      else if c = CHR 0x0B then CHR 0x5C # ''v''
      else if (of_char c :: nat) < 32 \<or> of_char c = (127 :: nat)
        then CHR 0x5C # ''x'' @ [hex_digit (of_char c div 16), hex_digit (of_char c mod 16)]
      else [c])"

definition go_quote :: "string \<Rightarrow> string" where
  "go_quote s = CHR 0x22 # concat (map quote_char s) @ [CHR 0x22]"

subsection \<open>Host and port\<close>

text \<open>
  \<^verbatim>\<open>net.SplitHostPort\<close>: the port follows the last colon; a host in square brackets may
  contain colons. \<open>None\<close> is any of its errors.
\<close>

definition last_colon :: "string \<Rightarrow> (string \<times> string) option" where
  "last_colon s =
     map_option (\<lambda>(a, b). (rev b, rev a)) (cut_at (CHR '':'') (rev s))"

definition split_host_port :: "string \<Rightarrow> (string \<times> string) option" where
  "split_host_port s =
     (case last_colon s of
        None \<Rightarrow> None
      | Some (before, port) \<Rightarrow>
          if prefix ''['' s then
            (case cut_at (CHR '']'') s of
               None \<Rightarrow> None
             | Some (inside, after) \<Rightarrow>
                 if after \<noteq> CHR '':'' # port then None
                 else if CHR ''['' \<in> set (drop 1 inside) \<union> set port then None
                 else if CHR '']'' \<in> set port then None
                 else Some (drop 1 inside, port))
          else if CHR '':'' \<in> set before then None
          else if CHR ''['' \<in> set s \<or> CHR '']'' \<in> set s then None
          else Some (before, port))"

subsection \<open>Parsing what was printed\<close>

lemma digit_chr_props [simp]:
  assumes "d < 10"
  shows "is_digit (digit_chr d)" and "digit_val (digit_chr d) = d"
  using assms by (simp_all add: is_digit_def digit_chr_def digit_val_def)

lemma digit_chr_eval [simp]:
  "digit_chr 0 = CHR ''0''" "digit_chr (Suc 0) = CHR ''1''" "digit_chr 2 = CHR ''2''"
  "digit_chr 3 = CHR ''3''" "digit_chr 4 = CHR ''4''" "digit_chr 5 = CHR ''5''"
  "digit_chr 6 = CHR ''6''" "digit_chr 7 = CHR ''7''" "digit_chr 8 = CHR ''8''"
  "digit_chr 9 = CHR ''9''"
  by code_simp+

lemmas show_eval = show_int_def show_nat.simps

lemma show_nat_nonempty [simp]: "show_nat n \<noteq> []"
  by (subst show_nat.simps) simp

lemma show_nat_digits: "c \<in> set (show_nat n) \<Longrightarrow> is_digit c"
proof (induction n rule: show_nat.induct)
  case (1 n)
  then show ?case
    by (cases "n < 10") (auto simp: show_nat.simps [of n])
qed

lemma parse_digits_append:
  "parse_digits n (xs @ ys) =
     (case parse_digits n xs of Inl e \<Rightarrow> Inl e | Inr m \<Rightarrow> parse_digits m ys)"
  by (induction xs arbitrary: n) (auto simp: Let_def)

lemma parse_digits_show_nat: "n < 2 ^ 64 \<Longrightarrow> parse_digits 0 (show_nat n) = Inr n"
proof (induction n rule: show_nat.induct)
  case (1 n)
  show ?case
  proof (cases "n < 10")
    case True
    then show ?thesis by (simp add: show_nat.simps [of n] Let_def)
  next
    case False
    with 1 have "parse_digits 0 (show_nat (n div 10)) = Inr (n div 10)" by simp
    moreover have "n div 10 * 10 + n mod 10 = n" by simp
    ultimately show ?thesis
      using False "1.prems"
      by (simp add: show_nat.simps [of n] parse_digits_append Let_def)
  qed
qed

lemma is_digit_not_sign: "is_digit c \<Longrightarrow> c \<noteq> CHR ''-'' \<and> c \<noteq> CHR ''+'' \<and> \<not> is_space c"
  by (auto simp: is_digit_def is_space_def)

lemma parse_show_nat: "n < 2 ^ 63 \<Longrightarrow> parse_int (show_nat n) = Inr (int n)"
proof -
  assume n: "n < 2 ^ 63"
  obtain c cs where s: "show_nat n = c # cs"
    by (cases "show_nat n") auto
  then have "is_digit c" using show_nat_digits [of c n] by simp
  then have "c \<noteq> CHR ''-''" "c \<noteq> CHR ''+''" using is_digit_not_sign by auto
  moreover have "parse_digits 0 (c # cs) = Inr n"
    using n parse_digits_show_nat [of n] s by simp
  ultimately show ?thesis using n
    unfolding s by (simp add: parse_int_def parse_uint_def del: parse_digits.simps)
qed

lemma parse_show_int: "in64 x \<Longrightarrow> parse_int (show_int x) = Inr x"
proof (cases "x < 0")
  case True
  assume "in64 x"
  with True have n: "nat (- x) \<le> 2 ^ 63" by (simp add: in64_def)
  then have "parse_digits 0 (show_nat (nat (- x))) = Inr (nat (- x))"
    by (intro parse_digits_show_nat) simp
  then show ?thesis using True n
    by (simp add: show_int_def parse_int_def parse_uint_def)
next
  case False
  assume "in64 x"
  with False have "nat x < 2 ^ 63" by (simp add: in64_def)
  from parse_show_nat [OF this] False show ?thesis by (simp add: show_int_def)
qed

lemma parse_int_in64: "parse_int s = Inr x \<Longrightarrow> in64 x"
  by (auto simp: parse_int_def in64_def Let_def split: list.splits sum.splits if_splits)

subsection \<open>Splitting facts\<close>

lemma trim_prefix_append [simp]: "trim_prefix (p @ s) p = s"
  by (simp add: trim_prefix_def)

lemma split_on_nonempty [simp]: "split_on c s \<noteq> []"
  by (induction s) (auto split: list.splits)

lemma split_on_no_sep: "w \<in> set (split_on c s) \<Longrightarrow> c \<notin> set w"
  by (induction s arbitrary: w) (auto split: list.splits if_splits)

fun join_with :: "char \<Rightarrow> string list \<Rightarrow> string" where
  "join_with c [] = []"
| "join_with c [w] = w"
| "join_with c (w # ws) = w @ c # join_with c ws"

lemma join_split_on: "join_with c (split_on c s) = s"
proof (induction s)
  case Nil
  then show ?case by simp
next
  case (Cons x xs)
  obtain w ws where s: "split_on c xs = w # ws"
    by (cases "split_on c xs") (use split_on_nonempty in auto)
  with Cons show ?case by (cases ws) auto
qed

lemma cut_at_Some: "cut_at c s = Some (a, b) \<Longrightarrow> s = a @ c # b \<and> c \<notin> set a"
  by (induction s arbitrary: a b) (auto split: if_splits)

lemma cut_at_None: "cut_at c s = None \<longleftrightarrow> c \<notin> set s"
  by (induction s) auto

lemma cut_at_append: "c \<notin> set a \<Longrightarrow> cut_at c (a @ c # b) = Some (a, b)"
  by (induction a) auto

text \<open>A plain host with a port is split into the two.\<close>

lemma split_host_port_plain:
  assumes "CHR '':'' \<notin> set h" "CHR '':'' \<notin> set p"
    and "CHR ''['' \<notin> set h \<union> set p" "CHR '']'' \<notin> set h \<union> set p"
  shows "split_host_port (h @ CHR '':'' # p) = Some (h, p)"
proof -
  have "last_colon (h @ CHR '':'' # p) = Some (h, p)"
    using assms(2) cut_at_append [of "CHR '':''" "rev p" "rev h"] by (simp add: last_colon_def)
  moreover have "\<not> prefix ''['' (h @ CHR '':'' # p)"
    using assms(3) by (cases h) auto
  ultimately show ?thesis using assms by (simp add: split_host_port_def)
qed

lemma split_host_port_no_colon: "CHR '':'' \<notin> set h \<Longrightarrow> split_host_port h = None"
  by (simp add: split_host_port_def last_colon_def cut_at_None [THEN iffD2])

end
