(* ===== verification/Model.thy ===== *)
theory Model
  imports Gotext
begin

text \<open>
  The shared data of \<^verbatim>\<open>internal/model/model.go\<close>: enforcement scopes, limit types, containers,
  segments and the status of a container. As in the code a scope and a limit type are
  strings, so any string can be stored under them; the constants name the eleven types the
  daemon knows.
\<close>

subsection \<open>Scopes\<close>

type_synonym scope = string

definition ScopeHost :: scope where
  "ScopeHost = ''''"

definition SegmentScope :: "string \<Rightarrow> scope" where
  "SegmentScope cid = ''segment:'' @ cid"

definition IsSegment :: "scope \<Rightarrow> bool" where
  "IsSegment s = prefix ''segment:'' s"

definition SegmentID :: "scope \<Rightarrow> string" where
  "SegmentID s = (if IsSegment s then trim_prefix s ''segment:'' else '''')"

lemma SegmentScope_not_host [simp]: "SegmentScope cid \<noteq> ScopeHost" "ScopeHost \<noteq> SegmentScope cid"
  by (simp_all add: SegmentScope_def ScopeHost_def)

lemma SegmentScope_inj [simp]: "SegmentScope a = SegmentScope b \<longleftrightarrow> a = b"
  by (simp add: SegmentScope_def)

lemma IsSegment_SegmentScope [simp]: "IsSegment (SegmentScope cid)"
  by (simp add: IsSegment_def SegmentScope_def)

lemma not_IsSegment_host [simp]: "\<not> IsSegment ScopeHost"
  by (simp add: IsSegment_def ScopeHost_def)

lemma SegmentID_SegmentScope [simp]: "SegmentID (SegmentScope cid) = cid"
  by (simp add: SegmentID_def) (simp add: SegmentScope_def trim_prefix_def)

lemma SegmentScope_SegmentID: "IsSegment s \<Longrightarrow> SegmentScope (SegmentID s) = s"
  by (auto simp: SegmentID_def IsSegment_def SegmentScope_def trim_prefix_def elim!: prefixE)

lemma SegmentID_host [simp]: "SegmentID ScopeHost = ''''"
  by (simp add: SegmentID_def)

subsection \<open>Limit types\<close>

type_synonym limit_type = string

abbreviation LimitCPU :: limit_type where
  "LimitCPU \<equiv> ''cpu''"

abbreviation LimitRAM :: limit_type where
  "LimitRAM \<equiv> ''ram''"

abbreviation LimitDisk :: limit_type where
  "LimitDisk \<equiv> ''disk''"

abbreviation LimitNetwork :: limit_type where
  "LimitNetwork \<equiv> ''net''"

abbreviation LimitDiskIOByte :: limit_type where
  "LimitDiskIOByte \<equiv> ''disk-io-bytes''"

abbreviation LimitDiskIOOps :: limit_type where
  "LimitDiskIOOps \<equiv> ''disk-io-ops''"

abbreviation LimitSpending :: limit_type where
  "LimitSpending \<equiv> ''spending''"

abbreviation LimitRAMUsageBSec :: limit_type where
  "LimitRAMUsageBSec \<equiv> ''ram-usage-bsec''"

abbreviation LimitDiskUsageBSec :: limit_type where
  "LimitDiskUsageBSec \<equiv> ''disk-usage-bsec''"

abbreviation LimitRAMRequestBSec :: limit_type where
  "LimitRAMRequestBSec \<equiv> ''ram-request-bsec''"

abbreviation LimitDiskRequestBSec :: limit_type where
  "LimitDiskRequestBSec \<equiv> ''disk-request-bsec''"

definition AllLimitTypes :: "limit_type list" where
  "AllLimitTypes =
     [LimitCPU, LimitRAM, LimitDisk, LimitNetwork,
      LimitDiskIOByte, LimitDiskIOOps, LimitSpending,
      LimitRAMUsageBSec, LimitDiskUsageBSec,
      LimitRAMRequestBSec, LimitDiskRequestBSec]"

definition CumulativeLimitTypes :: "limit_type list" where
  "CumulativeLimitTypes =
     [LimitCPU, LimitNetwork, LimitDiskIOByte, LimitDiskIOOps, LimitSpending,
      LimitRAMUsageBSec, LimitDiskUsageBSec,
      LimitRAMRequestBSec, LimitDiskRequestBSec]"

lemma distinct_AllLimitTypes [simp]: "distinct AllLimitTypes"
  by (simp add: AllLimitTypes_def)

lemma distinct_CumulativeLimitTypes [simp]: "distinct CumulativeLimitTypes"
  by (simp add: CumulativeLimitTypes_def)

lemma CumulativeLimitTypes_filter:
  "CumulativeLimitTypes = filter (\<lambda>lt. lt \<noteq> LimitRAM \<and> lt \<noteq> LimitDisk) AllLimitTypes"
  by (simp add: AllLimitTypes_def CumulativeLimitTypes_def)

subsection \<open>Containers and segments\<close>

text \<open>Times are nanoseconds of wall-clock time.\<close>

record container =
  c_ID :: string
  c_DockerID :: string
  c_Name :: string
  c_RegisteredAt :: int
  c_SegmentID :: string

record segment =
  seg_ID :: string
  seg_Name :: string
  seg_CreatedAt :: int

record container_status =
  cs_Container :: container
  cs_Limits :: "(limit_type \<times> int) list option"
  cs_Usage :: "(limit_type \<times> int) list option"
  cs_Enforced :: "(limit_type \<times> bool) list"
  cs_State :: string
  cs_ProxyAddr :: string
  cs_Frozen :: bool

end
