(* ===== verification/Store.thy ===== *)
theory Store
  imports Model
begin

text \<open>
  The SQLite store of \<^verbatim>\<open>internal/store/store.go\<close>. A table is an association list from its
  primary key (rows in insertion order); each operation is the effect of its SQL statements.
  The fields \<open>db_rerr\<close>, \<open>db_werr\<close> and \<open>db_cerr\<close> say whether reading, writing and
  committing fail at the moment, so that every error branch of the code is a branch here.
  Stored integers are unbounded: SQLite turns an overflowing sum into a floating-point
  value, which the driver refuses to scan into an \<^verbatim>\<open>int64\<close>, and \<open>scan_int\<close> does so too.
  Foreign keys are declared but not switched on, as in the driver's default.
\<close>

subsection \<open>Tables\<close>

record container_row =
  r_id :: string
  r_docker_id :: string
  r_name :: string
  r_registered_at :: int
  r_frozen :: int
  r_segment_id :: "string option"

record segment_row =
  sr_id :: string
  sr_name :: string
  sr_created_at :: int

record store =
  t_containers :: "container_row list"
  t_limits :: "((string \<times> limit_type) \<times> int) list"
  t_usage :: "((string \<times> limit_type) \<times> int) list"
  t_global_limits :: "(limit_type \<times> int) list"
  t_global_usage_accum :: "(limit_type \<times> int) list"
  t_scope_limits :: "((scope \<times> limit_type) \<times> int) list"
  t_scope_usage_accum :: "((scope \<times> limit_type) \<times> int) list"
  t_segments :: "segment_row list"
  t_segment_config :: "((string \<times> string) \<times> string) list"
  db_rerr :: "err option"
  db_werr :: "err option"
  db_cerr :: "err option"

definition empty_store :: store where
  "empty_store =
     \<lparr>t_containers = [], t_limits = [], t_usage = [], t_global_limits = [],
      t_global_usage_accum = [], t_scope_limits = [], t_scope_usage_accum = [],
      t_segments = [], t_segment_config = [], db_rerr = None, db_werr = None, db_cerr = None\<rparr>"

text \<open>One statement outside a transaction, and one whose error the code drops.\<close>

definition exec :: "(store \<Rightarrow> store) \<Rightarrow> store \<Rightarrow> err option \<times> store" where
  "exec f s = (case db_werr s of Some e \<Rightarrow> (Some e, s) | None \<Rightarrow> (None, f s))"

definition exec_ignore :: "(store \<Rightarrow> store) \<Rightarrow> store \<Rightarrow> store" where
  "exec_ignore f s = (if db_werr s = None then f s else s)"

definition scan_err :: err where
  "scan_err = ''sql: Scan error on column index 0: converting driver.Value type float64 to a int64''"

definition scan_int :: "int \<Rightarrow> err + int" where
  "scan_int v = (if in64 v then Inr v else Inl scan_err)"

definition query_int :: "store \<Rightarrow> int option \<Rightarrow> err + int" where
  "query_int s cell =
     (case db_rerr s of
        Some e \<Rightarrow> Inl e
      | None \<Rightarrow> (case cell of None \<Rightarrow> Inr 0 | Some v \<Rightarrow> scan_int v))"

definition query_rows :: "store \<Rightarrow> ('k \<times> int) list \<Rightarrow> err + ('k \<times> int) list" where
  "query_rows s rows =
     (case db_rerr s of
        Some e \<Rightarrow> Inl e
      | None \<Rightarrow> if list_all (\<lambda>r. in64 (snd r)) rows then Inr rows else Inl scan_err)"

subsection \<open>Opening the database\<close>

text \<open>
  The tables exist from the start in the model; what \<^verbatim>\<open>migrate\<close> does to the data is to copy
  the two host-only tables of older versions into the scope tables, without overwriting.
\<close>

definition migrate :: "store \<Rightarrow> err option \<times> store" where
  "migrate s =
     (case db_werr s of
        Some e \<Rightarrow>
          (Some (''migrate: exec '' @ go_quote (''CREATE TABLE IF NOT EXISTS containers ('' @ [CHR 0x0A])
                 @ '': '' @ e), s)
      | None \<Rightarrow>
          (None,
           s\<lparr>t_scope_limits :=
                fold (\<lambda>(t, v). tbl_ins_ignore (ScopeHost, t) v) (t_global_limits s) (t_scope_limits s),
             t_scope_usage_accum :=
                fold (\<lambda>(t, v). tbl_ins_ignore (ScopeHost, t) v) (t_global_usage_accum s)
                     (t_scope_usage_accum s)\<rparr>))"

subsection \<open>Containers\<close>

definition row_to_container :: "container_row \<Rightarrow> container" where
  "row_to_container r =
     \<lparr>c_ID = r_id r, c_DockerID = r_docker_id r, c_Name = r_name r,
      c_RegisteredAt = r_registered_at r * 1000000000,
      c_SegmentID = (case r_segment_id r of None \<Rightarrow> '''' | Some g \<Rightarrow> g)\<rparr>"

text \<open>
  \<^verbatim>\<open>INSERT OR REPLACE\<close> deletes a row with the same key and inserts a new one, in which the
  columns the statement does not name (\<^verbatim>\<open>frozen\<close>, \<^verbatim>\<open>segment_id\<close>) take their defaults.
  \<^verbatim>\<open>dockerID[:12]\<close> panics on a shorter ID.
\<close>

definition replace_row :: "container_row \<Rightarrow> container_row list \<Rightarrow> container_row list" where
  "replace_row r rows = filter (\<lambda>x. r_id x \<noteq> r_id r) rows @ [r]"

definition panic_slice :: err where
  "panic_slice = ''panic: runtime error: slice bounds out of range''"

definition RegisterContainer :: "string \<Rightarrow> string \<Rightarrow> int \<Rightarrow> store \<Rightarrow> (err + container) \<times> store" where
  "RegisterContainer dockerID name now s =
     (if length dockerID < 12 then (Inl panic_slice, s)
      else
        let row = \<lparr>r_id = take 12 dockerID, r_docker_id = dockerID, r_name = name,
                   r_registered_at = now div 1000000000, r_frozen = 0, r_segment_id = None\<rparr>
        in case exec (\<lambda>s. s\<lparr>t_containers := replace_row row (t_containers s)\<rparr>) s of
             (Some e, s') \<Rightarrow> (Inl (''insert container: '' @ e), s')
           | (None, s') \<Rightarrow>
               (Inr \<lparr>c_ID = take 12 dockerID, c_DockerID = dockerID, c_Name = name,
                     c_RegisteredAt = now, c_SegmentID = ''''\<rparr>, s'))"

definition find_row :: "string \<Rightarrow> store \<Rightarrow> container_row option" where
  "find_row cid s = find (\<lambda>r. r_id r = cid) (t_containers s)"

definition GetContainer :: "store \<Rightarrow> string \<Rightarrow> err + container" where
  "GetContainer s cid =
     (case db_rerr s of
        Some e \<Rightarrow> Inl e
      | None \<Rightarrow>
          (case find_row cid s of
             None \<Rightarrow> Inl (''container '' @ cid @ '' not found'')
           | Some r \<Rightarrow> Inr (row_to_container r)))"

definition ListContainers :: "store \<Rightarrow> err + container list" where
  "ListContainers s =
     (case db_rerr s of
        Some e \<Rightarrow> Inl e
      | None \<Rightarrow> Inr (map row_to_container (sort_key r_registered_at (t_containers s))))"

text \<open>
  The body of the accumulation loop of \<^verbatim>\<open>RemoveContainer\<close>, for one limit type; the errors of
  the statements inside the transaction are not looked at.
\<close>

definition accumulate_type :: "string \<Rightarrow> string option \<Rightarrow> limit_type \<Rightarrow> store \<Rightarrow> store" where
  "accumulate_type cid seg lt s =
     (case map_of (t_usage s) (cid, lt) of
        None \<Rightarrow> s
      | Some val \<Rightarrow>
          if in64 val \<and> 0 < val then
            let s1 = exec_ignore (\<lambda>s. s\<lparr>t_scope_usage_accum :=
                       tbl_add (ScopeHost, lt) val (t_scope_usage_accum s)\<rparr>) s;
                s2 = exec_ignore (\<lambda>s. s\<lparr>t_global_usage_accum :=
                       tbl_add lt val (t_global_usage_accum s)\<rparr>) s1
            in (case seg of
                  None \<Rightarrow> s2
                | Some g \<Rightarrow>
                    if g \<noteq> '''' then
                      exec_ignore (\<lambda>s. s\<lparr>t_scope_usage_accum :=
                        tbl_add (SegmentScope g, lt) val (t_scope_usage_accum s)\<rparr>) s2
                    else s2)
          else s)"

definition RemoveContainer :: "string \<Rightarrow> store \<Rightarrow> err option \<times> store" where
  "RemoveContainer cid s =
     (case db_rerr s of
        Some e \<Rightarrow> (Some e, s)
      | None \<Rightarrow>
          let seg = (case find_row cid s of None \<Rightarrow> None | Some r \<Rightarrow> r_segment_id r);
              s1 = fold (accumulate_type cid seg) CumulativeLimitTypes s;
              s2 = exec_ignore (\<lambda>s. s\<lparr>t_usage := tbl_del (\<lambda>k. fst k = cid) (t_usage s)\<rparr>) s1;
              s3 = exec_ignore (\<lambda>s. s\<lparr>t_limits := tbl_del (\<lambda>k. fst k = cid) (t_limits s)\<rparr>) s2;
              s4 = exec_ignore (\<lambda>s. s\<lparr>t_containers := filter (\<lambda>r. r_id r \<noteq> cid) (t_containers s)\<rparr>) s3
          in case db_cerr s of
               Some e \<Rightarrow> (Some e, s)
             | None \<Rightarrow> (None, s4))"

subsection \<open>Limits and usage of a container\<close>

definition SetLimit :: "string \<Rightarrow> limit_type \<Rightarrow> int \<Rightarrow> store \<Rightarrow> err option \<times> store" where
  "SetLimit cid lt v s = exec (\<lambda>s. s\<lparr>t_limits := tbl_put (cid, lt) v (t_limits s)\<rparr>) s"

definition GetLimit :: "store \<Rightarrow> string \<Rightarrow> limit_type \<Rightarrow> err + int" where
  "GetLimit s cid lt = query_int s (map_of (t_limits s) (cid, lt))"

definition GetAllLimits :: "store \<Rightarrow> string \<Rightarrow> err + (limit_type \<times> int) list" where
  "GetAllLimits s cid = query_rows s (tbl_part cid (t_limits s))"

definition SetUsage :: "string \<Rightarrow> limit_type \<Rightarrow> int \<Rightarrow> store \<Rightarrow> err option \<times> store" where
  "SetUsage cid lt v s = exec (\<lambda>s. s\<lparr>t_usage := tbl_put (cid, lt) v (t_usage s)\<rparr>) s"

definition GetUsage :: "store \<Rightarrow> string \<Rightarrow> limit_type \<Rightarrow> err + int" where
  "GetUsage s cid lt = query_int s (map_of (t_usage s) (cid, lt))"

definition GetAllUsage :: "store \<Rightarrow> string \<Rightarrow> err + (limit_type \<times> int) list" where
  "GetAllUsage s cid = query_rows s (tbl_part cid (t_usage s))"

definition AddUsage :: "string \<Rightarrow> limit_type \<Rightarrow> int \<Rightarrow> store \<Rightarrow> err option \<times> store" where
  "AddUsage cid lt d s = exec (\<lambda>s. s\<lparr>t_usage := tbl_add (cid, lt) d (t_usage s)\<rparr>) s"

definition CopyLimits :: "string \<Rightarrow> string \<Rightarrow> store \<Rightarrow> err option \<times> store" where
  "CopyLimits fromID toID s =
     exec (\<lambda>s. s\<lparr>t_limits :=
       fold (\<lambda>(t, v). tbl_put (toID, t) v) (tbl_part fromID (t_limits s)) (t_limits s)\<rparr>) s"

subsection \<open>Resolving a container\<close>

text \<open>SQL's \<^verbatim>\<open>LIKE\<close>: \<^verbatim>\<open>%\<close> and \<^verbatim>\<open>_\<close> are wildcards, ASCII letters match in either case.\<close>

fun sql_like :: "string \<Rightarrow> string \<Rightarrow> bool" where
  "sql_like [] s = (s = [])"
| "sql_like (p # ps) [] = (p = CHR ''%'' \<and> sql_like ps [])"
| "sql_like (p # ps) (c # cs) =
     (if p = CHR ''%'' then sql_like ps (c # cs) \<or> sql_like (p # ps) cs
      else (p = CHR ''_'' \<or> to_lower_char p = to_lower_char c) \<and> sql_like ps cs)"

definition ResolveContainerID :: "store \<Rightarrow> string \<Rightarrow> err + string" where
  "ResolveContainerID s query =
     (let notfound = Inl (''container '' @ go_quote query @ '' not found'') in
      if db_rerr s \<noteq> None then notfound
      else
        case find_row query s of
          Some r \<Rightarrow> Inr (r_id r)
        | None \<Rightarrow>
            (case find (\<lambda>r. sql_like (query @ ''%'') (r_docker_id r)) (t_containers s) of
               Some r \<Rightarrow> Inr (r_id r)
             | None \<Rightarrow>
                 (case find (\<lambda>r. r_name r = query) (t_containers s) of
                    Some r \<Rightarrow> Inr (r_id r)
                  | None \<Rightarrow> notfound)))"

subsection \<open>Limits and accumulated usage of a scope\<close>

definition SetScopeLimit :: "scope \<Rightarrow> limit_type \<Rightarrow> int \<Rightarrow> store \<Rightarrow> err option \<times> store" where
  "SetScopeLimit scope lt v s =
     (case exec (\<lambda>s. s\<lparr>t_scope_limits := tbl_put (scope, lt) v (t_scope_limits s)\<rparr>) s of
        (Some e, s') \<Rightarrow> (Some e, s')
      | (None, s') \<Rightarrow>
          (None,
           if scope = ScopeHost
           then exec_ignore (\<lambda>s. s\<lparr>t_global_limits := tbl_put lt v (t_global_limits s)\<rparr>) s'
           else s'))"

definition GetScopeLimit :: "store \<Rightarrow> scope \<Rightarrow> limit_type \<Rightarrow> err + int" where
  "GetScopeLimit s scope lt = query_int s (map_of (t_scope_limits s) (scope, lt))"

definition GetAllScopeLimits :: "store \<Rightarrow> scope \<Rightarrow> err + (limit_type \<times> int) list" where
  "GetAllScopeLimits s scope = query_rows s (tbl_part scope (t_scope_limits s))"

definition GetScopeUsageAccum :: "store \<Rightarrow> scope \<Rightarrow> err + (limit_type \<times> int) list" where
  "GetScopeUsageAccum s scope = query_rows s (tbl_part scope (t_scope_usage_accum s))"

subsection \<open>Segments\<close>

definition row_to_segment :: "segment_row \<Rightarrow> segment" where
  "row_to_segment r =
     \<lparr>seg_ID = sr_id r, seg_Name = sr_name r, seg_CreatedAt = sr_created_at r * 1000000000\<rparr>"

definition find_segment :: "string \<Rightarrow> store \<Rightarrow> segment_row option" where
  "find_segment cid s = find (\<lambda>r. sr_id r = cid) (t_segments s)"

definition CreateSegment :: "string \<Rightarrow> string \<Rightarrow> int \<Rightarrow> store \<Rightarrow> (err + segment) \<times> store" where
  "CreateSegment cid name now s =
     (case db_werr s of
        Some e \<Rightarrow> (Inl (''create segment: '' @ e), s)
      | None \<Rightarrow>
          if find_segment cid s \<noteq> None
          then (Inl ''create segment: UNIQUE constraint failed: segments.id'', s)
          else
            (Inr \<lparr>seg_ID = cid, seg_Name = name, seg_CreatedAt = now\<rparr>,
             s\<lparr>t_segments := t_segments s @
                [\<lparr>sr_id = cid, sr_name = name, sr_created_at = now div 1000000000\<rparr>]\<rparr>))"

definition GetSegment :: "store \<Rightarrow> string \<Rightarrow> err + segment" where
  "GetSegment s cid =
     (case db_rerr s of
        Some e \<Rightarrow> Inl e
      | None \<Rightarrow>
          (case find_segment cid s of
             None \<Rightarrow> Inl (''segment '' @ go_quote cid @ '' not found'')
           | Some r \<Rightarrow> Inr (row_to_segment r)))"

definition ListSegments :: "store \<Rightarrow> err + segment list" where
  "ListSegments s =
     (case db_rerr s of
        Some e \<Rightarrow> Inl e
      | None \<Rightarrow> Inr (map row_to_segment (sort_key sr_created_at (t_segments s))))"

definition DeleteSegment :: "string \<Rightarrow> store \<Rightarrow> err option \<times> store" where
  "DeleteSegment cid s =
     (let count = (if db_rerr s = None
                   then length (filter (\<lambda>r. r_segment_id r = Some cid) (t_containers s)) else 0)
      in if 0 < count
         then (Some (''segment '' @ go_quote cid @ '' has '' @ show_nat count @
                     '' containers; remove them first''), s)
         else
           let scope = SegmentScope cid;
               s1 = exec_ignore (\<lambda>s. s\<lparr>t_scope_limits := tbl_del (\<lambda>k. fst k = scope) (t_scope_limits s)\<rparr>) s;
               s2 = exec_ignore (\<lambda>s. s\<lparr>t_scope_usage_accum :=
                      tbl_del (\<lambda>k. fst k = scope) (t_scope_usage_accum s)\<rparr>) s1
           in exec (\<lambda>s. s\<lparr>t_segments := filter (\<lambda>r. sr_id r \<noteq> cid) (t_segments s)\<rparr>) s2)"

definition update_rows ::
  "string \<Rightarrow> (container_row \<Rightarrow> container_row) \<Rightarrow> container_row list \<Rightarrow> container_row list" where
  "update_rows cid f rows = map (\<lambda>r. if r_id r = cid then f r else r) rows"

definition SetContainerSegment :: "string \<Rightarrow> string option \<Rightarrow> store \<Rightarrow> err option \<times> store" where
  "SetContainerSegment cid seg s =
     exec (\<lambda>s. s\<lparr>t_containers := update_rows cid (\<lambda>r. r\<lparr>r_segment_id := seg\<rparr>) (t_containers s)\<rparr>) s"

definition ListContainersByScope :: "store \<Rightarrow> scope \<Rightarrow> err + container list" where
  "ListContainersByScope s scope =
     (case db_rerr s of
        Some e \<Rightarrow> Inl e
      | None \<Rightarrow>
          let rows = (if scope = ScopeHost then t_containers s
                      else filter (\<lambda>r. r_segment_id r = Some (SegmentID scope)) (t_containers s))
          in Inr (map row_to_container (sort_key r_registered_at rows)))"

subsection \<open>Segment configuration and the frozen flag\<close>

definition SetSegmentConfig :: "string \<Rightarrow> string \<Rightarrow> string \<Rightarrow> store \<Rightarrow> err option \<times> store" where
  "SetSegmentConfig seg key v s =
     exec (\<lambda>s. s\<lparr>t_segment_config := tbl_put (seg, key) v (t_segment_config s)\<rparr>) s"

definition GetSegmentConfig :: "store \<Rightarrow> string \<Rightarrow> string \<Rightarrow> err + string option" where
  "GetSegmentConfig s seg key =
     (case db_rerr s of Some e \<Rightarrow> Inl e | None \<Rightarrow> Inr (map_of (t_segment_config s) (seg, key)))"

definition GetAllSegmentConfig :: "store \<Rightarrow> string \<Rightarrow> err + (string \<times> string) list" where
  "GetAllSegmentConfig s seg =
     (case db_rerr s of Some e \<Rightarrow> Inl e | None \<Rightarrow> Inr (tbl_part seg (t_segment_config s)))"

definition DeleteSegmentConfig :: "string \<Rightarrow> string \<Rightarrow> store \<Rightarrow> err option \<times> store" where
  "DeleteSegmentConfig seg key s =
     exec (\<lambda>s. s\<lparr>t_segment_config := tbl_del (\<lambda>k. k = (seg, key)) (t_segment_config s)\<rparr>) s"

definition SetFrozen :: "string \<Rightarrow> bool \<Rightarrow> store \<Rightarrow> err option \<times> store" where
  "SetFrozen cid frozen s =
     exec (\<lambda>s. s\<lparr>t_containers :=
       update_rows cid (\<lambda>r. r\<lparr>r_frozen := (if frozen then 1 else 0)\<rparr>) (t_containers s)\<rparr>) s"

definition IsFrozenRow :: "store \<Rightarrow> string \<Rightarrow> err + bool" where
  "IsFrozenRow s cid =
     (case db_rerr s of
        Some e \<Rightarrow> Inl e
      | None \<Rightarrow>
          (case find_row cid s of
             None \<Rightarrow> Inl ''sql: no rows in result set''
           | Some r \<Rightarrow> Inr (r_frozen r \<noteq> 0)))"

end
