(* ===== verification/Docker.thy ===== *)
theory Docker
  imports Model
begin

text \<open>
  \<^verbatim>\<open>internal/docker/docker.go\<close>. The interface \<^verbatim>\<open>DockerClient\<close> is a record of operations on a
  Docker state \<open>'d\<close> (queries leave the state alone, commands return the new one); the
  Docker Engine API below it, which is not part of the repository, is the record \<open>engine\<close>
  of parameters, and \<open>Client\<close> is the code of the wrapper over it. The repository's own
  \<^verbatim>\<open>MockDocker\<close> (\<^verbatim>\<open>internal/testutil/mocks.go\<close>) is the concrete provider on which the contract
  \<open>pausable_docker\<close> is interpreted and theorems are instantiated.
\<close>

subsection \<open>The interface\<close>

record docker_info =
  di_ID :: string
  di_Name :: string
  di_Running :: bool
  di_Paused :: bool
  di_SizeRw :: "int option"
  di_SandboxKey :: string
  di_IPAddress :: string
  di_Networks :: "(string \<times> string) list"
  di_Image :: string
  di_Config :: string

record 'd docker_client =
  d_inspect :: "'d \<Rightarrow> string \<Rightarrow> err + docker_info"
  d_pause :: "string \<Rightarrow> 'd \<Rightarrow> err option \<times> 'd"
  d_unpause :: "string \<Rightarrow> 'd \<Rightarrow> err option \<times> 'd"
  d_paused :: "'d \<Rightarrow> string \<Rightarrow> err + bool"
  d_running :: "'d \<Rightarrow> string \<Rightarrow> err + bool"
  d_update_memory :: "string \<Rightarrow> int \<Rightarrow> 'd \<Rightarrow> err option \<times> 'd"
  d_veth :: "string \<Rightarrow> 'd \<Rightarrow> (err + string) \<times> 'd"
  d_clone :: "string \<Rightarrow> string \<Rightarrow> 'd \<Rightarrow> (err + string) \<times> 'd"
  d_disk :: "'d \<Rightarrow> string \<Rightarrow> err + int"
  d_disconnect :: "string \<Rightarrow> 'd \<Rightarrow> err option \<times> 'd"
  d_reconnect :: "string \<Rightarrow> 'd \<Rightarrow> err option \<times> 'd"
  d_ip :: "'d \<Rightarrow> string \<Rightarrow> err + string"
  d_stop :: "string \<Rightarrow> 'd \<Rightarrow> err option \<times> 'd"

definition already_paused :: "err \<Rightarrow> bool" where
  "already_paused e = contains e ''already paused''"

text \<open>A Docker ID is a string of hexadecimal digits.\<close>

definition docker_id :: "string \<Rightarrow> bool" where
  "docker_id i \<longleftrightarrow> set i \<subseteq> set ''0123456789abcdef''"

text \<open>
  What the daemon relies on of a client, for the pause state and the run state: a pause that
  succeeds pauses, one that fails changes nothing, an "already paused" error tells the
  truth, no command touches another container, and only pausing, unpausing and stopping
  change the pause or run state at all.
\<close>

text \<open>A container is held when it cannot execute: it is paused or it is not running.\<close>

definition held :: "'d docker_client \<Rightarrow> 'd \<Rightarrow> string \<Rightarrow> bool" where
  "held dc d i \<longleftrightarrow> d_paused dc d i = Inr True \<or> d_running dc d i = Inr False"

locale pausable_docker =
  fixes dc :: "'d docker_client"
  assumes pause_ok: "d_pause dc i d = (None, d') \<Longrightarrow> d_paused dc d' i = Inr True"
    and pause_err: "d_pause dc i d = (Some e, d') \<Longrightarrow> d' = d"
    and pause_already: "d_pause dc i d = (Some e, d') \<Longrightarrow> already_paused e \<Longrightarrow> docker_id i \<Longrightarrow>
                        d_paused dc d i = Inr True"
    and pause_running: "d_running dc (snd (d_pause dc i d)) j = d_running dc d j"
    and pause_other: "j \<noteq> i \<Longrightarrow> d_paused dc (snd (d_pause dc i d)) j = d_paused dc d j"
    and unpause_ok: "d_unpause dc i d = (None, d') \<Longrightarrow> d_paused dc d' i = Inr False"
    and unpause_running: "d_running dc (snd (d_unpause dc i d)) j = d_running dc d j"
    and unpause_other: "j \<noteq> i \<Longrightarrow> d_paused dc (snd (d_unpause dc i d)) j = d_paused dc d j"
    and stop_other: "j \<noteq> i \<Longrightarrow> d_paused dc (snd (d_stop dc i d)) j = d_paused dc d j \<and>
                     d_running dc (snd (d_stop dc i d)) j = d_running dc d j"
    and stop_self: "d_paused dc (snd (d_stop dc i d)) i = d_paused dc d i \<and>
                      d_running dc (snd (d_stop dc i d)) i = d_running dc d i \<or>
                    d_running dc (snd (d_stop dc i d)) i = Inr False"
    and memory_frame: "d_paused dc (snd (d_update_memory dc i v d)) j = d_paused dc d j \<and>
                       d_running dc (snd (d_update_memory dc i v d)) j = d_running dc d j"
    and disconnect_frame: "d_paused dc (snd (d_disconnect dc i d)) j = d_paused dc d j \<and>
                           d_running dc (snd (d_disconnect dc i d)) j = d_running dc d j"
    and reconnect_frame: "d_paused dc (snd (d_reconnect dc i d)) j = d_paused dc d j \<and>
                          d_running dc (snd (d_reconnect dc i d)) j = d_running dc d j"
begin

lemma pause_holds:
  "d_pause dc i d = (r, d') \<Longrightarrow> (case r of None \<Rightarrow> True | Some e \<Rightarrow> already_paused e) \<Longrightarrow>
   docker_id i \<Longrightarrow> held dc d' i"
proof (cases r)
  case None
  then show "d_pause dc i d = (r, d') \<Longrightarrow> held dc d' i" using pause_ok [of i d d'] by (simp add: held_def)
next
  case (Some e)
  assume "d_pause dc i d = (r, d')" "case r of None \<Rightarrow> True | Some e \<Rightarrow> already_paused e" "docker_id i"
  with Some pause_err [of i d e d'] pause_already [of i d e d'] show "held dc d' i"
    by (simp add: held_def)
qed

lemma pause_keeps: "held dc d j \<Longrightarrow> held dc (snd (d_pause dc i d)) j"
proof (cases "j = i")
  case True
  assume "held dc d j"
  then show ?thesis
    using True pause_ok [of i d] pause_err [of i d] pause_running [of i d j]
    by (cases "d_pause dc i d"; cases "fst (d_pause dc i d)") (auto simp: held_def)
qed (simp add: held_def pause_running pause_other)

lemma unpause_keeps_other: "j \<noteq> i \<Longrightarrow> held dc d j \<Longrightarrow> held dc (snd (d_unpause dc i d)) j"
  by (simp add: held_def unpause_running unpause_other)

lemma stop_keeps: "held dc d j \<Longrightarrow> held dc (snd (d_stop dc i d)) j"
  using stop_other [of j i d] stop_self [of i d] by (cases "j = i") (auto simp: held_def)

lemma frame_keeps:
  "held dc d j \<Longrightarrow> held dc (snd (d_update_memory dc i v d)) j"
  "held dc d j \<Longrightarrow> held dc (snd (d_disconnect dc i d)) j"
  "held dc d j \<Longrightarrow> held dc (snd (d_reconnect dc i d)) j"
  by (simp_all add: held_def memory_frame disconnect_frame reconnect_frame)

end

subsection \<open>The wrapper over the Docker Engine API\<close>

record 'e engine =
  eng_inspect :: "'e \<Rightarrow> string \<Rightarrow> err + docker_info"
  eng_pause :: "string \<Rightarrow> 'e \<Rightarrow> err option \<times> 'e"
  eng_unpause :: "string \<Rightarrow> 'e \<Rightarrow> err option \<times> 'e"
  eng_stop :: "string \<Rightarrow> int \<Rightarrow> 'e \<Rightarrow> err option \<times> 'e"
  eng_update :: "string \<Rightarrow> int \<Rightarrow> int \<Rightarrow> 'e \<Rightarrow> err option \<times> 'e"
  eng_net_disconnect :: "string \<Rightarrow> string \<Rightarrow> bool \<Rightarrow> 'e \<Rightarrow> err option \<times> 'e"
  eng_net_connect :: "string \<Rightarrow> string \<Rightarrow> 'e \<Rightarrow> err option \<times> 'e"
  eng_exec_create :: "string \<Rightarrow> string list \<Rightarrow> 'e \<Rightarrow> (err + string) \<times> 'e"
  eng_exec_attach :: "string \<Rightarrow> 'e \<Rightarrow> (err + (err + string)) \<times> 'e"
  eng_commit :: "string \<Rightarrow> string \<Rightarrow> string \<Rightarrow> 'e \<Rightarrow> (err + string) \<times> 'e"
  eng_create :: "docker_info \<Rightarrow> string \<Rightarrow> 'e \<Rightarrow> (err + string) \<times> 'e"
  eng_start :: "string \<Rightarrow> 'e \<Rightarrow> err option \<times> 'e"

definition slice_err :: err where
  "slice_err = ''panic: runtime error: slice bounds out of range''"

definition Client_IsContainerPaused :: "'e engine \<Rightarrow> 'e \<Rightarrow> string \<Rightarrow> err + bool" where
  "Client_IsContainerPaused eng e i =
     (case eng_inspect eng e i of Inl x \<Rightarrow> Inl x | Inr info \<Rightarrow> Inr (di_Paused info))"

definition Client_IsContainerRunning :: "'e engine \<Rightarrow> 'e \<Rightarrow> string \<Rightarrow> err + bool" where
  "Client_IsContainerRunning eng e i =
     (case eng_inspect eng e i of Inl x \<Rightarrow> Inl x | Inr info \<Rightarrow> Inr (di_Running info))"

definition Client_UpdateMemoryLimit :: "'e engine \<Rightarrow> string \<Rightarrow> int \<Rightarrow> 'e \<Rightarrow> err option \<times> 'e" where
  "Client_UpdateMemoryLimit eng i v e = eng_update eng i v v e"

text \<open>The digits of the interface index in the output of the command run in the container.\<close>

definition iflink_of :: "string \<Rightarrow> string" where
  "iflink_of output =
     (let s = trim_space output;
          s' = (if list_ex is_digit s then dropWhile (\<lambda>c. \<not> is_digit c) s else s)
      in trim_space (hd (split_on (CHR 0x0A) s')))"

definition Client_ContainerVethName :: "'e engine \<Rightarrow> string \<Rightarrow> 'e \<Rightarrow> (err + string) \<times> 'e" where
  "Client_ContainerVethName eng i e =
     (case eng_inspect eng e i of
        Inl x \<Rightarrow> (Inl x, e)
      | Inr info \<Rightarrow>
          if di_SandboxKey info = '''' then
            (Inl (if length i < 12 then slice_err
                  else ''no sandbox key for container '' @ take 12 i), e)
          else
            (case eng_exec_create eng i [''cat'', ''/sys/class/net/eth0/iflink''] e of
               (Inl x, e1) \<Rightarrow> (Inl (''exec create: '' @ x), e1)
             | (Inr exec_id, e1) \<Rightarrow>
                 (case eng_exec_attach eng exec_id e1 of
                    (Inl x, e2) \<Rightarrow> (Inl (''exec attach: '' @ x), e2)
                  | (Inr (Inl x), e2) \<Rightarrow> (Inl (''read exec output: '' @ x), e2)
                  | (Inr (Inr output), e2) \<Rightarrow> (Inr (''ifindex:'' @ iflink_of output), e2))))"

definition Client_CloneContainer :: "'e engine \<Rightarrow> string \<Rightarrow> string \<Rightarrow> 'e \<Rightarrow> (err + string) \<times> 'e" where
  "Client_CloneContainer eng sourceID newName e =
     (case eng_inspect eng e sourceID of
        Inl x \<Rightarrow> (Inl (''inspect source: '' @ x), e)
      | Inr info \<Rightarrow>
          if length sourceID < 12 then (Inl slice_err, e)
          else
            (case eng_commit eng sourceID (''ddl-clone-'' @ take 12 sourceID) ''cloned by ddl'' e of
               (Inl x, e1) \<Rightarrow> (Inl (''commit: '' @ x), e1)
             | (Inr img, e1) \<Rightarrow>
                 let name = (if newName = '''' then di_Name info @ ''-clone'' else newName)
                 in (case eng_create eng (info\<lparr>di_Image := img\<rparr>) (trim_prefix name ''/'') e1 of
                       (Inl x, e2) \<Rightarrow> (Inl (''create clone: '' @ x), e2)
                     | (Inr newID, e2) \<Rightarrow>
                         (case eng_start eng newID e2 of
                            (Some x, e3) \<Rightarrow> (Inl (''start clone: '' @ x), e3)
                          | (None, e3) \<Rightarrow> (Inr newID, e3)))))"

definition Client_GetContainerDiskUsage :: "'e engine \<Rightarrow> 'e \<Rightarrow> string \<Rightarrow> err + int" where
  "Client_GetContainerDiskUsage eng e i =
     (case eng_inspect eng e i of
        Inl x \<Rightarrow> Inl x
      | Inr info \<Rightarrow> (case di_SizeRw info of Some v \<Rightarrow> Inr v | None \<Rightarrow> Inr 0))"

fun disconnect_all :: "'e engine \<Rightarrow> string \<Rightarrow> string list \<Rightarrow> 'e \<Rightarrow> err option \<times> 'e" where
  "disconnect_all eng i [] e = (None, e)"
| "disconnect_all eng i (n # ns) e =
     (case eng_net_disconnect eng n i True e of
        (Some x, e') \<Rightarrow> (Some (''disconnect from '' @ n @ '': '' @ x), e')
      | (None, e') \<Rightarrow> disconnect_all eng i ns e')"

definition Client_DisconnectNetwork :: "'e engine \<Rightarrow> string \<Rightarrow> 'e \<Rightarrow> err option \<times> 'e" where
  "Client_DisconnectNetwork eng i e =
     (case eng_inspect eng e i of
        Inl x \<Rightarrow> (Some x, e)
      | Inr info \<Rightarrow> disconnect_all eng i (map fst (di_Networks info)) e)"

definition Client_ReconnectNetwork :: "'e engine \<Rightarrow> string \<Rightarrow> 'e \<Rightarrow> err option \<times> 'e" where
  "Client_ReconnectNetwork eng i e = eng_net_connect eng ''bridge'' i e"

definition Client_ContainerIP :: "'e engine \<Rightarrow> 'e \<Rightarrow> string \<Rightarrow> err + string" where
  "Client_ContainerIP eng e i =
     (case eng_inspect eng e i of
        Inl x \<Rightarrow> Inl x
      | Inr info \<Rightarrow>
          if di_IPAddress info \<noteq> '''' then Inr (di_IPAddress info)
          else (case find (\<lambda>n. snd n \<noteq> '''') (di_Networks info) of
                  Some n \<Rightarrow> Inr (snd n)
                | None \<Rightarrow> Inl (''no IP address for container '' @ i)))"

definition Client_StopContainer :: "'e engine \<Rightarrow> string \<Rightarrow> 'e \<Rightarrow> err option \<times> 'e" where
  "Client_StopContainer eng i e = eng_stop eng i 10000000000 e"

definition Client :: "'e engine \<Rightarrow> 'e docker_client" where
  "Client eng =
     \<lparr>d_inspect = eng_inspect eng,
      d_pause = eng_pause eng,
      d_unpause = eng_unpause eng,
      d_paused = Client_IsContainerPaused eng,
      d_running = Client_IsContainerRunning eng,
      d_update_memory = Client_UpdateMemoryLimit eng,
      d_veth = Client_ContainerVethName eng,
      d_clone = Client_CloneContainer eng,
      d_disk = Client_GetContainerDiskUsage eng,
      d_disconnect = Client_DisconnectNetwork eng,
      d_reconnect = Client_ReconnectNetwork eng,
      d_ip = Client_ContainerIP eng,
      d_stop = Client_StopContainer eng\<rparr>"

subsection \<open>The repository's in-memory Docker\<close>

text \<open>
  The call counter \<^verbatim>\<open>IsRunningCalls\<close>, which only tests read, is left out; everything else a
  method reads or writes is here.
\<close>

record mock_container =
  mc_Running :: bool
  mc_Paused :: bool
  mc_MemoryLimit :: int
  mc_Networks :: "string list"
  mc_DiskUsage :: int
  mc_Name :: string
  mc_IP :: string

record mock_docker =
  md_Containers :: "string \<Rightarrow> mock_container option"
  md_ClonedFrom :: "string list"
  md_CloneIDCounter :: nat
  md_Stopped :: "string list"

definition NewMockDocker :: mock_docker where
  "NewMockDocker =
     \<lparr>md_Containers = Map.empty, md_ClonedFrom = [], md_CloneIDCounter = 0, md_Stopped = []\<rparr>"

definition new_mock_container :: "string \<Rightarrow> bool \<Rightarrow> mock_container" where
  "new_mock_container name running =
     \<lparr>mc_Running = running, mc_Paused = False, mc_MemoryLimit = 0, mc_Networks = [''bridge''],
      mc_DiskUsage = 0, mc_Name = name, mc_IP = ''''\<rparr>"

definition AddContainer :: "string \<Rightarrow> string \<Rightarrow> bool \<Rightarrow> mock_docker \<Rightarrow> mock_docker" where
  "AddContainer i name running d =
     d\<lparr>md_Containers := (md_Containers d)(i \<mapsto> new_mock_container name running)\<rparr>"

definition mock_missing :: "string \<Rightarrow> err" where
  "mock_missing i = ''container '' @ i @ '' not found''"

text \<open>A command on a known container, and one on the state of a known container.\<close>

definition mock_cmd ::
  "string \<Rightarrow> (mock_container \<Rightarrow> mock_docker \<Rightarrow> err option \<times> mock_docker) \<Rightarrow> mock_docker \<Rightarrow> err option \<times> mock_docker" where
  "mock_cmd i f d =
     (case md_Containers d i of None \<Rightarrow> (Some (mock_missing i), d) | Some c \<Rightarrow> f c d)"

definition mock_set :: "string \<Rightarrow> mock_container \<Rightarrow> mock_docker \<Rightarrow> mock_docker" where
  "mock_set i c d = d\<lparr>md_Containers := (md_Containers d)(i \<mapsto> c)\<rparr>"

definition mock_get :: "(mock_container \<Rightarrow> err + 'a) \<Rightarrow> mock_docker \<Rightarrow> string \<Rightarrow> err + 'a" where
  "mock_get f d i = (case md_Containers d i of None \<Rightarrow> Inl (mock_missing i) | Some c \<Rightarrow> f c)"

definition Mock_InspectContainer :: "mock_docker \<Rightarrow> string \<Rightarrow> err + docker_info" where
  "Mock_InspectContainer d i =
     mock_get (\<lambda>c. Inr \<lparr>di_ID = i, di_Name = CHR ''/'' # mc_Name c, di_Running = mc_Running c,
       di_Paused = mc_Paused c, di_SizeRw = None, di_SandboxKey = '''', di_IPAddress = '''',
       di_Networks = [], di_Image = '''', di_Config = ''''\<rparr>) d i"

definition Mock_PauseContainer :: "string \<Rightarrow> mock_docker \<Rightarrow> err option \<times> mock_docker" where
  "Mock_PauseContainer i =
     mock_cmd i (\<lambda>c d.
       if mc_Paused c
       then (Some (''Error response from daemon: Container '' @ i @ '' is already paused''), d)
       else (None, mock_set i (c\<lparr>mc_Paused := True\<rparr>) d))"

definition Mock_UnpauseContainer :: "string \<Rightarrow> mock_docker \<Rightarrow> err option \<times> mock_docker" where
  "Mock_UnpauseContainer i = mock_cmd i (\<lambda>c d. (None, mock_set i (c\<lparr>mc_Paused := False\<rparr>) d))"

definition Mock_IsContainerPaused :: "mock_docker \<Rightarrow> string \<Rightarrow> err + bool" where
  "Mock_IsContainerPaused = mock_get (\<lambda>c. Inr (mc_Paused c))"

definition Mock_IsContainerRunning :: "mock_docker \<Rightarrow> string \<Rightarrow> err + bool" where
  "Mock_IsContainerRunning = mock_get (\<lambda>c. Inr (mc_Running c))"

definition Mock_UpdateMemoryLimit :: "string \<Rightarrow> int \<Rightarrow> mock_docker \<Rightarrow> err option \<times> mock_docker" where
  "Mock_UpdateMemoryLimit i v = mock_cmd i (\<lambda>c d. (None, mock_set i (c\<lparr>mc_MemoryLimit := v\<rparr>) d))"

definition pad6 :: "string \<Rightarrow> string" where
  "pad6 s = replicate (6 - length s) (CHR ''0'') @ s"

definition Mock_CloneContainer :: "string \<Rightarrow> string \<Rightarrow> mock_docker \<Rightarrow> (err + string) \<times> mock_docker" where
  "Mock_CloneContainer sourceID newName d =
     (case md_Containers d sourceID of
        None \<Rightarrow> (Inl (mock_missing sourceID), d)
      | Some c \<Rightarrow>
          let n = Suc (md_CloneIDCounter d);
              newID = ''clone'' @ pad6 (show_nat n) @ ''000000'';
              name = (if newName = '''' then ''clone'' else newName)
          in (Inr newID,
              (AddContainer newID name True d)
                \<lparr>md_ClonedFrom := md_ClonedFrom d @ [sourceID], md_CloneIDCounter := n\<rparr>))"

definition Mock_GetContainerDiskUsage :: "mock_docker \<Rightarrow> string \<Rightarrow> err + int" where
  "Mock_GetContainerDiskUsage = mock_get (\<lambda>c. Inr (mc_DiskUsage c))"

definition Mock_DisconnectNetwork :: "string \<Rightarrow> mock_docker \<Rightarrow> err option \<times> mock_docker" where
  "Mock_DisconnectNetwork i = mock_cmd i (\<lambda>c d. (None, mock_set i (c\<lparr>mc_Networks := []\<rparr>) d))"

definition Mock_ReconnectNetwork :: "string \<Rightarrow> mock_docker \<Rightarrow> err option \<times> mock_docker" where
  "Mock_ReconnectNetwork i = mock_cmd i (\<lambda>c d. (None, mock_set i (c\<lparr>mc_Networks := [''bridge'']\<rparr>) d))"

definition Mock_ContainerIP :: "mock_docker \<Rightarrow> string \<Rightarrow> err + string" where
  "Mock_ContainerIP d i =
     mock_get (\<lambda>c. if mc_IP c = '''' then Inl (''no IP address for container '' @ i)
                   else Inr (mc_IP c)) d i"

definition Mock_StopContainer :: "string \<Rightarrow> mock_docker \<Rightarrow> err option \<times> mock_docker" where
  "Mock_StopContainer i =
     mock_cmd i (\<lambda>c d. (None, (mock_set i (c\<lparr>mc_Running := False\<rparr>) d)\<lparr>md_Stopped := md_Stopped d @ [i]\<rparr>))"

definition SetContainerIP :: "string \<Rightarrow> string \<Rightarrow> mock_docker \<Rightarrow> mock_docker" where
  "SetContainerIP i ip d =
     (case md_Containers d i of None \<Rightarrow> d | Some c \<Rightarrow> mock_set i (c\<lparr>mc_IP := ip\<rparr>) d)"

definition MockDocker :: "mock_docker docker_client" where
  "MockDocker =
     \<lparr>d_inspect = Mock_InspectContainer,
      d_pause = Mock_PauseContainer,
      d_unpause = Mock_UnpauseContainer,
      d_paused = Mock_IsContainerPaused,
      d_running = Mock_IsContainerRunning,
      d_update_memory = Mock_UpdateMemoryLimit,
      d_veth = (\<lambda>i d. (Inr ''veth-mock'', d)),
      d_clone = Mock_CloneContainer,
      d_disk = Mock_GetContainerDiskUsage,
      d_disconnect = Mock_DisconnectNetwork,
      d_reconnect = Mock_ReconnectNetwork,
      d_ip = Mock_ContainerIP,
      d_stop = Mock_StopContainer\<rparr>"

lemmas mock_ops = Mock_PauseContainer_def Mock_UnpauseContainer_def Mock_IsContainerPaused_def
  Mock_IsContainerRunning_def Mock_UpdateMemoryLimit_def Mock_DisconnectNetwork_def
  Mock_ReconnectNetwork_def Mock_StopContainer_def Mock_GetContainerDiskUsage_def
  mock_cmd_def mock_get_def mock_set_def

lemma MockDocker_simps [simp]:
  "d_pause MockDocker = Mock_PauseContainer" "d_unpause MockDocker = Mock_UnpauseContainer"
  "d_paused MockDocker = Mock_IsContainerPaused" "d_running MockDocker = Mock_IsContainerRunning"
  "d_update_memory MockDocker = Mock_UpdateMemoryLimit" "d_disk MockDocker = Mock_GetContainerDiskUsage"
  "d_disconnect MockDocker = Mock_DisconnectNetwork" "d_reconnect MockDocker = Mock_ReconnectNetwork"
  "d_stop MockDocker = Mock_StopContainer" "d_ip MockDocker = Mock_ContainerIP"
  "d_clone MockDocker = Mock_CloneContainer" "d_inspect MockDocker = Mock_InspectContainer"
  by (simp_all add: MockDocker_def)

lemma contains_append: "contains s t \<Longrightarrow> contains (p @ s) t"
  by (induction p) auto

lemma contains_prefix: "prefix t s \<Longrightarrow> contains s t"
  by (cases s) auto

lemma not_contains_char: "c \<in> set t \<Longrightarrow> c \<notin> set s \<Longrightarrow> \<not> contains s t"
proof (induction s)
  case Nil
  then show ?case by auto
next
  case (Cons x s)
  have "\<not> prefix t (x # s)"
  proof
    assume "prefix t (x # s)"
    then have "set t \<subseteq> set (x # s)" by (rule set_mono_prefix)
    with Cons.prems show False by auto
  qed
  with Cons show ?case by auto
qed

lemma mock_missing_not_paused: "docker_id i \<Longrightarrow> \<not> already_paused (mock_missing i)"
  unfolding already_paused_def mock_missing_def docker_id_def
  by (rule not_contains_char [of "CHR ''y''"]) auto

interpretation mock: pausable_docker MockDocker
  by unfold_locales (auto simp: mock_ops mock_missing_not_paused split: option.splits if_splits)

subsection \<open>What the wrapper reports\<close>

text \<open>An engine whose state is the in-memory Docker, to instantiate the parameter with.\<close>

definition mock_engine :: "mock_docker engine" where
  "mock_engine =
     \<lparr>eng_inspect = Mock_InspectContainer,
      eng_pause = Mock_PauseContainer,
      eng_unpause = Mock_UnpauseContainer,
      eng_stop = (\<lambda>i t. Mock_StopContainer i),
      eng_update = (\<lambda>i m sw. Mock_UpdateMemoryLimit i m),
      eng_net_disconnect = (\<lambda>n i force. Mock_DisconnectNetwork i),
      eng_net_connect = (\<lambda>n i. Mock_ReconnectNetwork i),
      eng_exec_create = (\<lambda>i cmd d. (Inr ''exec'', d)),
      eng_exec_attach = (\<lambda>x d. (Inr (Inr ''12''), d)),
      eng_commit = (\<lambda>i ref comment d. (Inr ''img'', d)),
      eng_create = (\<lambda>info name d. (Inr name, AddContainer name name False d)),
      eng_start = (\<lambda>i d. (None, AddContainer i i True d))\<rparr>"

text \<open>The disk usage the daemon measures is constantly zero: the Docker Engine fills in the
  size of the writable layer only when an inspection asks for it, the wrapper never asks, and
  a missing size is reported as usage 0 without an error. So no container is ever seen to
  exceed a disk limit.\<close>

theorem disk_usage_always_zero:
  assumes no_size: "\<And>e i info. eng_inspect eng e i = Inr info \<Longrightarrow> di_SizeRw info = None"
    and "d_disk (Client eng) e i = Inr v" and "0 < limit"
  shows "v = 0 \<and> \<not> v \<ge> limit"
  using assms no_size by (auto simp: Client_def Client_GetContainerDiskUsage_def split: sum.splits)

theorem disk_usage_always_zero_witness:
  "d_disk (Client mock_engine) (AddContainer ''abc'' ''web'' True NewMockDocker) ''abc'' = Inr 0
   \<and> \<not> (0::int) \<ge> 5"
proof -
  have 1: "di_SizeRw info = None" if "eng_inspect mock_engine e i = Inr info" for e i info
    using that by (auto simp: mock_engine_def Mock_InspectContainer_def mock_get_def split: option.splits)
  have 2: "d_disk (Client mock_engine) (AddContainer ''abc'' ''web'' True NewMockDocker) ''abc'' = Inr 0"
    by (simp add: Client_def Client_GetContainerDiskUsage_def mock_engine_def Mock_InspectContainer_def
        mock_get_def AddContainer_def new_mock_container_def)
  show ?thesis using disk_usage_always_zero [where limit = 5, OF 1 2] 2 by simp
qed

subsection \<open>A Docker that obeys\<close>

text \<open>
  A client whose commands succeed on the containers it knows, whatever was done before; the
  level-triggered properties of the enforcement loop are proved for such clients.
\<close>

locale reliable_docker = pausable_docker +
  fixes known :: "'a \<Rightarrow> string \<Rightarrow> bool"
  assumes known_pause: "known d i \<Longrightarrow> (case fst (d_pause dc i d) of None \<Rightarrow> True | Some e \<Rightarrow> already_paused e) \<and>
                          known (snd (d_pause dc i d)) i"
    and known_unpause: "known d i \<Longrightarrow> fst (d_unpause dc i d) = None \<and> known (snd (d_unpause dc i d)) i"
    and known_memory: "known d i \<Longrightarrow> fst (d_update_memory dc i v d) = None \<and> known (snd (d_update_memory dc i v d)) i"
    and known_disconnect: "known d i \<Longrightarrow> fst (d_disconnect dc i d) = None \<and> known (snd (d_disconnect dc i d)) i"
    and known_reconnect: "known d i \<Longrightarrow> fst (d_reconnect dc i d) = None \<and> known (snd (d_reconnect dc i d)) i"
    and known_stop: "known d i \<Longrightarrow> fst (d_stop dc i d) = None \<and> known (snd (d_stop dc i d)) i"
    and known_disk: "known d i \<Longrightarrow> \<exists>v. d_disk dc d i = Inr v \<and> in64 v"

lemma contains_middle: "contains (p @ s @ q) s"
  by (rule contains_append) (rule contains_prefix, simp)

lemma mock_already: "already_paused (''Error response from daemon: Container '' @ i @ '' is already paused'')"
proof -
  have "''Error response from daemon: Container '' @ i @ '' is already paused'' =
        (''Error response from daemon: Container '' @ i @ '' is '') @ ''already paused'' @ []"
    by simp
  then show ?thesis unfolding already_paused_def by (simp only: contains_middle)
qed

definition mock_known :: "mock_docker \<Rightarrow> string \<Rightarrow> bool" where
  "mock_known d i = (case md_Containers d i of None \<Rightarrow> False | Some c \<Rightarrow> in64 (mc_DiskUsage c))"

interpretation mock: reliable_docker MockDocker mock_known
  by unfold_locales (auto simp: mock_ops mock_known_def mock_already simp del: append.simps split: option.splits if_splits)

end
