(* ===== verification/Cgroup.thy ===== *)
theory Cgroup
  imports Model
begin

text \<open>
  \<^verbatim>\<open>internal/cgroup/cgroup.go\<close>: the parsers of the kernel's statistics files, and the \<^verbatim>\<open>Reader\<close>
  over a file system that maps paths to contents. The interface \<^verbatim>\<open>CgroupReader\<close> is a record of
  operations on a cgroup state \<open>'c\<close>; the reader over files is one provider, the repository's
  \<^verbatim>\<open>MockCgroup\<close> the other. Lines end at a newline, with a carriage return before it dropped; a
  line over the scanner's buffer of 64 KiB, which no kernel file has, is not modelled.
\<close>

subsection \<open>The interface\<close>

record io_stats =
  TotalBytes :: int
  TotalOps :: int

record network_stats =
  RxBytes :: int
  TxBytes :: int

record 'c cgroup_reader =
  g_find :: "'c \<Rightarrow> string \<Rightarrow> err + string"
  g_cpu :: "'c \<Rightarrow> string \<Rightarrow> err + int"
  g_mem :: "'c \<Rightarrow> string \<Rightarrow> err + int"
  g_set_mem :: "string \<Rightarrow> int \<Rightarrow> 'c \<Rightarrow> err option \<times> 'c"
  g_iostat :: "'c \<Rightarrow> string \<Rightarrow> err + io_stats"
  g_set_iomax :: "string \<Rightarrow> string \<Rightarrow> int \<Rightarrow> int \<Rightarrow> 'c \<Rightarrow> err option \<times> 'c"
  g_remove_iomax :: "string \<Rightarrow> string \<Rightarrow> 'c \<Rightarrow> err option \<times> 'c"
  g_net :: "'c \<Rightarrow> string \<Rightarrow> err + network_stats"

subsection \<open>Parsing\<close>

text \<open>\<^verbatim>\<open>bufio.Scanner\<close> with the default line splitting.\<close>

definition drop_cr :: "string \<Rightarrow> string" where
  "drop_cr s = (if s \<noteq> [] \<and> last s = CHR 0x0D then butlast s else s)"

definition scan_lines :: "string \<Rightarrow> string list" where
  "scan_lines s =
     (let ls = split_on (CHR 0x0A) s
      in map drop_cr (if last ls = [] then butlast ls else ls))"

definition num_text :: "num_err \<Rightarrow> string \<Rightarrow> err" where
  "num_text e s =
     ''strconv.ParseInt: parsing '' @ go_quote s @ '': '' @
     (case e of ErrSyntax \<Rightarrow> ''invalid syntax'' | ErrRange \<Rightarrow> ''value out of range'')"

definition ParseInt :: "string \<Rightarrow> err + int" where
  "ParseInt s = (case parse_int s of Inl e \<Rightarrow> Inl (num_text e s) | Inr v \<Rightarrow> Inr v)"

fun cpu_lines :: "string list \<Rightarrow> err + int" where
  "cpu_lines [] = Inl ''usage_usec not found in cpu.stat''"
| "cpu_lines (l # ls) =
     (if prefix ''usage_usec '' l
      then (case go_fields l of [_, v] \<Rightarrow> ParseInt v | _ \<Rightarrow> cpu_lines ls)
      else cpu_lines ls)"

definition ParseCPUUsageMicroseconds :: "string \<Rightarrow> err + int" where
  "ParseCPUUsageMicroseconds content = cpu_lines (scan_lines content)"

definition io_field :: "string \<Rightarrow> io_stats \<Rightarrow> io_stats" where
  "io_field f stats =
     (case cut_at (CHR ''='') f of
        None \<Rightarrow> stats
      | Some (k, v) \<Rightarrow>
          (case parse_int v of
             Inl _ \<Rightarrow> stats
           | Inr val \<Rightarrow>
               if k = ''rbytes'' \<or> k = ''wbytes''
               then stats\<lparr>TotalBytes := wrap64 (TotalBytes stats + val)\<rparr>
               else if k = ''rios'' \<or> k = ''wios''
               then stats\<lparr>TotalOps := wrap64 (TotalOps stats + val)\<rparr>
               else stats))"

definition ParseIOStat :: "string \<Rightarrow> io_stats" where
  "ParseIOStat content =
     fold (\<lambda>l stats. fold io_field (go_fields l) stats) (scan_lines content)
          \<lparr>TotalBytes = 0, TotalOps = 0\<rparr>"

subsection \<open>The reader over the file system\<close>

text \<open>
  A file system: the contents of the files that can be read (a directory exists when
  \<open>fs_dirs\<close> says so), and whether writing to a path fails.
\<close>

record fs =
  fs_files :: "string \<Rightarrow> string option"
  fs_dirs :: "string \<Rightarrow> bool"
  fs_werr :: "string \<Rightarrow> err option"

definition join_path :: "string \<Rightarrow> string \<Rightarrow> string" where
  "join_path a b = a @ ''/'' @ b"

definition NewReader :: "string \<Rightarrow> string" where
  "NewReader basePath = (if basePath = '''' then ''/sys/fs/cgroup'' else basePath)"

definition fs_exists :: "fs \<Rightarrow> string \<Rightarrow> bool" where
  "fs_exists f p \<longleftrightarrow> fs_dirs f p \<or> fs_files f p \<noteq> None"

definition ReadFile :: "fs \<Rightarrow> string \<Rightarrow> err + string" where
  "ReadFile f p =
     (case fs_files f p of
        None \<Rightarrow> Inl (''open '' @ p @ '': no such file or directory'')
      | Some s \<Rightarrow> Inr s)"

definition WriteFile :: "string \<Rightarrow> string \<Rightarrow> fs \<Rightarrow> err option \<times> fs" where
  "WriteFile p s f =
     (case fs_werr f p of
        Some e \<Rightarrow> (Some e, f)
      | None \<Rightarrow> (None, f\<lparr>fs_files := (fs_files f)(p \<mapsto> s)\<rparr>))"

definition FindCgroupPath :: "string \<Rightarrow> fs \<Rightarrow> string \<Rightarrow> err + string" where
  "FindCgroupPath basePath f dockerID =
     (let candidates =
        [join_path (join_path basePath ''system.slice'') (''docker-'' @ dockerID @ ''.scope''),
         join_path (join_path basePath ''docker'') dockerID]
      in case find (fs_exists f) candidates of
           Some p \<Rightarrow> Inr p
         | None \<Rightarrow>
             Inl (if length dockerID < 12 then ''panic: runtime error: slice bounds out of range''
                  else ''cgroup path not found for container '' @ take 12 dockerID))"

definition CPUUsageMicroseconds :: "fs \<Rightarrow> string \<Rightarrow> err + int" where
  "CPUUsageMicroseconds f p =
     (case ReadFile f (join_path p ''cpu.stat'') of
        Inl e \<Rightarrow> Inl (''read cpu.stat: '' @ e)
      | Inr s \<Rightarrow> ParseCPUUsageMicroseconds s)"

definition readSingleInt :: "fs \<Rightarrow> string \<Rightarrow> err + int" where
  "readSingleInt f p =
     (case ReadFile f p of Inl e \<Rightarrow> Inl e | Inr s \<Rightarrow> ParseInt (trim_space s))"

definition MemoryCurrent :: "fs \<Rightarrow> string \<Rightarrow> err + int" where
  "MemoryCurrent f p = readSingleInt f (join_path p ''memory.current'')"

definition SetMemoryMax :: "string \<Rightarrow> int \<Rightarrow> fs \<Rightarrow> err option \<times> fs" where
  "SetMemoryMax p bytes = WriteFile (join_path p ''memory.max'') (if bytes > 0 then show_int bytes else ''max'')"

definition ReadIOStat :: "fs \<Rightarrow> string \<Rightarrow> err + io_stats" where
  "ReadIOStat f p =
     (case ReadFile f (join_path p ''io.stat'') of
        Inl e \<Rightarrow> Inl (''read io.stat: '' @ e)
      | Inr s \<Rightarrow> Inr (ParseIOStat s))"

definition SetIOMax :: "string \<Rightarrow> string \<Rightarrow> int \<Rightarrow> int \<Rightarrow> fs \<Rightarrow> err option \<times> fs" where
  "SetIOMax p deviceNum bps iops =
     WriteFile (join_path p ''io.max'')
       (deviceNum @ '' rbps='' @ show_int bps @ '' wbps='' @ show_int bps @
        '' riops='' @ show_int iops @ '' wiops='' @ show_int iops)"

definition RemoveIOMax :: "string \<Rightarrow> string \<Rightarrow> fs \<Rightarrow> err option \<times> fs" where
  "RemoveIOMax p deviceNum =
     WriteFile (join_path p ''io.max'') (deviceNum @ '' rbps=max wbps=max riops=max wiops=max'')"

definition ReadNetworkStats :: "fs \<Rightarrow> string \<Rightarrow> err + network_stats" where
  "ReadNetworkStats f veth =
     (let base = join_path (join_path ''/sys/class/net'' veth) ''statistics''
      in case readSingleInt f (join_path base ''rx_bytes'') of
           Inl e \<Rightarrow> Inl (''read rx_bytes: '' @ e)
         | Inr rx \<Rightarrow>
             (case readSingleInt f (join_path base ''tx_bytes'') of
                Inl e \<Rightarrow> Inl (''read tx_bytes: '' @ e)
              | Inr tx \<Rightarrow> Inr \<lparr>RxBytes = rx, TxBytes = tx\<rparr>))"

definition Reader :: "string \<Rightarrow> fs cgroup_reader" where
  "Reader basePath =
     \<lparr>g_find = FindCgroupPath basePath,
      g_cpu = CPUUsageMicroseconds,
      g_mem = MemoryCurrent,
      g_set_mem = SetMemoryMax,
      g_iostat = ReadIOStat,
      g_set_iomax = SetIOMax,
      g_remove_iomax = RemoveIOMax,
      g_net = ReadNetworkStats\<rparr>"

subsection \<open>The repository's in-memory cgroups\<close>

record mock_cgroup =
  mg_Paths :: "string \<Rightarrow> string option"
  mg_CPU :: "string \<Rightarrow> int option"
  mg_Mem :: "string \<Rightarrow> int option"
  mg_MemMax :: "string \<Rightarrow> int option"
  mg_IO :: "string \<Rightarrow> io_stats option"
  mg_IOMax :: "string \<Rightarrow> string option"
  mg_Net :: "string \<Rightarrow> network_stats option"

definition NewMockCgroup :: mock_cgroup where
  "NewMockCgroup =
     \<lparr>mg_Paths = Map.empty, mg_CPU = Map.empty, mg_Mem = Map.empty, mg_MemMax = Map.empty,
      mg_IO = Map.empty, mg_IOMax = Map.empty, mg_Net = Map.empty\<rparr>"

definition MockCgroup :: "mock_cgroup cgroup_reader" where
  "MockCgroup =
     \<lparr>g_find = (\<lambda>c i. case mg_Paths c i of
         None \<Rightarrow> Inl (''cgroup path not found for container '' @ i) | Some p \<Rightarrow> Inr p),
      g_cpu = (\<lambda>c p. case mg_CPU c p of None \<Rightarrow> Inl ''cpu.stat not found'' | Some v \<Rightarrow> Inr v),
      g_mem = (\<lambda>c p. case mg_Mem c p of None \<Rightarrow> Inl ''memory.current not found'' | Some v \<Rightarrow> Inr v),
      g_set_mem = (\<lambda>p b c. (None, c\<lparr>mg_MemMax := (mg_MemMax c)(p \<mapsto> b)\<rparr>)),
      g_iostat = (\<lambda>c p. Inr (case mg_IO c p of None \<Rightarrow> \<lparr>TotalBytes = 0, TotalOps = 0\<rparr> | Some v \<Rightarrow> v)),
      g_set_iomax = (\<lambda>p dev bps iops c. (None, c\<lparr>mg_IOMax := (mg_IOMax c)(p \<mapsto>
         dev @ '' rbps='' @ show_int bps @ '' wbps='' @ show_int bps @
         '' riops='' @ show_int iops @ '' wiops='' @ show_int iops)\<rparr>)),
      g_remove_iomax = (\<lambda>p dev c. (None, c\<lparr>mg_IOMax := (mg_IOMax c)(p := None)\<rparr>)),
      g_net = (\<lambda>c v. Inr (case mg_Net c v of None \<Rightarrow> \<lparr>RxBytes = 0, TxBytes = 0\<rparr> | Some s \<Rightarrow> s))\<rparr>"

subsection \<open>Reading what the kernel prints\<close>

abbreviation NL :: char where
  "NL \<equiv> CHR 0x0A"

definition unlines :: "string list \<Rightarrow> string" where
  "unlines ls = concat (map (\<lambda>l. l @ [NL]) ls)"

definition unwords :: "string list \<Rightarrow> string" where
  "unwords ws = join_with (CHR '' '') ws"

definition plain_line :: "string \<Rightarrow> bool" where
  "plain_line l \<longleftrightarrow> NL \<notin> set l \<and> CHR 0x0D \<notin> set l"

definition plain_word :: "string \<Rightarrow> bool" where
  "plain_word w \<longleftrightarrow> w \<noteq> [] \<and> list_all (\<lambda>c. \<not> is_space c) w"

lemma split_on_sep: "c \<notin> set w \<Longrightarrow> split_on c (w @ c # s) = w # split_on c s"
  by (induction w) (auto split: list.splits)

lemma split_on_unlines: "list_all (\<lambda>l. NL \<notin> set l) ls \<Longrightarrow> split_on NL (unlines ls) = ls @ [[]]"
  by (induction ls) (simp_all add: unlines_def split_on_sep)

lemma drop_cr_plain: "plain_line l \<Longrightarrow> drop_cr l = l"
  by (metis drop_cr_def last_in_set plain_line_def)

lemma scan_lines_unlines:
  assumes "list_all plain_line ls"
  shows "scan_lines (unlines ls) = ls"
proof -
  have "list_all (\<lambda>l. NL \<notin> set l) ls" using assms by (auto simp: list_all_iff plain_line_def)
  moreover have "map drop_cr ls = ls" using assms by (induction ls) (auto simp: drop_cr_plain)
  ultimately show ?thesis by (simp add: scan_lines_def split_on_unlines)
qed

lemma go_fields_aux_word:
  "list_all (\<lambda>c. \<not> is_space c) v \<Longrightarrow> go_fields_aux w (v @ s) = go_fields_aux (rev v @ w) s"
  by (induction v arbitrary: w) auto

lemma is_space_blank [simp]: "is_space (CHR '' '')"
  by (simp add: is_space_def)

lemma go_fields_unwords:
  assumes "list_all plain_word ws"
  shows "go_fields (unwords ws) = ws"
  using assms
proof (induction ws)
  case Nil
  then show ?case by (simp add: go_fields_def unwords_def)
next
  case (Cons v ws)
  then show ?case
    using go_fields_aux_word [of v "[]" "[]"] go_fields_aux_word [of v "[]"]
    by (cases ws) (auto simp: go_fields_def unwords_def plain_word_def)
qed

lemma digit_not_space: "is_digit c \<Longrightarrow> \<not> is_space c"
  by (auto simp: is_digit_def is_space_def)

lemma show_int_word: "plain_word (show_int x)"
proof -
  have "list_all (\<lambda>c. \<not> is_space c) (show_nat n)" for n
    using show_nat_digits digit_not_space by (auto simp: list_all_iff)
  moreover have "\<not> is_space (CHR ''-'')" by (simp add: is_space_def)
  ultimately show ?thesis by (simp add: plain_word_def show_int_def)
qed

lemma plain_word_append: "plain_word w \<Longrightarrow> list_all (\<lambda>c. \<not> is_space c) v \<Longrightarrow> plain_word (v @ w)"
  by (simp add: plain_word_def)

lemma set_unwords: "c \<in> set (unwords ws) \<Longrightarrow> c = CHR '' '' \<or> (\<exists>w \<in> set ws. c \<in> set w)"
  unfolding unwords_def
proof (induction ws)
  case (Cons w ws)
  then show ?case by (cases ws) auto
qed simp

lemma plain_word_chars: "plain_word w \<Longrightarrow> c \<in> set w \<Longrightarrow> \<not> is_space c"
  by (auto simp: plain_word_def list_all_iff)

lemma plain_line_unwords:
  assumes "list_all plain_word ws"
  shows "plain_line (unwords ws)"
proof -
  have "c = CHR '' '' \<or> \<not> is_space c" if "c \<in> set (unwords ws)" for c
    using set_unwords [OF that] assms plain_word_chars by (auto simp: list_all_iff)
  from this [of NL] this [of "CHR 0x0D"] show ?thesis
    by (auto simp: plain_line_def is_space_def)
qed

definition key_val :: "string \<Rightarrow> int \<Rightarrow> string" where
  "key_val k v = k @ ''='' @ show_int v"

lemma plain_key_val:
  assumes "list_all (\<lambda>c. \<not> is_space c) k"
  shows "plain_word (key_val k v)"
  using plain_word_append [OF show_int_word, of "k @ ''=''" v] assms
  by (simp add: key_val_def is_space_def)

lemma cut_key_val: "CHR ''='' \<notin> set k \<Longrightarrow> cut_at (CHR ''='') (key_val k v) = Some (k, show_int v)"
  using cut_at_append [of "CHR ''=''" k "show_int v"] by (simp add: key_val_def)

text \<open>A line of \<^verbatim>\<open>io.stat\<close>: the device, then the six counters the kernel prints.\<close>

record io_dev =
  dev_name :: string
  dev_rbytes :: int
  dev_wbytes :: int
  dev_rios :: int
  dev_wios :: int
  dev_dbytes :: int
  dev_dios :: int

definition io_words :: "io_dev \<Rightarrow> string list" where
  "io_words d =
     [dev_name d, key_val ''rbytes'' (dev_rbytes d), key_val ''wbytes'' (dev_wbytes d),
      key_val ''rios'' (dev_rios d), key_val ''wios'' (dev_wios d),
      key_val ''dbytes'' (dev_dbytes d), key_val ''dios'' (dev_dios d)]"

definition io_dev_ok :: "io_dev \<Rightarrow> bool" where
  "io_dev_ok d \<longleftrightarrow>
     plain_word (dev_name d) \<and> CHR ''='' \<notin> set (dev_name d) \<and>
     in64 (dev_rbytes d) \<and> in64 (dev_wbytes d) \<and> in64 (dev_rios d) \<and> in64 (dev_wios d) \<and>
     in64 (dev_dbytes d) \<and> in64 (dev_dios d)"

lemma io_words_plain: "io_dev_ok d \<Longrightarrow> list_all plain_word (io_words d)"
  by (simp add: io_words_def io_dev_ok_def plain_key_val is_space_def)

lemma io_field_key_val:
  "CHR ''='' \<notin> set k \<Longrightarrow> in64 v \<Longrightarrow>
   io_field (key_val k v) s =
     (if k = ''rbytes'' \<or> k = ''wbytes'' then s\<lparr>TotalBytes := wrap64 (TotalBytes s + v)\<rparr>
      else if k = ''rios'' \<or> k = ''wios'' then s\<lparr>TotalOps := wrap64 (TotalOps s + v)\<rparr>
      else s)"
  by (simp add: io_field_def cut_key_val parse_show_int)

lemma io_field_name: "CHR ''='' \<notin> set w \<Longrightarrow> io_field w s = s"
  by (simp add: io_field_def cut_at_None [THEN iffD2])

lemma io_line_fold:
  "io_dev_ok d \<Longrightarrow>
   fold io_field (io_words d) s =
     \<lparr>TotalBytes = wrap64 (TotalBytes s + dev_rbytes d + dev_wbytes d),
      TotalOps = wrap64 (TotalOps s + dev_rios d + dev_wios d)\<rparr>"
  by (simp add: io_words_def io_dev_ok_def io_field_key_val io_field_name)

lemma io_lines_fold:
  "list_all io_dev_ok ds \<Longrightarrow>
   fold (\<lambda>l s. fold io_field (go_fields l) s) (map (\<lambda>d. unwords (io_words d)) ds)
        \<lparr>TotalBytes = wrap64 b, TotalOps = wrap64 p\<rparr> =
     \<lparr>TotalBytes = wrap64 (b + sum_list (map (\<lambda>d. dev_rbytes d + dev_wbytes d) ds)),
      TotalOps = wrap64 (p + sum_list (map (\<lambda>d. dev_rios d + dev_wios d) ds))\<rparr>"
proof (induction ds arbitrary: b p)
  case Nil
  then show ?case by simp
next
  case (Cons d ds)
  have "fold io_field (go_fields (unwords (io_words d))) \<lparr>TotalBytes = wrap64 b, TotalOps = wrap64 p\<rparr> =
      \<lparr>TotalBytes = wrap64 (b + (dev_rbytes d + dev_wbytes d)),
       TotalOps = wrap64 (p + (dev_rios d + dev_wios d))\<rparr>"
    using Cons.prems by (simp add: go_fields_unwords io_words_plain io_line_fold add.assoc)
  with Cons show ?case by (simp add: add.assoc)
qed

text \<open>C40: on an \<^verbatim>\<open>io.stat\<close> file as the kernel prints it, for any number of devices, the parser
  returns the sums of the read and written bytes and of the read and write operations over
  all devices (as 64-bit sums), ignoring the discard counters.\<close>

theorem parse_io_stat_sums:
  assumes "list_all io_dev_ok ds"
  shows "ParseIOStat (unlines (map (\<lambda>d. unwords (io_words d)) ds)) =
     \<lparr>TotalBytes = wrap64 (sum_list (map (\<lambda>d. dev_rbytes d + dev_wbytes d) ds)),
      TotalOps = wrap64 (sum_list (map (\<lambda>d. dev_rios d + dev_wios d) ds))\<rparr>"
proof -
  have "list_all plain_line (map (\<lambda>d. unwords (io_words d)) ds)"
    using assms by (auto simp: list_all_iff intro!: plain_line_unwords dest: io_words_plain)
  then show ?thesis
    using io_lines_fold [OF assms, of 0 0] by (simp add: ParseIOStat_def scan_lines_unlines)
qed

definition demo_dev :: "string \<Rightarrow> io_dev" where
  "demo_dev n = \<lparr>dev_name = n, dev_rbytes = 100, dev_wbytes = 50, dev_rios = 3, dev_wios = 2,
                dev_dbytes = 9, dev_dios = 1\<rparr>"

theorem parse_io_stat_sums_witness:
  "ParseIOStat (unlines (map (\<lambda>d. unwords (io_words d)) [demo_dev ''8:0'', demo_dev ''8:16'']))
     = \<lparr>TotalBytes = 300, TotalOps = 10\<rparr>"
proof -
  have "list_all io_dev_ok [demo_dev ''8:0'', demo_dev ''8:16'']"
    by (simp add: io_dev_ok_def demo_dev_def plain_word_def is_space_def in64_def)
  from parse_io_stat_sums [OF this] show ?thesis
    by (simp add: demo_dev_def wrap64_def)
qed

lemma cpu_lines_skip:
  "list_all (\<lambda>l. \<not> prefix ''usage_usec '' l) ls \<Longrightarrow> cpu_lines (ls @ rest) = cpu_lines rest"
  by (induction ls) auto

lemma usage_line: "''usage_usec '' @ s = unwords [''usage_usec'', s]"
  by (simp add: unwords_def)

text \<open>From a \<^verbatim>\<open>cpu.stat\<close> file the parser returns the number on the first line that starts
  with \<^verbatim>\<open>usage_usec\<close>, whatever lines stand before and after it, and it reports an error when
  there is no such line.\<close>

theorem parse_cpu_stat:
  assumes "list_all plain_line (before @ after)"
    and "list_all (\<lambda>l. \<not> prefix ''usage_usec '' l) before" and "in64 v"
  shows "ParseCPUUsageMicroseconds (unlines (before @ (''usage_usec '' @ show_int v) # after)) = Inr v
     \<and> ParseCPUUsageMicroseconds (unlines before) = Inl ''usage_usec not found in cpu.stat''"
proof -
  have "list_all plain_word [''usage_usec'', show_int v]"
    by (simp add: show_int_word) (simp add: plain_word_def is_space_def)
  then have fs: "go_fields (''usage_usec '' @ show_int v) = [''usage_usec'', show_int v]"
    and pl: "plain_line (''usage_usec '' @ show_int v)"
    unfolding usage_line by (rule go_fields_unwords, rule plain_line_unwords)
  have "list_all plain_line (before @ (''usage_usec '' @ show_int v) # after)"
    using assms(1) pl by simp
  moreover have "prefix ''usage_usec '' (''usage_usec '' @ show_int v)" by simp
  ultimately show ?thesis
    using assms fs cpu_lines_skip [OF assms(2), of "[]"]
    by (simp add: ParseCPUUsageMicroseconds_def scan_lines_unlines cpu_lines_skip ParseInt_def
        parse_show_int del: append_Cons)
qed

theorem parse_cpu_stat_witness:
  "ParseCPUUsageMicroseconds (unlines [''nr_periods 3'', ''usage_usec 1250000'', ''user_usec 7'']) = Inr 1250000"
proof -
  have "show_int 1250000 = ''1250000''" by (simp add: show_eval)
  then show ?thesis
    using parse_cpu_stat [of "[''nr_periods 3'']" "[''user_usec 7'']" 1250000]
    by (simp add: plain_line_def in64_def)
qed

subsection \<open>Cgroups that can be read and written\<close>

text \<open>A reader on whose ready directories every statistic can be read and every limit written,
  and stays so.\<close>

locale reliable_cgroup =
  fixes cg :: "'c cgroup_reader" and ready :: "'c \<Rightarrow> string \<Rightarrow> bool"
  assumes ready_cpu: "ready c p \<Longrightarrow> \<exists>v. g_cpu cg c p = Inr v \<and> in64 v"
    and ready_mem: "ready c p \<Longrightarrow> \<exists>v. g_mem cg c p = Inr v \<and> in64 v"
    and ready_io: "ready c p \<Longrightarrow> \<exists>s. g_iostat cg c p = Inr s \<and> in64 (TotalBytes s) \<and> in64 (TotalOps s)"
    and ready_set: "ready c p \<Longrightarrow> fst (g_set_iomax cg p dev bps iops c) = None \<and>
                                  ready (snd (g_set_iomax cg p dev bps iops c)) p"
    and ready_remove: "ready c p \<Longrightarrow> fst (g_remove_iomax cg p dev c) = None \<and>
                                     ready (snd (g_remove_iomax cg p dev c)) p"

definition fs_ready :: "fs \<Rightarrow> string \<Rightarrow> bool" where
  "fs_ready f p \<longleftrightarrow>
     (\<exists>v. CPUUsageMicroseconds f p = Inr v) \<and> (\<exists>v. MemoryCurrent f p = Inr v) \<and>
     (\<exists>s. ReadIOStat f p = Inr s) \<and> fs_werr f (join_path p ''io.max'') = None"

lemma ParseInt_in64: "ParseInt s = Inr v \<Longrightarrow> in64 v"
  by (auto simp: ParseInt_def parse_int_in64 split: sum.splits)

lemma cpu_lines_in64: "cpu_lines ls = Inr v \<Longrightarrow> in64 v"
  by (induction ls) (auto simp: ParseInt_in64 split: if_splits list.splits)

lemma CPU_in64: "CPUUsageMicroseconds f p = Inr v \<Longrightarrow> in64 v"
  by (auto simp: CPUUsageMicroseconds_def ParseCPUUsageMicroseconds_def cpu_lines_in64 split: sum.splits)

lemma Memory_in64: "MemoryCurrent f p = Inr v \<Longrightarrow> in64 v"
  by (auto simp: MemoryCurrent_def readSingleInt_def ParseInt_in64 split: sum.splits)

definition io_in64 :: "io_stats \<Rightarrow> bool" where
  "io_in64 s \<longleftrightarrow> in64 (TotalBytes s) \<and> in64 (TotalOps s)"

lemma io_field_in64: "io_in64 s \<Longrightarrow> io_in64 (io_field f s)"
  by (auto simp: io_field_def io_in64_def split: option.split sum.split)

lemma fold_io_in64: "io_in64 s \<Longrightarrow> io_in64 (fold io_field fs s)"
  by (induction fs arbitrary: s) (simp_all add: io_field_in64)

lemma ParseIOStat_in64: "io_in64 (ParseIOStat content)"
proof -
  have "io_in64 (fold (\<lambda>l s. fold io_field (go_fields l) s) ls s)" if "io_in64 s" for ls s
    using that by (induction ls arbitrary: s) (simp_all add: fold_io_in64)
  then show ?thesis by (simp add: ParseIOStat_def io_in64_def)
qed

lemma io_max_other [simp]:
  "join_path p ''cpu.stat'' \<noteq> join_path p ''io.max''"
  "join_path p ''memory.current'' \<noteq> join_path p ''io.max''"
  "join_path p ''io.stat'' \<noteq> join_path p ''io.max''"
  by (simp_all add: join_path_def)

lemma fs_ready_write: "fs_ready f p \<Longrightarrow> fst (WriteFile (join_path p ''io.max'') s f) = None \<and>
    fs_ready (snd (WriteFile (join_path p ''io.max'') s f)) p"
  by (simp add: fs_ready_def WriteFile_def CPUUsageMicroseconds_def MemoryCurrent_def readSingleInt_def
      ReadIOStat_def ReadFile_def)

lemma Reader_simps [simp]:
  "g_find (Reader b) = FindCgroupPath b" "g_cpu (Reader b) = CPUUsageMicroseconds"
  "g_mem (Reader b) = MemoryCurrent" "g_iostat (Reader b) = ReadIOStat"
  "g_set_iomax (Reader b) = SetIOMax" "g_remove_iomax (Reader b) = RemoveIOMax"
  by (simp_all add: Reader_def)

lemma Reader_ready:
  "fs_ready c p \<Longrightarrow> \<exists>v. CPUUsageMicroseconds c p = Inr v \<and> in64 v"
  "fs_ready c p \<Longrightarrow> \<exists>v. MemoryCurrent c p = Inr v \<and> in64 v"
  "fs_ready c p \<Longrightarrow> \<exists>s. ReadIOStat c p = Inr s \<and> in64 (TotalBytes s) \<and> in64 (TotalOps s)"
  using ParseIOStat_in64
  by (auto simp: fs_ready_def CPU_in64 Memory_in64 ReadIOStat_def io_in64_def split: sum.splits)

interpretation reader: reliable_cgroup "Reader b" fs_ready for b
  by unfold_locales (simp_all only: Reader_simps Reader_ready SetIOMax_def RemoveIOMax_def fs_ready_write)

definition mock_ready :: "mock_cgroup \<Rightarrow> string \<Rightarrow> bool" where
  "mock_ready c p \<longleftrightarrow>
     (\<exists>v. mg_CPU c p = Some v \<and> in64 v) \<and> (\<exists>v. mg_Mem c p = Some v \<and> in64 v) \<and>
     (\<forall>s. mg_IO c p = Some s \<longrightarrow> in64 (TotalBytes s) \<and> in64 (TotalOps s))"

interpretation mockcg: reliable_cgroup MockCgroup mock_ready
  by unfold_locales (auto simp: MockCgroup_def mock_ready_def split: option.splits)

end
