(* ===== verification/Gofloat.thy ===== *)
theory Gofloat
  imports Gotext
begin

text \<open>
  Go's \<^verbatim>\<open>float64\<close> as far as the program computes with it: finite values as an integer times a
  power of two, infinities and not-a-number; every operation is the exact one followed by a
  rounding to 53 bits, half to even, with the exponents of the format (so that tiny values
  lose bits and large ones overflow). The sign of a zero is not kept. \<^verbatim>\<open>strconv.ParseFloat\<close>
  and the verbs \<^verbatim>\<open>%.1f\<close>, \<^verbatim>\<open>%.2f\<close> are defined on them.
\<close>

subsection \<open>Rounding\<close>

datatype gofloat = Fin int int | Infinite bool | NaN

function bit_len :: "int \<Rightarrow> int" where
  "bit_len n = (if n \<le> 0 then 0 else 1 + bit_len (n div 2))"
  by auto
termination by (relation "measure nat") auto

declare bit_len.simps [simp del]

definition round_half_even :: "int \<Rightarrow> int \<Rightarrow> int" where
  "round_half_even n d =
     (let q = n div d; r = n mod d
      in if 2 * r < d \<or> (2 * r = d \<and> even q) then q else q + 1)"

text \<open>\<open>scale_ratio n d e\<close>: numerator and denominator of \<open>n / d / 2 ^ e\<close>.\<close>

definition scale_ratio :: "int \<Rightarrow> int \<Rightarrow> int \<Rightarrow> int \<times> int" where
  "scale_ratio n d e = (if 0 \<le> e then (n, d * 2 ^ nat e) else (n * 2 ^ nat (- e), d))"

definition fl_exponent :: "int \<Rightarrow> int \<Rightarrow> int" where
  "fl_exponent a d =
     (let e = bit_len a - bit_len d - 53;
          (n', d') = scale_ratio a d e
      in max (- 1074) (if 2 ^ 53 * d' \<le> n' then e + 1 else e))"

definition fl_of_ratio :: "int \<Rightarrow> int \<Rightarrow> gofloat" where
  "fl_of_ratio n d =
     (if n = 0 then Fin 0 0
      else
        let e = fl_exponent \<bar>n\<bar> d;
            (n', d') = scale_ratio \<bar>n\<bar> d e;
            m = round_half_even n' d'
        in if 0 \<le> e \<and> 2 ^ 1024 \<le> m * 2 ^ nat e then Infinite (n < 0) else Fin (sgn n * m) e)"

definition fl_scaled :: "int \<Rightarrow> int \<Rightarrow> gofloat" where
  "fl_scaled n e = (if 0 \<le> e then fl_of_ratio (n * 2 ^ nat e) 1 else fl_of_ratio n (2 ^ nat (- e)))"

definition fl_of_int :: "int \<Rightarrow> gofloat" where
  "fl_of_int n = fl_of_ratio n 1"

subsection \<open>Operations\<close>

fun fl_mul :: "gofloat \<Rightarrow> gofloat \<Rightarrow> gofloat" where
  "fl_mul (Fin a x) (Fin b y) = fl_scaled (a * b) (x + y)"
| "fl_mul (Infinite s) (Fin b y) = (if b = 0 then NaN else Infinite (s \<noteq> (b < 0)))"
| "fl_mul (Fin a x) (Infinite s) = (if a = 0 then NaN else Infinite (s \<noteq> (a < 0)))"
| "fl_mul (Infinite s) (Infinite t) = Infinite (s \<noteq> t)"
| "fl_mul NaN y = NaN"
| "fl_mul x NaN = NaN"

fun fl_add :: "gofloat \<Rightarrow> gofloat \<Rightarrow> gofloat" where
  "fl_add (Fin a x) (Fin b y) =
     (let e = min x y in fl_scaled (a * 2 ^ nat (x - e) + b * 2 ^ nat (y - e)) e)"
| "fl_add (Infinite s) (Fin b y) = Infinite s"
| "fl_add (Fin a x) (Infinite s) = Infinite s"
| "fl_add (Infinite s) (Infinite t) = (if s = t then Infinite s else NaN)"
| "fl_add NaN y = NaN"
| "fl_add x NaN = NaN"

fun fl_neg :: "gofloat \<Rightarrow> gofloat" where
  "fl_neg (Fin a x) = Fin (- a) x"
| "fl_neg (Infinite s) = Infinite (\<not> s)"
| "fl_neg NaN = NaN"

definition fl_sub :: "gofloat \<Rightarrow> gofloat \<Rightarrow> gofloat" where
  "fl_sub x y = fl_add x (fl_neg y)"

text \<open>Division by a positive integer constant, as in \<^verbatim>\<open>float64(v) / 100_000\<close>.\<close>

fun fl_div_int :: "gofloat \<Rightarrow> int \<Rightarrow> gofloat" where
  "fl_div_int (Fin a x) k = (if 0 \<le> x then fl_of_ratio (a * 2 ^ nat x) k else fl_of_ratio a (k * 2 ^ nat (- x)))"
| "fl_div_int y k = y"

fun fl_negative :: "gofloat \<Rightarrow> bool" where
  "fl_negative (Fin a x) \<longleftrightarrow> a < 0"
| "fl_negative (Infinite s) \<longleftrightarrow> s"
| "fl_negative NaN \<longleftrightarrow> False"

text \<open>
  \<^verbatim>\<open>int64(f)\<close> truncates towards zero. Out of range the result is left to the implementation;
  it is the smallest integer on amd64.
\<close>

definition trunc_scaled :: "int \<Rightarrow> int \<Rightarrow> int" where
  "trunc_scaled m e = (if 0 \<le> e then m * 2 ^ nat e else go_div m (2 ^ nat (- e)))"

fun fl_to_int64 :: "gofloat \<Rightarrow> int" where
  "fl_to_int64 (Fin m e) = (if in64 (trunc_scaled m e) then trunc_scaled m e else - (2 ^ 63))"
| "fl_to_int64 f = - (2 ^ 63)"

subsection \<open>Reading\<close>

definition is_hex_digit :: "char \<Rightarrow> bool" where
  "is_hex_digit c \<longleftrightarrow> is_digit c \<or> to_lower_char c \<in> set ''abcdef''"

definition hex_val :: "char \<Rightarrow> nat" where
  "hex_val c = (if is_digit c then digit_val c else of_char (to_lower_char c) - 87)"

record mantissa =
  mt_val :: int
  mt_frac :: nat
  mt_dot :: bool
  mt_digits :: bool
  mt_under :: bool

fun scan_mantissa :: "bool \<Rightarrow> mantissa \<Rightarrow> string \<Rightarrow> mantissa \<times> string" where
  "scan_mantissa hex m [] = (m, [])"
| "scan_mantissa hex m (c # cs) =
     (if c = CHR ''_'' then scan_mantissa hex (m\<lparr>mt_under := True\<rparr>) cs
      else if c = CHR ''.'' then
        (if mt_dot m then (m, c # cs) else scan_mantissa hex (m\<lparr>mt_dot := True\<rparr>) cs)
      else if (if hex then is_hex_digit c else is_digit c) then
        scan_mantissa hex
          (m\<lparr>mt_val := mt_val m * (if hex then 16 else 10) + int (hex_val c),
             mt_frac := (if mt_dot m then mt_frac m + 1 else mt_frac m), mt_digits := True\<rparr>) cs
      else (m, c # cs))"

fun scan_exponent :: "nat \<Rightarrow> bool \<Rightarrow> string \<Rightarrow> nat \<times> bool \<times> string" where
  "scan_exponent e u [] = (e, u, [])"
| "scan_exponent e u (c # cs) =
     (if c = CHR ''_'' then scan_exponent e True cs
      else if is_digit c then scan_exponent (if e < 10000 then e * 10 + digit_val c else e) u cs
      else (e, u, c # cs))"

text \<open>Where underscores may stand; \<open>saw\<close> is the kind of the character before.\<close>

fun underscores_ok :: "bool \<Rightarrow> char \<Rightarrow> string \<Rightarrow> bool" where
  "underscores_ok hex saw [] \<longleftrightarrow> saw \<noteq> CHR ''_''"
| "underscores_ok hex saw (c # cs) =
     (if is_digit c \<or> hex \<and> is_hex_digit c then underscores_ok hex (CHR ''0'') cs
      else if c = CHR ''_'' then (if saw \<noteq> CHR ''0'' then False else underscores_ok hex (CHR ''_'') cs)
      else if saw = CHR ''_'' then False
      else underscores_ok hex (CHR ''!'') cs)"

definition strip_sign :: "string \<Rightarrow> bool \<times> string" where
  "strip_sign s =
     (case s of
        [] \<Rightarrow> (False, [])
      | c # cs \<Rightarrow> if c = CHR ''-'' then (True, cs) else if c = CHR ''+'' then (False, cs) else (False, s))"

definition hex_prefix :: "string \<Rightarrow> bool" where
  "hex_prefix s \<longleftrightarrow> (case s of a # b # c # cs \<Rightarrow> a = CHR ''0'' \<and> to_lower_char b = CHR ''x'' | _ \<Rightarrow> False)"

text \<open>The unsigned number: mantissa times a power of ten (or two); \<open>None\<close> is a syntax error.\<close>

definition read_float :: "string \<Rightarrow> (int \<times> int \<times> int) option" where
  "read_float s =
     (let hex = hex_prefix s;
          (m, rest) = scan_mantissa hex
             \<lparr>mt_val = 0, mt_frac = 0, mt_dot = False, mt_digits = False, mt_under = False\<rparr>
             (if hex then drop 2 s else s);
          base = (if hex then 2 else 10);
          frac = (if hex then 4 * int (mt_frac m) else int (mt_frac m))
      in if \<not> mt_digits m then None
         else
           case rest of
             [] \<Rightarrow>
               if hex then None
               else if mt_under m \<and> \<not> underscores_ok hex (CHR ''^'') s then None
               else Some (mt_val m, base, - frac)
           | c # cs \<Rightarrow>
               if to_lower_char c \<noteq> (if hex then CHR ''p'' else CHR ''e'') then None
               else
                 let (neg, body) = strip_sign cs;
                     (e, u, rest') = scan_exponent 0 (mt_under m) body
                 in if (case body of [] \<Rightarrow> True | d # ds \<Rightarrow> \<not> is_digit d) \<or> rest' \<noteq> [] then None
                    else if u \<and> \<not> underscores_ok hex (if hex then CHR ''0'' else CHR ''^'')
                                   (if hex then drop 2 s else s) then None
                    else Some (mt_val m, base, (if neg then - int e else int e) - frac))"

definition ParseFloat :: "string \<Rightarrow> num_err + gofloat" where
  "ParseFloat s =
     (let (neg, body) = strip_sign s; w = to_lower body
      in if w = ''inf'' \<or> w = ''infinity'' then Inr (Infinite neg)
         else if to_lower s = ''nan'' then Inr NaN
         else
           case read_float body of
             None \<Rightarrow> Inl ErrSyntax
           | Some (m, base, e) \<Rightarrow>
               let n = (if neg then - m else m);
                   f = (if 0 \<le> e then fl_of_ratio (n * base ^ nat e) 1
                        else fl_of_ratio n (base ^ nat (- e)))
               in (case f of Infinite _ \<Rightarrow> Inl ErrRange | _ \<Rightarrow> Inr f))"

subsection \<open>Printing\<close>

text \<open>\<^verbatim>\<open>%.<prec>f\<close>: the exact value rounded to \<open>prec\<close> decimals, half to even.\<close>

definition pad_zeros :: "nat \<Rightarrow> string \<Rightarrow> string" where
  "pad_zeros n s = replicate (n - length s) (CHR ''0'') @ s"

definition show_scaled :: "nat \<Rightarrow> nat \<Rightarrow> string" where
  "show_scaled prec v =
     show_nat (v div 10 ^ prec) @ CHR ''.'' # pad_zeros prec (show_nat (v mod 10 ^ prec))"

definition show_fixed :: "nat \<Rightarrow> gofloat \<Rightarrow> string" where
  "show_fixed prec f =
     (case f of
        NaN \<Rightarrow> ''NaN''
      | Infinite s \<Rightarrow> (if s then ''-Inf'' else ''+Inf'')
      | Fin m e \<Rightarrow>
          let (n, d) = (if 0 \<le> e then (\<bar>m\<bar> * 2 ^ nat e, 1) else (\<bar>m\<bar>, 2 ^ nat (- e)))
          in (if m < 0 then ''-'' else '''') @ show_scaled prec (nat (round_half_even (n * 10 ^ prec) d)))"


subsection \<open>Exact cases\<close>

lemma bit_len_pos: "0 < n \<Longrightarrow> bit_len n = 1 + bit_len (n div 2)"
  by (subst bit_len.simps) simp

lemma bit_len_1 [simp]: "bit_len 1 = 1"
  by (simp add: bit_len.simps)

lemma bit_len_shift: "0 < n \<Longrightarrow> bit_len (n * 2 ^ k) = bit_len n + int k"
proof (induction k)
  case (Suc k)
  have "0 < n * 2 ^ Suc k" using Suc.prems by simp
  then have "bit_len (n * 2 ^ Suc k) = 1 + bit_len (n * 2 ^ k)"
    using bit_len_pos [of "n * 2 ^ Suc k"] by (simp add: mult.assoc [symmetric] mult.commute [of 2])
  then show ?case using Suc by simp
qed simp

lemma bit_len_le: "n < 2 ^ k \<Longrightarrow> bit_len n \<le> int k"
proof (induction k arbitrary: n)
  case 0
  then show ?case by (simp add: bit_len.simps)
next
  case (Suc k)
  then have "bit_len (n div 2) \<le> int k" by auto
  then show ?case by (subst bit_len.simps) simp
qed

lemma bit_len_nonneg: "0 \<le> bit_len n"
  by (induction n rule: bit_len.induct) (subst bit_len.simps, simp)

lemma round_half_even_mult: "0 < c \<Longrightarrow> round_half_even (n * c) (d * c) = round_half_even n d"
  by (auto simp: round_half_even_def Let_def mult.assoc [symmetric])

lemma round_half_even_exact [simp]: "0 < d \<Longrightarrow> round_half_even (k * d) d = k"
  by (simp add: round_half_even_def)

lemma round_half_even_1 [simp]: "round_half_even n 1 = n"
  by (simp add: round_half_even_def)

lemma scale_ratio_mult:
  "scale_ratio (n * c) (d * c) e = (fst (scale_ratio n d e) * c, snd (scale_ratio n d e) * c)"
  by (simp add: scale_ratio_def mult_ac)

text \<open>A ratio extended by a power of two rounds to the same number.\<close>

lemma fl_of_ratio_shift:
  assumes "0 < d"
  shows "fl_of_ratio (n * 2 ^ k) (d * 2 ^ k) = fl_of_ratio n d"
proof (cases "n = 0")
  case False
  have e: "fl_exponent (\<bar>n\<bar> * 2 ^ k) (d * 2 ^ k) = fl_exponent \<bar>n\<bar> d"
    using False assms by (simp add: fl_exponent_def bit_len_shift scale_ratio_mult case_prod_unfold Let_def
        mult.assoc [symmetric])
  have a: "\<bar>n * 2 ^ k\<bar> = \<bar>n\<bar> * 2 ^ k" "sgn (n * 2 ^ k) = sgn n" "n * 2 ^ k < 0 \<longleftrightarrow> n < 0"
    by (simp_all add: abs_mult sgn_mult mult_less_0_iff)
  show ?thesis
    using False by (simp add: fl_of_ratio_def a e scale_ratio_mult round_half_even_mult case_prod_unfold Let_def)
qed (simp add: fl_of_ratio_def)

lemma fl_of_ratio_0 [simp]: "fl_of_ratio 0 d = Fin 0 0"
  by (simp add: fl_of_ratio_def)

text \<open>An integer below \<open>2 ^ 53\<close> is represented exactly.\<close>

lemma fl_of_int_exact:
  assumes "\<bar>n\<bar> < 2 ^ 53"
  obtains k where "fl_of_int n = Fin (n * 2 ^ k) (- int k)"
proof (cases "n = 0")
  case True
  then show ?thesis using that [of 0] by (simp add: fl_of_int_def)
next
  case False
  define e where "e = fl_exponent \<bar>n\<bar> 1"
  have "bit_len \<bar>n\<bar> \<le> 53" using bit_len_le [of "\<bar>n\<bar>" 53] assms by simp
  moreover have "0 \<le> bit_len \<bar>n\<bar>" by (rule bit_len_nonneg)
  ultimately have e: "e \<le> 0" by (simp add: e_def fl_exponent_def Let_def case_prod_unfold)
  then have "scale_ratio \<bar>n\<bar> 1 e = (\<bar>n\<bar> * 2 ^ nat (- e), 1)" by (auto simp: scale_ratio_def)
  then have "fl_of_ratio n 1 = Fin (sgn n * (\<bar>n\<bar> * 2 ^ nat (- e))) e"
    using False e assms by (auto simp: fl_of_ratio_def e_def [symmetric] Let_def)
  then have "fl_of_int n = Fin (n * 2 ^ nat (- e)) (- int (nat (- e)))"
    using e by (simp add: fl_of_int_def mult.assoc [symmetric] abs_sgn [symmetric] mult_sgn_abs)
  then show ?thesis by (rule that)
qed

lemma fl_to_int64_of_int [simp]:
  assumes "\<bar>n\<bar> < 2 ^ 53"
  shows "fl_to_int64 (fl_of_int n) = n"
proof -
  obtain k where "fl_of_int n = Fin (n * 2 ^ k) (- int k)" using fl_of_int_exact [OF assms] .
  moreover have "trunc_scaled (n * 2 ^ k) (- int k) = n"
    by (cases "k = 0") (simp_all add: trunc_scaled_def go_div_def abs_mult sgn_mult mult_sgn_abs)
  moreover have "in64 n" using assms unfolding in64_def by (auto simp: abs_less_iff)
  ultimately show ?thesis by simp
qed

lemma fl_scaled_shift: "fl_scaled (n * 2 ^ k) (- int k) = fl_of_int n"
  using fl_of_ratio_shift [of 1 n k] by (cases "k = 0") (simp_all add: fl_scaled_def fl_of_int_def)

lemma fl_mul_of_int:
  assumes "\<bar>a\<bar> < 2 ^ 53" and "\<bar>b\<bar> < 2 ^ 53"
  shows "fl_mul (fl_of_int a) (fl_of_int b) = fl_of_int (a * b)"
proof -
  obtain j where j: "fl_of_int a = Fin (a * 2 ^ j) (- int j)" using fl_of_int_exact [OF assms(1)] .
  obtain k where k: "fl_of_int b = Fin (b * 2 ^ k) (- int k)" using fl_of_int_exact [OF assms(2)] .
  have e: "a * 2 ^ j * (b * 2 ^ k) = a * b * 2 ^ (j + k)" "- int j + - int k = - int (j + k)"
    by (simp_all add: power_add)
  show ?thesis unfolding j k fl_mul.simps e by (rule fl_scaled_shift)
qed

lemma fl_add_of_int:
  assumes "\<bar>a\<bar> < 2 ^ 53" and "\<bar>b\<bar> < 2 ^ 53"
  shows "fl_add (fl_of_int a) (fl_of_int b) = fl_of_int (a + b)"
proof -
  obtain j where j: "fl_of_int a = Fin (a * 2 ^ j) (- int j)" using fl_of_int_exact [OF assms(1)] .
  obtain k where k: "fl_of_int b = Fin (b * 2 ^ k) (- int k)" using fl_of_int_exact [OF assms(2)] .
  define m where "m = max j k"
  have e: "min (- int j) (- int k) = - int m" by (simp add: m_def)
  have "nat (- int j - (- int m)) = m - j" "nat (- int k - (- int m)) = m - k" by (simp_all add: m_def)
  then have "fl_add (fl_of_int a) (fl_of_int b) =
      fl_scaled (a * 2 ^ j * 2 ^ (m - j) + b * 2 ^ k * 2 ^ (m - k)) (- int m)"
    by (simp only: j k fl_add.simps Let_def e)
  also have "a * 2 ^ j * 2 ^ (m - j) + b * 2 ^ k * 2 ^ (m - k) = (a + b) * 2 ^ m"
    by (simp add: m_def mult.assoc power_add [symmetric] distrib_right)
  finally show ?thesis by (simp only: fl_scaled_shift)
qed

lemma fl_neg_of_int:
  assumes "\<bar>b\<bar> < 2 ^ 53"
  shows "fl_neg (fl_of_int b) = fl_of_int (- b)"
proof -
  have "fl_of_ratio (- b) 1 = fl_neg (fl_of_ratio b 1)" if "\<not> (\<exists>s. fl_of_ratio b 1 = Infinite s)"
    using that by (auto simp: fl_of_ratio_def Let_def case_prod_unfold split: if_splits)
  moreover obtain k where "fl_of_int b = Fin (b * 2 ^ k) (- int k)" using fl_of_int_exact [OF assms] .
  ultimately show ?thesis by (simp add: fl_of_int_def)
qed

lemma fl_sub_of_int: "\<bar>a\<bar> < 2 ^ 53 \<Longrightarrow> \<bar>b\<bar> < 2 ^ 53 \<Longrightarrow> fl_sub (fl_of_int a) (fl_of_int b) = fl_of_int (a - b)"
  by (simp add: fl_sub_def fl_neg_of_int fl_add_of_int)

lemma fl_div_of_int:
  assumes "\<bar>a\<bar> < 2 ^ 53" and "0 < d"
  shows "fl_div_int (fl_of_int a) d = fl_of_ratio a d"
proof -
  obtain j where j: "fl_of_int a = Fin (a * 2 ^ j) (- int j)" using fl_of_int_exact [OF assms(1)] .
  show ?thesis using fl_of_ratio_shift [OF assms(2), of a j] by (cases "j = 0") (simp_all add: j)
qed


lemmas fl_eval = fl_of_ratio_def fl_exponent_def scale_ratio_def round_half_even_def bit_len.simps
  fl_of_int_def fl_scaled_def trunc_scaled_def go_div_def in64_def

lemmas read_eval = strip_sign_def read_float_def hex_prefix_def is_digit_def digit_val_def hex_val_def
  to_lower_def to_lower_char_def

subsection \<open>Durations\<close>

text \<open>\<^verbatim>\<open>Duration.Seconds()\<close> of nanoseconds, and \<^verbatim>\<open>time.ParseDuration\<close>.\<close>

definition duration_seconds :: "int \<Rightarrow> gofloat" where
  "duration_seconds d =
     fl_add (fl_of_int (go_div d 1000000000)) (fl_div_int (fl_of_int (go_mod d 1000000000)) 1000000000)"

fun leading_int :: "int \<Rightarrow> string \<Rightarrow> (int \<times> string) option" where
  "leading_int x [] = Some (x, [])"
| "leading_int x (c # cs) =
     (if \<not> is_digit c then Some (x, c # cs)
      else if x > 2 ^ 63 div 10 then None
      else let y = x * 10 + int (digit_val c) in if y > 2 ^ 63 then None else leading_int y cs)"

fun leading_fraction :: "int \<Rightarrow> nat \<Rightarrow> bool \<Rightarrow> string \<Rightarrow> int \<times> nat \<times> string" where
  "leading_fraction x k ov [] = (x, k, [])"
| "leading_fraction x k ov (c # cs) =
     (if \<not> is_digit c then (x, k, c # cs)
      else if ov then leading_fraction x k True cs
      else if x > (2 ^ 63 - 1) div 10 then leading_fraction x k True cs
      else let y = x * 10 + int (digit_val c)
           in if y > 2 ^ 63 then leading_fraction x k True cs else leading_fraction y (k + 1) False cs)"

definition duration_units :: "(string \<times> int) list" where
  "duration_units =
     [(''ns'', 1), (''us'', 1000), ([CHR 0xC2, CHR 0xB5] @ ''s'', 1000), ([CHR 0xCE, CHR 0xBC] @ ''s'', 1000),
      (''ms'', 1000000), (''s'', 1000000000), (''m'', 60000000000), (''h'', 3600000000000)]"

text \<open>One number with its unit: the amount and the rest of the text.\<close>

definition duration_part :: "string \<Rightarrow> (int \<times> string) option" where
  "duration_part s =
     (case leading_int 0 s of
        None \<Rightarrow> None
      | Some (v, s1) \<Rightarrow>
          let pre = (length s1 \<noteq> length s);
              dot = (s1 \<noteq> [] \<and> hd s1 = CHR ''.'');
              (f, k, s2) = (if dot then leading_fraction 0 0 False (tl s1) else (0, 0, s1));
              post = (dot \<and> length s2 \<noteq> length (tl s1));
              u = takeWhile (\<lambda>c. c \<noteq> CHR ''.'' \<and> \<not> is_digit c) s2
          in if \<not> pre \<and> \<not> post then None
             else case map_of duration_units u of
                    None \<Rightarrow> None
                  | Some unit \<Rightarrow>
                      if v > 2 ^ 63 div unit then None
                      else
                        let w = v * unit +
                              (if f > 0 then (case fl_mul (fl_of_int f) (fl_div_int (fl_of_int unit) (10 ^ k)) of
                                                Fin m e \<Rightarrow> trunc_scaled m e | _ \<Rightarrow> 0) else 0)
                        in if w > 2 ^ 63 then None else Some (w, drop (length u) s2))"

function duration_sum :: "int \<Rightarrow> string \<Rightarrow> int option" where
  "duration_sum d s =
     (if s = [] then Some d
      else if \<not> (hd s = CHR ''.'' \<or> is_digit (hd s)) then None
      else case duration_part s of
             None \<Rightarrow> None
           | Some (v, rest) \<Rightarrow>
               if length s \<le> length rest then None
               else if d + v > 2 ^ 63 then None else duration_sum (d + v) rest)"
  by pat_completeness auto
termination by (relation "measure (\<lambda>(d, s). length s)") auto

declare duration_sum.simps [simp del]

definition ParseDuration :: "string \<Rightarrow> int option" where
  "ParseDuration s =
     (let (neg, body) = strip_sign s
      in if body = ''0'' then Some 0
         else if body = '''' then None
         else case duration_sum 0 body of
                None \<Rightarrow> None
              | Some d \<Rightarrow> if neg then Some (- d) else if d > 2 ^ 63 - 1 then None else Some d)"

lemma duration_seconds_whole:
  assumes "0 \<le> n" and "n < 2 ^ 53"
  shows "duration_seconds (n * 1000000000) = fl_of_int n"
proof -
  have "go_div (n * 1000000000) 1000000000 = n" "go_mod (n * 1000000000) 1000000000 = 0"
    using assms by (simp_all add: go_div_nonneg go_mod_nonneg)
  moreover have "fl_div_int (fl_of_int 0) 1000000000 = fl_of_int 0"
    by (simp add: fl_of_int_def)
  ultimately show ?thesis
    using assms fl_add_of_int [of n 0] by (simp add: duration_seconds_def)
qed

end
