(* ===== verification/Events.thy ===== *)
theory Events
  imports Model Gofloat
begin

text \<open>
  \<^verbatim>\<open>internal/events/events.go\<close>: the event bus. A subscriber's channel is a buffer of at most 64
  events; the bus keeps every channel ever made, and the handles that are subscribed now, in
  the order in which the runtime visits them. Payloads are a datatype in place of their JSON
  text, seconds as float64.
\<close>

subsection \<open>Events\<close>

datatype event_type =
    UsageUpdate | LimitChange | EnforcementChange | ContainerRegister | ContainerRemove
  | OllamaEnqueue | OllamaDequeue | OllamaCancel | OllamaBidChange | SystemSleep
  | GlobalEnforcementChange | ScopeEnforcementChange | ContainerFrozen | ContainerUnfrozen
  | ProxyUpstreamError | ContainerKilled
  | SegmentCreate | SegmentDelete | ContainerAssign | ContainerUnassign

text \<open>The names on the wire, by which a client filters.\<close>

fun event_name :: "event_type \<Rightarrow> string" where
  "event_name UsageUpdate = ''usage_update''"
| "event_name LimitChange = ''limit_change''"
| "event_name EnforcementChange = ''enforcement_change''"
| "event_name ContainerRegister = ''container_register''"
| "event_name ContainerRemove = ''container_remove''"
| "event_name OllamaEnqueue = ''ollama_enqueue''"
| "event_name OllamaDequeue = ''ollama_dequeue''"
| "event_name OllamaCancel = ''ollama_cancel''"
| "event_name OllamaBidChange = ''ollama_bid_change''"
| "event_name SystemSleep = ''system_sleep''"
| "event_name GlobalEnforcementChange = ''global_enforcement_change''"
| "event_name ScopeEnforcementChange = ''scope_enforcement_change''"
| "event_name ContainerFrozen = ''container_frozen''"
| "event_name ContainerUnfrozen = ''container_unfrozen''"
| "event_name ProxyUpstreamError = ''proxy_upstream_error''"
| "event_name ContainerKilled = ''container_killed''"
| "event_name SegmentCreate = ''segment_create''"
| "event_name SegmentDelete = ''segment_delete''"
| "event_name ContainerAssign = ''container_assign''"
| "event_name ContainerUnassign = ''container_unassign''"

datatype event_data =
    UsageUpdateData "(limit_type \<times> int) list" "(limit_type \<times> int) list" "(limit_type \<times> bool) list"
  | LimitChangeData limit_type int int string
  | EnforcementChangeData limit_type bool
  | ContainerRegisterData string string
  | ContainerRemoveData
  | OllamaEnqueueData string int
  | OllamaDequeueData string gofloat int
  | OllamaCancelData string
  | OllamaBidChangeData int
  | SystemSleepData gofloat
  | GlobalEnforcementChangeData limit_type bool
  | ScopeEnforcementChangeData scope limit_type bool
  | SegmentEventData string string
  | ContainerAssignData string
  | ProxyUpstreamErrorData string int string string string
  | ContainerKilledData limit_type int int
  | ContainerFrozenData
  | ContainerUnfrozenData bool

record event =
  ev_Type :: string
  ev_ContainerID :: string
  ev_Timestamp :: int
  ev_Data :: event_data

subsection \<open>Filters\<close>

record event_filter =
  f_ContainerIDs :: "string list"
  f_Types :: "string list"

definition filter_matches :: "event_filter \<Rightarrow> event \<Rightarrow> bool" where
  "filter_matches f e \<longleftrightarrow>
     (if length (f_ContainerIDs f) > 0 \<and> \<not> list_ex (\<lambda>c. c = ev_ContainerID e) (f_ContainerIDs f) then False
      else if length (f_Types f) > 0 \<and> \<not> list_ex (\<lambda>t. t = ev_Type e) (f_Types f) then False
      else True)"

subsection \<open>The bus\<close>

definition chan_cap :: nat where
  "chan_cap = 64"

record subscriber =
  sub_filter :: event_filter
  sub_buf :: "event list"
  sub_closed :: bool

record bus =
  b_chans :: "nat \<Rightarrow> subscriber option"
  b_members :: "nat list"
  b_next :: nat

definition NewBus :: bus where
  "NewBus = \<lparr>b_chans = Map.empty, b_members = [], b_next = 0\<rparr>"

definition Subscribe :: "event_filter \<Rightarrow> bus \<Rightarrow> nat \<times> bus" where
  "Subscribe f b =
     (b_next b,
      b\<lparr>b_chans := (b_chans b)(b_next b \<mapsto> \<lparr>sub_filter = f, sub_buf = [], sub_closed = False\<rparr>),
        b_members := b_members b @ [b_next b], b_next := Suc (b_next b)\<rparr>)"

definition Unsubscribe :: "nat \<Rightarrow> bus \<Rightarrow> bus" where
  "Unsubscribe h b =
     (if h \<in> set (b_members b) then
        b\<lparr>b_members := filter (\<lambda>x. x \<noteq> h) (b_members b),
          b_chans := (b_chans b)(h := map_option (\<lambda>s. s\<lparr>sub_closed := True\<rparr>) (b_chans b h))\<rparr>
      else b)"

text \<open>A send on the channel of one subscriber, dropped when its buffer is full.\<close>

definition deliver :: "event \<Rightarrow> nat \<Rightarrow> bus \<Rightarrow> bus" where
  "deliver e h b =
     (case b_chans b h of
        None \<Rightarrow> b
      | Some s \<Rightarrow>
          if filter_matches (sub_filter s) e \<and> length (sub_buf s) < chan_cap
          then b\<lparr>b_chans := (b_chans b)(h \<mapsto> s\<lparr>sub_buf := sub_buf s @ [e]\<rparr>)\<rparr>
          else b)"

definition Publish :: "event \<Rightarrow> bus \<Rightarrow> bus" where
  "Publish e b = fold (deliver e) (b_members b) b"

definition PublishData :: "event_type \<Rightarrow> string \<Rightarrow> event_data \<Rightarrow> int \<Rightarrow> bus \<Rightarrow> bus" where
  "PublishData typ cid data now b =
     Publish \<lparr>ev_Type = event_name typ, ev_ContainerID = cid, ev_Timestamp = now, ev_Data = data\<rparr> b"

text \<open>A receive from the channel of a subscriber; \<open>None\<close> is an empty channel.\<close>

definition Receive :: "nat \<Rightarrow> bus \<Rightarrow> event option \<times> bus" where
  "Receive h b =
     (case b_chans b h of
        None \<Rightarrow> (None, b)
      | Some s \<Rightarrow>
          (case sub_buf s of
             [] \<Rightarrow> (None, b)
           | e # es \<Rightarrow> (Some e, b\<lparr>b_chans := (b_chans b)(h \<mapsto> s\<lparr>sub_buf := es\<rparr>)\<rparr>)))"

subsection \<open>Delivery\<close>

lemma deliver_members [simp]: "b_members (deliver e h b) = b_members b" "b_next (deliver e h b) = b_next b"
  by (simp_all add: deliver_def split: option.split)

definition offer :: "event \<Rightarrow> subscriber \<Rightarrow> subscriber" where
  "offer e s = (if filter_matches (sub_filter s) e \<and> length (sub_buf s) < chan_cap
                then s\<lparr>sub_buf := sub_buf s @ [e]\<rparr> else s)"

lemma deliver_chans:
  "b_chans (deliver e h b) h' = (if h' = h then map_option (offer e) (b_chans b h) else b_chans b h')"
  by (simp add: deliver_def offer_def split: option.split)

lemma fold_deliver:
  assumes "distinct hs"
  shows "b_chans (fold (deliver e) hs b) h =
           (if h \<in> set hs then map_option (offer e) (b_chans b h) else b_chans b h)"
    and "b_members (fold (deliver e) hs b) = b_members b" and "b_next (fold (deliver e) hs b) = b_next b"
  using assms by (induction hs arbitrary: b) (auto simp: deliver_chans)

subsection \<open>The invariant\<close>

definition wf_bus :: "bus \<Rightarrow> bool" where
  "wf_bus b \<longleftrightarrow>
     distinct (b_members b) \<and> (\<forall>h \<in> set (b_members b). h < b_next b) \<and>
     (\<forall>h s. b_chans b h = Some s \<longrightarrow>
        h < b_next b \<and> length (sub_buf s) \<le> chan_cap \<and> (sub_closed s \<longleftrightarrow> h \<notin> set (b_members b))) \<and>
     (\<forall>h < b_next b. b_chans b h \<noteq> None)"

lemma wf_NewBus: "wf_bus NewBus"
  by (simp add: wf_bus_def NewBus_def)

lemma wf_Subscribe: "wf_bus b \<Longrightarrow> wf_bus (snd (Subscribe f b))"
  by (auto simp: wf_bus_def Subscribe_def less_Suc_eq)

lemma wf_Unsubscribe: "wf_bus b \<Longrightarrow> wf_bus (Unsubscribe h b)"
  by (auto simp: wf_bus_def Unsubscribe_def)

lemma offer_props [simp]:
  "sub_closed (offer e s) = sub_closed s" "sub_filter (offer e s) = sub_filter s"
  "length (sub_buf s) \<le> chan_cap \<Longrightarrow> length (sub_buf (offer e s)) \<le> chan_cap"
  by (auto simp: offer_def)

lemma Publish_chans:
  "wf_bus b \<Longrightarrow> b_chans (Publish e b) h =
     (if h \<in> set (b_members b) then map_option (offer e) (b_chans b h) else b_chans b h)"
  "wf_bus b \<Longrightarrow> b_members (Publish e b) = b_members b"
  "wf_bus b \<Longrightarrow> b_next (Publish e b) = b_next b"
  using fold_deliver [of "b_members b"] by (auto simp: Publish_def wf_bus_def)

lemma wf_Publish: "wf_bus b \<Longrightarrow> wf_bus (Publish e b)"
  using Publish_chans [of b e] unfolding wf_bus_def by (auto split: if_splits)

lemma wf_PublishData: "wf_bus b \<Longrightarrow> wf_bus (PublishData t c d now b)"
  by (simp add: PublishData_def wf_Publish)

lemma wf_Receive: "wf_bus b \<Longrightarrow> wf_bus (snd (Receive h b))"
  by (auto simp: wf_bus_def Receive_def split: option.split list.split) (fastforce)+

inductive bus_reach :: "bus \<Rightarrow> bool" where
  br_new: "bus_reach NewBus"
| br_subscribe: "bus_reach b \<Longrightarrow> bus_reach (snd (Subscribe f b))"
| br_unsubscribe: "bus_reach b \<Longrightarrow> bus_reach (Unsubscribe h b)"
| br_publish: "bus_reach b \<Longrightarrow> bus_reach (Publish e b)"
| br_receive: "bus_reach b \<Longrightarrow> bus_reach (snd (Receive h b))"

text \<open>C39: on every bus that subscriptions, cancellations, publications and receives can
  produce, no channel ever holds more than 64 events, and exactly the channels that are no
  longer subscribed are closed, so that publishing never sends on a closed channel and no
  channel is closed twice.\<close>

theorem bus_invariant:
  assumes "bus_reach b"
  shows "distinct (b_members b) \<and>
     (\<forall>h s. b_chans b h = Some s \<longrightarrow> length (sub_buf s) \<le> 64 \<and> (sub_closed s \<longleftrightarrow> h \<notin> set (b_members b)))"
proof -
  have "wf_bus b" using assms
    by induction (simp_all add: wf_NewBus wf_Subscribe wf_Unsubscribe wf_Publish wf_Receive)
  then show ?thesis by (auto simp: wf_bus_def chan_cap_def)
qed

definition all_events :: event_filter where
  "all_events = \<lparr>f_ContainerIDs = [], f_Types = []\<rparr>"

definition demo_event :: "string \<Rightarrow> event" where
  "demo_event cid = \<lparr>ev_Type = event_name ContainerFrozen, ev_ContainerID = cid, ev_Timestamp = 0,
                    ev_Data = ContainerFrozenData\<rparr>"

definition demo_bus :: bus where
  "demo_bus = Publish (demo_event ''c1'') (snd (Subscribe all_events NewBus))"

lemma demo_bus_reach: "bus_reach demo_bus"
  unfolding demo_bus_def by (intro bus_reach.intros)

theorem bus_invariant_witness:
  "distinct (b_members (Unsubscribe 0 demo_bus)) \<and> b_members (Unsubscribe 0 demo_bus) = []"
proof -
  have "b_members demo_bus = [0]"
    by (simp add: demo_bus_def Publish_def Subscribe_def NewBus_def)
  then show ?thesis
    using bus_invariant [OF br_unsubscribe [OF demo_bus_reach, of 0]] by (simp add: Unsubscribe_def)
qed

lemma filter_matches_iff:
  "filter_matches f e \<longleftrightarrow>
     (f_ContainerIDs f = [] \<or> ev_ContainerID e \<in> set (f_ContainerIDs f)) \<and>
     (f_Types f = [] \<or> ev_Type e \<in> set (f_Types f))"
  by (auto simp: filter_matches_def list_ex_iff)

lemma Publish_fold_buf:
  assumes "wf_bus b" and "h \<in> set (b_members b)" and "b_chans b h = Some s"
  shows "map_option sub_buf (b_chans (fold Publish es b) h) =
     Some (take chan_cap (sub_buf s @ filter (filter_matches (sub_filter s)) es))"
  using assms
proof (induction es arbitrary: b s)
  case Nil
  then show ?case by (auto simp: wf_bus_def)
next
  case (Cons e es)
  have len: "length (sub_buf s) \<le> chan_cap" using Cons.prems by (auto simp: wf_bus_def)
  have "b_chans (Publish e b) h = Some (offer e s)" using Cons.prems by (simp add: Publish_chans)
  then have "map_option sub_buf (b_chans (fold Publish es (Publish e b)) h) =
      Some (take chan_cap (sub_buf (offer e s) @ filter (filter_matches (sub_filter (offer e s))) es))"
    using Cons.prems by (intro Cons.IH) (simp_all add: wf_Publish Publish_chans)
  moreover have "take chan_cap (sub_buf (offer e s) @ xs) = take chan_cap (sub_buf s @
      (if filter_matches (sub_filter s) e then e # xs else xs))" for xs
    using len by (auto simp: offer_def take_Cons' Suc_diff_Suc)
  ultimately show ?case by (simp add: offer_props)
qed

text \<open>A subscriber receives exactly the events its filter asks for, in publication order,
  until its buffer is full: after any sequence of publications the buffer holds the first 64
  of the events that were waiting followed by the matching ones, where an event matches when
  its container is listed (or no container is) and its type is listed (or no type is).\<close>

theorem publish_delivers:
  assumes "bus_reach b" and "h \<in> set (b_members b)" and "b_chans b h = Some s"
  shows "map_option sub_buf (b_chans (fold Publish es b) h) =
     Some (take 64 (sub_buf s @ filter (\<lambda>e.
       (f_ContainerIDs (sub_filter s) = [] \<or> ev_ContainerID e \<in> set (f_ContainerIDs (sub_filter s))) \<and>
       (f_Types (sub_filter s) = [] \<or> ev_Type e \<in> set (f_Types (sub_filter s)))) es))"
proof -
  have "wf_bus b" using assms(1)
    by induction (simp_all add: wf_NewBus wf_Subscribe wf_Unsubscribe wf_Publish wf_Receive)
  from Publish_fold_buf [OF this assms(2,3), of es] show ?thesis
    by (simp add: chan_cap_def filter_matches_iff [abs_def])
qed

theorem publish_delivers_witness:
  "map_option sub_buf (b_chans (fold Publish [demo_event ''c1'', demo_event ''c2'']
      (snd (Subscribe \<lparr>f_ContainerIDs = [''c2''], f_Types = []\<rparr> NewBus))) 0) = Some [demo_event ''c2'']"
proof -
  let ?f = "\<lparr>f_ContainerIDs = [''c2''], f_Types = []\<rparr>"
  let ?b = "snd (Subscribe ?f NewBus)"
  have "bus_reach ?b" by (intro bus_reach.intros)
  moreover have "0 \<in> set (b_members ?b)"
    and "b_chans ?b 0 = Some \<lparr>sub_filter = ?f, sub_buf = [], sub_closed = False\<rparr>"
    by (simp_all add: Subscribe_def NewBus_def)
  ultimately show ?thesis
    using publish_delivers [of ?b 0 _ "[demo_event ''c1'', demo_event ''c2'']"] by (simp add: demo_event_def)
qed

end
