(* ===== verification/Proxy.thy ===== *)
theory Proxy
  imports Events
begin

text \<open>
  \<^verbatim>\<open>internal/proxy/proxy.go\<close>: the spending tracker and its forward proxy. Amounts are
  micro-cents in 64 bits. What lies outside the repository comes in as arguments: the
  upstream round trip, what \<^verbatim>\<open>encoding/json\<close> decodes from a body, whether a listener or a
  connection can be opened, the clock. The callback \<^verbatim>\<open>onSpendingUpdate\<close> is the list of
  (container, milli-cents) pairs an operation reports, the callback \<^verbatim>\<open>onUpstreamError\<close> the
  information it is called with.
\<close>

subsection \<open>HTTP\<close>

record http_request =
  hr_Method :: string
  hr_Host :: string
  hr_Path :: string
  hr_RawQuery :: string
  hr_URL :: string
  hr_RemoteAddr :: string
  hr_Header :: "(string \<times> string list) list"
  hr_Body :: string

record http_response =
  rp_Status :: int
  rp_Header :: "(string \<times> string list) list"
  rp_Body :: string

text \<open>\<^verbatim>\<open>http.Error\<close>.\<close>

definition http_error :: "string \<Rightarrow> int \<Rightarrow> http_response" where
  "http_error msg code =
     \<lparr>rp_Status = code, rp_Header = [(''Content-Type'', [''text/plain; charset=utf-8''])],
      rp_Body = msg @ [CHR 0x0A]\<rparr>"

text \<open>Header names in the canonical form in which a request holds them.\<close>

definition header_del :: "string \<Rightarrow> (string \<times> string list) list \<Rightarrow> (string \<times> string list) list" where
  "header_del k h = filter (\<lambda>e. fst e \<noteq> k) h"

definition header_set ::
  "string \<Rightarrow> string \<Rightarrow> (string \<times> string list) list \<Rightarrow> (string \<times> string list) list" where
  "header_set k v h = AList.update k [v] h"

definition header_get :: "string \<Rightarrow> (string \<times> string list) list \<Rightarrow> string" where
  "header_get k h = (case map_of h k of Some (v # vs) \<Rightarrow> v | _ \<Rightarrow> '''')"

definition stripPort :: "string \<Rightarrow> string" where
  "stripPort host = (case split_host_port host of Some (h, p) \<Rightarrow> h | None \<Rightarrow> host)"

subsection \<open>Prices\<close>

record model_pricing =
  InputPerToken :: int
  OutputPerToken :: int

definition price :: "int \<Rightarrow> int \<Rightarrow> model_pricing" where
  "price i out = \<lparr>InputPerToken = i, OutputPerToken = out\<rparr>"

definition defaultPrices :: "(string \<times> model_pricing) list" where
  "defaultPrices =
     [(''gpt-4'', price 3000 6000),
      (''gpt-4-turbo'', price 1000 3000),
      (''gpt-4o'', price 250 1000),
      (''gpt-4o-mini'', price 15 60),
      (''gpt-3.5-turbo'', price 50 150),
      (''claude-3-opus'', price 1500 7500),
      (''claude-3-sonnet'', price 300 1500),
      (''claude-3-haiku'', price 25 125),
      (''claude-haiku-4-5'', price 80 400)]"

definition CalculateSpendingMicroCents :: "int \<Rightarrow> int \<Rightarrow> model_pricing \<Rightarrow> int" where
  "CalculateSpendingMicroCents inputTokens outputTokens p =
     wrap64 (inputTokens * InputPerToken p + outputTokens * OutputPerToken p)"

definition model_prefixes :: "string list" where
  "model_prefixes =
     [''gpt-4o-mini'', ''gpt-4o'', ''gpt-4-turbo'', ''gpt-4'', ''gpt-3.5-turbo'',
      ''claude-haiku-4-5'', ''claude-3-opus'', ''claude-3-sonnet'', ''claude-3-haiku'']"

definition normalizeModelName :: "string \<Rightarrow> string" where
  "normalizeModelName m =
     (let m' = to_lower m
      in case find (\<lambda>p. prefix p m') model_prefixes of Some p \<Rightarrow> p | None \<Rightarrow> m')"

subsection \<open>The tracker\<close>

record proxy_activity =
  pa_Timestamp :: int
  pa_Host :: string
  pa_Path :: string
  pa_Method :: string
  pa_RequestBody :: string
  pa_StatusCode :: int
  pa_ResponseBody :: string
  pa_Model :: string
  pa_InputTokens :: int
  pa_OutputTokens :: int
  pa_CostMicro :: int
  pa_DurationMs :: int
  pa_Error :: string

record upstream_error =
  ue_ContainerID :: string
  ue_Host :: string
  ue_StatusCode :: int
  ue_ErrorType :: string
  ue_ErrorMessage :: string
  ue_RequestID :: string

record spending_tracker =
  p_containerByAddr :: "string \<Rightarrow> string option"
  p_proxyAddrs :: "string \<Rightarrow> string option"
  p_spending :: "string \<Rightarrow> int option"
  p_budgets :: "string \<Rightarrow> int option"
  p_prices :: "string \<Rightarrow> model_pricing option"
  p_apiKeys :: "string \<Rightarrow> string option"
  p_enabledHosts :: "(string \<times> bool) list"
  p_ollamaHost :: "string option"
  p_activity :: "string \<Rightarrow> proxy_activity list option"
  p_hasErrorCallback :: bool
  p_errorDedup :: "string \<Rightarrow> int option"
  p_scopeBlocked :: "scope \<Rightarrow> bool option"
  p_containerScopes :: "string \<Rightarrow> scope option"
  p_sharedAddr :: string

definition NewSpendingTracker :: spending_tracker where
  "NewSpendingTracker =
     \<lparr>p_containerByAddr = Map.empty, p_proxyAddrs = Map.empty, p_spending = Map.empty,
      p_budgets = Map.empty, p_prices = map_of defaultPrices, p_apiKeys = Map.empty,
      p_enabledHosts = [], p_ollamaHost = None, p_activity = Map.empty,
      p_hasErrorCallback = False, p_errorDedup = Map.empty, p_scopeBlocked = Map.empty,
      p_containerScopes = Map.empty, p_sharedAddr = ''''\<rparr>"

definition set_spending :: "string \<Rightarrow> int \<Rightarrow> spending_tracker \<Rightarrow> spending_tracker" where
  "set_spending cid v st = st\<lparr>p_spending := (p_spending st)(cid \<mapsto> v)\<rparr>"

definition SeedSpending :: "(string \<times> int) list \<Rightarrow> spending_tracker \<Rightarrow> spending_tracker" where
  "SeedSpending totals st = fold (\<lambda>(cid, mc). set_spending cid (wrap64 (mc * 1000))) totals st"

text \<open>\<open>listen\<close> is the outcome of opening a listener for the container.\<close>

definition Proxy_RegisterContainer ::
  "err + string \<Rightarrow> string \<Rightarrow> int \<Rightarrow> int \<Rightarrow> spending_tracker \<Rightarrow> (err + string) \<times> spending_tracker" where
  "Proxy_RegisterContainer listen cid budget existing st =
     (let st1 = (set_spending cid (wrap64 (existing * 1000)) st)
                  \<lparr>p_budgets := (p_budgets st)(cid \<mapsto> wrap64 (budget * 1000))\<rparr>
      in if p_sharedAddr st \<noteq> ''''
         then (Inr (p_sharedAddr st), st1\<lparr>p_proxyAddrs := (p_proxyAddrs st)(cid \<mapsto> p_sharedAddr st)\<rparr>)
         else case listen of
                Inl e \<Rightarrow> (Inl (''listen: '' @ e), st1)
              | Inr addr \<Rightarrow>
                  (Inr addr, st1\<lparr>p_containerByAddr := (p_containerByAddr st)(addr \<mapsto> cid),
                                 p_proxyAddrs := (p_proxyAddrs st)(cid \<mapsto> addr)\<rparr>))"

definition SetSharedProxyAddr :: "string \<Rightarrow> spending_tracker \<Rightarrow> spending_tracker" where
  "SetSharedProxyAddr addr st = st\<lparr>p_sharedAddr := addr\<rparr>"

definition UpdateBudget :: "string \<Rightarrow> int \<Rightarrow> spending_tracker \<Rightarrow> spending_tracker" where
  "UpdateBudget cid budget st = st\<lparr>p_budgets := (p_budgets st)(cid \<mapsto> wrap64 (budget * 1000))\<rparr>"

definition GetSpending :: "spending_tracker \<Rightarrow> string \<Rightarrow> int" where
  "GetSpending st cid = go_div (mget0 (p_spending st) cid) 1000"

definition SetSpending :: "string \<Rightarrow> int \<Rightarrow> spending_tracker \<Rightarrow> spending_tracker" where
  "SetSpending cid milliCents st = set_spending cid (wrap64 (milliCents * 1000)) st"

definition GetProxyAddr :: "spending_tracker \<Rightarrow> string \<Rightarrow> string" where
  "GetProxyAddr st cid = mgets (p_proxyAddrs st) cid"

definition SetAPIKeys :: "(string \<times> string) list \<Rightarrow> spending_tracker \<Rightarrow> spending_tracker" where
  "SetAPIKeys keys st = fold (\<lambda>(k, v) st. st\<lparr>p_apiKeys := (p_apiKeys st)(k \<mapsto> v)\<rparr>) keys st"

definition SetAPIKey :: "string \<Rightarrow> string \<Rightarrow> spending_tracker \<Rightarrow> spending_tracker" where
  "SetAPIKey host key st = st\<lparr>p_apiKeys := (p_apiKeys st)(host \<mapsto> key)\<rparr>"

definition HasAPIKey :: "spending_tracker \<Rightarrow> string \<Rightarrow> bool" where
  "HasAPIKey st host \<longleftrightarrow> mgets (p_apiKeys st) host \<noteq> ''''"

definition add_micro ::
  "string \<Rightarrow> int \<Rightarrow> spending_tracker \<Rightarrow> (string \<times> int) list \<times> spending_tracker" where
  "add_micro cid micro st =
     (let newTotal = wrap64 (mget0 (p_spending st) cid + micro)
      in ([(cid, go_div newTotal 1000)], set_spending cid newTotal st))"

definition AddSpending ::
  "string \<Rightarrow> int \<Rightarrow> spending_tracker \<Rightarrow> (string \<times> int) list \<times> spending_tracker" where
  "AddSpending cid milliCents st = add_micro cid (wrap64 (milliCents * 1000)) st"

definition SetOllamaHandler :: "string \<Rightarrow> spending_tracker \<Rightarrow> spending_tracker" where
  "SetOllamaHandler host st = st\<lparr>p_ollamaHost := Some host\<rparr>"

definition SetErrorCallback :: "spending_tracker \<Rightarrow> spending_tracker" where
  "SetErrorCallback st = st\<lparr>p_hasErrorCallback := True\<rparr>"

definition SetEnabledHosts :: "(string \<times> bool) list \<Rightarrow> spending_tracker \<Rightarrow> spending_tracker" where
  "SetEnabledHosts hosts st = st\<lparr>p_enabledHosts := fold (\<lambda>(k, v). tbl_put k v) hosts []\<rparr>"

definition EnableHost :: "string \<Rightarrow> bool \<Rightarrow> spending_tracker \<Rightarrow> spending_tracker" where
  "EnableHost host enabled st = st\<lparr>p_enabledHosts := tbl_put host enabled (p_enabledHosts st)\<rparr>"

definition SetScopeSpendingBlocked :: "scope \<Rightarrow> bool \<Rightarrow> spending_tracker \<Rightarrow> spending_tracker" where
  "SetScopeSpendingBlocked scope blocked st = st\<lparr>p_scopeBlocked := (p_scopeBlocked st)(scope \<mapsto> blocked)\<rparr>"

definition isScopeSpendingBlocked :: "spending_tracker \<Rightarrow> string \<Rightarrow> bool" where
  "isScopeSpendingBlocked st cid =
     (if mgetb (p_scopeBlocked st) ScopeHost then True
      else case p_containerScopes st cid of
             None \<Rightarrow> False
           | Some sc \<Rightarrow> sc \<noteq> ScopeHost \<and> mgetb (p_scopeBlocked st) sc)"

definition SetContainerScope :: "string \<Rightarrow> scope \<Rightarrow> spending_tracker \<Rightarrow> spending_tracker" where
  "SetContainerScope cid sc st = st\<lparr>p_containerScopes := (p_containerScopes st)(cid \<mapsto> sc)\<rparr>"

definition maxActivityPerContainer :: nat where
  "maxActivityPerContainer = 20"

definition RecordActivity :: "string \<Rightarrow> proxy_activity \<Rightarrow> spending_tracker \<Rightarrow> spending_tracker" where
  "RecordActivity cid a st =
     (let entries = mgets (p_activity st) cid @ [a];
          kept = (if length entries > maxActivityPerContainer
                  then drop (length entries - maxActivityPerContainer) entries else entries)
      in st\<lparr>p_activity := (p_activity st)(cid \<mapsto> kept)\<rparr>)"

definition GetActivity :: "spending_tracker \<Rightarrow> string \<Rightarrow> proxy_activity list" where
  "GetActivity st cid = mgets (p_activity st) cid"

definition truncateBody :: "string \<Rightarrow> string" where
  "truncateBody b = (if length b \<le> 4096 then b else take 4096 b @ ''...'')"

text \<open>The prices a reader's JSON decodes to, or the error of reading or decoding it.\<close>

definition LoadPrices ::
  "err + (string \<times> model_pricing) list \<Rightarrow> spending_tracker \<Rightarrow> err option \<times> spending_tracker" where
  "LoadPrices decoded st =
     (case decoded of
        Inl e \<Rightarrow> (Some e, st)
      | Inr prices \<Rightarrow>
          (None, fold (\<lambda>(k, v) st. st\<lparr>p_prices := (p_prices st)(k \<mapsto> v)\<rparr>) prices st))"

subsection \<open>Which hosts are tracked\<close>

definition IsTrackedAPIHost :: "string \<Rightarrow> bool" where
  "IsTrackedAPIHost host = list_ex (contains host) [''api.openai.com'', ''api.anthropic.com'']"

definition host_enabled :: "spending_tracker \<Rightarrow> string \<Rightarrow> bool" where
  "host_enabled st h = mgetb (map_of (p_enabledHosts st)) h"

definition isTrackedAPI :: "spending_tracker \<Rightarrow> string \<Rightarrow> bool" where
  "isTrackedAPI st host =
     (if \<not> IsTrackedAPIHost host then False
      else if length (p_enabledHosts st) = 0 then True
      else host_enabled st (stripPort host))"

definition isOllamaHost :: "spending_tracker \<Rightarrow> string \<Rightarrow> bool" where
  "isOllamaHost st host =
     (case p_ollamaHost st of
        None \<Rightarrow> False
      | Some oh \<Rightarrow> host_enabled st ''ollama'' \<and> stripPort host = oh)"

definition isDisabledProvider :: "spending_tracker \<Rightarrow> string \<Rightarrow> bool" where
  "isDisabledProvider st host =
     (let h = stripPort host
      in if IsTrackedAPIHost h \<and> length (p_enabledHosts st) > 0 \<and> \<not> host_enabled st h then True
         else case p_ollamaHost st of
                None \<Rightarrow> False
              | Some oh \<Rightarrow> h = oh \<and> \<not> host_enabled st ''ollama'')"

subsection \<open>Accounting a response\<close>

text \<open>What \<^verbatim>\<open>encoding/json\<close> finds of the fields of \<^verbatim>\<open>apiUsage\<close> in a body.\<close>

record api_usage =
  au_PromptTokens :: int
  au_CompletionTokens :: int
  au_InputTokens :: int
  au_OutputTokens :: int
  au_Model :: string

text \<open>The fields of an upstream error body.\<close>

record api_error =
  ae_RequestID :: string
  ae_Type :: string
  ae_Message :: string

record json_env =
  json_usage :: "string \<Rightarrow> api_usage option"
  json_error :: "string \<Rightarrow> api_error option"

definition fallback_pricing :: model_pricing where
  "fallback_pricing = price 1000 3000"

definition trackSpendingWithActivity ::
  "json_env \<Rightarrow> int \<Rightarrow> string \<Rightarrow> string \<Rightarrow> string \<Rightarrow> string \<Rightarrow> string \<Rightarrow> string \<Rightarrow> int \<Rightarrow> int \<Rightarrow>
   spending_tracker \<Rightarrow> proxy_activity \<times> (string \<times> int) list \<times> spending_tracker" where
  "trackSpendingWithActivity js now cid host path meth reqBody respBody statusCode durationMs st =
     (let act = \<lparr>pa_Timestamp = now, pa_Host = stripPort host, pa_Path = path, pa_Method = meth,
                 pa_RequestBody = truncateBody reqBody, pa_StatusCode = statusCode,
                 pa_ResponseBody = truncateBody respBody, pa_Model = '''', pa_InputTokens = 0,
                 pa_OutputTokens = 0, pa_CostMicro = 0, pa_DurationMs = durationMs, pa_Error = ''''\<rparr>
      in case json_usage js respBody of
           None \<Rightarrow> (act, [], st)
         | Some u \<Rightarrow>
             let inputTokens = wrap64 (au_PromptTokens u + au_InputTokens u);
                 outputTokens = wrap64 (au_CompletionTokens u + au_OutputTokens u);
                 act1 = act\<lparr>pa_Model := au_Model u, pa_InputTokens := inputTokens,
                            pa_OutputTokens := outputTokens\<rparr>
             in if inputTokens = 0 \<and> outputTokens = 0 then (act1, [], st)
                else
                  let pricing = (case p_prices st (normalizeModelName (au_Model u)) of
                                   Some p \<Rightarrow> p | None \<Rightarrow> fallback_pricing);
                      cost = CalculateSpendingMicroCents inputTokens outputTokens pricing;
                      (ups, st') = add_micro cid cost st
                  in (act1\<lparr>pa_CostMicro := cost\<rparr>, ups, st'))"

definition errorDedupInterval :: int where
  "errorDedupInterval = 300000000000"

definition handleUpstreamError ::
  "json_env \<Rightarrow> int \<Rightarrow> string \<Rightarrow> string \<Rightarrow> int \<Rightarrow> string \<Rightarrow> spending_tracker \<Rightarrow>
   upstream_error option \<times> spending_tracker" where
  "handleUpstreamError js now cid host statusCode body st =
     (if \<not> p_hasErrorCallback st then (None, st)
      else
        let h = stripPort host;
            info0 = \<lparr>ue_ContainerID = cid, ue_Host = h, ue_StatusCode = statusCode,
                     ue_ErrorType = '''', ue_ErrorMessage = '''', ue_RequestID = ''''\<rparr>;
            info = (case json_error js body of
                      None \<Rightarrow> info0
                    | Some e \<Rightarrow>
                        if ae_Message e \<noteq> ''''
                        then info0\<lparr>ue_ErrorType := ae_Type e, ue_ErrorMessage := ae_Message e,
                                   ue_RequestID := ae_RequestID e\<rparr>
                        else info0);
            dedupKey = h @ '':'' @ ue_ErrorType info
        in case p_errorDedup st dedupKey of
             Some last_fired \<Rightarrow>
               if now - last_fired < errorDedupInterval then (None, st)
               else (Some info, st\<lparr>p_errorDedup := (p_errorDedup st)(dedupKey \<mapsto> now)\<rparr>)
           | None \<Rightarrow> (Some info, st\<lparr>p_errorDedup := (p_errorDedup st)(dedupKey \<mapsto> now)\<rparr>))"

subsection \<open>The proxy handler\<close>

text \<open>
  The request sent upstream; the response comes with the outcome of reading its body.
  \<open>net_new\<close> is \<^verbatim>\<open>http.NewRequestWithContext\<close>'s refusal of a method or URL, \<open>net_trip\<close> the
  transport's \<^verbatim>\<open>RoundTrip\<close>, \<open>net_dial\<close> \<^verbatim>\<open>net.Dial\<close>, \<open>net_hijack\<close> whether the connection can be
  taken over.
\<close>

record out_request =
  or_Method :: string
  or_URL :: string
  or_Header :: "(string \<times> string list) list"
  or_Body :: string

record upstream_response =
  ur_Status :: int
  ur_Header :: "(string \<times> string list) list"
  ur_Body :: "err + string"

record net_env =
  net_new :: "string \<Rightarrow> string \<Rightarrow> err option"
  net_trip :: "out_request \<Rightarrow> err + upstream_response"
  net_dial :: "string \<Rightarrow> err option"
  net_hijack :: bool
  net_duration :: int

datatype proxy_result =
    Answered http_response "out_request option"
  | ToOllama
  | Tunnel string

record proxy_outcome =
  po_Result :: proxy_result
  po_Updates :: "(string \<times> int) list"
  po_Error :: "upstream_error option"

definition answer :: "http_response \<Rightarrow> proxy_outcome" where
  "answer r = \<lparr>po_Result = Answered r None, po_Updates = [], po_Error = None\<rparr>"

definition blocked_activity :: "int \<Rightarrow> http_request \<Rightarrow> int \<Rightarrow> string \<Rightarrow> proxy_activity" where
  "blocked_activity now r code msg =
     \<lparr>pa_Timestamp = now, pa_Host = stripPort (hr_Host r), pa_Path = hr_Path r,
      pa_Method = hr_Method r, pa_RequestBody = '''', pa_StatusCode = code, pa_ResponseBody = '''',
      pa_Model = '''', pa_InputTokens = 0, pa_OutputTokens = 0, pa_CostMicro = 0,
      pa_DurationMs = 0, pa_Error = msg\<rparr>"

definition json_err_body :: "string \<Rightarrow> string" where
  "json_err_body msg = [CHR 0x7B, CHR 0x22] @ ''error'' @ [CHR 0x22, CHR '':'', CHR 0x22] @ msg @ [CHR 0x22, CHR 0x7D]"

definition refuse ::
  "int \<Rightarrow> string \<Rightarrow> http_request \<Rightarrow> int \<Rightarrow> string \<Rightarrow> spending_tracker \<Rightarrow> proxy_outcome \<times> spending_tracker" where
  "refuse now cid r code msg st =
     (answer (http_error (json_err_body msg) code), RecordActivity cid (blocked_activity now r code msg) st)"

definition outgoing_headers :: "string \<Rightarrow> string \<Rightarrow> (string \<times> string list) list \<Rightarrow> (string \<times> string list) list" where
  "outgoing_headers host apiKey h =
     (let h1 = header_del ''X-Api-Key'' (header_del ''Authorization'' h)
      in if host = ''api.anthropic.com'' then
           (let h2 = header_set ''X-Api-Key'' apiKey h1
            in if header_get ''Anthropic-Version'' h2 = ''''
               then header_set ''Anthropic-Version'' ''2023-06-01'' h2 else h2)
         else if host = ''api.openai.com'' then header_set ''Authorization'' (''Bearer '' @ apiKey) h1
         else h1)"

definition outgoing_request :: "spending_tracker \<Rightarrow> http_request \<Rightarrow> out_request" where
  "outgoing_request st r =
     (let isAPICall = isTrackedAPI st (hr_Host r);
          host = stripPort (hr_Host r);
          apiKey = (if isAPICall then mgets (p_apiKeys st) host else '''');
          relay = (isAPICall \<and> apiKey \<noteq> '''');
          url = (if relay
                 then ''https://'' @ host @ hr_Path r @
                      (if hr_RawQuery r \<noteq> '''' then ''?'' @ hr_RawQuery r else '''')
                 else hr_URL r)
      in \<lparr>or_Method = hr_Method r, or_URL = url,
          or_Header = (if relay then outgoing_headers host apiKey (hr_Header r) else hr_Header r),
          or_Body = hr_Body r\<rparr>)"

definition forward ::
  "net_env \<Rightarrow> json_env \<Rightarrow> int \<Rightarrow> string \<Rightarrow> http_request \<Rightarrow> spending_tracker \<Rightarrow> proxy_outcome \<times> spending_tracker" where
  "forward ne js now cid r st =
     (let isAPICall = isTrackedAPI st (hr_Host r);
          oreq = outgoing_request st r
      in case net_new ne (or_Method oreq) (or_URL oreq) of
           Some e \<Rightarrow> (answer (http_error e 502), st)
         | None \<Rightarrow>
             (case net_trip ne oreq of
                Inl e \<Rightarrow>
                  (\<lparr>po_Result = Answered (http_error e 502) (Some oreq), po_Updates = [], po_Error = None\<rparr>, st)
              | Inr resp \<Rightarrow>
                  if \<not> isAPICall then
                    (\<lparr>po_Result = Answered \<lparr>rp_Status = ur_Status resp, rp_Header = ur_Header resp,
                        rp_Body = (case ur_Body resp of Inl _ \<Rightarrow> '''' | Inr b \<Rightarrow> b)\<rparr> (Some oreq),
                      po_Updates = [], po_Error = None\<rparr>, st)
                  else
                    (case ur_Body resp of
                       Inl e \<Rightarrow>
                         (\<lparr>po_Result = Answered (http_error e 502) (Some oreq), po_Updates = [], po_Error = None\<rparr>, st)
                     | Inr body \<Rightarrow>
                         let (act, ups, st1) =
                               trackSpendingWithActivity js now cid (hr_Host r) (hr_Path r) (hr_Method r)
                                 (hr_Body r) body (ur_Status resp) (net_duration ne) st;
                             st2 = RecordActivity cid act st1;
                             (info, st3) = (if ur_Status resp \<ge> 400
                                            then handleUpstreamError js now cid (hr_Host r) (ur_Status resp) body st2
                                            else (None, st2))
                         in (\<lparr>po_Result = Answered \<lparr>rp_Status = ur_Status resp, rp_Header = ur_Header resp,
                                rp_Body = body\<rparr> (Some oreq), po_Updates = ups, po_Error = info\<rparr>, st3))))"

definition proxyHandler ::
  "net_env \<Rightarrow> json_env \<Rightarrow> int \<Rightarrow> string \<Rightarrow> http_request \<Rightarrow> spending_tracker \<Rightarrow> proxy_outcome \<times> spending_tracker" where
  "proxyHandler ne js now cid r st =
     (if isDisabledProvider st (hr_Host r)
      then refuse now cid r 403 ''provider disabled in ddl proxy'' st
      else if isOllamaHost st (hr_Host r)
      then (\<lparr>po_Result = ToOllama, po_Updates = [], po_Error = None\<rparr>, st)
      else
        let budget = mget0 (p_budgets st) cid;
            spent = mget0 (p_spending st) cid;
            isAPICall = isTrackedAPI st (hr_Host r)
        in if isAPICall \<and> budget > 0 \<and> spent \<ge> budget
           then refuse now cid r 429 ''spending budget exceeded'' st
           else if isAPICall \<and> isScopeSpendingBlocked st cid
           then refuse now cid r 429 ''spending limit exceeded'' st
           else forward ne js now cid r st)"

definition handleConnect ::
  "net_env \<Rightarrow> string \<Rightarrow> http_request \<Rightarrow> spending_tracker \<Rightarrow> proxy_outcome" where
  "handleConnect ne cid r st =
     (let budget = mget0 (p_budgets st) cid; spent = mget0 (p_spending st) cid
      in if isTrackedAPI st (hr_Host r) \<and> budget > 0 \<and> spent \<ge> budget
         then answer (http_error ''spending budget exceeded'' 429)
         else if isTrackedAPI st (hr_Host r) \<and> isScopeSpendingBlocked st cid
         then answer (http_error ''spending limit exceeded'' 429)
         else case net_dial ne (hr_Host r) of
                Some e \<Rightarrow> answer (http_error e 502)
              | None \<Rightarrow>
                  if \<not> net_hijack ne then answer (http_error ''hijacking not supported'' 500)
                  else \<lparr>po_Result = Tunnel (hr_Host r), po_Updates = [], po_Error = None\<rparr>)"

definition ConnectHandler ::
  "net_env \<Rightarrow> json_env \<Rightarrow> int \<Rightarrow> string \<Rightarrow> http_request \<Rightarrow> spending_tracker \<Rightarrow> proxy_outcome \<times> spending_tracker" where
  "ConnectHandler ne js now cid r st =
     (if hr_Method r = ''CONNECT'' then (handleConnect ne cid r st, st)
      else proxyHandler ne js now cid r st)"

text \<open>The shared endpoint: \<open>resolver\<close> is the callback set with \<^verbatim>\<open>SetIPResolver\<close>, if any.\<close>

definition remote_host :: "http_request \<Rightarrow> string" where
  "remote_host r =
     (let h = (case split_host_port (hr_RemoteAddr r) of Some (h, _) \<Rightarrow> h | None \<Rightarrow> '''')
      in if h = '''' then hr_RemoteAddr r else h)"

definition unknown_container_msg :: string where
  "unknown_container_msg =
     json_err_body (''unknown container '' @ [CHR 0xE2, CHR 0x80, CHR 0x94] @
       '' set HTTP_PROXY to your per-container proxy or ensure container is registered'')"

definition SharedProxyHandler ::
  "net_env \<Rightarrow> json_env \<Rightarrow> int \<Rightarrow> (string \<Rightarrow> string) option \<Rightarrow> http_request \<Rightarrow> spending_tracker \<Rightarrow>
   proxy_outcome \<times> spending_tracker" where
  "SharedProxyHandler ne js now resolver r st =
     (let cid = (case resolver of None \<Rightarrow> '''' | Some f \<Rightarrow> f (remote_host r))
      in if hr_Method r = ''CONNECT'' then
           (if cid = '''' then (answer (http_error ''unknown container'' 407), st)
            else (handleConnect ne cid r st, st))
         else if cid = '''' then (answer (http_error unknown_container_msg 407), st)
         else proxyHandler ne js now cid r st)"

text \<open>The address a dial goes to under \<^verbatim>\<open>SetResolveOverrides\<close>.\<close>

definition join_host_port :: "string \<Rightarrow> string \<Rightarrow> string" where
  "join_host_port h p = (if CHR '':'' \<in> set h then ''['' @ h @ '']:'' @ p else h @ '':'' @ p)"

definition override_addr :: "(string \<Rightarrow> string option) \<Rightarrow> string \<Rightarrow> string" where
  "override_addr overrides addr =
     (case split_host_port addr of
        None \<Rightarrow> addr
      | Some (h, p) \<Rightarrow> (case overrides h of None \<Rightarrow> addr | Some ip \<Rightarrow> join_host_port ip p))"

end
