(* ===== verification/Enforcement.thy ===== *)
theory Enforcement
  imports Store Docker Cgroup Proxy
begin

text \<open>
  \<^verbatim>\<open>internal/enforcement/enforcement.go\<close>: the manager that measures every container once per
  interval, compares with the limits and pauses, throttles, disconnects or stops. The state
  is the record \<open>world\<close>: the collaborators' states (store, Docker, cgroups, spending tracker,
  event bus) and the manager's own maps; \<open>dc\<close> and \<open>cg\<close> are the Docker and cgroup operations.
  One call of a method is one step: the loops' goroutines interleave between calls. The
  clock is the field \<open>w_now\<close>.
\<close>

subsection \<open>State\<close>

record ('d, 'c) world =
  w_store :: store
  w_docker :: 'd
  w_cgroup :: 'c
  w_proxy :: "spending_tracker option"
  w_bus :: "bus option"
  w_now :: int
  w_workers :: "string list"
  w_enforced :: "string \<Rightarrow> (limit_type \<times> bool) list option"
  w_frozen :: "string \<Rightarrow> bool option"
  w_dockerIDs :: "string \<Rightarrow> string option"
  w_scopeEnforced :: "scope \<Rightarrow> (limit_type \<times> bool) list option"
  w_scopeRunning :: bool
  w_lastSleepEmit :: "int option"

definition NewManager ::
  "store \<Rightarrow> 'd \<Rightarrow> 'c \<Rightarrow> spending_tracker option \<Rightarrow> bus option \<Rightarrow> int \<Rightarrow> ('d, 'c) world" where
  "NewManager s d c p b now =
     \<lparr>w_store = s, w_docker = d, w_cgroup = c, w_proxy = p, w_bus = b, w_now = now,
      w_workers = [], w_enforced = Map.empty, w_frozen = Map.empty, w_dockerIDs = Map.empty,
      w_scopeEnforced = Map.empty, w_scopeRunning = False, w_lastSleepEmit = None\<rparr>"

definition interval :: int where
  "interval = 1000000000"

text \<open>Running a command of a collaborator on its part of the state.\<close>

definition on_store :: "(store \<Rightarrow> 'r \<times> store) \<Rightarrow> ('d, 'c, 'z) world_scheme \<Rightarrow> 'r \<times> ('d, 'c, 'z) world_scheme" where
  "on_store f w = (case f (w_store w) of (r, s) \<Rightarrow> (r, w\<lparr>w_store := s\<rparr>))"

definition on_docker :: "('d \<Rightarrow> 'r \<times> 'd) \<Rightarrow> ('d, 'c, 'z) world_scheme \<Rightarrow> 'r \<times> ('d, 'c, 'z) world_scheme" where
  "on_docker f w = (case f (w_docker w) of (r, d) \<Rightarrow> (r, w\<lparr>w_docker := d\<rparr>))"

definition on_cgroup :: "('c \<Rightarrow> 'r \<times> 'c) \<Rightarrow> ('d, 'c, 'z) world_scheme \<Rightarrow> 'r \<times> ('d, 'c, 'z) world_scheme" where
  "on_cgroup f w = (case f (w_cgroup w) of (r, c) \<Rightarrow> (r, w\<lparr>w_cgroup := c\<rparr>))"

definition emit :: "event_type \<Rightarrow> string \<Rightarrow> event_data \<Rightarrow> ('d, 'c, 'z) world_scheme \<Rightarrow> ('d, 'c, 'z) world_scheme" where
  "emit typ cid data w =
     (case w_bus w of
        None \<Rightarrow> w
      | Some b \<Rightarrow> w\<lparr>w_bus := Some (PublishData typ cid data (w_now w) b)\<rparr>)"

text \<open>\<^verbatim>\<open>v, _ := ...\<close>: the value of a call whose error is dropped.\<close>

definition or0 :: "err + int \<Rightarrow> int" where
  "or0 r = (case r of Inl _ \<Rightarrow> 0 | Inr v \<Rightarrow> v)"

definition orF :: "err + bool \<Rightarrow> bool" where
  "orF r = (case r of Inl _ \<Rightarrow> False | Inr v \<Rightarrow> v)"

subsection \<open>Flags\<close>

definition flag :: "(string \<Rightarrow> (limit_type \<times> bool) list option) \<Rightarrow> string \<Rightarrow> limit_type \<Rightarrow> bool" where
  "flag m k lt = (case m k of None \<Rightarrow> False | Some e \<Rightarrow> mgetb (map_of e) lt)"

definition raise_flag ::
  "string \<Rightarrow> limit_type \<Rightarrow> (string \<Rightarrow> (limit_type \<times> bool) list option) \<Rightarrow> string \<Rightarrow> (limit_type \<times> bool) list option" where
  "raise_flag k lt m = m(k \<mapsto> tbl_put lt True (case m k of None \<Rightarrow> [] | Some e \<Rightarrow> e))"

definition lower_flag ::
  "string \<Rightarrow> limit_type \<Rightarrow> (string \<Rightarrow> (limit_type \<times> bool) list option) \<Rightarrow> string \<Rightarrow> (limit_type \<times> bool) list option" where
  "lower_flag k lt m = (case m k of None \<Rightarrow> m | Some e \<Rightarrow> m(k \<mapsto> tbl_put lt False e))"

definition IsEnforced :: "('d, 'c, 'z) world_scheme \<Rightarrow> string \<Rightarrow> limit_type \<Rightarrow> bool" where
  "IsEnforced w cid lt = flag (w_enforced w) cid lt"

definition GetEnforced :: "('d, 'c, 'z) world_scheme \<Rightarrow> string \<Rightarrow> (limit_type \<times> bool) list" where
  "GetEnforced w cid = (case w_enforced w cid of None \<Rightarrow> [] | Some e \<Rightarrow> e)"

definition IsScopeEnforced :: "('d, 'c, 'z) world_scheme \<Rightarrow> scope \<Rightarrow> limit_type \<Rightarrow> bool" where
  "IsScopeEnforced w sc lt = flag (w_scopeEnforced w) sc lt"

definition GetScopeEnforced :: "('d, 'c, 'z) world_scheme \<Rightarrow> scope \<Rightarrow> (limit_type \<times> bool) list" where
  "GetScopeEnforced w sc = (case w_scopeEnforced w sc of None \<Rightarrow> [] | Some e \<Rightarrow> e)"

definition IsFrozen :: "('d, 'c, 'z) world_scheme \<Rightarrow> string \<Rightarrow> bool" where
  "IsFrozen w cid = mgetb (w_frozen w) cid"

subsection \<open>Tracking containers\<close>

definition StartContainer :: "string \<Rightarrow> string \<Rightarrow> ('d, 'c, 'z) world_scheme \<Rightarrow> ('d, 'c, 'z) world_scheme" where
  "StartContainer cid did w =
     (if cid \<in> set (w_workers w) then w
      else
        w\<lparr>w_workers := w_workers w @ [cid],
          w_enforced := (w_enforced w)(cid \<mapsto> []),
          w_dockerIDs := (w_dockerIDs w)(cid \<mapsto> did),
          w_frozen := (case IsFrozenRow (w_store w) cid of
                         Inl _ \<Rightarrow> w_frozen w
                       | Inr b \<Rightarrow> (w_frozen w)(cid \<mapsto> b))\<rparr>)"

definition StopContainer :: "string \<Rightarrow> ('d, 'c, 'z) world_scheme \<Rightarrow> ('d, 'c, 'z) world_scheme" where
  "StopContainer cid w =
     (if cid \<in> set (w_workers w) then
        w\<lparr>w_workers := filter (\<lambda>c. c \<noteq> cid) (w_workers w),
          w_enforced := (w_enforced w)(cid := None),
          w_frozen := (w_frozen w)(cid := None),
          w_dockerIDs := (w_dockerIDs w)(cid := None)\<rparr>
      else w)"

definition StartAll :: "('d, 'c, 'z) world_scheme \<Rightarrow> err option \<times> ('d, 'c, 'z) world_scheme" where
  "StartAll w =
     (case ListContainers (w_store w) of
        Inl e \<Rightarrow> (Some e, w)
      | Inr cs \<Rightarrow> (None, fold (\<lambda>c. StartContainer (c_ID c) (c_DockerID c)) cs w))"

definition StopAll :: "('d, 'c, 'z) world_scheme \<Rightarrow> ('d, 'c, 'z) world_scheme" where
  "StopAll w = w\<lparr>w_workers := [], w_scopeRunning := False\<rparr>"

definition StartScopeEnforcement :: "('d, 'c, 'z) world_scheme \<Rightarrow> ('d, 'c, 'z) world_scheme" where
  "StartScopeEnforcement w = w\<lparr>w_scopeRunning := True\<rparr>"

subsection \<open>Measuring\<close>

definition isByteSecondType :: "limit_type \<Rightarrow> bool" where
  "isByteSecondType lt \<longleftrightarrow>
     lt = LimitRAMUsageBSec \<or> lt = LimitDiskUsageBSec \<or> lt = LimitRAMRequestBSec \<or> lt = LimitDiskRequestBSec"

definition getCurrentUsage ::
  "'d docker_client \<Rightarrow> 'c cgroup_reader \<Rightarrow> string \<Rightarrow> string \<Rightarrow> limit_type \<Rightarrow> err + string \<Rightarrow>
   ('d, 'c, 'z) world_scheme \<Rightarrow> err + int" where
  "getCurrentUsage dc cg cid did lt path w =
     (if lt = LimitCPU then
        (case path of
           Inl e \<Rightarrow> Inl e
         | Inr p \<Rightarrow>
             (case g_cpu cg (w_cgroup w) p of Inl e \<Rightarrow> Inl e | Inr usec \<Rightarrow> Inr (go_div usec 1000000)))
      else if lt = LimitRAM then
        (case path of Inl e \<Rightarrow> Inl e | Inr p \<Rightarrow> g_mem cg (w_cgroup w) p)
      else if lt = LimitDisk then d_disk dc (w_docker w) did
      else if lt = LimitNetwork then
        (case path of Inl e \<Rightarrow> Inl e | Inr p \<Rightarrow> Inr (or0 (GetUsage (w_store w) cid lt)))
      else if lt = LimitDiskIOByte then
        (case path of
           Inl e \<Rightarrow> Inl e
         | Inr p \<Rightarrow>
             (case g_iostat cg (w_cgroup w) p of Inl e \<Rightarrow> Inl e | Inr s \<Rightarrow> Inr (TotalBytes s)))
      else if lt = LimitDiskIOOps then
        (case path of
           Inl e \<Rightarrow> Inl e
         | Inr p \<Rightarrow>
             (case g_iostat cg (w_cgroup w) p of Inl e \<Rightarrow> Inl e | Inr s \<Rightarrow> Inr (TotalOps s)))
      else if lt = LimitSpending then
        (case w_proxy w of None \<Rightarrow> Inr 0 | Some p \<Rightarrow> Inr (GetSpending p cid))
      else Inl (''unknown limit type: '' @ lt))"

definition getByteSecondSource ::
  "'d docker_client \<Rightarrow> 'c cgroup_reader \<Rightarrow> string \<Rightarrow> string \<Rightarrow> limit_type \<Rightarrow> err + string \<Rightarrow>
   ('d, 'c, 'z) world_scheme \<Rightarrow> int" where
  "getByteSecondSource dc cg cid did lt path w =
     (if lt = LimitRAMUsageBSec then
        (case path of Inl _ \<Rightarrow> 0 | Inr p \<Rightarrow> or0 (g_mem cg (w_cgroup w) p))
      else if lt = LimitDiskUsageBSec then or0 (d_disk dc (w_docker w) did)
      else if lt = LimitRAMRequestBSec then or0 (GetLimit (w_store w) cid LimitRAM)
      else if lt = LimitDiskRequestBSec then or0 (GetLimit (w_store w) cid LimitDisk)
      else 0)"

subsection \<open>Enforcing and releasing one limit\<close>

text \<open>A pause whose "already paused" error counts as success.\<close>

definition pause_for ::
  "'d docker_client \<Rightarrow> string \<Rightarrow> ('d, 'c, 'z) world_scheme \<Rightarrow> err option \<times> ('d, 'c, 'z) world_scheme" where
  "pause_for dc did w =
     (case on_docker (d_pause dc did) w of
        (None, w1) \<Rightarrow> (None, w1)
      | (Some e, w1) \<Rightarrow> (if already_paused e then None else Some e, w1))"

definition enforce_action ::
  "'d docker_client \<Rightarrow> 'c cgroup_reader \<Rightarrow> string \<Rightarrow> string \<Rightarrow> limit_type \<Rightarrow> string \<Rightarrow>
   ('d, 'c, 'z) world_scheme \<Rightarrow> err option \<times> ('d, 'c, 'z) world_scheme" where
  "enforce_action dc cg cid did lt path w =
     (if lt = LimitCPU \<or> lt = LimitDisk then pause_for dc did w
      else if lt = LimitRAM then
        on_docker (d_update_memory dc did (or0 (GetLimit (w_store w) cid lt))) w
      else if lt = LimitNetwork then on_docker (d_disconnect dc did) w
      else if lt = LimitDiskIOByte \<or> lt = LimitDiskIOOps then
        (if path \<noteq> '''' then on_cgroup (g_set_iomax cg path ''8:0'' 1 1) w else (None, w))
      else if lt = LimitSpending then (None, w)
      else if isByteSecondType lt then
        (case on_docker (d_stop dc did) w of
           (Some e, w1) \<Rightarrow> (Some e, w1)
         | (None, w1) \<Rightarrow>
             (None, emit ContainerKilled cid
                      (ContainerKilledData lt (or0 (GetUsage (w_store w1) cid lt))
                         (or0 (GetLimit (w_store w1) cid lt))) w1))
      else (None, w))"

definition enforce ::
  "'d docker_client \<Rightarrow> 'c cgroup_reader \<Rightarrow> string \<Rightarrow> string \<Rightarrow> limit_type \<Rightarrow> string \<Rightarrow>
   ('d, 'c, 'z) world_scheme \<Rightarrow> ('d, 'c, 'z) world_scheme" where
  "enforce dc cg cid did lt path w =
     (case enforce_action dc cg cid did lt path w of
        (Some e, w1) \<Rightarrow> w1
      | (None, w1) \<Rightarrow>
          emit EnforcementChange cid (EnforcementChangeData lt True)
            (w1\<lparr>w_enforced := raise_flag cid lt (w_enforced w1)\<rparr>))"

definition pauseTypes :: "limit_type list" where
  "pauseTypes = [LimitCPU, LimitDisk]"

definition isOtherPauseActive :: "string \<Rightarrow> limit_type \<Rightarrow> ('d, 'c, 'z) world_scheme \<Rightarrow> bool" where
  "isOtherPauseActive cid except w =
     (if mgetb (w_frozen w) cid then True
      else if list_ex (\<lambda>lt. lt \<noteq> except \<and> flag (w_enforced w) cid lt) pauseTypes then True
      else if list_ex (\<lambda>lt. lt \<noteq> except \<and> flag (w_scopeEnforced w) ScopeHost lt) pauseTypes then True
      else case GetContainer (w_store w) cid of
             Inl _ \<Rightarrow> False
           | Inr c \<Rightarrow>
               c_SegmentID c \<noteq> '''' \<and>
               list_ex (\<lambda>lt. lt \<noteq> except \<and> flag (w_scopeEnforced w) (SegmentScope (c_SegmentID c)) lt) pauseTypes)"

definition release_action ::
  "'d docker_client \<Rightarrow> 'c cgroup_reader \<Rightarrow> string \<Rightarrow> string \<Rightarrow> limit_type \<Rightarrow> string \<Rightarrow>
   ('d, 'c, 'z) world_scheme \<Rightarrow> err option \<times> ('d, 'c, 'z) world_scheme" where
  "release_action dc cg cid did lt path w =
     (if lt = LimitCPU \<or> lt = LimitDisk then
        (if orF (d_paused dc (w_docker w) did) \<and> \<not> isOtherPauseActive cid lt w
         then on_docker (d_unpause dc did) w else (None, w))
      else if lt = LimitRAM then
        on_docker (d_update_memory dc did (or0 (GetLimit (w_store w) cid lt))) w
      else if lt = LimitNetwork then on_docker (d_reconnect dc did) w
      else if lt = LimitDiskIOByte \<or> lt = LimitDiskIOOps then
        (if path \<noteq> '''' then on_cgroup (g_remove_iomax cg path ''8:0'') w else (None, w))
      else (None, w))"

definition release ::
  "'d docker_client \<Rightarrow> 'c cgroup_reader \<Rightarrow> string \<Rightarrow> string \<Rightarrow> limit_type \<Rightarrow> string \<Rightarrow>
   ('d, 'c, 'z) world_scheme \<Rightarrow> ('d, 'c, 'z) world_scheme" where
  "release dc cg cid did lt path w =
     (case release_action dc cg cid did lt path w of
        (Some e, w1) \<Rightarrow> w1
      | (None, w1) \<Rightarrow>
          emit EnforcementChange cid (EnforcementChangeData lt False)
            (w1\<lparr>w_enforced := lower_flag cid lt (w_enforced w1)\<rparr>))"

definition isActuallyEnforced :: "'d docker_client \<Rightarrow> string \<Rightarrow> limit_type \<Rightarrow> ('d, 'c, 'z) world_scheme \<Rightarrow> bool" where
  "isActuallyEnforced dc did lt w \<longleftrightarrow>
     (lt = LimitCPU \<or> lt = LimitDisk) \<and> d_paused dc (w_docker w) did = Inr True"

subsection \<open>One check of one container\<close>

text \<open>The usage of one limited type, after it has been recorded; \<open>None\<close> skips the type.\<close>

definition measure ::
  "'d docker_client \<Rightarrow> 'c cgroup_reader \<Rightarrow> string \<Rightarrow> string \<Rightarrow> bool \<Rightarrow> err + string \<Rightarrow> limit_type \<Rightarrow>
   ('d, 'c, 'z) world_scheme \<Rightarrow> int option \<times> ('d, 'c, 'z) world_scheme" where
  "measure dc cg cid did slept path lt w =
     (if isByteSecondType lt then
        let w1 = (if \<not> flag (w_enforced w) cid lt \<and> \<not> slept \<and> \<not> mgetb (w_frozen w) cid
                  then snd (on_store (AddUsage cid lt (getByteSecondSource dc cg cid did lt path w)) w)
                  else w)
        in (Some (or0 (GetUsage (w_store w1) cid lt)), w1)
      else
        case getCurrentUsage dc cg cid did lt path w of
          Inl _ \<Rightarrow> (None, w)
        | Inr u \<Rightarrow> (Some u, snd (on_store (SetUsage cid lt u) w)))"

definition check_type ::
  "'d docker_client \<Rightarrow> 'c cgroup_reader \<Rightarrow> string \<Rightarrow> string \<Rightarrow> bool \<Rightarrow> err + string \<Rightarrow>
   (limit_type \<times> int) list \<Rightarrow> limit_type \<Rightarrow> ('d, 'c, 'z) world_scheme \<Rightarrow> ('d, 'c, 'z) world_scheme" where
  "check_type dc cg cid did slept path limits lt w =
     (case map_of limits lt of
        None \<Rightarrow> w
      | Some limit \<Rightarrow>
          if limit = 0 then w
          else
            (case measure dc cg cid did slept path lt w of
               (None, w1) \<Rightarrow> w1
             | (Some usage, w1) \<Rightarrow>
                 let exceeded = (usage \<ge> limit);
                     wasEnforced = flag (w_enforced w1) cid lt;
                     p = (case path of Inl _ \<Rightarrow> '''' | Inr p \<Rightarrow> p)
                 in if exceeded \<and> \<not> wasEnforced then enforce dc cg cid did lt p w1
                    else if \<not> exceeded \<and> wasEnforced then release dc cg cid did lt p w1
                    else if \<not> exceeded \<and> \<not> wasEnforced \<and> isActuallyEnforced dc did lt w1
                    then release dc cg cid did lt p w1
                    else w1))"

definition sync_spending :: "string \<Rightarrow> ('d, 'c, 'z) world_scheme \<Rightarrow> ('d, 'c, 'z) world_scheme" where
  "sync_spending cid w =
     (case w_proxy w of
        None \<Rightarrow> w
      | Some p \<Rightarrow>
          if GetSpending p cid > 0 then snd (on_store (SetUsage cid LimitSpending (GetSpending p cid)) w) else w)"

definition emit_usage :: "string \<Rightarrow> (limit_type \<times> int) list \<Rightarrow> ('d, 'c, 'z) world_scheme \<Rightarrow> ('d, 'c, 'z) world_scheme" where
  "emit_usage cid limits w =
     emit UsageUpdate cid
       (UsageUpdateData (case GetAllUsage (w_store w) cid of Inl _ \<Rightarrow> [] | Inr u \<Rightarrow> u) limits (GetEnforced w cid)) w"

definition checkAndEnforce ::
  "'d docker_client \<Rightarrow> 'c cgroup_reader \<Rightarrow> string \<Rightarrow> string \<Rightarrow> bool \<Rightarrow>
   ('d, 'c, 'z) world_scheme \<Rightarrow> ('d, 'c, 'z) world_scheme" where
  "checkAndEnforce dc cg cid did slept w =
     (if mgetb (w_frozen w) cid then w
      else case d_running dc (w_docker w) did of
             Inl _ \<Rightarrow> w
           | Inr False \<Rightarrow> w
           | Inr True \<Rightarrow>
               (case GetAllLimits (w_store w) cid of
                  Inl _ \<Rightarrow> w
                | Inr limits \<Rightarrow>
                    let path = g_find cg (w_cgroup w) did;
                        w1 = fold (check_type dc cg cid did slept path limits) AllLimitTypes w
                    in emit_usage cid limits (sync_spending cid w1)))"

definition emitSleepEvent :: "string \<Rightarrow> int \<Rightarrow> ('d, 'c, 'z) world_scheme \<Rightarrow> ('d, 'c, 'z) world_scheme" where
  "emitSleepEvent cid elapsed w =
     (case w_bus w of
        None \<Rightarrow> w
      | Some _ \<Rightarrow>
          (case w_lastSleepEmit w of
             Some t \<Rightarrow>
               if w_now w - t < interval * 5 then w
               else emit SystemSleep cid (SystemSleepData (duration_seconds elapsed)) (w\<lparr>w_lastSleepEmit := Some (w_now w)\<rparr>)
           | None \<Rightarrow> emit SystemSleep cid (SystemSleepData (duration_seconds elapsed)) (w\<lparr>w_lastSleepEmit := Some (w_now w)\<rparr>)))"

text \<open>One turn of the container's loop; the loop's \<^verbatim>\<open>lastTick\<close> is an argument and a result.\<close>

definition enforcement_tick ::
  "'d docker_client \<Rightarrow> 'c cgroup_reader \<Rightarrow> string \<Rightarrow> string \<Rightarrow> int \<Rightarrow>
   ('d, 'c, 'z) world_scheme \<Rightarrow> int \<times> ('d, 'c, 'z) world_scheme" where
  "enforcement_tick dc cg cid did lastTick w =
     (let elapsed = w_now w - lastTick;
          slept = (elapsed > interval * 5);
          w1 = (if slept then emitSleepEvent cid elapsed w else w)
      in (w_now w, checkAndEnforce dc cg cid did slept w1))"

subsection \<open>Scopes\<close>

definition add_usages :: "(limit_type \<times> int) list \<Rightarrow> (limit_type \<Rightarrow> int) \<Rightarrow> limit_type \<Rightarrow> int" where
  "add_usages us m = fold (\<lambda>(lt, v) m. m(lt := wrap64 (m lt + v))) us m"

definition scope_usage :: "store \<Rightarrow> scope \<Rightarrow> container list \<Rightarrow> limit_type \<Rightarrow> int" where
  "scope_usage s sc cs =
     (let total = fold (\<lambda>c m. case GetAllUsage s (c_ID c) of Inl _ \<Rightarrow> m | Inr us \<Rightarrow> add_usages us m) cs (\<lambda>_. 0)
      in case GetScopeUsageAccum s sc of Inl _ \<Rightarrow> total | Inr us \<Rightarrow> add_usages us total)"

text \<open>A limit action on every running container of a list.\<close>

definition on_running ::
  "'d docker_client \<Rightarrow> 'c cgroup_reader \<Rightarrow>
   (string \<Rightarrow> string \<Rightarrow> string \<Rightarrow> ('d, 'c, 'z) world_scheme \<Rightarrow> ('d, 'c, 'z) world_scheme) \<Rightarrow>
   container \<Rightarrow> ('d, 'c, 'z) world_scheme \<Rightarrow> ('d, 'c, 'z) world_scheme" where
  "on_running dc cg act c w =
     (case d_running dc (w_docker w) (c_DockerID c) of
        Inl _ \<Rightarrow> w
      | Inr False \<Rightarrow> w
      | Inr True \<Rightarrow>
          act (c_ID c) (c_DockerID c)
            (case g_find cg (w_cgroup w) (c_DockerID c) of Inl _ \<Rightarrow> '''' | Inr p \<Rightarrow> p) w)"

definition block_scope_spending :: "scope \<Rightarrow> limit_type \<Rightarrow> bool \<Rightarrow> ('d, 'c, 'z) world_scheme \<Rightarrow> ('d, 'c, 'z) world_scheme" where
  "block_scope_spending sc lt b w =
     (if lt = LimitSpending
      then w\<lparr>w_proxy := map_option (SetScopeSpendingBlocked sc b) (w_proxy w)\<rparr> else w)"

definition scopeEnforce ::
  "'d docker_client \<Rightarrow> 'c cgroup_reader \<Rightarrow> scope \<Rightarrow> limit_type \<Rightarrow> container list \<Rightarrow>
   ('d, 'c, 'z) world_scheme \<Rightarrow> ('d, 'c, 'z) world_scheme" where
  "scopeEnforce dc cg sc lt cs w =
     (let w1 = fold (on_running dc cg (\<lambda>cid did p. enforce dc cg cid did lt p)) cs w;
          w2 = block_scope_spending sc lt True w1
      in emit GlobalEnforcementChange '''' (GlobalEnforcementChangeData lt True)
           (w2\<lparr>w_scopeEnforced := raise_flag sc lt (w_scopeEnforced w2)\<rparr>))"

definition scopeRelease ::
  "'d docker_client \<Rightarrow> 'c cgroup_reader \<Rightarrow> scope \<Rightarrow> limit_type \<Rightarrow> container list \<Rightarrow>
   ('d, 'c, 'z) world_scheme \<Rightarrow> ('d, 'c, 'z) world_scheme" where
  "scopeRelease dc cg sc lt cs w =
     (let w1 = block_scope_spending sc lt False w;
          w2 = w1\<lparr>w_scopeEnforced := lower_flag sc lt (w_scopeEnforced w1)\<rparr>;
          w3 = fold (on_running dc cg (\<lambda>cid did p. release dc cg cid did lt p)) cs w2
      in emit GlobalEnforcementChange '''' (GlobalEnforcementChangeData lt False) w3)"

definition check_scope_type ::
  "'d docker_client \<Rightarrow> 'c cgroup_reader \<Rightarrow> scope \<Rightarrow> container list \<Rightarrow> (limit_type \<Rightarrow> int) \<Rightarrow>
   limit_type \<times> int \<Rightarrow> ('d, 'c, 'z) world_scheme \<Rightarrow> ('d, 'c, 'z) world_scheme" where
  "check_scope_type dc cg sc cs totals row w =
     (case row of (lt, limit) \<Rightarrow>
        if limit = 0 then w
        else
          let exceeded = (totals lt \<ge> limit);
              w1 = w\<lparr>w_scopeEnforced := (case w_scopeEnforced w sc of
                       None \<Rightarrow> (w_scopeEnforced w)(sc \<mapsto> []) | Some _ \<Rightarrow> w_scopeEnforced w)\<rparr>;
              wasEnforced = flag (w_scopeEnforced w1) sc lt
          in if exceeded \<and> \<not> wasEnforced then scopeEnforce dc cg sc lt cs w1
             else if \<not> exceeded \<and> wasEnforced then scopeRelease dc cg sc lt cs w1
             else w1)"

definition checkScopeEnforcement ::
  "'d docker_client \<Rightarrow> 'c cgroup_reader \<Rightarrow> scope \<Rightarrow> ('d, 'c, 'z) world_scheme \<Rightarrow> ('d, 'c, 'z) world_scheme" where
  "checkScopeEnforcement dc cg sc w =
     (case GetAllScopeLimits (w_store w) sc of
        Inl _ \<Rightarrow> w
      | Inr limits \<Rightarrow>
          if length limits = 0 then w
          else
            (case ListContainersByScope (w_store w) sc of
               Inl _ \<Rightarrow> w
             | Inr cs \<Rightarrow> fold (check_scope_type dc cg sc cs (scope_usage (w_store w) sc cs)) limits w))"

definition scope_tick ::
  "'d docker_client \<Rightarrow> 'c cgroup_reader \<Rightarrow> ('d, 'c, 'z) world_scheme \<Rightarrow> ('d, 'c, 'z) world_scheme" where
  "scope_tick dc cg w =
     (let w1 = checkScopeEnforcement dc cg ScopeHost w
      in case ListSegments (w_store w1) of
           Inl _ \<Rightarrow> w1
         | Inr segs \<Rightarrow> fold (\<lambda>s. checkScopeEnforcement dc cg (SegmentScope (seg_ID s))) segs w1)"

subsection \<open>Freezing\<close>

definition not_tracked :: "string \<Rightarrow> err" where
  "not_tracked cid = ''container '' @ cid @ '' not tracked by enforcement''"

definition Freeze ::
  "'d docker_client \<Rightarrow> string \<Rightarrow> ('d, 'c, 'z) world_scheme \<Rightarrow> err option \<times> ('d, 'c, 'z) world_scheme" where
  "Freeze dc cid w =
     (let did = mgets (w_dockerIDs w) cid
      in if did = '''' then (Some (not_tracked cid), w)
         else if mgetb (w_frozen w) cid then (None, w)
         else
           (case pause_for dc did w of
              (Some e, w1) \<Rightarrow> (Some (''docker pause: '' @ e), w1)
            | (None, w1) \<Rightarrow>
                (case on_store (SetFrozen cid True) w1 of
                   (Some e, w2) \<Rightarrow> (Some (''persist frozen: '' @ e), w2)
                 | (None, w2) \<Rightarrow>
                     (None, emit ContainerFrozen cid ContainerFrozenData
                              (w2\<lparr>w_frozen := (w_frozen w2)(cid \<mapsto> True)\<rparr>)))))"

text \<open>Whether enforcement, the container's own or its scopes', holds the container paused.\<close>

definition any_pause_enforced :: "string \<Rightarrow> ('d, 'c, 'z) world_scheme \<Rightarrow> bool" where
  "any_pause_enforced cid w \<longleftrightarrow>
     list_ex (\<lambda>lt. flag (w_enforced w) cid lt) pauseTypes \<or>
     list_ex (\<lambda>lt. flag (w_scopeEnforced w) ScopeHost lt) pauseTypes \<or>
     (case GetContainer (w_store w) cid of
        Inl _ \<Rightarrow> False
      | Inr c \<Rightarrow> c_SegmentID c \<noteq> '''' \<and>
                 list_ex (\<lambda>lt. flag (w_scopeEnforced w) (SegmentScope (c_SegmentID c)) lt) pauseTypes)"

definition Unfreeze ::
  "'d docker_client \<Rightarrow> string \<Rightarrow> ('d, 'c, 'z) world_scheme \<Rightarrow> (err + bool) \<times> ('d, 'c, 'z) world_scheme" where
  "Unfreeze dc cid w =
     (let did = mgets (w_dockerIDs w) cid
      in if did = '''' then (Inl (not_tracked cid), w)
         else if \<not> mgetb (w_frozen w) cid then (Inr False, w)
         else
           (case on_store (SetFrozen cid False) w of
              (Some e, w1) \<Rightarrow> (Inl (''persist unfrozen: '' @ e), w1)
            | (None, w1) \<Rightarrow>
                let w2 = w1\<lparr>w_frozen := (w_frozen w1)(cid \<mapsto> False)\<rparr>;
                    anyEnforced = any_pause_enforced cid w2;
                    (r, w3) = (if \<not> anyEnforced \<and> orF (d_paused dc (w_docker w2) did)
                               then on_docker (d_unpause dc did) w2 else (None, w2))
                in case r of
                     Some e \<Rightarrow> (Inl (''docker unpause: '' @ e), w3)
                   | None \<Rightarrow> (Inr anyEnforced,
                              emit ContainerUnfrozen cid (ContainerUnfrozenData anyEnforced) w3)))"

end
