(* ===== verification/Ollama.thy ===== *)
theory Ollama
  imports Enforcement
begin

text \<open>
  \<^verbatim>\<open>internal/ollama/ollama.go\<close>: the bid-ordered queue in front of an Ollama server. Entries are
  pointers shared by the queue, the processor and the waiting handler: the heap \<open>q_heap\<close> maps
  addresses to entries, \<open>q_entries\<close> lists addresses. Each section under the queue's lock is one
  step; \<open>q_proc\<close> says where the processor goroutine stands between its sections. The queue sits
  beside the daemon's other parts in the record \<open>oworld\<close>, whose store, tracker and bus it uses.
\<close>

subsection \<open>State\<close>

record ollama_config =
  oc_OllamaURL :: string
  oc_AllowedModels :: "string list"
  oc_MaxQueueSize :: int
  oc_RequestTimeout :: int
  oc_DefaultBid :: int

datatype ollama_result =
    ResultErr err
  | ResultOk int "(string \<times> string list) list" string

record entry =
  en_container :: string
  en_model :: string
  en_path :: string
  en_body :: string
  en_bid :: int
  en_enqueuedAt :: int
  en_timeout :: int
  en_result :: "ollama_result option"
  en_cancelled :: bool
  en_ctxDone :: bool

definition blank_entry :: entry where
  "blank_entry = \<lparr>en_container = '''', en_model = '''', en_path = '''', en_body = '''', en_bid = 0,
     en_enqueuedAt = 0, en_timeout = 0, en_result = None, en_cancelled = False, en_ctxDone = False\<rparr>"

text \<open>
  The processor waits for a signal, looks for the next entry, holds one it has taken off the
  queue, serves it, or has sent its result.
\<close>

datatype processor = Waiting | Looking | Popped nat | Processing nat | Replied nat

record queue =
  q_cfg :: ollama_config
  q_bids :: "string \<Rightarrow> int option"
  q_heap :: "nat \<Rightarrow> entry"
  q_next :: nat
  q_entries :: "nat list"
  q_active :: "nat option"
  q_proc :: processor
  q_wake :: bool
  q_sleepEvents :: "(int \<times> int) list"
  q_hasRecorder :: bool
  q_stopped :: bool

record ('d, 'c) oworld = "('d, 'c) world" +
  w_queue :: queue

definition NewQueue :: "ollama_config \<Rightarrow> queue" where
  "NewQueue cfg =
     (let cfg1 = (if oc_MaxQueueSize cfg \<le> 0 then cfg\<lparr>oc_MaxQueueSize := 50\<rparr> else cfg);
          cfg2 = (if oc_RequestTimeout cfg1 \<le> 0 then cfg1\<lparr>oc_RequestTimeout := 120000000000\<rparr> else cfg1)
      in \<lparr>q_cfg = cfg2, q_bids = Map.empty, q_heap = (\<lambda>_. blank_entry), q_next = 0, q_entries = [],
          q_active = None, q_proc = Waiting, q_wake = False, q_sleepEvents = [], q_hasRecorder = False, q_stopped = False\<rparr>)"

definition on_queue :: "(queue \<Rightarrow> queue) \<Rightarrow> ('d, 'c, 'z) oworld_scheme \<Rightarrow> ('d, 'c, 'z) oworld_scheme" where
  "on_queue f w = w\<lparr>w_queue := f (w_queue w)\<rparr>"

definition heap_upd :: "nat \<Rightarrow> (entry \<Rightarrow> entry) \<Rightarrow> queue \<Rightarrow> queue" where
  "heap_upd i f q = q\<lparr>q_heap := (q_heap q)(i := f (q_heap q i))\<rparr>"

definition bid_of :: "queue \<Rightarrow> nat \<Rightarrow> int" where
  "bid_of q i = en_bid (q_heap q i)"

definition live :: "queue \<Rightarrow> nat \<Rightarrow> bool" where
  "live q i \<longleftrightarrow> \<not> en_cancelled (q_heap q i)"

definition sortEntries :: "queue \<Rightarrow> queue" where
  "sortEntries q = q\<lparr>q_entries := sort_key (\<lambda>i. - bid_of q i) (q_entries q)\<rparr>"

definition removeEntry :: "nat \<Rightarrow> queue \<Rightarrow> queue" where
  "removeEntry i q = q\<lparr>q_entries := remove1 i (q_entries q)\<rparr>"

text \<open>An entry is marked cancelled, its context ended and, where the code sends one, its result sent.\<close>

definition cancel_with :: "ollama_result option \<Rightarrow> entry \<Rightarrow> entry" where
  "cancel_with r e =
     e\<lparr>en_cancelled := True, en_ctxDone := True,
       en_result := (case r of None \<Rightarrow> en_result e | Some x \<Rightarrow> Some x)\<rparr>"

definition end_context :: "entry \<Rightarrow> entry" where
  "end_context e = e\<lparr>en_ctxDone := True\<rparr>"

subsection \<open>Bids\<close>

definition SetBid :: "string \<Rightarrow> int \<Rightarrow> ('d, 'c, 'z) oworld_scheme \<Rightarrow> ('d, 'c, 'z) oworld_scheme" where
  "SetBid cid bid w =
     (let q = w_queue w;
          h = (\<lambda>i. if i \<in> set (q_entries q) \<and> en_container (q_heap q i) = cid \<and> live q i
                   then (q_heap q i)\<lparr>en_bid := bid\<rparr> else q_heap q i);
          q1 = sortEntries (q\<lparr>q_bids := (q_bids q)(cid \<mapsto> bid), q_heap := h\<rparr>);
          w1 = snd (on_store (SetUsage cid ''ollama-bid'' bid) (w\<lparr>w_queue := q1\<rparr>))
      in emit OllamaBidChange cid (OllamaBidChangeData bid) w1)"

definition GetBid :: "queue \<Rightarrow> string \<Rightarrow> int" where
  "GetBid q cid = mget0 (q_bids q) cid"

definition RestoreBids :: "string list \<Rightarrow> ('d, 'c, 'z) oworld_scheme \<Rightarrow> ('d, 'c, 'z) oworld_scheme" where
  "RestoreBids cids w =
     fold (\<lambda>cid w. case GetUsage (w_store w) cid ''ollama-bid'' of
                     Inl _ \<Rightarrow> w
                   | Inr bid \<Rightarrow>
                       if bid > 0 then on_queue (\<lambda>q. q\<lparr>q_bids := (q_bids q)(cid \<mapsto> bid)\<rparr>) w else w)
          cids w"

subsection \<open>Cancelling\<close>

definition pending_of :: "queue \<Rightarrow> string \<Rightarrow> nat option" where
  "pending_of q cid = find (\<lambda>i. en_container (q_heap q i) = cid \<and> live q i) (q_entries q)"

definition CancelEntry :: "string \<Rightarrow> ('d, 'c, 'z) oworld_scheme \<Rightarrow> bool \<times> ('d, 'c, 'z) oworld_scheme" where
  "CancelEntry cid w =
     (case pending_of (w_queue w) cid of
        None \<Rightarrow> (False, w)
      | Some i \<Rightarrow>
          (True, emit OllamaCancel cid (OllamaCancelData ''cancelled'')
             (on_queue (removeEntry i \<circ> heap_upd i (cancel_with (Some (ResultErr ''cancelled'')))) w)))"

text \<open>All entries of a container are dropped, the live ones with the given result and reason.\<close>

definition drop_pending :: "string \<Rightarrow> err \<Rightarrow> string \<Rightarrow> ('d, 'c, 'z) oworld_scheme \<Rightarrow> ('d, 'c, 'z) oworld_scheme" where
  "drop_pending cid msg reason w =
     (let mine = filter (\<lambda>i. en_container (q_heap (w_queue w) i) = cid) (q_entries (w_queue w));
          w1 = fold (\<lambda>i w. if live (w_queue w) i
                           then emit OllamaCancel cid (OllamaCancelData reason)
                                  (on_queue (heap_upd i (cancel_with (Some (ResultErr msg)))) w)
                           else w) mine w
      in on_queue (\<lambda>q. q\<lparr>q_entries := filter (\<lambda>i. i \<notin> set mine) (q_entries q)\<rparr>) w1)"

definition cancel_active :: "string \<Rightarrow> queue \<Rightarrow> queue" where
  "cancel_active cid q =
     (case q_active q of
        None \<Rightarrow> q
      | Some i \<Rightarrow> if en_container (q_heap q i) = cid then heap_upd i end_context q else q)"

definition CancelAllPending :: "string \<Rightarrow> ('d, 'c, 'z) oworld_scheme \<Rightarrow> ('d, 'c, 'z) oworld_scheme" where
  "CancelAllPending cid w =
     on_queue (cancel_active cid) (drop_pending cid ''container frozen'' ''frozen'' w)"

definition Queue_RemoveContainer :: "string \<Rightarrow> ('d, 'c, 'z) oworld_scheme \<Rightarrow> ('d, 'c, 'z) oworld_scheme" where
  "Queue_RemoveContainer cid w =
     on_queue (cancel_active cid)
       (drop_pending cid ''container removed'' ''removed''
          (on_queue (\<lambda>q. q\<lparr>q_bids := (q_bids q)(cid := None)\<rparr>) w))"

definition Queue_Stop :: "queue \<Rightarrow> queue" where
  "Queue_Stop q =
     (let q1 = fold (\<lambda>i q. if live q i then heap_upd i (cancel_with (Some (ResultErr ''queue shutting down''))) q else q)
                 (q_entries q) (q\<lparr>q_stopped := True\<rparr>);
          q2 = q1\<lparr>q_entries := []\<rparr>
      in case q_active q2 of None \<Rightarrow> q2 | Some i \<Rightarrow> heap_upd i end_context q2)"


subsection \<open>Accepting a request\<close>

text \<open>
  A decoded JSON object; \<open>oj_decode\<close> is what \<^verbatim>\<open>encoding/json\<close> makes of a body (\<open>None\<close> when it is
  not an object), \<open>oj_encode\<close> the text of an object.
\<close>

datatype json = JNull | JBool bool | JNum gofloat | JStr string | JArr "json list" | JObj "(string \<times> json) list"

record ollama_json =
  oj_decode :: "string \<Rightarrow> (string \<times> json) list option"
  oj_encode :: "(string \<times> json) list \<Rightarrow> err + string"

definition isModelAllowed :: "queue \<Rightarrow> string \<Rightarrow> bool" where
  "isModelAllowed q m \<longleftrightarrow>
     oc_AllowedModels (q_cfg q) = [] \<or> list_ex (\<lambda>a. a = m) (oc_AllowedModels (q_cfg q))"

definition spending_exhausted :: "('d, 'c, 'z) oworld_scheme \<Rightarrow> string \<Rightarrow> bool" where
  "spending_exhausted w cid \<longleftrightarrow>
     (case w_proxy w of
        None \<Rightarrow> False
      | Some p \<Rightarrow>
          let limit = or0 (GetLimit (w_store w) cid ''spending'')
          in limit > 0 \<and> GetSpending p cid \<ge> limit)"

text \<open>The section under the lock that looks for a request of the same container.\<close>

definition busy_with :: "queue \<Rightarrow> string \<Rightarrow> string option" where
  "busy_with q cid =
     (if (case q_active q of None \<Rightarrow> False | Some i \<Rightarrow> en_container (q_heap q i) = cid)
      then Some ''container already has an active request''
      else if list_ex (\<lambda>i. en_container (q_heap q i) = cid \<and> live q i) (q_entries q)
      then Some ''container already has a pending request''
      else None)"

text \<open>The checks of a request: the refusal, or the model and the fields of the body.\<close>

definition admit ::
  "ollama_json \<Rightarrow> string \<Rightarrow> http_request \<Rightarrow> ('d, 'c, 'z) oworld_scheme \<Rightarrow>
   http_response + (string \<times> (string \<times> json) list)" where
  "admit js cid r w =
     (if hr_Method r \<noteq> ''POST'' then Inl (http_error (json_err_body ''method not allowed'') 405)
      else if hr_Path r \<noteq> ''/api/chat'' \<and> hr_Path r \<noteq> ''/api/generate''
      then Inl (http_error (json_err_body ''only /api/chat and /api/generate are supported'') 400)
      else
        case oj_decode js (hr_Body r) of
          None \<Rightarrow> Inl (http_error (json_err_body ''invalid JSON body'') 400)
        | Some flds \<Rightarrow>
            let m = (case map_of flds ''model'' of Some (JStr s) \<Rightarrow> s | _ \<Rightarrow> '''')
            in if m = '''' then Inl (http_error (json_err_body ''model field required'') 400)
               else if \<not> isModelAllowed (w_queue w) m
               then Inl (http_error (json_err_body (''model '' @ go_quote m @ '' not allowed'')) 400)
               else if spending_exhausted w cid
               then Inl (http_error (json_err_body ''spending budget exceeded'') 402)
               else case busy_with (w_queue w) cid of
                      Some msg \<Rightarrow> Inl (http_error (json_err_body msg) 409)
                    | None \<Rightarrow> Inr (m, flds))"

definition queue_timeout_of :: "(string \<times> json) list \<Rightarrow> int" where
  "queue_timeout_of flds =
     (case map_of flds ''queue_timeout'' of
        Some (JNum v) \<Rightarrow> fl_to_int64 (fl_mul v (fl_of_int 1000000000))
      | Some (JStr s) \<Rightarrow> (case ParseDuration s of None \<Rightarrow> 0 | Some d \<Rightarrow> d)
      | _ \<Rightarrow> 0)"

definition clean_fields :: "(string \<times> json) list \<Rightarrow> (string \<times> json) list" where
  "clean_fields flds = AList.update ''stream'' (JBool False) (AList.delete ''queue_timeout'' flds)"

text \<open>
  The section under the lock that adds the entry, the event that follows it and the signal to
  the processor (a send on a channel of capacity one that is skipped when it is full).
\<close>

definition enqueue ::
  "ollama_json \<Rightarrow> string \<Rightarrow> http_request \<Rightarrow> string \<Rightarrow> (string \<times> json) list \<Rightarrow>
   ('d, 'c, 'z) oworld_scheme \<Rightarrow> (http_response + nat) \<times> ('d, 'c, 'z) oworld_scheme" where
  "enqueue js cid r m flds w =
     (case oj_encode js (clean_fields flds) of
        Inl _ \<Rightarrow> (Inl (http_error (json_err_body ''failed to marshal request'') 500), w)
      | Inr body \<Rightarrow>
          let q = w_queue w;
              bid = (if GetBid q cid = 0 then oc_DefaultBid (q_cfg q) else GetBid q cid);
              e = \<lparr>en_container = cid, en_model = m, en_path = hr_Path r, en_body = body, en_bid = bid,
                   en_enqueuedAt = w_now w, en_timeout = queue_timeout_of flds, en_result = None,
                   en_cancelled = False, en_ctxDone = False\<rparr>;
              i = q_next q
          in if int (length (q_entries q)) \<ge> oc_MaxQueueSize (q_cfg q)
             then (Inl (http_error (json_err_body ''queue is full'') 503), w)
             else (Inr i, emit OllamaEnqueue cid (OllamaEnqueueData m bid)
                     (w\<lparr>w_queue := sortEntries
                          (q\<lparr>q_heap := (q_heap q)(i := e), q_next := i + 1,
                             q_entries := q_entries q @ [i], q_wake := True\<rparr>)\<rparr>)))"

text \<open>How the waiting handler ends: with a result, at its timeout, or when the client is gone.\<close>

definition answer_result :: "ollama_result \<Rightarrow> http_response" where
  "answer_result res =
     (case res of
        ResultErr e \<Rightarrow> http_error (json_err_body e) 502
      | ResultOk status h body \<Rightarrow> \<lparr>rp_Status = status, rp_Header = h, rp_Body = body\<rparr>)"

definition take_result :: "nat \<Rightarrow> ('d, 'c, 'z) oworld_scheme \<Rightarrow> http_response option \<times> ('d, 'c, 'z) oworld_scheme" where
  "take_result i w =
     (case en_result (q_heap (w_queue w) i) of
        None \<Rightarrow> (None, w)
      | Some res \<Rightarrow> (Some (answer_result res), on_queue (heap_upd i (\<lambda>e. e\<lparr>en_result := None\<rparr>)) w))"

definition give_up :: "nat \<Rightarrow> string \<Rightarrow> ('d, 'c, 'z) oworld_scheme \<Rightarrow> ('d, 'c, 'z) oworld_scheme" where
  "give_up i reason w =
     emit OllamaCancel (en_container (q_heap (w_queue w) i)) (OllamaCancelData reason)
       (on_queue (removeEntry i \<circ> heap_upd i (cancel_with None)) w)"

definition time_out :: "nat \<Rightarrow> ('d, 'c, 'z) oworld_scheme \<Rightarrow> http_response \<times> ('d, 'c, 'z) oworld_scheme" where
  "time_out i w = (http_error (json_err_body ''queue timeout'') 408, give_up i ''timeout'' w)"

definition client_gone :: "nat \<Rightarrow> ('d, 'c, 'z) oworld_scheme \<Rightarrow> ('d, 'c, 'z) oworld_scheme" where
  "client_gone i w = give_up i ''cancelled'' w"

subsection \<open>The processor\<close>

fun pop_live :: "queue \<Rightarrow> nat list \<Rightarrow> nat option \<times> nat list" where
  "pop_live q [] = (None, [])"
| "pop_live q (i # is) = (if live q i then (Some i, is) else pop_live q is)"

definition popNext :: "queue \<Rightarrow> nat option \<times> queue" where
  "popNext q = (case pop_live q (q_entries q) of (r, rest) \<Rightarrow> (r, q\<lparr>q_entries := rest\<rparr>))"

text \<open>
  The sections of \<^verbatim>\<open>processLoop\<close>: receive the signal, take an entry, make it the active one, clear
  it.
\<close>

definition step_wake :: "queue \<Rightarrow> queue" where
  "step_wake q = q\<lparr>q_wake := False, q_proc := Looking\<rparr>"

definition step_pop :: "queue \<Rightarrow> queue" where
  "step_pop q =
     (case popNext q of (r, q') \<Rightarrow> q'\<lparr>q_proc := (case r of None \<Rightarrow> Waiting | Some i \<Rightarrow> Popped i)\<rparr>)"

definition step_activate :: "nat \<Rightarrow> queue \<Rightarrow> queue" where
  "step_activate i q = q\<lparr>q_active := Some i, q_proc := Processing i\<rparr>"

definition step_clear :: "queue \<Rightarrow> queue" where
  "step_clear q = q\<lparr>q_active := None, q_proc := Looking\<rparr>"

definition recordSleep :: "int \<Rightarrow> int \<Rightarrow> queue \<Rightarrow> queue" where
  "recordSleep at dur q = q\<lparr>q_sleepEvents := q_sleepEvents q @ [(at, dur)]\<rparr>"

text \<open>One turn of the sleep detector; its \<^verbatim>\<open>last\<close> is an argument.\<close>

definition sleep_tick :: "int \<Rightarrow> int \<Rightarrow> queue \<Rightarrow> queue" where
  "sleep_tick prev now q =
     (if now - prev > 5000000000 then recordSleep now (now - prev - 1000000000) q else q)"

definition sleepDuring :: "(int \<times> int) list \<Rightarrow> int \<Rightarrow> int \<Rightarrow> int" where
  "sleepDuring evs from to =
     fold (\<lambda>(at, dur) total.
             let s = (if from > at - dur then from else at - dur); e = (if to < at then to else at)
             in if e > s then total + (e - s) else total) evs 0"

definition wall_seconds :: "(int \<times> int) list \<Rightarrow> int \<Rightarrow> int \<Rightarrow> gofloat" where
  "wall_seconds evs from to =
     (let s = fl_sub (duration_seconds (to - from)) (duration_seconds (sleepDuring evs from to))
      in if fl_negative s then Fin 0 0 else s)"

definition cost_of :: "gofloat \<Rightarrow> int \<Rightarrow> int" where
  "cost_of secs bid = fl_to_int64 (fl_mul secs (fl_of_int bid))"

text \<open>The callback with which the daemon persists the tracker's totals.\<close>

definition persist_spending :: "(string \<times> int) list \<Rightarrow> ('d, 'c, 'z) world_scheme \<Rightarrow> ('d, 'c, 'z) world_scheme" where
  "persist_spending ups w = fold (\<lambda>(cid, mc) w. snd (on_store (SetUsage cid LimitSpending mc) w)) ups w"

definition charge :: "string \<Rightarrow> int \<Rightarrow> ('d, 'c, 'z) world_scheme \<Rightarrow> ('d, 'c, 'z) world_scheme" where
  "charge cid cost w =
     (case w_proxy w of
        None \<Rightarrow> w
      | Some p \<Rightarrow>
          if cost > 0
          then (case AddSpending cid cost p of (ups, p') \<Rightarrow> persist_spending ups (w\<lparr>w_proxy := Some p'\<rparr>))
          else w)"

definition activity_body :: "string \<Rightarrow> string" where
  "activity_body s = (if length s > 4096 then take 4096 s @ ''...'' else s)"

text \<open>
  Serving an entry: \<open>mkreq\<close> is the refusal of \<^verbatim>\<open>http.NewRequestWithContext\<close>, if any, \<open>out\<close> what the
  client's \<^verbatim>\<open>Do\<close> returned (its error, or status, header and the reading of the body), \<open>from\<close> and
  \<open>to\<close> the wall clock around it.
\<close>

definition processEntry ::
  "nat \<Rightarrow> err option \<Rightarrow> int \<Rightarrow> int \<Rightarrow> err + (int \<times> (string \<times> string list) list \<times> (err + string)) \<Rightarrow>
   ('d, 'c, 'z) oworld_scheme \<Rightarrow> ('d, 'c, 'z) oworld_scheme" where
  "processEntry i mkreq from to out w =
     (let e = q_heap (w_queue w) i;
          reply = (\<lambda>res. on_queue (heap_upd i (\<lambda>e. e\<lparr>en_result := Some res\<rparr>)));
          done = on_queue (\<lambda>q. q\<lparr>q_proc := Replied i\<rparr>)
      in case mkreq of
           Some x \<Rightarrow> done (reply (ResultErr (''create request: '' @ x)) w)
         | None \<Rightarrow>
             (case out of
                Inl x \<Rightarrow> done (reply (ResultErr (''ollama request: '' @ x)) w)
              | Inr (status, h, Inl x) \<Rightarrow> done (reply (ResultErr (''read response: '' @ x)) w)
              | Inr (status, h, Inr body) \<Rightarrow>
                  let secs = wall_seconds (q_sleepEvents (w_queue w)) from to;
                      cost = cost_of secs (en_bid e);
                      w1 = emit OllamaDequeue (en_container e)
                             (OllamaDequeueData (en_model e) secs cost)
                             (charge (en_container e) cost w);
                      act = \<lparr>pa_Timestamp = to, pa_Host = ''ollama'', pa_Path = en_path e, pa_Method = ''POST'',
                             pa_RequestBody = activity_body (en_body e), pa_StatusCode = status,
                             pa_ResponseBody = activity_body body, pa_Model = en_model e,
                             pa_InputTokens = 0, pa_OutputTokens = 0, pa_CostMicro = wrap64 (cost * 1000),
                             pa_DurationMs = fl_to_int64 (fl_mul secs (fl_of_int 1000)), pa_Error = ''''\<rparr>;
                      w2 = (if q_hasRecorder (w_queue w)
                            then w1\<lparr>w_proxy := map_option (RecordActivity (en_container e) act) (w_proxy w1)\<rparr>
                            else w1)
                  in done (reply (ResultOk status h body) w2)))"

subsection \<open>Status and settings\<close>

record queue_entry =
  qe_ContainerID :: string
  qe_Model :: string
  qe_Bid :: int
  qe_EnqueuedAt :: int

record queue_status =
  qs_Active :: "queue_entry option"
  qs_Pending :: "queue_entry list"
  qs_Size :: int

definition entry_info :: "entry \<Rightarrow> queue_entry" where
  "entry_info e = \<lparr>qe_ContainerID = en_container e, qe_Model = en_model e, qe_Bid = en_bid e,
                   qe_EnqueuedAt = en_enqueuedAt e\<rparr>"

definition QueueStatus :: "queue \<Rightarrow> queue_status" where
  "QueueStatus q =
     \<lparr>qs_Active = map_option (\<lambda>i. entry_info (q_heap q i)) (q_active q),
      qs_Pending = map (\<lambda>i. entry_info (q_heap q i)) (filter (live q) (q_entries q)),
      qs_Size = int (length (q_entries q))\<rparr>"

definition GetConfig :: "queue \<Rightarrow> ollama_config" where
  "GetConfig q = q_cfg q"

definition SetAllowedModels :: "string list \<Rightarrow> queue \<Rightarrow> queue" where
  "SetAllowedModels ms q = q\<lparr>q_cfg := (q_cfg q)\<lparr>oc_AllowedModels := ms\<rparr>\<rparr>"

definition SetMaxQueueSize :: "int \<Rightarrow> queue \<Rightarrow> queue" where
  "SetMaxQueueSize n q = q\<lparr>q_cfg := (q_cfg q)\<lparr>oc_MaxQueueSize := n\<rparr>\<rparr>"

definition SetRequestTimeout :: "int \<Rightarrow> queue \<Rightarrow> queue" where
  "SetRequestTimeout d q = q\<lparr>q_cfg := (q_cfg q)\<lparr>oc_RequestTimeout := d\<rparr>\<rparr>"

definition SetDefaultBid :: "int \<Rightarrow> queue \<Rightarrow> queue" where
  "SetDefaultBid b q = q\<lparr>q_cfg := (q_cfg q)\<lparr>oc_DefaultBid := b\<rparr>\<rparr>"

definition SetActivityRecorder :: "queue \<Rightarrow> queue" where
  "SetActivityRecorder q = q\<lparr>q_hasRecorder := True\<rparr>"

text \<open>
  \<^verbatim>\<open>url.Parse(u).Hostname()\<close> for a URL with a scheme and an authority; anything else has no host.
  The tracker asks the queue for its host on every request, so a new URL is a new host there.
\<close>

fun after_scheme :: "string \<Rightarrow> string option" where
  "after_scheme [] = None"
| "after_scheme (c # cs) = (if prefix ''://'' (c # cs) then Some (drop 3 (c # cs)) else after_scheme cs)"

definition url_hostname :: "string \<Rightarrow> string" where
  "url_hostname u =
     (case after_scheme u of
        None \<Rightarrow> ''''
      | Some rest \<Rightarrow>
          let auth = takeWhile (\<lambda>c. c \<noteq> CHR ''/'' \<and> c \<noteq> CHR ''?'' \<and> c \<noteq> CHR ''#'') rest;
              host = rev (takeWhile (\<lambda>c. c \<noteq> CHR ''@'') (rev auth))
          in if prefix ''['' host then takeWhile (\<lambda>c. c \<noteq> CHR '']'') (drop 1 host)
             else takeWhile (\<lambda>c. c \<noteq> CHR '':'') host)"

definition OllamaHost :: "queue \<Rightarrow> string" where
  "OllamaHost q = url_hostname (oc_OllamaURL (q_cfg q))"

definition SetOllamaURL :: "string \<Rightarrow> ('d, 'c, 'z) oworld_scheme \<Rightarrow> ('d, 'c, 'z) oworld_scheme" where
  "SetOllamaURL u w =
     (let w1 = on_queue (\<lambda>q. q\<lparr>q_cfg := (q_cfg q)\<lparr>oc_OllamaURL := u\<rparr>\<rparr>) w
      in w1\<lparr>w_proxy := map_option (\<lambda>p. case p_ollamaHost p of
                           None \<Rightarrow> p | Some _ \<Rightarrow> SetOllamaHandler (OllamaHost (w_queue w1)) p) (w_proxy w1)\<rparr>)"

end
