(* ===== verification/Http.thy ===== *)
theory Http
  imports Ollama
begin

text \<open>
  What the API server uses of Go's HTTP and formatting library: replies (a status with a JSON
  value, a plain text, an event stream, or a handler that panicked), the query of a URL,
  the split of a path, and the text of a duration.
\<close>

subsection \<open>Replies\<close>

text \<open>
  Values handed to the JSON encoder. A time is a \<open>JTime\<close>; activities and the queue's status are
  leaves here, as are values that came from a decoded request.
\<close>

datatype jval =
    JNil
  | JFlag bool
  | JInt int
  | JText string
  | JTime int
  | JList "jval list"
  | JMap "(string \<times> jval) list"
  | JActivity "proxy_activity list"
  | JQueue queue_status

datatype api_reply =
    Json int jval
  | Plain int string
  | Stream nat
  | Panicked

definition writeJSON :: "jval \<Rightarrow> api_reply" where
  "writeJSON v = Json 200 v"

definition writeError :: "int \<Rightarrow> err \<Rightarrow> api_reply" where
  "writeError code e = Json code (JMap [(''error'', JText e)])"

definition writeJSON400 :: "jval \<Rightarrow> api_reply" where
  "writeJSON400 v = Json 400 v"

definition method_not_allowed :: api_reply where
  "method_not_allowed = Plain 405 ''method not allowed''"

definition not_found :: api_reply where
  "not_found = Plain 404 ''404 page not found''"

definition status_of :: "api_reply \<Rightarrow> int" where
  "status_of r = (case r of Json c _ \<Rightarrow> c | Plain c _ \<Rightarrow> c | Stream _ \<Rightarrow> 101 | Panicked \<Rightarrow> 0)"

definition jmap_int :: "(string \<times> int) list \<Rightarrow> jval" where
  "jmap_int m = JMap (map (\<lambda>(k, v). (k, JInt v)) m)"

definition jmap_bool :: "(string \<times> bool) list \<Rightarrow> jval" where
  "jmap_bool m = JMap (map (\<lambda>(k, v). (k, JFlag v)) m)"

text \<open>\<^verbatim>\<open>m, _ := ...\<close>: the map of a call whose error is dropped; a nil map is null.\<close>

definition jmap_of :: "err + (string \<times> int) list \<Rightarrow> jval" where
  "jmap_of r = (case r of Inl _ \<Rightarrow> JNil | Inr m \<Rightarrow> jmap_int m)"

definition jstrs :: "string list \<Rightarrow> jval" where
  "jstrs xs = JList (map JText xs)"

lemma status_of_simps [simp]:
  "status_of (writeJSON v) = 200" "status_of (writeError c e) = c" "status_of (writeJSON400 v) = 400"
  "status_of method_not_allowed = 405" "status_of not_found = 404" "status_of (Json c v) = c"
  by (simp_all add: status_of_def writeJSON_def writeError_def writeJSON400_def method_not_allowed_def not_found_def)

subsection \<open>Paths and queries\<close>

text \<open>\<^verbatim>\<open>strings.SplitN(s, sep, n)\<close>: at most \<open>n\<close> parts.\<close>

fun split_n :: "nat \<Rightarrow> char \<Rightarrow> string \<Rightarrow> string list" where
  "split_n 0 c s = []"
| "split_n (Suc 0) c s = [s]"
| "split_n (Suc (Suc n)) c s =
     (case cut_at c s of None \<Rightarrow> [s] | Some (a, b) \<Rightarrow> a # split_n (Suc n) c b)"

definition hex_val :: "char \<Rightarrow> nat option" where
  "hex_val c =
     (let n = (of_char c :: nat) in
      if 48 \<le> n \<and> n \<le> 57 then Some (n - 48)
      else if 97 \<le> n \<and> n \<le> 102 then Some (n - 87)
      else if 65 \<le> n \<and> n \<le> 70 then Some (n - 55)
      else None)"

fun query_unescape :: "string \<Rightarrow> string option" where
  "query_unescape [] = Some []"
| "query_unescape (c # cs) =
     (if c = CHR ''%'' then
        (case cs of
           a # b # rest \<Rightarrow>
             (case (hex_val a, hex_val b) of
                (Some x, Some y) \<Rightarrow> map_option (Cons (char_of (16 * x + y))) (query_unescape rest)
              | _ \<Rightarrow> None)
         | _ \<Rightarrow> None)
      else map_option (Cons (if c = CHR ''+'' then CHR '' '' else c)) (query_unescape cs))"

text \<open>\<^verbatim>\<open>r.URL.Query().Get(key)\<close>: the first well-formed setting of the key, or the empty string.\<close>

definition query_pair :: "string \<Rightarrow> (string \<times> string) option" where
  "query_pair s =
     (if CHR '';'' \<in> set s \<or> s = [] then None
      else
        let (k, v) = (case cut_at (CHR ''='') s of None \<Rightarrow> (s, []) | Some kv \<Rightarrow> kv)
        in case (query_unescape k, query_unescape v) of
             (Some k', Some v') \<Rightarrow> Some (k', v')
           | _ \<Rightarrow> None)"

definition query_get :: "string \<Rightarrow> http_request \<Rightarrow> string" where
  "query_get key r =
     mgets (map_of (List.map_filter query_pair (split_on (CHR ''&'') (hr_RawQuery r)))) key"

definition extractIP :: "string \<Rightarrow> string" where
  "extractIP remoteAddr = (case split_host_port remoteAddr of None \<Rightarrow> remoteAddr | Some (h, p) \<Rightarrow> h)"

subsection \<open>Durations\<close>

definition pad_left :: "nat \<Rightarrow> string \<Rightarrow> string" where
  "pad_left n s = replicate (n - length s) (CHR ''0'') @ s"

text \<open>The decimal fraction of \<open>prec\<close> digits, without trailing zeros.\<close>

definition dur_frac :: "nat \<Rightarrow> nat \<Rightarrow> string" where
  "dur_frac prec v =
     (let ds = rev (dropWhile (\<lambda>c. c = CHR ''0'') (rev (pad_left prec (show_nat (v mod 10 ^ prec)))))
      in if ds = [] then [] else CHR ''.'' # ds)"

definition dur_abs :: "nat \<Rightarrow> string" where
  "dur_abs u =
     (if u = 0 then ''0s''
      else if u < 1000 then show_nat u @ ''ns''
      else if u < 1000000 then show_nat (u div 1000) @ dur_frac 3 u @ [CHR 0xC2, CHR 0xB5, CHR ''s'']
      else if u < 1000000000 then show_nat (u div 1000000) @ dur_frac 6 u @ ''ms''
      else
        let secs = u div 1000000000; mins = secs div 60; hours = mins div 60
        in (if hours > 0 then show_nat hours @ ''h'' else []) @
           (if mins > 0 then show_nat (mins mod 60) @ ''m'' else []) @
           show_nat (secs mod 60) @ dur_frac 9 u @ ''s'')"

definition duration_string :: "int \<Rightarrow> string" where
  "duration_string d = (if d < 0 then ''-'' else []) @ dur_abs (nat \<bar>d\<bar>)"

end
