(* ===== verification/Api.thy ===== *)
theory Api
  imports Http
begin

text \<open>
  \<^verbatim>\<open>internal/api/api.go\<close> and \<^verbatim>\<open>internal/api/websocket.go\<close>: the REST server in front of the
  daemon's parts. A handler takes the environment (the Docker operations and the decoding of
  request bodies), the request and the server, and gives its reply and the server after it:
  each handler is one step. The server is the record \<open>oworld\<close> with the server's own fields.
  A nil queue is \<open>\<not> s_hasOllama\<close>; the proxy, when there is one, is the \<^verbatim>\<open>SpendingTracker\<close>.
\<close>

subsection \<open>State and environment\<close>

record scopedListener =
  sl_ID :: string
  sl_Scope :: scope
  sl_Listen :: string
  sl_Socket :: string

record ('d, 'c) server = "('d, 'c) oworld" +
  s_hasOllama :: bool
  s_configPath :: string
  s_configFile :: "string option"
  s_fsErr :: "err option"
  s_ipMap :: "string \<Rightarrow> string option"
  s_done :: bool
  s_errorWebhooks :: "string list"
  s_keepLimitsConsistent :: bool
  s_scopedListeners :: "(string \<times> scopedListener) list"

record limit_req =
  lr_Type :: limit_type
  lr_Value :: int
  lr_Operation :: string

text \<open>
  \<open>ae_limit\<close> to \<open>ae_object\<close> are what \<^verbatim>\<open>encoding/json\<close> decodes from a request body (its error, or
  the fields), \<open>ae_file\<close> what it makes of the config file, \<open>ae_indent\<close> the text it gives an
  object, \<open>ae_text\<close> the \<^verbatim>\<open>%v\<close> of a decoded value, \<open>ae_dur_err\<close> the error of \<^verbatim>\<open>time.ParseDuration\<close>;
  \<open>ae_proxy_listen\<close> and \<open>ae_listen\<close> the outcome of opening a listener, \<open>ae_upgrade\<close> the refusal
  of a WebSocket upgrade.
\<close>

record 'd api_env =
  ae_dc :: "'d docker_client"
  ae_limit :: "string \<Rightarrow> err + limit_req"
  ae_register :: "string \<Rightarrow> err + (string \<times> string)"
  ae_clone_name :: "string \<Rightarrow> string"
  ae_bid :: "string \<Rightarrow> err + int"
  ae_toggles :: "string \<Rightarrow> err + (string \<times> bool) list"
  ae_segment :: "string \<Rightarrow> err + (string \<times> string)"
  ae_listener :: "string \<Rightarrow> err + (string \<times> string \<times> string)"
  ae_object :: "string \<Rightarrow> err + (string \<times> json) list"
  ae_file :: "string \<Rightarrow> err + (string \<times> json) list"
  ae_indent :: "(string \<times> json) list \<Rightarrow> err + string"
  ae_text :: "json \<Rightarrow> string"
  ae_dur_err :: "string \<Rightarrow> err"
  ae_proxy_listen :: "err + string"
  ae_listen :: "string \<Rightarrow> string \<Rightarrow> err + string"
  ae_upgrade :: "http_request \<Rightarrow> api_reply option"

definition on_proxy :: "(spending_tracker \<Rightarrow> spending_tracker) \<Rightarrow> ('d, 'c, 'z) world_scheme \<Rightarrow> ('d, 'c, 'z) world_scheme" where
  "on_proxy f w = w\<lparr>w_proxy := map_option f (w_proxy w)\<rparr>"

definition invalid_request :: "err \<Rightarrow> api_reply" where
  "invalid_request e = writeError 400 (''invalid request: '' @ e)"

subsection \<open>The arithmetic of a limit request\<close>

definition op_of :: "limit_req \<Rightarrow> string" where
  "op_of req = (if lr_Operation req = '''' then ''set'' else lr_Operation req)"

definition limit_op :: "string \<Rightarrow> int \<Rightarrow> int \<Rightarrow> err + int" where
  "limit_op op oldValue v =
     (if op = ''set'' then Inr v
      else if op = ''increase'' then Inr (wrap64 (oldValue + v))
      else if op = ''decrease'' then
        (let n = wrap64 (oldValue - v) in Inr (if n < 0 then 0 else n))
      else Inl (''invalid operation: '' @ op))"

definition sumContainerLimits :: "store \<Rightarrow> limit_type \<Rightarrow> string \<Rightarrow> int" where
  "sumContainerLimits s lt excludeID =
     (case ListContainers s of
        Inl _ \<Rightarrow> 0
      | Inr cs \<Rightarrow>
          fold (\<lambda>c total. if c_ID c = excludeID then total
                          else wrap64 (total + or0 (GetLimit s (c_ID c) lt))) cs 0)"

text \<open>The limits of the containers and what removed ones have used of a type.\<close>

definition accum_of :: "store \<Rightarrow> scope \<Rightarrow> limit_type \<Rightarrow> int" where
  "accum_of s sc lt = (case GetScopeUsageAccum s sc of Inl _ \<Rightarrow> 0 | Inr us \<Rightarrow> mget0 (map_of us) lt)"

definition committed :: "store \<Rightarrow> limit_type \<Rightarrow> string \<Rightarrow> int" where
  "committed s lt excludeID = wrap64 (sumContainerLimits s lt excludeID + accum_of s ScopeHost lt)"

definition limit_change_event ::
  "limit_req \<Rightarrow> string \<Rightarrow> int \<Rightarrow> int \<Rightarrow> ('d, 'c, 'z) world_scheme \<Rightarrow> ('d, 'c, 'z) world_scheme" where
  "limit_change_event req cid oldValue newValue =
     emit LimitChange cid (LimitChangeData (lr_Type req) oldValue newValue (op_of req))"

definition limit_fields :: "limit_req \<Rightarrow> int \<Rightarrow> int \<Rightarrow> string \<Rightarrow> (string \<times> jval) list" where
  "limit_fields req newValue oldValue applied =
     [(''type'', JText (lr_Type req)), (''value'', JInt newValue), (''old_value'', JInt oldValue),
      (''operation'', JText (op_of req)), (''applied'', JText applied)]"

subsection \<open>Host limits\<close>

definition handleGlobalLimits ::
  "'d api_env \<Rightarrow> http_request \<Rightarrow> ('d, 'c, 'z) server_scheme \<Rightarrow> api_reply \<times> ('d, 'c, 'z) server_scheme" where
  "handleGlobalLimits ae r w =
     (if hr_Method r = ''GET'' then
        (case GetAllScopeLimits (w_store w) ScopeHost of
           Inl e \<Rightarrow> (writeError 500 e, w)
         | Inr limits \<Rightarrow> (writeJSON (jmap_int limits), w))
      else if hr_Method r = ''PUT'' then
        (case ae_limit ae (hr_Body r) of
           Inl e \<Rightarrow> (invalid_request e, w)
         | Inr req \<Rightarrow>
             let lt = lr_Type req;
                 oldValue = or0 (GetScopeLimit (w_store w) ScopeHost lt)
             in case limit_op (op_of req) oldValue (lr_Value req) of
                  Inl e \<Rightarrow> (writeError 400 e, w)
                | Inr newValue \<Rightarrow>
                    let sumLimits = committed (w_store w) lt ''''
                    in if s_keepLimitsConsistent w \<and> op_of req \<noteq> ''increase'' \<and>
                          sumLimits > 0 \<and> newValue < sumLimits
                       then (writeJSON400 (JMap
                               [(''error'', JText (''global '' @ lt @
                                  '' limit cannot be less than sum of per-container limits + accumulated usage from removed containers ('' @
                                  show_int sumLimits @ ''); min value: '' @ show_int sumLimits)),
                                (''min_value'', JInt sumLimits)]), w)
                       else
                         (case on_store (SetScopeLimit ScopeHost lt newValue) w of
                            (Some e, w1) \<Rightarrow> (writeError 500 e, w1)
                          | (None, w1) \<Rightarrow>
                              (writeJSON (JMap (limit_fields req newValue oldValue ''full'')),
                               limit_change_event req '''' oldValue newValue w1)))
      else (method_not_allowed, w))"

definition handleScopeLimits ::
  "'d api_env \<Rightarrow> http_request \<Rightarrow> ('d, 'c, 'z) server_scheme \<Rightarrow> api_reply \<times> ('d, 'c, 'z) server_scheme" where
  "handleScopeLimits ae r w =
     (let sc = query_get ''scope'' r in
      if sc = '''' \<or> sc = ''host'' then handleGlobalLimits ae r w
      else (writeError 400 (''unsupported scope: '' @ sc), w))"

subsection \<open>Limits of a container\<close>

text \<open>
  Keeping the limits consistent: a refusal, or the value to set with the reason when it is less
  than the one asked for.
\<close>

definition keep_consistent ::
  "('d, 'c, 'z) server_scheme \<Rightarrow> string \<Rightarrow> limit_req \<Rightarrow> int \<Rightarrow> int \<Rightarrow> api_reply + (int \<times> string option)" where
  "keep_consistent w cid req oldValue newValue =
     (let lt = lr_Type req;
          globalLimit = or0 (GetScopeLimit (w_store w) ScopeHost lt);
          m = wrap64 (globalLimit - committed (w_store w) lt cid);
          maxAllowed = (if m < 0 then 0 else m)
      in if s_keepLimitsConsistent w \<and> op_of req \<noteq> ''decrease'' \<and> globalLimit > 0 \<and> newValue > maxAllowed
         then if op_of req = ''increase''
              then
                let d = wrap64 (maxAllowed - oldValue);
                    maxIncrease = (if d < 0 then 0 else d)
                in Inl (writeJSON400 (JMap
                     [(''error'', JText (''would exceed global '' @ lt @ '' limit ('' @ show_int globalLimit @
                        ''); max increase: '' @ show_int maxIncrease)),
                      (''max_increase'', JInt maxIncrease)]))
              else Inr (maxAllowed, Some (''capped to stay within global limit ('' @ show_int maxAllowed @ '' available)''))
         else Inr (newValue, None))"

definition apply_ram :: "'d docker_client \<Rightarrow> string \<Rightarrow> limit_type \<Rightarrow> int \<Rightarrow> ('d, 'c, 'z) world_scheme \<Rightarrow> ('d, 'c, 'z) world_scheme" where
  "apply_ram dc cid lt newValue w =
     (if lt = LimitRAM then
        (case GetContainer (w_store w) cid of
           Inl _ \<Rightarrow> w
         | Inr c \<Rightarrow> snd (on_docker (d_update_memory dc (c_DockerID c) newValue) w))
      else w)"

definition apply_budget :: "string \<Rightarrow> limit_type \<Rightarrow> int \<Rightarrow> ('d, 'c, 'z) world_scheme \<Rightarrow> ('d, 'c, 'z) world_scheme" where
  "apply_budget cid lt newValue w = (if lt = LimitSpending then on_proxy (UpdateBudget cid newValue) w else w)"

definition handleLimits ::
  "'d api_env \<Rightarrow> http_request \<Rightarrow> string \<Rightarrow> ('d, 'c, 'z) server_scheme \<Rightarrow> api_reply \<times> ('d, 'c, 'z) server_scheme" where
  "handleLimits ae r cid w =
     (if hr_Method r = ''GET'' then
        (case GetAllLimits (w_store w) cid of
           Inl e \<Rightarrow> (writeError 500 e, w)
         | Inr limits \<Rightarrow> (writeJSON (jmap_int limits), w))
      else if hr_Method r = ''PUT'' then
        (case ae_limit ae (hr_Body r) of
           Inl e \<Rightarrow> (invalid_request e, w)
         | Inr req \<Rightarrow>
             let lt = lr_Type req;
                 oldValue = or0 (GetLimit (w_store w) cid lt)
             in case limit_op (op_of req) oldValue (lr_Value req) of
                  Inl e \<Rightarrow> (writeError 400 e, w)
                | Inr requestedValue \<Rightarrow>
                    (case keep_consistent w cid req oldValue requestedValue of
                       Inl reply \<Rightarrow> (reply, w)
                     | Inr (newValue, reason) \<Rightarrow>
                         (case on_store (SetLimit cid lt newValue) w of
                            (Some e, w1) \<Rightarrow> (writeError 500 e, w1)
                          | (None, w1) \<Rightarrow>
                              let w2 = apply_budget cid lt newValue (apply_ram (ae_dc ae) cid lt newValue w1);
                                  w3 = limit_change_event req cid oldValue newValue w2
                              in case reason of
                                   None \<Rightarrow> (writeJSON (JMap (limit_fields req newValue oldValue ''full'')), w3)
                                 | Some why \<Rightarrow>
                                     (Json 209 (JMap (limit_fields req newValue oldValue ''partial'' @
                                        [(''requested_value'', JInt requestedValue), (''reason'', JText why)])), w3))))
      else (method_not_allowed, w))"

subsection \<open>Status of containers\<close>

text \<open>In a status, a map that could not be read is shown empty.\<close>

definition container_json :: "container \<Rightarrow> jval" where
  "container_json c =
     JMap ([(''id'', JText (c_ID c)), (''docker_id'', JText (c_DockerID c)), (''name'', JText (c_Name c)),
            (''registered_at'', JTime (c_RegisteredAt c))] @
           (if c_SegmentID c = '''' then [] else [(''segment_id'', JText (c_SegmentID c))]))"

definition getContainerState :: "'d docker_client \<Rightarrow> 'd \<Rightarrow> string \<Rightarrow> string" where
  "getContainerState dc d did =
     (case d_inspect dc d did of
        Inl _ \<Rightarrow> ''deleted''
      | Inr info \<Rightarrow> if di_Paused info then ''paused'' else if di_Running info then ''running'' else ''exited'')"

definition buildStatus :: "'d docker_client \<Rightarrow> container \<Rightarrow> ('d, 'c, 'z) server_scheme \<Rightarrow> container_status" where
  "buildStatus dc c w =
     \<lparr>cs_Container = c,
      cs_Limits = (case GetAllLimits (w_store w) (c_ID c) of Inl _ \<Rightarrow> None | Inr m \<Rightarrow> Some m),
      cs_Usage = (case GetAllUsage (w_store w) (c_ID c) of Inl _ \<Rightarrow> None | Inr m \<Rightarrow> Some m),
      cs_Enforced = GetEnforced w (c_ID c),
      cs_State = getContainerState dc (w_docker w) (c_DockerID c),
      cs_ProxyAddr = (case w_proxy w of None \<Rightarrow> '''' | Some p \<Rightarrow> GetProxyAddr p (c_ID c)),
      cs_Frozen = IsFrozen w (c_ID c)\<rparr>"

text \<open>A nil map has no entries, and is null in JSON.\<close>

definition jmap_nil :: "(string \<times> int) list option \<Rightarrow> jval" where
  "jmap_nil m = (case m of None \<Rightarrow> JNil | Some kvs \<Rightarrow> jmap_int kvs)"

definition entries_of :: "(string \<times> int) list option \<Rightarrow> (string \<times> int) list" where
  "entries_of m = (case m of None \<Rightarrow> [] | Some kvs \<Rightarrow> kvs)"

definition status_json :: "container_status \<Rightarrow> jval" where
  "status_json cs =
     JMap ([(''container'', container_json (cs_Container cs)), (''limits'', jmap_nil (cs_Limits cs)),
            (''usage'', jmap_nil (cs_Usage cs)), (''enforced'', jmap_bool (cs_Enforced cs)),
            (''state'', JText (cs_State cs))] @
           (if cs_ProxyAddr cs = '''' then [] else [(''proxy_addr'', JText (cs_ProxyAddr cs))]) @
           [(''frozen'', JFlag (cs_Frozen cs))])"

text \<open>\<^verbatim>\<open>for lt, v := range m { total[lt] += v }\<close>.\<close>

definition add_to :: "(limit_type \<times> int) list \<Rightarrow> (limit_type \<times> int) list \<Rightarrow> (limit_type \<times> int) list" where
  "add_to m sums = fold (\<lambda>(lt, v) t. tbl_put lt (wrap64 (mget0 (map_of t) lt + v)) t) m sums"

definition add_accum :: "store \<Rightarrow> scope \<Rightarrow> (limit_type \<times> int) list \<Rightarrow> (limit_type \<times> int) list" where
  "add_accum s sc sums = (case GetScopeUsageAccum s sc of Inl _ \<Rightarrow> sums | Inr m \<Rightarrow> add_to m sums)"

definition handleContainers ::
  "'d api_env \<Rightarrow> http_request \<Rightarrow> ('d, 'c, 'z) server_scheme \<Rightarrow> api_reply \<times> ('d, 'c, 'z) server_scheme" where
  "handleContainers ae r w =
     (if hr_Method r \<noteq> ''GET'' then (method_not_allowed, w)
      else
        case ListContainers (w_store w) of
          Inl e \<Rightarrow> (writeError 500 e, w)
        | Inr cs \<Rightarrow>
            let statuses = map (\<lambda>c. buildStatus (ae_dc ae) c w) cs;
                limits = jmap_of (GetAllScopeLimits (w_store w) ScopeHost);
                usage = jmap_int (add_accum (w_store w) ScopeHost (fold (add_to \<circ> entries_of \<circ> cs_Usage) statuses []));
                enforced = jmap_bool (GetScopeEnforced w ScopeHost)
            in (writeJSON (JMap
                  [(''containers'', if statuses = [] then JNil else JList (map status_json statuses)),
                   (''global_limits'', limits), (''global_usage'', usage), (''global_enforced'', enforced),
                   (''host_limits'', limits), (''host_usage'', usage), (''host_enforced'', enforced)]), w))"

definition handleContainersReadOnly ::
  "'d api_env \<Rightarrow> http_request \<Rightarrow> ('d, 'c, 'z) server_scheme \<Rightarrow> api_reply \<times> ('d, 'c, 'z) server_scheme" where
  "handleContainersReadOnly ae r w =
     (if hr_Method r \<noteq> ''GET'' then (method_not_allowed, w) else handleContainers ae r w)"

subsection \<open>Registering\<close>

text \<open>The optional assignment to a segment, whose failure is only logged.\<close>

definition register_segment ::
  "container \<Rightarrow> string \<Rightarrow> ('d, 'c, 'z) world_scheme \<Rightarrow> container \<times> ('d, 'c, 'z) world_scheme" where
  "register_segment c segID w =
     (if segID = '''' then (c, w)
      else
        case on_store (SetContainerSegment (c_ID c) (Some segID)) w of
          (Some e, w1) \<Rightarrow> (c, w1)
        | (None, w1) \<Rightarrow>
            (c\<lparr>c_SegmentID := segID\<rparr>,
             emit ContainerAssign (c_ID c) (ContainerAssignData segID)
               (on_proxy (SetContainerScope (c_ID c) (SegmentScope segID)) w1)))"

text \<open>The proxy is given the limit and the spending that the store holds.\<close>

definition register_proxy ::
  "err + string \<Rightarrow> string \<Rightarrow> ('d, 'c, 'z) world_scheme \<Rightarrow> string \<times> ('d, 'c, 'z) world_scheme" where
  "register_proxy listen cid w =
     (case w_proxy w of
        None \<Rightarrow> ('''', w)
      | Some p \<Rightarrow>
          (case Proxy_RegisterContainer listen cid (or0 (GetLimit (w_store w) cid LimitSpending))
                  (or0 (GetUsage (w_store w) cid LimitSpending)) p of
             (res, p') \<Rightarrow> (case res of Inl _ \<Rightarrow> '''' | Inr addr \<Rightarrow> addr, w\<lparr>w_proxy := Some p'\<rparr>)))"

definition register_found ::
  "'d api_env \<Rightarrow> string \<Rightarrow> docker_info \<Rightarrow> ('d, 'c, 'z) server_scheme \<Rightarrow> api_reply \<times> ('d, 'c, 'z) server_scheme" where
  "register_found ae segID info w =
     (let name = trim_prefix (di_Name info) ''/'' in
      case on_store (RegisterContainer (di_ID info) name (w_now w)) w of
        (Inl e, w1) \<Rightarrow> (if e = panic_slice then (Panicked, w1) else (writeError 500 e, w1))
      | (Inr c0, w1) \<Rightarrow>
          let (c, w2) = register_segment c0 segID w1;
              w3 = emit ContainerRegister (c_ID c) (ContainerRegisterData (c_DockerID c) name)
                     (StartContainer (c_ID c) (c_DockerID c) w2);
              (proxyAddr, w4) = register_proxy (ae_proxy_listen ae) (c_ID c) w3
          in (writeJSON (JMap
                [(''id'', JText (c_ID c)), (''docker_id'', JText (c_DockerID c)), (''name'', JText (c_Name c)),
                 (''registered_at'', JTime (c_RegisteredAt c)), (''proxy_addr'', JText proxyAddr),
                 (''ollama_available'', JFlag (s_hasOllama w4))]), w4))"

definition handleRegister ::
  "'d api_env \<Rightarrow> http_request \<Rightarrow> ('d, 'c, 'z) server_scheme \<Rightarrow> api_reply \<times> ('d, 'c, 'z) server_scheme" where
  "handleRegister ae r w =
     (if hr_Method r \<noteq> ''POST'' then (method_not_allowed, w)
      else
        case ae_register ae (hr_Body r) of
          Inl e \<Rightarrow> (invalid_request e, w)
        | Inr (containerID, segID) \<Rightarrow>
            if containerID = '''' then (writeError 400 ''container_id required'', w)
            else if segID \<noteq> '''' \<and> (case GetSegment (w_store w) segID of Inl _ \<Rightarrow> True | Inr _ \<Rightarrow> False)
            then (writeError 404 (''segment '' @ go_quote segID @ '' not found''), w)
            else
              case d_inspect (ae_dc ae) (w_docker w) containerID of
                Inl e \<Rightarrow> (writeError 404 (''container not found: '' @ e), w)
              | Inr info \<Rightarrow> register_found ae segID info w)"

subsection \<open>One container\<close>

definition handleContainerInfo ::
  "'d api_env \<Rightarrow> http_request \<Rightarrow> string \<Rightarrow> ('d, 'c, 'z) server_scheme \<Rightarrow> api_reply \<times> ('d, 'c, 'z) server_scheme" where
  "handleContainerInfo ae r cid w =
     (if hr_Method r \<noteq> ''GET'' \<and> hr_Method r \<noteq> ''DELETE'' then (method_not_allowed, w)
      else if hr_Method r = ''DELETE'' then
        (let w1 = StopContainer cid w;
             w2 = (if s_hasOllama w1 then Queue_RemoveContainer cid w1 else w1)
         in case on_store (RemoveContainer cid) w2 of
              (Some e, w3) \<Rightarrow> (writeError 500 e, w3)
            | (None, w3) \<Rightarrow>
                (writeJSON (JMap [(''status'', JText ''removed'')]), emit ContainerRemove cid ContainerRemoveData w3))
      else
        case GetContainer (w_store w) cid of
          Inl e \<Rightarrow> (writeError 404 e, w)
        | Inr c \<Rightarrow>
            let cs = buildStatus (ae_dc ae) c w;
                activity = (case w_proxy w of None \<Rightarrow> JNil | Some p \<Rightarrow> JActivity (GetActivity p cid))
            in (writeJSON (JMap
                  [(''container'', container_json (cs_Container cs)), (''limits'', jmap_nil (cs_Limits cs)),
                   (''usage'', jmap_nil (cs_Usage cs)), (''enforced'', jmap_bool (cs_Enforced cs)),
                   (''state'', JText (cs_State cs)), (''proxy_addr'', JText (cs_ProxyAddr cs)),
                   (''frozen'', JFlag (cs_Frozen cs)), (''activity'', activity)]), w))"

definition handleUsage ::
  "http_request \<Rightarrow> string \<Rightarrow> ('d, 'c, 'z) server_scheme \<Rightarrow> api_reply \<times> ('d, 'c, 'z) server_scheme" where
  "handleUsage r cid w =
     (if hr_Method r \<noteq> ''GET'' then (method_not_allowed, w)
      else case GetAllUsage (w_store w) cid of
             Inl e \<Rightarrow> (writeError 500 e, w)
           | Inr usage \<Rightarrow> (writeJSON (jmap_int usage), w))"

definition handleActivity ::
  "http_request \<Rightarrow> string \<Rightarrow> ('d, 'c, 'z) server_scheme \<Rightarrow> api_reply \<times> ('d, 'c, 'z) server_scheme" where
  "handleActivity r cid w =
     (if hr_Method r \<noteq> ''GET'' then (method_not_allowed, w)
      else (writeJSON (JActivity (case w_proxy w of None \<Rightarrow> [] | Some p \<Rightarrow> GetActivity p cid)), w))"

definition clone_found ::
  "string \<Rightarrow> docker_info \<Rightarrow> ('d, 'c, 'z) server_scheme \<Rightarrow> api_reply \<times> ('d, 'c, 'z) server_scheme" where
  "clone_found cid info w =
     (let name = trim_prefix (di_Name info) ''/'' in
      case on_store (RegisterContainer (di_ID info) name (w_now w)) w of
        (Inl e, w1) \<Rightarrow> (if e = panic_slice then (Panicked, w1) else (writeError 500 e, w1))
      | (Inr c, w1) \<Rightarrow>
          (case on_store (CopyLimits cid (c_ID c)) w1 of
             (Some e, w2) \<Rightarrow> (writeError 500 e, w2)
           | (None, w2) \<Rightarrow>
               (writeJSON (container_json c),
                emit ContainerRegister (c_ID c) (ContainerRegisterData (c_DockerID c) name)
                  (StartContainer (c_ID c) (c_DockerID c) w2))))"

definition handleClone ::
  "'d api_env \<Rightarrow> http_request \<Rightarrow> string \<Rightarrow> ('d, 'c, 'z) server_scheme \<Rightarrow> api_reply \<times> ('d, 'c, 'z) server_scheme" where
  "handleClone ae r cid w =
     (if hr_Method r \<noteq> ''POST'' then (method_not_allowed, w)
      else
        case GetContainer (w_store w) cid of
          Inl e \<Rightarrow> (writeError 404 e, w)
        | Inr c \<Rightarrow>
            (case on_docker (d_clone (ae_dc ae) (c_DockerID c) (ae_clone_name ae (hr_Body r))) w of
               (Inl e, w1) \<Rightarrow> (writeError 500 (''clone failed: '' @ e), w1)
             | (Inr newDockerID, w1) \<Rightarrow>
                 (case d_inspect (ae_dc ae) (w_docker w1) newDockerID of
                    Inl e \<Rightarrow> (writeError 500 e, w1)
                  | Inr info \<Rightarrow> clone_found cid info w1)))"

subsection \<open>A container asking for itself\<close>

definition refreshIPs :: "'d api_env \<Rightarrow> ('d, 'c, 'z) server_scheme \<Rightarrow> ('d, 'c, 'z) server_scheme" where
  "refreshIPs ae w =
     (case ListContainers (w_store w) of
        Inl _ \<Rightarrow> w
      | Inr cs \<Rightarrow>
          w\<lparr>s_ipMap :=
             fold (\<lambda>c m. case d_ip (ae_dc ae) (w_docker w) (c_DockerID c) of
                           Inl _ \<Rightarrow> m | Inr ip \<Rightarrow> m(ip \<mapsto> c_ID c)) cs Map.empty\<rparr>)"

definition resolveContainerByIP :: "('d, 'c, 'z) server_scheme \<Rightarrow> string \<Rightarrow> string" where
  "resolveContainerByIP w ip = mgets (s_ipMap w) ip"

definition caller :: "http_request \<Rightarrow> ('d, 'c, 'z) server_scheme \<Rightarrow> string" where
  "caller r w = resolveContainerByIP w (extractIP (hr_RemoteAddr r))"

definition resolveContainerFromRequest :: "http_request \<Rightarrow> ('d, 'c, 'z) server_scheme \<Rightarrow> string" where
  "resolveContainerFromRequest r w =
     (let try = (\<lambda>i. if i = '''' then None
                      else case ResolveContainerID (w_store w) i of Inl _ \<Rightarrow> None | Inr c \<Rightarrow> Some c)
      in case try (query_get ''id'' r) of
           Some c \<Rightarrow> c
         | None \<Rightarrow> (case try (header_get ''X-Container-Id'' (hr_Header r)) of Some c \<Rightarrow> c | None \<Rightarrow> ''''))"

definition show_usage :: "string \<Rightarrow> ('d, 'c, 'z) server_scheme \<Rightarrow> api_reply" where
  "show_usage cid w =
     (case GetAllUsage (w_store w) cid of
        Inl e \<Rightarrow> writeError 500 e
      | Inr usage \<Rightarrow>
          (case GetAllLimits (w_store w) cid of
             Inl e \<Rightarrow> writeError 500 e
           | Inr limits \<Rightarrow> writeJSON (JMap [(''usage'', jmap_int usage), (''limits'', jmap_int limits)])))"

definition show_limits :: "string \<Rightarrow> ('d, 'c, 'z) server_scheme \<Rightarrow> api_reply" where
  "show_limits cid w =
     (case GetAllLimits (w_store w) cid of
        Inl e \<Rightarrow> writeError 500 e | Inr limits \<Rightarrow> writeJSON (jmap_int limits))"

definition cannot_identify :: api_reply where
  "cannot_identify =
     writeError 400 ''cannot identify container; use ?id=<container_id> or X-Container-ID header''"

definition handleSelfUsage ::
  "http_request \<Rightarrow> ('d, 'c, 'z) server_scheme \<Rightarrow> api_reply \<times> ('d, 'c, 'z) server_scheme" where
  "handleSelfUsage r w =
     (if hr_Method r \<noteq> ''GET'' then (method_not_allowed, w)
      else if resolveContainerFromRequest r w = '''' then (cannot_identify, w)
      else (show_usage (resolveContainerFromRequest r w) w, w))"

definition handleSelfLimits ::
  "http_request \<Rightarrow> ('d, 'c, 'z) server_scheme \<Rightarrow> api_reply \<times> ('d, 'c, 'z) server_scheme" where
  "handleSelfLimits r w =
     (if hr_Method r \<noteq> ''GET'' then (method_not_allowed, w)
      else if resolveContainerFromRequest r w = '''' then (cannot_identify, w)
      else (show_limits (resolveContainerFromRequest r w) w, w))"

definition handleSelfUsageByIP ::
  "http_request \<Rightarrow> ('d, 'c, 'z) server_scheme \<Rightarrow> api_reply \<times> ('d, 'c, 'z) server_scheme" where
  "handleSelfUsageByIP r w =
     (if hr_Method r \<noteq> ''GET'' then (method_not_allowed, w)
      else if caller r w = '''' then (writeError 403 ''unknown container'', w)
      else (show_usage (caller r w) w, w))"

definition handleSelfLimitsByIP ::
  "http_request \<Rightarrow> ('d, 'c, 'z) server_scheme \<Rightarrow> api_reply \<times> ('d, 'c, 'z) server_scheme" where
  "handleSelfLimitsByIP r w =
     (if hr_Method r \<noteq> ''GET'' then (method_not_allowed, w)
      else if caller r w = '''' then (writeError 403 ''unknown container'', w)
      else (show_limits (caller r w) w, w))"

subsection \<open>The Ollama queue\<close>

definition ollama_missing :: api_reply where
  "ollama_missing = writeError 404 ''ollama not configured''"

definition handleOllamaQueue ::
  "http_request \<Rightarrow> ('d, 'c, 'z) server_scheme \<Rightarrow> api_reply \<times> ('d, 'c, 'z) server_scheme" where
  "handleOllamaQueue r w =
     (if hr_Method r \<noteq> ''GET'' then (method_not_allowed, w)
      else if \<not> s_hasOllama w then (ollama_missing, w)
      else (writeJSON (JQueue (QueueStatus (w_queue w))), w))"

definition handleOllamaModels ::
  "http_request \<Rightarrow> ('d, 'c, 'z) server_scheme \<Rightarrow> api_reply \<times> ('d, 'c, 'z) server_scheme" where
  "handleOllamaModels r w =
     (if hr_Method r \<noteq> ''GET'' then (method_not_allowed, w)
      else if \<not> s_hasOllama w then (ollama_missing, w)
      else (writeJSON (JMap [(''models'', jstrs (oc_AllowedModels (q_cfg (w_queue w))))]), w))"

definition bid_json :: "int \<Rightarrow> jval" where
  "bid_json b = JMap [(''bid'', JInt b)]"

definition get_or_set_bid ::
  "'d api_env \<Rightarrow> http_request \<Rightarrow> string \<Rightarrow> ('d, 'c, 'z) server_scheme \<Rightarrow> api_reply \<times> ('d, 'c, 'z) server_scheme" where
  "get_or_set_bid ae r cid w =
     (if hr_Method r = ''GET'' then (writeJSON (bid_json (GetBid (w_queue w) cid)), w)
      else if hr_Method r = ''PUT'' then
        (case ae_bid ae (hr_Body r) of
           Inl e \<Rightarrow> (writeError 400 e, w)
         | Inr b \<Rightarrow> (writeJSON (bid_json b), SetBid cid b w))
      else (method_not_allowed, w))"

definition handleOllamaBidForContainer ::
  "'d api_env \<Rightarrow> http_request \<Rightarrow> string \<Rightarrow> ('d, 'c, 'z) server_scheme \<Rightarrow> api_reply \<times> ('d, 'c, 'z) server_scheme" where
  "handleOllamaBidForContainer ae r cid w =
     (if \<not> s_hasOllama w then (ollama_missing, w) else get_or_set_bid ae r cid w)"

definition handleOllamaCancelForContainer ::
  "http_request \<Rightarrow> string \<Rightarrow> ('d, 'c, 'z) server_scheme \<Rightarrow> api_reply \<times> ('d, 'c, 'z) server_scheme" where
  "handleOllamaCancelForContainer r cid w =
     (if \<not> s_hasOllama w then (ollama_missing, w)
      else if hr_Method r \<noteq> ''DELETE'' then (method_not_allowed, w)
      else (case CancelEntry cid w of
              (ok, w1) \<Rightarrow> (writeJSON (JMap [(''cancelled'', JFlag ok)]), w1)))"

definition handleOllamaBidByIP ::
  "'d api_env \<Rightarrow> http_request \<Rightarrow> ('d, 'c, 'z) server_scheme \<Rightarrow> api_reply \<times> ('d, 'c, 'z) server_scheme" where
  "handleOllamaBidByIP ae r w =
     (if \<not> s_hasOllama w then (ollama_missing, w)
      else if caller r w = '''' then (writeError 403 ''unknown container'', w)
      else get_or_set_bid ae r (caller r w) w)"

subsection \<open>Freezing\<close>

definition handleFreeze ::
  "'d api_env \<Rightarrow> http_request \<Rightarrow> string \<Rightarrow> ('d, 'c, 'z) server_scheme \<Rightarrow> api_reply \<times> ('d, 'c, 'z) server_scheme" where
  "handleFreeze ae r cid w =
     (if hr_Method r \<noteq> ''POST'' then (method_not_allowed, w)
      else
        case Freeze (ae_dc ae) cid w of
          (Some e, w1) \<Rightarrow> (writeError 500 e, w1)
        | (None, w1) \<Rightarrow>
            (writeJSON (JMap [(''status'', JText ''frozen'')]),
             if s_hasOllama w1 then CancelAllPending cid w1 else w1))"

definition handleUnfreeze ::
  "'d api_env \<Rightarrow> http_request \<Rightarrow> string \<Rightarrow> ('d, 'c, 'z) server_scheme \<Rightarrow> api_reply \<times> ('d, 'c, 'z) server_scheme" where
  "handleUnfreeze ae r cid w =
     (if hr_Method r \<noteq> ''POST'' then (method_not_allowed, w)
      else
        case Unfreeze (ae_dc ae) cid w of
          (Inl e, w1) \<Rightarrow> (writeError 500 e, w1)
        | (Inr active, w1) \<Rightarrow>
            (writeJSON (JMap [(''status'', JText ''unfrozen''), (''enforcement_active'', JFlag active)]), w1))"

definition freeze_one ::
  "'d api_env \<Rightarrow> container \<Rightarrow> jval list \<times> ('d, 'c, 'z) server_scheme \<Rightarrow> jval list \<times> ('d, 'c, 'z) server_scheme" where
  "freeze_one ae c rw =
     (case rw of (results, w) \<Rightarrow>
        let entry = [(''id'', JText (c_ID c)), (''name'', JText (c_Name c))] in
        (case Freeze (ae_dc ae) (c_ID c) w of
           (Some e, w1) \<Rightarrow>
             (results @ [JMap (entry @ [(''status'', JText ''error''), (''error'', JText e)])], w1)
         | (None, w1) \<Rightarrow>
             (results @ [JMap (entry @ [(''status'', JText ''frozen'')])],
              if s_hasOllama w1 then CancelAllPending (c_ID c) w1 else w1)))"

definition unfreeze_one ::
  "'d api_env \<Rightarrow> container \<Rightarrow> jval list \<times> ('d, 'c, 'z) server_scheme \<Rightarrow> jval list \<times> ('d, 'c, 'z) server_scheme" where
  "unfreeze_one ae c rw =
     (case rw of (results, w) \<Rightarrow>
        let entry = (\<lambda>status active. [(''id'', JText (c_ID c)), (''name'', JText (c_Name c)),
                       (''status'', JText status), (''enforcement_active'', JFlag active)]) in
        (case Unfreeze (ae_dc ae) (c_ID c) w of
           (Inl e, w1) \<Rightarrow> (results @ [JMap (entry ''error'' False @ [(''error'', JText e)])], w1)
         | (Inr active, w1) \<Rightarrow> (results @ [JMap (entry ''unfrozen'' active)], w1)))"

definition results_json :: "jval list \<Rightarrow> jval" where
  "results_json rs = JMap [(''results'', if rs = [] then JNil else JList rs)]"

definition on_all_containers ::
  "(container \<Rightarrow> jval list \<times> ('d, 'c, 'z) server_scheme \<Rightarrow> jval list \<times> ('d, 'c, 'z) server_scheme) \<Rightarrow>
   http_request \<Rightarrow> ('d, 'c, 'z) server_scheme \<Rightarrow> api_reply \<times> ('d, 'c, 'z) server_scheme" where
  "on_all_containers f r w =
     (if hr_Method r \<noteq> ''POST'' then (method_not_allowed, w)
      else case ListContainers (w_store w) of
             Inl e \<Rightarrow> (writeError 500 e, w)
           | Inr cs \<Rightarrow> (case fold f cs ([], w) of (rs, w1) \<Rightarrow> (writeJSON (results_json rs), w1)))"

definition handleFreezeAll ::
  "'d api_env \<Rightarrow> http_request \<Rightarrow> ('d, 'c, 'z) server_scheme \<Rightarrow> api_reply \<times> ('d, 'c, 'z) server_scheme" where
  "handleFreezeAll ae = on_all_containers (freeze_one ae)"

definition handleUnfreezeAll ::
  "'d api_env \<Rightarrow> http_request \<Rightarrow> ('d, 'c, 'z) server_scheme \<Rightarrow> api_reply \<times> ('d, 'c, 'z) server_scheme" where
  "handleUnfreezeAll ae = on_all_containers (unfreeze_one ae)"

subsection \<open>Container routes and the event stream\<close>

definition container_sub ::
  "'d api_env \<Rightarrow> string \<Rightarrow> http_request \<Rightarrow> string \<Rightarrow> ('d, 'c, 'z) server_scheme \<Rightarrow> api_reply \<times> ('d, 'c, 'z) server_scheme" where
  "container_sub ae sub r cid w =
     (if sub = ''limits'' then handleLimits ae r cid w
      else if sub = ''usage'' then handleUsage r cid w
      else if sub = ''clone'' then handleClone ae r cid w
      else if sub = ''ollama/bid'' then handleOllamaBidForContainer ae r cid w
      else if sub = ''ollama/queue'' then handleOllamaCancelForContainer r cid w
      else if sub = ''activity'' then handleActivity r cid w
      else if sub = ''freeze'' then handleFreeze ae r cid w
      else if sub = ''unfreeze'' then handleUnfreeze ae r cid w
      else (not_found, w))"

definition handleContainer ::
  "'d api_env \<Rightarrow> http_request \<Rightarrow> ('d, 'c, 'z) server_scheme \<Rightarrow> api_reply \<times> ('d, 'c, 'z) server_scheme" where
  "handleContainer ae r w =
     (let parts = split_n 2 (CHR ''/'') (trim_prefix (hr_Path r) ''/containers/'') in
      case ResolveContainerID (w_store w) (parts ! 0) of
        Inl e \<Rightarrow> (writeError 404 e, w)
      | Inr cid \<Rightarrow>
          if length parts = 1 then handleContainerInfo ae r cid w
          else container_sub ae (parts ! 1) r cid w)"

definition events_filter :: "http_request \<Rightarrow> event_filter" where
  "events_filter r =
     \<lparr>f_ContainerIDs = (if query_get ''container_id'' r = '''' then [] else split_on (CHR '','') (query_get ''container_id'' r)),
      f_Types = (if query_get ''types'' r = '''' then [] else split_on (CHR '','') (query_get ''types'' r))\<rparr>"

definition handleEvents ::
  "'d api_env \<Rightarrow> http_request \<Rightarrow> ('d, 'c, 'z) server_scheme \<Rightarrow> api_reply \<times> ('d, 'c, 'z) server_scheme" where
  "handleEvents ae r w =
     (case w_bus w of
        None \<Rightarrow> (Plain 503 ''events not available'', w)
      | Some b \<Rightarrow>
          (case ae_upgrade ae r of
             Some reply \<Rightarrow> (reply, w)
           | None \<Rightarrow> (case Subscribe (events_filter r) b of (h, b') \<Rightarrow> (Stream h, w\<lparr>w_bus := Some b'\<rparr>))))"

text \<open>
  A turn of the stream's write loop: what it writes, and whether it goes on. An event that is
  received is sent, and ends the stream when the write fails; a drained closed channel and the
  server's shutdown are announced; the client's going away is not. An empty open channel blocks.
\<close>

datatype stream_turn = Sent event | GoingAway | Ended | Blocked

definition end_stream :: "nat \<Rightarrow> ('d, 'c, 'z) world_scheme \<Rightarrow> ('d, 'c, 'z) world_scheme" where
  "end_stream h w = w\<lparr>w_bus := map_option (Unsubscribe h) (w_bus w)\<rparr>"

definition stream_receive ::
  "nat \<Rightarrow> bool \<Rightarrow> ('d, 'c, 'z) world_scheme \<Rightarrow> stream_turn \<times> ('d, 'c, 'z) world_scheme" where
  "stream_receive h write_ok w =
     (case w_bus w of
        None \<Rightarrow> (Blocked, w)
      | Some b \<Rightarrow>
          (case Receive h b of
             (Some e, b') \<Rightarrow>
               if write_ok then (Sent e, w\<lparr>w_bus := Some b'\<rparr>)
               else (Ended, end_stream h (w\<lparr>w_bus := Some b'\<rparr>))
           | (None, b') \<Rightarrow>
               (case b_chans b h of
                  Some s \<Rightarrow> if sub_closed s then (GoingAway, end_stream h w) else (Blocked, w)
                | None \<Rightarrow> (Blocked, w))))"

definition stream_stop ::
  "nat \<Rightarrow> ('d, 'c, 'z) server_scheme \<Rightarrow> stream_turn \<times> ('d, 'c, 'z) server_scheme" where
  "stream_stop h w = (if s_done w then (GoingAway, end_stream h w) else (Ended, end_stream h w))"

end
