(* ===== verification/ApiConfig.thy ===== *)
theory ApiConfig
  imports Api
begin

text \<open>
  The settings of the server in \<^verbatim>\<open>internal/api/api.go\<close>: providers, runtime configuration and
  the file it is kept in, the error webhooks, and the creation of the server. A decoded object
  is iterated in the order of its list, which stands for the order Go happens to take.
\<close>

subsection \<open>Providers\<close>

definition handleProviders ::
  "'d api_env \<Rightarrow> http_request \<Rightarrow> ('d, 'c, 'z) server_scheme \<Rightarrow> api_reply \<times> ('d, 'c, 'z) server_scheme" where
  "handleProviders ae r w =
     (if hr_Method r = ''GET'' then
        (writeJSON (JMap ((''ollama_available'', JFlag (s_hasOllama w)) #
           (case w_proxy w of None \<Rightarrow> [] | Some p \<Rightarrow> [(''enabled'', jmap_bool (p_enabledHosts p))]))), w)
      else if hr_Method r = ''PUT'' then
        (case w_proxy w of
           None \<Rightarrow> (writeError 501 ''provider management not available'', w)
         | Some p \<Rightarrow>
             (case ae_toggles ae (hr_Body r) of
                Inl e \<Rightarrow> (writeError 400 e, w)
              | Inr req \<Rightarrow>
                  let p' = fold (\<lambda>(host, enabled). EnableHost host enabled) req p
                  in (writeJSON (JMap [(''enabled'', jmap_bool (p_enabledHosts p'))]), w\<lparr>w_proxy := Some p'\<rparr>)))
      else (method_not_allowed, w))"

subsection \<open>Runtime configuration\<close>

definition buildConfigResponse :: "('d, 'c, 'z) server_scheme \<Rightarrow> (string \<times> jval) list" where
  "buildConfigResponse w =
     (case w_proxy w of
        None \<Rightarrow> []
      | Some p \<Rightarrow>
          [(''anthropic_enabled'', JFlag (host_enabled p ''api.anthropic.com'')),
           (''openai_enabled'', JFlag (host_enabled p ''api.openai.com'')),
           (''ollama_enabled'', JFlag (host_enabled p ''ollama'')),
           (''anthropic_key_set'', JFlag (HasAPIKey p ''api.anthropic.com'')),
           (''openai_key_set'', JFlag (HasAPIKey p ''api.openai.com''))]) @
     (if s_hasOllama w then
        let cfg = GetConfig (w_queue w) in
        [(''ollama_url'', JText (oc_OllamaURL cfg)), (''ollama_models'', jstrs (oc_AllowedModels cfg)),
         (''ollama_queue_size'', JInt (oc_MaxQueueSize cfg)),
         (''ollama_timeout'', JText (duration_string (oc_RequestTimeout cfg))),
         (''ollama_default_bid'', JInt (oc_DefaultBid cfg))]
      else []) @
     [(''error_webhooks'', jstrs (s_errorWebhooks w)),
      (''keep_limits_consistent'', JFlag (s_keepLimitsConsistent w))]"

definition validateCurrentLimitsConsistent :: "store \<Rightarrow> err option" where
  "validateCurrentLimitsConsistent s =
     (case GetAllScopeLimits s ScopeHost of
        Inl e \<Rightarrow> Some (''failed to read global limits: '' @ e)
      | Inr globalLimits \<Rightarrow>
          (case find (\<lambda>(lt, g). g \<noteq> 0 \<and> committed s lt '''' > g) globalLimits of
             None \<Rightarrow> None
           | Some (lt, g) \<Rightarrow>
               Some (''sum of per-container '' @ lt @ '' limits + accumulated usage from removed containers ('' @
                     show_int (committed s lt '''') @ '') exceeds global limit ('' @ show_int g @ '')'')))"

definition all_container_ids :: "store \<Rightarrow> string list option" where
  "all_container_ids s = (case ListContainers s of Inl _ \<Rightarrow> None | Inr cs \<Rightarrow> Some (map c_ID cs))"

definition initOllama :: "string \<Rightarrow> ('d, 'c, 'z) server_scheme \<Rightarrow> ('d, 'c, 'z) server_scheme" where
  "initOllama url w =
     (let q = SetActivityRecorder (NewQueue \<lparr>oc_OllamaURL = url, oc_AllowedModels = [], oc_MaxQueueSize = 50,
                oc_RequestTimeout = 120000000000, oc_DefaultBid = 0\<rparr>);
          w1 = on_proxy (EnableHost ''ollama'' True \<circ> SetOllamaHandler (OllamaHost q))
                 (w\<lparr>s_hasOllama := True, w_queue := q\<rparr>)
      in case all_container_ids (w_store w1) of None \<Rightarrow> w1 | Some cids \<Rightarrow> RestoreBids cids w1)"

text \<open>\<^verbatim>\<open>v.(string)\<close> on every element of an array.\<close>

fun json_strings :: "json list \<Rightarrow> string list option" where
  "json_strings [] = Some []"
| "json_strings (v # vs) =
     (case v of JStr s \<Rightarrow> map_option (Cons s) (json_strings vs) | _ \<Rightarrow> None)"

definition set_enabled :: "string \<Rightarrow> string \<Rightarrow> json \<Rightarrow> ('d, 'c, 'z) server_scheme \<Rightarrow> err option \<times> ('d, 'c, 'z) server_scheme" where
  "set_enabled key host val w =
     (case val of
        JBool b \<Rightarrow> (None, on_proxy (EnableHost host b) w)
      | _ \<Rightarrow> (Some (key @ '': expected bool''), w))"

definition set_key :: "string \<Rightarrow> string \<Rightarrow> json \<Rightarrow> ('d, 'c, 'z) server_scheme \<Rightarrow> err option \<times> ('d, 'c, 'z) server_scheme" where
  "set_key key host val w =
     (case val of
        JStr k \<Rightarrow> (None, on_proxy (SetAPIKey host k) w)
      | _ \<Rightarrow> (Some (key @ '': expected string''), w))"

text \<open>The settings of the queue need one.\<close>

definition set_queue ::
  "'d api_env \<Rightarrow> string \<Rightarrow> json \<Rightarrow> ('d, 'c, 'z) server_scheme \<Rightarrow> err option \<times> ('d, 'c, 'z) server_scheme" where
  "set_queue ae key val w =
     (if \<not> s_hasOllama w then (Some ''ollama not configured'', w)
      else if key = ''ollama_models'' then
        (case (case val of JArr vs \<Rightarrow> json_strings vs | _ \<Rightarrow> None) of
           None \<Rightarrow> (Some ''ollama_models: expected array of strings'', w)
         | Some ms \<Rightarrow> (None, on_queue (SetAllowedModels ms) w))
      else if key = ''ollama_queue_size'' then
        (case val of
           JNum n \<Rightarrow> (None, on_queue (SetMaxQueueSize (fl_to_int64 n)) w)
         | _ \<Rightarrow> (Some ''ollama_queue_size: expected number'', w))
      else if key = ''ollama_timeout'' then
        (case val of
           JStr s \<Rightarrow>
             (case ParseDuration s of
                None \<Rightarrow> (Some (''ollama_timeout: '' @ ae_dur_err ae s), w)
              | Some d \<Rightarrow> (None, on_queue (SetRequestTimeout d) w))
         | _ \<Rightarrow> (Some ''ollama_timeout: expected duration string'', w))
      else
        (case val of
           JNum n \<Rightarrow> (None, on_queue (SetDefaultBid (fl_to_int64 n)) w)
         | _ \<Rightarrow> (Some ''ollama_default_bid: expected number'', w)))"

definition set_consistent :: "json \<Rightarrow> ('d, 'c, 'z) server_scheme \<Rightarrow> err option \<times> ('d, 'c, 'z) server_scheme" where
  "set_consistent val w =
     (case val of
        JBool b \<Rightarrow>
          (case (if b then validateCurrentLimitsConsistent (w_store w) else None) of
             Some e \<Rightarrow> (Some (''cannot enable keep_limits_consistent: '' @ e), w)
           | None \<Rightarrow> (None, w\<lparr>s_keepLimitsConsistent := b\<rparr>))
      | _ \<Rightarrow> (Some ''keep_limits_consistent: expected bool'', w))"

definition apply_key ::
  "'d api_env \<Rightarrow> string \<times> json \<Rightarrow> ('d, 'c, 'z) server_scheme \<Rightarrow> err option \<times> ('d, 'c, 'z) server_scheme" where
  "apply_key ae kv w =
     (case kv of (key, val) \<Rightarrow>
        if key = ''anthropic_enabled'' then set_enabled key ''api.anthropic.com'' val w
        else if key = ''openai_enabled'' then set_enabled key ''api.openai.com'' val w
        else if key = ''ollama_enabled'' then set_enabled key ''ollama'' val w
        else if key = ''anthropic_key'' then set_key key ''api.anthropic.com'' val w
        else if key = ''openai_key'' then set_key key ''api.openai.com'' val w
        else if key = ''ollama_models'' \<or> key = ''ollama_queue_size'' \<or> key = ''ollama_timeout'' \<or>
                key = ''ollama_default_bid'' then set_queue ae key val w
        else if key = ''ollama_url'' then (None, w)
        else if key = ''error_webhooks'' then
          (case (case val of JArr vs \<Rightarrow> json_strings vs | _ \<Rightarrow> None) of
             None \<Rightarrow> (Some ''error_webhooks: expected array of strings'', w)
           | Some urls \<Rightarrow> (None, w\<lparr>s_errorWebhooks := urls\<rparr>))
        else if key = ''keep_limits_consistent'' then set_consistent val w
        else (Some (''unknown config key: '' @ key), w))"

fun apply_keys ::
  "'d api_env \<Rightarrow> (string \<times> json) list \<Rightarrow> ('d, 'c, 'z) server_scheme \<Rightarrow> err option \<times> ('d, 'c, 'z) server_scheme" where
  "apply_keys ae [] w = (None, w)"
| "apply_keys ae (kv # kvs) w =
     (case apply_key ae kv w of (Some e, w1) \<Rightarrow> (Some e, w1) | (None, w1) \<Rightarrow> apply_keys ae kvs w1)"

text \<open>
  \<^verbatim>\<open>applyConfig\<close> takes \<^verbatim>\<open>ollama_url\<close> first and deletes it from the object, which is the
  caller's: what is left of the object is part of the result.
\<close>

definition applyConfig ::
  "'d api_env \<Rightarrow> (string \<times> json) list \<Rightarrow> ('d, 'c, 'z) server_scheme \<Rightarrow>
   (err option \<times> (string \<times> json) list) \<times> ('d, 'c, 'z) server_scheme" where
  "applyConfig ae req w =
     (case map_of req ''ollama_url'' of
        None \<Rightarrow> (case apply_keys ae req w of (e, w1) \<Rightarrow> ((e, req), w1))
      | Some (JStr url) \<Rightarrow>
          let w1 = (if s_hasOllama w then SetOllamaURL url w else initOllama url w);
              req' = AList.delete ''ollama_url'' req
          in (case apply_keys ae req' w1 of (e, w2) \<Rightarrow> ((e, req'), w2))
      | Some _ \<Rightarrow> ((Some ''ollama_url: expected string'', req), w))"

subsection \<open>The configuration file\<close>

definition persistConfig ::
  "'d api_env \<Rightarrow> (string \<times> json) list \<Rightarrow> ('d, 'c, 'z) server_scheme \<Rightarrow> ('d, 'c, 'z) server_scheme" where
  "persistConfig ae updates w =
     (if s_configPath w = '''' then w
      else
        let existing = (case s_configFile w of
                          None \<Rightarrow> []
                        | Some data \<Rightarrow> (case ae_file ae data of Inl _ \<Rightarrow> [] | Inr m \<Rightarrow> m))
        in case ae_indent ae (fold (\<lambda>(k, v). tbl_put k v) updates existing) of
             Inl _ \<Rightarrow> w
           | Inr data \<Rightarrow> if s_fsErr w \<noteq> None then w else w\<lparr>s_configFile := Some data\<rparr>)"

definition LoadPersistedConfig :: "'d api_env \<Rightarrow> ('d, 'c, 'z) server_scheme \<Rightarrow> ('d, 'c, 'z) server_scheme" where
  "LoadPersistedConfig ae w =
     (if s_configPath w = '''' then w
      else case s_configFile w of
             None \<Rightarrow> w
           | Some data \<Rightarrow>
               (case ae_file ae data of
                  Inl _ \<Rightarrow> w
                | Inr cfg \<Rightarrow> if w_proxy w = None then w else snd (applyConfig ae cfg w)))"

definition handleConfig ::
  "'d api_env \<Rightarrow> http_request \<Rightarrow> ('d, 'c, 'z) server_scheme \<Rightarrow> api_reply \<times> ('d, 'c, 'z) server_scheme" where
  "handleConfig ae r w =
     (if hr_Method r = ''GET'' then (writeJSON (JMap (buildConfigResponse w)), w)
      else if hr_Method r = ''PUT'' then
        (if w_proxy w = None then (writeError 501 ''config management not available'', w)
         else
           case ae_object ae (hr_Body r) of
             Inl e \<Rightarrow> (writeError 400 e, w)
           | Inr req \<Rightarrow>
               (case applyConfig ae req w of
                  ((Some e, _), w1) \<Rightarrow> (writeError 400 e, w1)
                | ((None, req'), w1) \<Rightarrow>
                    let w2 = persistConfig ae req' w1
                    in (writeJSON (JMap (buildConfigResponse w2)), w2)))
      else (method_not_allowed, w))"

subsection \<open>Upstream errors\<close>

text \<open>The calls the webhooks get: the URL and the payload.\<close>

definition callErrorWebhooks :: "upstream_error \<Rightarrow> string \<Rightarrow> ('d, 'c, 'z) server_scheme \<Rightarrow> (string \<times> jval) list" where
  "callErrorWebhooks info name w =
     map (\<lambda>url. (url, JMap
       [(''type'', JText ''proxy_upstream_error''), (''timestamp'', JTime (w_now w)),
        (''container_id'', JText (ue_ContainerID info)), (''container_name'', JText name),
        (''host'', JText (ue_Host info)), (''status_code'', JInt (ue_StatusCode info)),
        (''error_type'', JText (ue_ErrorType info)), (''error_message'', JText (ue_ErrorMessage info)),
        (''request_id'', JText (ue_RequestID info))])) (s_errorWebhooks w)"

definition on_upstream_error ::
  "upstream_error \<Rightarrow> ('d, 'c, 'z) server_scheme \<Rightarrow> (string \<times> jval) list \<times> ('d, 'c, 'z) server_scheme" where
  "on_upstream_error info w =
     (let name = (case GetContainer (w_store w) (ue_ContainerID info) of
                    Inl _ \<Rightarrow> ue_ContainerID info | Inr c \<Rightarrow> c_Name c)
      in (callErrorWebhooks info name w,
          emit ProxyUpstreamError (ue_ContainerID info)
            (ProxyUpstreamErrorData (ue_Host info) (ue_StatusCode info) (ue_ErrorType info)
               (ue_ErrorMessage info) (ue_RequestID info)) w))"

subsection \<open>The server\<close>

text \<open>The parts are there already; the server adds its own fields and hooks its error callback in.\<close>

definition NewServer ::
  "'d api_env \<Rightarrow> bool \<Rightarrow> string \<Rightarrow> string option \<Rightarrow> ('d, 'c) oworld \<Rightarrow> ('d, 'c) server" where
  "NewServer ae hasOllama configPath file w =
     on_proxy SetErrorCallback
       (refreshIPs ae
          (oworld.extend w
             (server.fields hasOllama configPath file None Map.empty False [] False [])))"

definition Server_Stop :: "('d, 'c, 'z) server_scheme \<Rightarrow> ('d, 'c, 'z) server_scheme" where
  "Server_Stop w = w\<lparr>s_done := True\<rparr>"

end
