(* ===== verification/ApiServer.thy ===== *)
theory ApiServer
  imports ApiConfig
begin

text \<open>
  Segments, scoped listeners and the routes of \<^verbatim>\<open>internal/api/api.go\<close>: which handler answers which
  path on the management socket (\<open>Handler\<close>), on the port containers reach (\<open>ReadOnlyHandler\<close>) and
  on a listener of one scope (\<open>ScopedHandler\<close>).
\<close>

subsection \<open>Segments\<close>

definition segment_json :: "segment \<Rightarrow> jval" where
  "segment_json g =
     JMap [(''id'', JText (seg_ID g)), (''name'', JText (seg_Name g)), (''created_at'', JTime (seg_CreatedAt g))]"

definition handleSegments ::
  "'d api_env \<Rightarrow> http_request \<Rightarrow> ('d, 'c, 'z) server_scheme \<Rightarrow> api_reply \<times> ('d, 'c, 'z) server_scheme" where
  "handleSegments ae r w =
     (if hr_Method r = ''GET'' then
        (case ListSegments (w_store w) of
           Inl e \<Rightarrow> (writeError 500 e, w)
         | Inr segs \<Rightarrow> (writeJSON (JMap [(''segments'', JList (map segment_json segs))]), w))
      else if hr_Method r = ''POST'' then
        (case ae_segment ae (hr_Body r) of
           Inl e \<Rightarrow> (invalid_request e, w)
         | Inr (segID, name) \<Rightarrow>
             if segID = '''' then (writeError 400 ''id is required'', w)
             else
               (case on_store (CreateSegment segID (if name = '''' then segID else name) (w_now w)) w of
                  (Inl e, w1) \<Rightarrow> (writeError 409 e, w1)
                | (Inr seg, w1) \<Rightarrow>
                    (Json 201 (segment_json seg),
                     emit SegmentCreate '''' (SegmentEventData (seg_ID seg) (seg_Name seg)) w1)))
      else (method_not_allowed, w))"

text \<open>The usage of a scope: its containers' and what removed ones left.\<close>

definition aggregate_usage :: "store \<Rightarrow> scope \<Rightarrow> container list \<Rightarrow> (limit_type \<times> int) list" where
  "aggregate_usage s sc cs =
     add_accum s sc
       (fold (\<lambda>c sums. case GetAllUsage s (c_ID c) of Inl _ \<Rightarrow> sums | Inr u \<Rightarrow> add_to u sums) cs [])"

definition handleSegmentDetail ::
  "http_request \<Rightarrow> string \<Rightarrow> ('d, 'c, 'z) server_scheme \<Rightarrow> api_reply \<times> ('d, 'c, 'z) server_scheme" where
  "handleSegmentDetail r segID w =
     (if hr_Method r = ''GET'' then
        (case GetSegment (w_store w) segID of
           Inl e \<Rightarrow> (writeError 404 e, w)
         | Inr seg \<Rightarrow>
             let sc = SegmentScope segID;
                 cs = (case ListContainersByScope (w_store w) sc of Inl _ \<Rightarrow> [] | Inr cs \<Rightarrow> cs)
             in (writeJSON (JMap
                   [(''segment'', segment_json seg), (''limits'', jmap_of (GetAllScopeLimits (w_store w) sc)),
                    (''usage'', jmap_int (aggregate_usage (w_store w) sc cs)),
                    (''enforced'', jmap_bool (GetScopeEnforced w sc)), (''containers'', JInt (int (length cs)))]), w))
      else if hr_Method r = ''DELETE'' then
        (case on_store (DeleteSegment segID) w of
           (Some e, w1) \<Rightarrow> (writeError 409 e, w1)
         | (None, w1) \<Rightarrow>
             (writeJSON (JMap [(''deleted'', JText segID)]),
              emit SegmentDelete '''' (SegmentEventData segID '''') w1))
      else (method_not_allowed, w))"

definition handleSegmentLimits ::
  "'d api_env \<Rightarrow> http_request \<Rightarrow> string \<Rightarrow> ('d, 'c, 'z) server_scheme \<Rightarrow> api_reply \<times> ('d, 'c, 'z) server_scheme" where
  "handleSegmentLimits ae r segID w =
     (let sc = SegmentScope segID in
      if hr_Method r = ''GET'' then
        (case GetAllScopeLimits (w_store w) sc of
           Inl e \<Rightarrow> (writeError 500 e, w)
         | Inr limits \<Rightarrow> (writeJSON (jmap_int limits), w))
      else if hr_Method r = ''PUT'' then
        (case GetSegment (w_store w) segID of
           Inl e \<Rightarrow> (writeError 404 e, w)
         | Inr _ \<Rightarrow>
             (case ae_limit ae (hr_Body r) of
                Inl e \<Rightarrow> (invalid_request e, w)
              | Inr req \<Rightarrow>
                  let oldValue = or0 (GetScopeLimit (w_store w) sc (lr_Type req))
                  in case limit_op (op_of req) oldValue (lr_Value req) of
                       Inl e \<Rightarrow> (writeError 400 e, w)
                     | Inr newValue \<Rightarrow>
                         (case on_store (SetScopeLimit sc (lr_Type req) newValue) w of
                            (Some e, w1) \<Rightarrow> (writeError 500 e, w1)
                          | (None, w1) \<Rightarrow>
                              (writeJSON (JMap (limit_fields req newValue oldValue ''full'' @
                                 [(''scope'', JText (''segment:'' @ segID))])),
                               limit_change_event req '''' oldValue newValue w1))))
      else (method_not_allowed, w))"

definition handleSegmentUsage ::
  "http_request \<Rightarrow> string \<Rightarrow> ('d, 'c, 'z) server_scheme \<Rightarrow> api_reply \<times> ('d, 'c, 'z) server_scheme" where
  "handleSegmentUsage r segID w =
     (if hr_Method r \<noteq> ''GET'' then (method_not_allowed, w)
      else
        let sc = SegmentScope segID in
        case ListContainersByScope (w_store w) sc of
          Inl e \<Rightarrow> (writeError 500 e, w)
        | Inr cs \<Rightarrow>
            (writeJSON (JMap
               [(''usage'', jmap_int (aggregate_usage (w_store w) sc cs)),
                (''limits'', jmap_of (GetAllScopeLimits (w_store w) sc)),
                (''enforced'', jmap_bool (GetScopeEnforced w sc))]), w))"

definition brief_status :: "'d docker_client \<Rightarrow> container \<Rightarrow> ('d, 'c, 'z) server_scheme \<Rightarrow> jval" where
  "brief_status dc c w =
     JMap [(''container'', container_json c), (''limits'', jmap_of (GetAllLimits (w_store w) (c_ID c))),
           (''usage'', jmap_of (GetAllUsage (w_store w) (c_ID c))), (''enforced'', jmap_bool (GetEnforced w (c_ID c))),
           (''state'', JText (getContainerState dc (w_docker w) (c_DockerID c))),
           (''frozen'', JFlag (IsFrozen w (c_ID c)))]"

definition brief_list :: "'d docker_client \<Rightarrow> container list \<Rightarrow> ('d, 'c, 'z) server_scheme \<Rightarrow> jval" where
  "brief_list dc cs w = (if cs = [] then JNil else JList (map (\<lambda>c. brief_status dc c w) cs))"

definition handleSegmentContainers ::
  "'d api_env \<Rightarrow> http_request \<Rightarrow> string \<Rightarrow> ('d, 'c, 'z) server_scheme \<Rightarrow> api_reply \<times> ('d, 'c, 'z) server_scheme" where
  "handleSegmentContainers ae r segID w =
     (if hr_Method r \<noteq> ''GET'' then (method_not_allowed, w)
      else
        let sc = SegmentScope segID in
        case ListContainersByScope (w_store w) sc of
          Inl e \<Rightarrow> (writeError 500 e, w)
        | Inr cs \<Rightarrow>
            let limits = jmap_of (GetAllScopeLimits (w_store w) sc);
                usage = jmap_int (aggregate_usage (w_store w) sc cs);
                enforced = jmap_bool (GetScopeEnforced w sc)
            in (writeJSON (JMap
                  [(''containers'', brief_list (ae_dc ae) cs w),
                   (''host_limits'', limits), (''host_usage'', usage), (''host_enforced'', enforced),
                   (''global_limits'', limits), (''global_usage'', usage), (''global_enforced'', enforced),
                   (''scope'', JText sc)]), w))"

definition handleSegmentAssign ::
  "http_request \<Rightarrow> string \<Rightarrow> string \<Rightarrow> ('d, 'c, 'z) server_scheme \<Rightarrow> api_reply \<times> ('d, 'c, 'z) server_scheme" where
  "handleSegmentAssign r segID cid w =
     (if hr_Method r \<noteq> ''POST'' then (method_not_allowed, w)
      else
        case GetSegment (w_store w) segID of
          Inl _ \<Rightarrow> (writeError 404 (''segment '' @ go_quote segID @ '' not found''), w)
        | Inr _ \<Rightarrow>
            (case GetContainer (w_store w) cid of
               Inl e \<Rightarrow> (writeError 404 e, w)
             | Inr c \<Rightarrow>
                 if c_SegmentID c \<noteq> '''' \<and> c_SegmentID c \<noteq> segID
                 then (writeError 409 (''container '' @ cid @ '' already in segment '' @ go_quote (c_SegmentID c) @
                         ''; unassign first''), w)
                 else
                   (case on_store (SetContainerSegment cid (Some segID)) w of
                      (Some e, w1) \<Rightarrow> (writeError 500 e, w1)
                    | (None, w1) \<Rightarrow>
                        (writeJSON (JMap [(''assigned'', JText segID), (''container'', JText cid)]),
                         emit ContainerAssign cid (ContainerAssignData segID)
                           (on_proxy (SetContainerScope cid (SegmentScope segID)) w1)))))"

definition handleSegmentUnassign ::
  "http_request \<Rightarrow> string \<Rightarrow> string \<Rightarrow> ('d, 'c, 'z) server_scheme \<Rightarrow> api_reply \<times> ('d, 'c, 'z) server_scheme" where
  "handleSegmentUnassign r segID cid w =
     (if hr_Method r \<noteq> ''POST'' then (method_not_allowed, w)
      else
        case GetContainer (w_store w) cid of
          Inl e \<Rightarrow> (writeError 404 e, w)
        | Inr c \<Rightarrow>
            if c_SegmentID c \<noteq> segID
            then (writeError 409 (''container '' @ cid @ '' is not in segment '' @ go_quote segID), w)
            else
              (case on_store (SetContainerSegment cid None) w of
                 (Some e, w1) \<Rightarrow> (writeError 500 e, w1)
               | (None, w1) \<Rightarrow>
                   (writeJSON (JMap [(''unassigned'', JText segID), (''container'', JText cid)]),
                    emit ContainerUnassign cid (ContainerAssignData segID)
                      (on_proxy (SetContainerScope cid ScopeHost) w1))))"

text \<open>Freezing or unfreezing a segment: the IDs that it worked for.\<close>

definition freeze_quietly ::
  "'d api_env \<Rightarrow> container \<Rightarrow> string list \<times> ('d, 'c, 'z) server_scheme \<Rightarrow> string list \<times> ('d, 'c, 'z) server_scheme" where
  "freeze_quietly ae c dw =
     (case Freeze (ae_dc ae) (c_ID c) (snd dw) of
        (Some _, w1) \<Rightarrow> (fst dw, w1) | (None, w1) \<Rightarrow> (fst dw @ [c_ID c], w1))"

definition unfreeze_quietly ::
  "'d api_env \<Rightarrow> container \<Rightarrow> string list \<times> ('d, 'c, 'z) server_scheme \<Rightarrow> string list \<times> ('d, 'c, 'z) server_scheme" where
  "unfreeze_quietly ae c dw =
     (case Unfreeze (ae_dc ae) (c_ID c) (snd dw) of
        (Inl _, w1) \<Rightarrow> (fst dw, w1) | (Inr _, w1) \<Rightarrow> (fst dw @ [c_ID c], w1))"

definition done_json :: "string \<Rightarrow> string list \<Rightarrow> jval" where
  "done_json key cids =
     JMap [(key, if cids = [] then JNil else jstrs cids), (''count'', JInt (int (length cids)))]"

definition handleSegmentFreezeAll ::
  "'d api_env \<Rightarrow> http_request \<Rightarrow> string \<Rightarrow> ('d, 'c, 'z) server_scheme \<Rightarrow> api_reply \<times> ('d, 'c, 'z) server_scheme" where
  "handleSegmentFreezeAll ae r segID w =
     (if hr_Method r \<noteq> ''POST'' then (method_not_allowed, w)
      else case ListContainersByScope (w_store w) (SegmentScope segID) of
             Inl e \<Rightarrow> (writeError 500 e, w)
           | Inr cs \<Rightarrow>
               (case fold (freeze_quietly ae) cs ([], w) of
                  (frozen, w1) \<Rightarrow> (writeJSON (done_json ''frozen'' frozen), w1)))"

definition handleSegmentUnfreezeAll ::
  "'d api_env \<Rightarrow> http_request \<Rightarrow> string \<Rightarrow> ('d, 'c, 'z) server_scheme \<Rightarrow> api_reply \<times> ('d, 'c, 'z) server_scheme" where
  "handleSegmentUnfreezeAll ae r segID w =
     (if hr_Method r \<noteq> ''POST'' then (method_not_allowed, w)
      else case ListContainersByScope (w_store w) (SegmentScope segID) of
             Inl e \<Rightarrow> (writeError 500 e, w)
           | Inr cs \<Rightarrow>
               (case fold (unfreeze_quietly ae) cs ([], w) of
                  (unfrozen, w1) \<Rightarrow> (writeJSON (done_json ''unfrozen'' unfrozen), w1)))"

fun set_segment_keys ::
  "'d api_env \<Rightarrow> string \<Rightarrow> (string \<times> json) list \<Rightarrow> ('d, 'c, 'z) world_scheme \<Rightarrow> err option \<times> ('d, 'c, 'z) world_scheme" where
  "set_segment_keys ae segID [] w = (None, w)"
| "set_segment_keys ae segID ((key, val) # kvs) w =
     (case on_store (SetSegmentConfig segID key (ae_text ae val)) w of
        (Some e, w1) \<Rightarrow> (Some e, w1)
      | (None, w1) \<Rightarrow> set_segment_keys ae segID kvs w1)"

definition handleSegmentConfig ::
  "'d api_env \<Rightarrow> http_request \<Rightarrow> string \<Rightarrow> ('d, 'c, 'z) server_scheme \<Rightarrow> api_reply \<times> ('d, 'c, 'z) server_scheme" where
  "handleSegmentConfig ae r segID w =
     (case GetSegment (w_store w) segID of
        Inl e \<Rightarrow> (writeError 404 e, w)
      | Inr _ \<Rightarrow>
          if hr_Method r = ''GET'' then
            (case GetAllSegmentConfig (w_store w) segID of
               Inl e \<Rightarrow> (writeError 500 e, w)
             | Inr segCfg \<Rightarrow>
                 let over = map (\<lambda>(k, v). (k, JText v)) segCfg
                 in (writeJSON (JMap (tbl_put ''_segment_overrides'' (JMap over)
                       (fold (\<lambda>(k, v). tbl_put k v) over (buildConfigResponse w)))), w))
          else if hr_Method r = ''PUT'' then
            (case ae_object ae (hr_Body r) of
               Inl e \<Rightarrow> (writeError 400 (''invalid JSON: '' @ e), w)
             | Inr req \<Rightarrow>
                 (case set_segment_keys ae segID req w of
                    (Some e, w1) \<Rightarrow> (writeError 500 e, w1)
                  | (None, w1) \<Rightarrow>
                      (writeJSON (JMap [(''updated'', JInt (int (length req))), (''segment'', JText segID)]), w1)))
          else (method_not_allowed, w))"

text \<open>The routes below a segment.\<close>

definition segment_container ::
  "'d api_env \<Rightarrow> http_request \<Rightarrow> string \<Rightarrow> string \<Rightarrow> ('d, 'c, 'z) server_scheme \<Rightarrow> api_reply \<times> ('d, 'c, 'z) server_scheme" where
  "segment_container ae r segID sub2 w =
     (let cParts = split_n 2 (CHR ''/'') sub2;
          action = (if length cParts > 1 then cParts ! 1 else '''')
      in case ResolveContainerID (w_store w) (cParts ! 0) of
           Inl e \<Rightarrow> (writeError 404 e, w)
         | Inr cid \<Rightarrow>
             if action = ''assign'' then handleSegmentAssign r segID cid w
             else if action = ''unassign'' then handleSegmentUnassign r segID cid w
             else
               (case GetContainer (w_store w) cid of
                  Inl e \<Rightarrow> (writeError 404 e, w)
                | Inr c \<Rightarrow>
                    if c_SegmentID c \<noteq> segID
                    then (writeError 403 (''container '' @ cid @ '' is not in segment '' @ go_quote segID), w)
                    else if action = '''' then handleContainerInfo ae r cid w
                    else container_sub ae action r cid w))"

definition handleSegmentRoutes ::
  "'d api_env \<Rightarrow> http_request \<Rightarrow> ('d, 'c, 'z) server_scheme \<Rightarrow> api_reply \<times> ('d, 'c, 'z) server_scheme" where
  "handleSegmentRoutes ae r w =
     (let parts = split_n 3 (CHR ''/'') (trim_prefix (hr_Path r) ''/segments/'');
          segID = parts ! 0;
          sub = (if length parts > 1 then parts ! 1 else '''');
          sub2 = (if length parts > 2 then parts ! 2 else '''')
      in if segID = '''' then (writeError 400 ''segment id required'', w)
         else if sub = '''' then handleSegmentDetail r segID w
         else if sub = ''limits'' then handleSegmentLimits ae r segID w
         else if sub = ''usage'' then handleSegmentUsage r segID w
         else if sub = ''containers'' then
           (if sub2 = '''' then handleSegmentContainers ae r segID w
            else segment_container ae r segID sub2 w)
         else if sub = ''freeze-all'' then handleSegmentFreezeAll ae r segID w
         else if sub = ''unfreeze-all'' then handleSegmentUnfreezeAll ae r segID w
         else if sub = ''config'' then handleSegmentConfig ae r segID w
         else if sub = ''events'' then handleEvents ae r w
         else (not_found, w))"

subsection \<open>Scoped listeners\<close>

definition scoped_containers ::
  "'d api_env \<Rightarrow> scope \<Rightarrow> http_request \<Rightarrow> ('d, 'c, 'z) server_scheme \<Rightarrow> api_reply \<times> ('d, 'c, 'z) server_scheme" where
  "scoped_containers ae sc r w =
     (if hr_Method r \<noteq> ''GET'' then (method_not_allowed, w)
      else
        case ListContainersByScope (w_store w) sc of
          Inl e \<Rightarrow> (writeError 500 e, w)
        | Inr cs \<Rightarrow>
            (writeJSON (JMap
               [(''containers'', brief_list (ae_dc ae) cs w), (''scope'', JText sc),
                (''scope_limits'', jmap_of (GetAllScopeLimits (w_store w) sc)),
                (''scope_usage'', jmap_int (aggregate_usage (w_store w) sc cs)),
                (''scope_enforced'', jmap_bool (GetScopeEnforced w sc))]), w))"

definition scoped_limits ::
  "'d api_env \<Rightarrow> scope \<Rightarrow> http_request \<Rightarrow> ('d, 'c, 'z) server_scheme \<Rightarrow> api_reply \<times> ('d, 'c, 'z) server_scheme" where
  "scoped_limits ae sc r w =
     (if hr_Method r = ''GET'' then (writeJSON (jmap_of (GetAllScopeLimits (w_store w) sc)), w)
      else if hr_Method r = ''PUT'' then
        (if IsSegment sc then handleSegmentLimits ae r (SegmentID sc) w else handleGlobalLimits ae r w)
      else (method_not_allowed, w))"

definition ScopedHandler ::
  "'d api_env \<Rightarrow> scope \<Rightarrow> http_request \<Rightarrow> ('d, 'c, 'z) server_scheme \<Rightarrow> api_reply \<times> ('d, 'c, 'z) server_scheme" where
  "ScopedHandler ae sc r w =
     (let path = hr_Path r in
      if path = ''/containers'' then scoped_containers ae sc r w
      else if prefix ''/containers/'' path then handleContainer ae r w
      else if path = ''/limits'' then scoped_limits ae sc r w
      else if path = ''/usage'' then
        (if IsSegment sc then handleSegmentUsage r (SegmentID sc) w else handleSelfUsage r w)
      else if path = ''/global-limits'' then scoped_limits ae sc r w
      else if path = ''/events'' then handleEvents ae r w
      else (not_found, w))"

definition listener_json :: "scopedListener \<Rightarrow> jval" where
  "listener_json sl =
     JMap [(''id'', JText (sl_ID sl)), (''scope'', JText (sl_Scope sl)), (''listen'', JText (sl_Listen sl)),
           (''socket'', JText (sl_Socket sl))]"

text \<open>
  Opening a listener. For a TCP address the code asks the listener for its address before it
  looks at the error: a failed listen is a nil dereference, which ends the handler.
\<close>

definition open_listener ::
  "'d api_env \<Rightarrow> scope \<Rightarrow> string \<Rightarrow> string \<Rightarrow> ('d, 'c, 'z) server_scheme \<Rightarrow> api_reply \<times> ('d, 'c, 'z) server_scheme" where
  "open_listener ae sc listen socket w =
     (let lid = ''sl-'' @ show_int (w_now w);
          add = (\<lambda>addr.
            let sl = \<lparr>sl_ID = lid, sl_Scope = sc, sl_Listen = addr, sl_Socket = socket\<rparr>
            in (Json 201 (JMap [(''id'', JText lid), (''scope'', JText sc), (''listen'', JText addr), (''socket'', JText socket)]),
                w\<lparr>s_scopedListeners := tbl_put lid sl (s_scopedListeners w)\<rparr>))
      in if socket \<noteq> '''' then
           (case ae_listen ae ''unix'' socket of
              Inl e \<Rightarrow> (writeError 500 (''listen: '' @ e), w)
            | Inr _ \<Rightarrow> add socket)
         else
           (case ae_listen ae ''tcp'' listen of
              Inl _ \<Rightarrow> (Panicked, w)
            | Inr addr \<Rightarrow> add addr))"

definition handleScopedListeners ::
  "'d api_env \<Rightarrow> http_request \<Rightarrow> ('d, 'c, 'z) server_scheme \<Rightarrow> api_reply \<times> ('d, 'c, 'z) server_scheme" where
  "handleScopedListeners ae r w =
     (if hr_Method r = ''GET'' then
        (writeJSON (JMap [(''listeners'', JList (map (listener_json \<circ> snd) (s_scopedListeners w)))]), w)
      else if hr_Method r = ''POST'' then
        (case ae_listener ae (hr_Body r) of
           Inl e \<Rightarrow> (invalid_request e, w)
         | Inr (sc, listen, socket) \<Rightarrow>
             if listen = '''' \<and> socket = '''' then (writeError 400 ''listen or socket required'', w)
             else if IsSegment sc \<and> (case GetSegment (w_store w) (SegmentID sc) of Inl _ \<Rightarrow> True | Inr _ \<Rightarrow> False)
             then (writeError 404 (''segment '' @ go_quote (SegmentID sc) @ '' not found''), w)
             else open_listener ae sc listen socket w)
      else (method_not_allowed, w))"

definition handleScopedListenerByID ::
  "http_request \<Rightarrow> ('d, 'c, 'z) server_scheme \<Rightarrow> api_reply \<times> ('d, 'c, 'z) server_scheme" where
  "handleScopedListenerByID r w =
     (let lid = trim_prefix (hr_Path r) ''/scoped-listeners/'' in
      if lid = '''' then (not_found, w)
      else if hr_Method r \<noteq> ''DELETE'' then (method_not_allowed, w)
      else case map_of (s_scopedListeners w) lid of
             None \<Rightarrow> (writeError 404 (''listener '' @ go_quote lid @ '' not found''), w)
           | Some _ \<Rightarrow>
               (writeJSON (JMap [(''deleted'', JText lid)]),
                w\<lparr>s_scopedListeners := AList.delete lid (s_scopedListeners w)\<rparr>))"

subsection \<open>The documentation\<close>

record endpoint =
  ep_Method :: string
  ep_Path :: string
  ep_Description :: string
  ep_Request :: "(string \<times> string) list"

definition ep :: "string \<Rightarrow> string \<Rightarrow> string \<Rightarrow> (string \<times> string) list \<Rightarrow> endpoint" where
  "ep m p d req = \<lparr>ep_Method = m, ep_Path = p, ep_Description = d, ep_Request = req\<rparr>"

definition docs_sections :: "(string \<times> string \<times> endpoint list) list" where
  "docs_sections =
     [(''Containers'', '''',
       [ep ''GET'' ''/containers''
          ''List all containers with status, limits, usage, and global/host aggregates''
          [],
        ep ''GET'' ''/containers/{id}''
          ''Get container detail including limits, usage, enforced state, proxy activity''
          [],
        ep ''DELETE'' ''/containers/{id}''
          ''Remove a container from tracking''
          [],
        ep ''GET'' ''/containers/{id}/limits''
          ''Get all limits for a container''
          [],
        ep ''PUT'' ''/containers/{id}/limits''
          ''Set, increase, or decrease a limit for a container''
          [(''type'', ''string (limit type)''), (''value'', ''int64''), (''operation'', ''string (set|increase|decrease, default: set)'')],
        ep ''GET'' ''/containers/{id}/usage''
          ''Get all usage for a container''
          [],
        ep ''POST'' ''/containers/{id}/clone''
          ''Clone a container with its limits''
          [(''name'', ''string (optional new name)'')],
        ep ''GET'' ''/containers/{id}/activity''
          ''Get recent proxy activity for a container''
          [],
        ep ''POST'' ''/containers/{id}/freeze''
          ''Freeze a container (pause + suspend byte-second accumulators)''
          [],
        ep ''POST'' ''/containers/{id}/unfreeze''
          ''Unfreeze a container''
          []]),
      (''Registration'', '''',
       [ep ''POST'' ''/register''
          ''Register a Docker container for tracking''
          [(''container_id'', ''string (required)''), (''segment_id'', ''string (optional)'')]]),
      (''Host Limits'', ''Global/host-level shared budget limits. Sum of all container usage is checked against these limits.'',
       [ep ''GET'' ''/host-limits''
          ''Get all host-level limits''
          [],
        ep ''PUT'' ''/host-limits''
          ''Set, increase, or decrease a host-level limit''
          [(''type'', ''string (limit type)''), (''value'', ''int64''), (''operation'', ''string (set|increase|decrease, default: set)'')],
        ep ''GET'' ''/global-limits''
          ''Alias for GET /host-limits''
          [],
        ep ''PUT'' ''/global-limits''
          ''Alias for PUT /host-limits''
          []]),
      (''Segments'', ''Segment management for grouping containers with shared limits and config'',
       [ep ''GET'' ''/segments''
          ''List all segments''
          [],
        ep ''POST'' ''/segments''
          ''Create a new segment''
          [(''id'', ''string (required)''), (''name'', ''string (optional, defaults to id)'')],
        ep ''GET'' ''/segments/{id}''
          ''Get segment detail with limits, usage, enforced state, container count''
          [],
        ep ''DELETE'' ''/segments/{id}''
          ''Delete a segment (fails if containers are still assigned)''
          [],
        ep ''GET'' ''/segments/{id}/limits''
          ''Get all limits for a segment''
          [],
        ep ''PUT'' ''/segments/{id}/limits''
          ''Set, increase, or decrease a segment limit''
          [(''type'', ''string (limit type)''), (''value'', ''int64''), (''operation'', ''string (set|increase|decrease, default: set)'')],
        ep ''GET'' ''/segments/{id}/usage''
          ''Get aggregated usage across all containers in the segment''
          [],
        ep ''GET'' ''/segments/{id}/containers''
          ''List containers in a segment with limits, usage, and segment aggregates''
          [],
        ep ''POST'' ''/segments/{id}/containers/{cid}/assign''
          ''Assign a container to this segment''
          [],
        ep ''POST'' ''/segments/{id}/containers/{cid}/unassign''
          ''Unassign a container from this segment''
          [],
        ep ''GET'' ''/segments/{id}/containers/{cid}''
          ''Get container detail (container must belong to segment)''
          [],
        ep ''GET'' ''/segments/{id}/containers/{cid}/limits''
          ''Get container limits (container must belong to segment)''
          [],
        ep ''PUT'' ''/segments/{id}/containers/{cid}/limits''
          ''Set container limits (container must belong to segment)''
          [],
        ep ''GET'' ''/segments/{id}/containers/{cid}/usage''
          ''Get container usage (container must belong to segment)''
          [],
        ep ''POST'' ''/segments/{id}/containers/{cid}/clone''
          ''Clone container (container must belong to segment)''
          [],
        ep ''GET'' ''/segments/{id}/containers/{cid}/activity''
          ''Get container proxy activity (container must belong to segment)''
          [],
        ep ''POST'' ''/segments/{id}/containers/{cid}/freeze''
          ''Freeze container (container must belong to segment)''
          [],
        ep ''POST'' ''/segments/{id}/containers/{cid}/unfreeze''
          ''Unfreeze container (container must belong to segment)''
          [],
        ep ''POST'' ''/segments/{id}/freeze-all''
          ''Freeze all containers in this segment''
          [],
        ep ''POST'' ''/segments/{id}/unfreeze-all''
          ''Unfreeze all containers in this segment''
          [],
        ep ''GET'' ''/segments/{id}/config''
          ''Get effective config for a segment (host defaults + segment overrides)''
          [],
        ep ''PUT'' ''/segments/{id}/config''
          ''Set segment config overrides''
          []]),
      (''Scoped Listeners'', ''Create additional HTTP listeners scoped to a segment or host, providing filtered views'',
       [ep ''GET'' ''/scoped-listeners''
          ''List all active scoped listeners''
          [],
        ep ''POST'' ''/scoped-listeners''
          ''Create a new scoped listener''
          [(''scope'', (''string (e.g. '' @ [CHR 0x27] @ ''host'' @ [CHR 0x27] @ '' or '' @ [CHR 0x27] @ ''segment:myid'' @ [CHR 0x27] @ '')'')), (''listen'', (''string (TCP address, e.g. '' @ [CHR 0x27] @ '':9090'' @ [CHR 0x27] @ '')'')), (''socket'', ''string (Unix socket path, alternative to listen)'')],
        ep ''DELETE'' ''/scoped-listeners/{id}''
          ''Stop and remove a scoped listener''
          []]),
      (''Configuration'', ''Runtime daemon configuration. Changes are persisted to config.json.'',
       [ep ''GET'' ''/config''
          ''Get current configuration (API keys are masked)''
          [],
        ep ''PUT'' ''/config''
          ''Update configuration (partial updates supported)''
          []]),
      (''Events'', '''',
       [ep ''GET'' ''/events''
          ''WebSocket endpoint for real-time event streaming''
          []]),
      (''Freeze / Unfreeze'', '''',
       [ep ''POST'' ''/freeze-all''
          ''Freeze all containers''
          [],
        ep ''POST'' ''/unfreeze-all''
          ''Unfreeze all containers''
          []]),
      (''Self-Query'', ''Container self-query endpoints. Container identifies itself via source IP or query parameter.'',
       [ep ''GET'' ''/usage''
          ''Get own usage and limits (identified by IP, ?id=, or X-Container-ID header)''
          [],
        ep ''GET'' ''/limits''
          ''Get own limits (identified by IP, ?id=, or X-Container-ID header)''
          []]),
      (''Ollama'', ''Ollama queue management for shared GPU inference'',
       [ep ''GET'' ''/ollama/queue''
          ''Get current Ollama queue status''
          [],
        ep ''GET'' ''/ollama/models''
          ''Get list of allowed Ollama models''
          [],
        ep ''GET'' ''/ollama/bid''
          ''Get current bid for a container (container identified by source IP)''
          [],
        ep ''PUT'' ''/ollama/bid''
          ''Set bid for a container (container identified by source IP)''
          [],
        ep ''GET'' ''/containers/{id}/ollama/bid''
          ''Get Ollama bid for a specific container''
          [],
        ep ''PUT'' ''/containers/{id}/ollama/bid''
          ''Set Ollama bid for a specific container''
          [],
        ep ''DELETE'' ''/containers/{id}/ollama/queue''
          ''Cancel pending Ollama request for a container''
          []]),
      (''Providers'', '''',
       [ep ''GET'' ''/providers''
          ''Get provider enabled states and Ollama availability''
          [],
        ep ''PUT'' ''/providers''
          ''Enable or disable provider hosts''
          []])]"

definition endpoint_json :: "endpoint \<Rightarrow> jval" where
  "endpoint_json e =
     JMap ([(''method'', JText (ep_Method e)), (''path'', JText (ep_Path e)), (''description'', JText (ep_Description e))] @
           (if ep_Request e = [] then []
            else [(''request'', JMap (map (\<lambda>(k, v). (k, JText v)) (ep_Request e)))]))"

definition section_json :: "string \<times> string \<times> endpoint list \<Rightarrow> jval" where
  "section_json s =
     (case s of (title, desc, eps) \<Rightarrow>
        JMap ([(''title'', JText title)] @ (if desc = [] then [] else [(''description'', JText desc)]) @
              [(''endpoints'', JList (map endpoint_json eps))]))"

definition handleDocs ::
  "http_request \<Rightarrow> ('d, 'c, 'z) server_scheme \<Rightarrow> api_reply \<times> ('d, 'c, 'z) server_scheme" where
  "handleDocs r w =
     (if hr_Method r \<noteq> ''GET'' then (method_not_allowed, w)
      else
        (writeJSON (JMap
           [(''title'', JText ''Docker Dynamic Limits API''), (''version'', JText ''1.0''),
            (''sections'', JList (map section_json docs_sections))]), w))"

subsection \<open>The routes\<close>

definition Handler ::
  "'d api_env \<Rightarrow> http_request \<Rightarrow> ('d, 'c, 'z) server_scheme \<Rightarrow> api_reply \<times> ('d, 'c, 'z) server_scheme" where
  "Handler ae r w =
     (let path = hr_Path r in
      if path = ''/containers'' then handleContainers ae r w
      else if prefix ''/containers/'' path then handleContainer ae r w
      else if path = ''/register'' then handleRegister ae r w
      else if path = ''/events'' then handleEvents ae r w
      else if path = ''/usage'' then handleSelfUsage r w
      else if path = ''/limits'' then handleSelfLimits r w
      else if path = ''/ollama/queue'' then handleOllamaQueue r w
      else if path = ''/ollama/models'' then handleOllamaModels r w
      else if path = ''/providers'' then handleProviders ae r w
      else if path = ''/config'' then handleConfig ae r w
      else if path = ''/global-limits'' then handleGlobalLimits ae r w
      else if path = ''/host-limits'' then handleGlobalLimits ae r w
      else if path = ''/scope-limits'' then handleScopeLimits ae r w
      else if path = ''/freeze-all'' then handleFreezeAll ae r w
      else if path = ''/unfreeze-all'' then handleUnfreezeAll ae r w
      else if path = ''/segments'' then handleSegments ae r w
      else if prefix ''/segments/'' path then handleSegmentRoutes ae r w
      else if path = ''/scoped-listeners'' then handleScopedListeners ae r w
      else if prefix ''/scoped-listeners/'' path then handleScopedListenerByID r w
      else if path = ''/docs'' then handleDocs r w
      else (not_found, w))"

definition ReadOnlyHandler ::
  "'d api_env \<Rightarrow> http_request \<Rightarrow> ('d, 'c, 'z) server_scheme \<Rightarrow> api_reply \<times> ('d, 'c, 'z) server_scheme" where
  "ReadOnlyHandler ae r w =
     (let path = hr_Path r in
      if path = ''/containers'' then handleContainersReadOnly ae r w
      else if path = ''/events'' then handleEvents ae r w
      else if path = ''/usage'' then handleSelfUsageByIP r w
      else if path = ''/limits'' then handleSelfLimitsByIP r w
      else if path = ''/ollama/queue'' then handleOllamaQueue r w
      else if path = ''/ollama/models'' then handleOllamaModels r w
      else if path = ''/ollama/bid'' then handleOllamaBidByIP ae r w
      else if path = ''/docs'' then handleDocs r w
      else (not_found, w))"

end
