(* ===== verification/Daemon.thy ===== *)
theory Daemon
  imports ApiServer
begin

text \<open>
  \<^verbatim>\<open>cmd/ddld/main.go\<close>: how the daemon reads its environment, puts the parts together at a start
  and takes up what the store holds, which sockets it serves what on, and its end. \<open>env\<close> is
  \<^verbatim>\<open>os.Getenv\<close>, which gives the empty string for a variable that is not set. Logging and signals are not
  modelled; opening a socket is \<open>ae_listen\<close>.
\<close>

subsection \<open>Reading the environment\<close>

definition dirOf :: "string \<Rightarrow> string" where
  "dirOf path = rev (drop 1 (dropWhile (\<lambda>c. c \<noteq> CHR ''/'') (rev path)))"

definition envBoolOr :: "string \<Rightarrow> bool \<Rightarrow> bool" where
  "envBoolOr v defaultVal =
     (if to_lower v \<in> {''false'', ''0'', ''no''} then False
      else if to_lower v \<in> {''true'', ''1'', ''yes''} then True
      else defaultVal)"

definition parseCSV :: "string \<Rightarrow> string list" where
  "parseCSV s =
     (if s = '''' then [] else filter (\<lambda>p. p \<noteq> '''') (map trim_space (split_on (CHR '','') s)))"

definition parseIntOr :: "string \<Rightarrow> int \<Rightarrow> int" where
  "parseIntOr s defaultVal =
     (if s = '''' then defaultVal else case parse_int s of Inl _ \<Rightarrow> defaultVal | Inr v \<Rightarrow> v)"

definition parseDurationOr :: "string \<Rightarrow> int \<Rightarrow> int" where
  "parseDurationOr s defaultVal =
     (if s = '''' then defaultVal else case ParseDuration s of None \<Rightarrow> defaultVal | Some d \<Rightarrow> d)"

definition env_api_keys :: "(string \<Rightarrow> string) \<Rightarrow> (string \<times> string) list" where
  "env_api_keys env =
     (if env ''DDL_ANTHROPIC_API_KEY'' \<noteq> '''' then [(''api.anthropic.com'', env ''DDL_ANTHROPIC_API_KEY'')] else []) @
     (if env ''DDL_OPENAI_API_KEY'' \<noteq> '''' then [(''api.openai.com'', env ''DDL_OPENAI_API_KEY'')] else [])"

definition env_enabled_hosts :: "(string \<Rightarrow> string) \<Rightarrow> (string \<times> bool) list" where
  "env_enabled_hosts env =
     (if envBoolOr (env ''DDL_ENABLE_OPENAI'') (env ''DDL_OPENAI_API_KEY'' \<noteq> '''')
      then [(''api.openai.com'', True)] else []) @
     (if envBoolOr (env ''DDL_ENABLE_ANTHROPIC'') (env ''DDL_ANTHROPIC_API_KEY'' \<noteq> '''')
      then [(''api.anthropic.com'', True)] else [])"

definition env_resolve_overrides :: "(string \<Rightarrow> string) \<Rightarrow> string \<Rightarrow> string option" where
  "env_resolve_overrides env =
     (if env ''DDL_PROXY_RESOLVE'' = '''' then Map.empty
      else fold (\<lambda>entry m. case split_n 2 (CHR ''='') entry of
                             [k, v] \<Rightarrow> m(trim_space k \<mapsto> trim_space v) | _ \<Rightarrow> m)
             (split_on (CHR '','') (env ''DDL_PROXY_RESOLVE'')) Map.empty)"

definition env_shared_addr :: "(string \<Rightarrow> string) \<Rightarrow> string" where
  "env_shared_addr env =
     (let port = (if env ''DDL_SHARED_PROXY_PORT'' \<noteq> '''' then env ''DDL_SHARED_PROXY_PORT'' else ''7180'')
      in if env ''DDL_SHARED_PROXY_ADDR'' \<noteq> '''' then env ''DDL_SHARED_PROXY_ADDR'' else ''ddl-daemon:'' @ port)"

definition env_ollama_config :: "(string \<Rightarrow> string) \<Rightarrow> ollama_config" where
  "env_ollama_config env =
     \<lparr>oc_OllamaURL = env ''DDL_OLLAMA_URL'', oc_AllowedModels = parseCSV (env ''DDL_OLLAMA_MODELS''),
      oc_MaxQueueSize = parseIntOr (env ''DDL_OLLAMA_MAX_QUEUE'') 50,
      oc_RequestTimeout = parseDurationOr (env ''DDL_OLLAMA_TIMEOUT'') 120000000000,
      oc_DefaultBid = parseIntOr (env ''DDL_OLLAMA_DEFAULT_BID'') 0\<rparr>"

definition env_ollama :: "(string \<Rightarrow> string) \<Rightarrow> bool" where
  "env_ollama env \<longleftrightarrow> env ''DDL_OLLAMA_URL'' \<noteq> '''' \<and> envBoolOr (env ''DDL_ENABLE_OLLAMA'') True"

text \<open>The path of the configuration file, for a database path in clean form.\<close>

definition config_path :: "string \<Rightarrow> string" where
  "config_path dbPath = (if CHR ''/'' \<in> set dbPath then dirOf dbPath @ ''/config.json'' else ''config.json'')"

subsection \<open>Taking up what the store holds\<close>

definition start_tracker :: "(string \<Rightarrow> string) \<Rightarrow> spending_tracker" where
  "start_tracker env =
     (let keys = env_api_keys env;
          p1 = (if keys = [] then NewSpendingTracker else SetAPIKeys keys NewSpendingTracker)
      in SetSharedProxyAddr (env_shared_addr env) (SetEnabledHosts (env_enabled_hosts env) p1))"

definition restore_proxies :: "err + string \<Rightarrow> ('d, 'c, 'z) world_scheme \<Rightarrow> ('d, 'c, 'z) world_scheme" where
  "restore_proxies listen w =
     (case ListContainers (w_store w) of
        Inl _ \<Rightarrow> w
      | Inr cs \<Rightarrow> fold (\<lambda>c w. snd (register_proxy listen (c_ID c) w)) cs w)"

definition start_queue :: "(string \<Rightarrow> string) \<Rightarrow> ('d, 'c, 'z) oworld_scheme \<Rightarrow> ('d, 'c, 'z) oworld_scheme" where
  "start_queue env w =
     (if env_ollama env then
        let q = SetActivityRecorder (NewQueue (env_ollama_config env));
            w1 = on_proxy (EnableHost ''ollama'' True \<circ> SetOllamaHandler (OllamaHost q)) (w\<lparr>w_queue := q\<rparr>)
        in case all_container_ids (w_store w1) of None \<Rightarrow> w1 | Some cids \<Rightarrow> RestoreBids cids w1
      else w)"

text \<open>
  A start of the daemon on a database, a Docker engine and a configuration file; \<open>None\<close> when
  the database cannot be opened, which ends the process.
\<close>

definition daemon_start ::
  "'d api_env \<Rightarrow> (string \<Rightarrow> string) \<Rightarrow> string \<Rightarrow> string option \<Rightarrow> store \<Rightarrow> 'd \<Rightarrow> 'c \<Rightarrow> int \<Rightarrow> ('d, 'c) server option" where
  "daemon_start ae env dbPath file s d c now =
     (case migrate s of
        (Some _, _) \<Rightarrow> None
      | (None, s1) \<Rightarrow>
          let w0 = NewManager s1 d c (Some (start_tracker env)) (Some NewBus) now;
              w1 = restore_proxies (ae_proxy_listen ae) w0;
              w2 = snd (StartAll w1);
              w3 = start_queue env (world.extend w2 (oworld.fields (NewQueue (env_ollama_config env))));
              w4 = StartScopeEnforcement w3
          in Some (LoadPersistedConfig ae (NewServer ae (env_ollama env) (config_path dbPath) file w4)))"

text \<open>What the TCP port serves, and a shutdown.\<close>

definition tcp_handler ::
  "'d api_env \<Rightarrow> bool \<Rightarrow> http_request \<Rightarrow> ('d, 'c, 'z) server_scheme \<Rightarrow> api_reply \<times> ('d, 'c, 'z) server_scheme" where
  "tcp_handler ae sockOK = (if sockOK then ReadOnlyHandler ae else Handler ae)"

definition daemon_stop :: "(string \<Rightarrow> string) \<Rightarrow> ('d, 'c, 'z) server_scheme \<Rightarrow> ('d, 'c, 'z) server_scheme" where
  "daemon_stop env w =
     (let w1 = StopAll (Server_Stop w) in if env_ollama env then on_queue Queue_Stop w1 else w1)"

subsection \<open>The sockets of the daemon\<close>

text \<open>What is served: the management interface, the interface of the containers, the shared proxy.\<close>

datatype surface = Management | ForContainers | SharedProxy

text \<open>
  The management socket is opened unless its path is empty or listening fails; then the TCP port serves
  the containers' interface, and the management interface otherwise.
\<close>

definition socket_opened :: "'d api_env \<Rightarrow> string \<Rightarrow> bool" where
  "socket_opened ae sock \<longleftrightarrow> sock \<noteq> '''' \<and> (case ae_listen ae ''unix'' sock of Inl _ \<Rightarrow> False | Inr _ \<Rightarrow> True)"

definition daemon_sockets ::
  "'d api_env \<Rightarrow> (string \<Rightarrow> string) \<Rightarrow> string \<Rightarrow> string \<Rightarrow> (string \<times> string \<times> surface) list" where
  "daemon_sockets ae env sock addr =
     (let sockOK = socket_opened ae sock;
          port = (if env ''DDL_SHARED_PROXY_PORT'' \<noteq> '''' then env ''DDL_SHARED_PROXY_PORT'' else ''7180'')
      in (if sockOK then [(''unix'', sock, Management)] else []) @
         [(''tcp'', addr, if sockOK then ForContainers else Management), (''tcp'', CHR '':'' # port, SharedProxy)])"

text \<open>
  A request on a port of the API, and on the shared proxy, which knows its callers by their address: what
  the proxy reports to the callbacks of the daemon is persisted, published and passed to the webhooks. A request
  for the Ollama host goes on to the queue.
\<close>

definition serve_api ::
  "'d api_env \<Rightarrow> surface \<Rightarrow> http_request \<Rightarrow> ('d, 'c, 'z) server_scheme \<Rightarrow> api_reply \<times> ('d, 'c, 'z) server_scheme" where
  "serve_api ae sf = tcp_handler ae (sf \<noteq> Management)"

definition serve_proxy ::
  "net_env \<Rightarrow> json_env \<Rightarrow> http_request \<Rightarrow> ('d, 'c, 'z) server_scheme \<Rightarrow>
   (proxy_outcome \<times> (string \<times> jval) list) option \<times> ('d, 'c, 'z) server_scheme" where
  "serve_proxy ne js r w =
     (case w_proxy w of
        None \<Rightarrow> (None, w)
      | Some p \<Rightarrow>
          (case SharedProxyHandler ne js (w_now w) (Some (resolveContainerByIP w)) r p of
             (out, p') \<Rightarrow>
               let w1 = persist_spending (po_Updates out) (w\<lparr>w_proxy := Some p'\<rparr>)
               in case po_Error out of
                    None \<Rightarrow> (Some (out, []), w1)
                  | Some info \<Rightarrow> (case on_upstream_error info w1 of (hooks, w2) \<Rightarrow> (Some (out, hooks), w2))))"

text \<open>
  The whole start: the errors of opening the database and of creating the Docker client end the process.
\<close>

definition daemon_main ::
  "'d api_env \<Rightarrow> (string \<Rightarrow> string) \<Rightarrow> string \<Rightarrow> string \<Rightarrow> string \<Rightarrow> err option \<Rightarrow> err option \<Rightarrow> string option \<Rightarrow>
   store \<Rightarrow> 'd \<Rightarrow> 'c \<Rightarrow> int \<Rightarrow> err + ('d, 'c) server \<times> (string \<times> string \<times> surface) list" where
  "daemon_main ae env dbPath sock addr open_err docker_err file s d c now =
     (case open_err of
        Some e \<Rightarrow> Inl (''failed to open store: open db: '' @ e)
      | None \<Rightarrow>
          (case fst (migrate s) of
             Some e \<Rightarrow> Inl (''failed to open store: migrate: '' @ e)
           | None \<Rightarrow>
               (case docker_err of
                  Some e \<Rightarrow> Inl (''failed to create docker client: '' @ e)
                | None \<Rightarrow>
                    (case daemon_start ae env dbPath file s d c now of
                       None \<Rightarrow> Inl ''''
                     | Some w \<Rightarrow> Inr (w, daemon_sockets ae env sock addr)))))"

text \<open>The sockets that a shutdown leaves open: none, and the path of the management socket is removed.\<close>

definition daemon_shutdown ::
  "(string \<Rightarrow> string) \<Rightarrow> string \<Rightarrow> string list \<Rightarrow> ('d, 'c, 'z) server_scheme \<Rightarrow> string list \<times> ('d, 'c, 'z) server_scheme" where
  "daemon_shutdown env sock files w =
     (if sock \<noteq> '''' then filter (\<lambda>f. f \<noteq> sock) files else files, daemon_stop env w)"

end
