(* ===== verification/Contracts.thy ===== *)
theory Contracts
  imports Prelude
begin

text \<open>
  The contracts on which several components rely, as locales: a table of integers that is
  read and overwritten by key, and one that can also be added to. The store's limits, scope
  limits and usage and the spending tracker's totals are interpretations, made in the
  theories of those components. \<open>ok\<close> is the provider's invariant, \<open>vok\<close> the range of values
  it represents exactly.
\<close>

locale limit_table =
  fixes ok :: "'s \<Rightarrow> bool"
    and vok :: "int \<Rightarrow> bool"
    and put :: "'k \<Rightarrow> int \<Rightarrow> 's \<Rightarrow> err option \<times> 's"
    and get :: "'s \<Rightarrow> 'k \<Rightarrow> err + int"
  assumes put_ok: "ok s \<Longrightarrow> vok v \<Longrightarrow> fst (put k v s) = None \<and> ok (snd (put k v s))"
    and get_put: "ok s \<Longrightarrow> vok v \<Longrightarrow> get (snd (put k v s)) k' = (if k' = k then Inr v else get s k')"
begin

definition put_all :: "('k \<times> int) list \<Rightarrow> 's \<Rightarrow> 's" where
  "put_all kvs s = fold (\<lambda>(k, v) s. snd (put k v s)) kvs s"

lemma put_all_simps [simp]:
  "put_all [] s = s"
  "put_all ((k, v) # kvs) s = put_all kvs (snd (put k v s))"
  by (simp_all add: put_all_def)

lemma put_all_ok: "ok s \<Longrightarrow> \<forall>(k, v) \<in> set kvs. vok v \<Longrightarrow> ok (put_all kvs s)"
  by (induction kvs arbitrary: s) (auto simp: put_ok)

text \<open>After writing a list of values, a key reads the last value written to it.\<close>

lemma get_put_all:
  assumes "ok s" and "\<forall>(k, v) \<in> set kvs. vok v"
  shows "get (put_all kvs s) k = (case map_of (rev kvs) k of None \<Rightarrow> get s k | Some v \<Rightarrow> Inr v)"
  using assms
proof (induction kvs arbitrary: s)
  case Nil
  then show ?case by simp
next
  case (Cons kv kvs)
  obtain k' v where kv: "kv = (k', v)" by force
  have "get (put_all kvs (snd (put k' v s))) k =
        (case map_of (rev kvs) k of None \<Rightarrow> get (snd (put k' v s)) k | Some v \<Rightarrow> Inr v)"
    using Cons kv by (auto simp: put_ok)
  then show ?case
    using Cons.prems kv by (auto simp: get_put map_add_def split: option.split)
qed

end

locale counter_table = limit_table +
  fixes add :: "'b \<Rightarrow> int \<Rightarrow> 'a \<Rightarrow> err option \<times> 'a"
  assumes add_ok: "ok s \<Longrightarrow> get s k = Inr v \<Longrightarrow> 0 \<le> d \<Longrightarrow> vok (v + d) \<Longrightarrow>
      fst (add k d s) = None \<and> ok (snd (add k d s)) \<and> get (snd (add k d s)) k = Inr (v + d)"
    and get_add_other: "ok s \<Longrightarrow> k' \<noteq> k \<Longrightarrow> get (snd (add k d s)) k' = get s k'"
begin

definition add_all :: "'b \<Rightarrow> int list \<Rightarrow> 'a \<Rightarrow> 'a" where
  "add_all k ds s = fold (\<lambda>d s. snd (add k d s)) ds s"

lemma add_all_simps [simp]:
  "add_all k [] s = s"
  "add_all k (d # ds) s = add_all k ds (snd (add k d s))"
  by (simp_all add: add_all_def)

text \<open>A run of non-negative increments that stays within the range is counted exactly, and
  only under its own key.\<close>

lemma get_add_all:
  assumes "ok s" and "get s k = Inr v" and "\<forall>d \<in> set ds. 0 \<le> d"
    and "\<forall>x. v \<le> x \<and> x \<le> v + sum_list ds \<longrightarrow> vok x"
  shows "ok (add_all k ds s) \<and> get (add_all k ds s) k = Inr (v + sum_list ds) \<and>
         (\<forall>k'. k' \<noteq> k \<longrightarrow> get (add_all k ds s) k' = get s k')"
  using assms
proof (induction ds arbitrary: s v)
  case Nil
  then show ?case by simp
next
  case (Cons d ds)
  have d: "0 \<le> d" and nonneg: "0 \<le> sum_list ds"
    using Cons.prems(3) by (auto intro: sum_list_nonneg)
  then have "vok (v + d)" using Cons.prems(4) by simp
  then have step: "ok (snd (add k d s))" "get (snd (add k d s)) k = Inr (v + d)"
    using add_ok [OF Cons.prems(1,2) d] by auto
  have range: "\<forall>x. v + d \<le> x \<and> x \<le> v + d + sum_list ds \<longrightarrow> vok x"
    using Cons.prems(4) d by auto
  have "\<forall>d \<in> set ds. 0 \<le> d" using Cons.prems(3) by simp
  from Cons.IH [OF step this range] show ?case
    using get_add_other [OF Cons.prems(1)] by (simp add: add.assoc)
qed

end


text \<open>
  A priority queue: its items in service order, their priorities, and a \<open>pop\<close> that takes the
  first. Serving until it is empty yields the items, by falling priority.
\<close>

locale priority_queue =
  fixes inv :: "'s \<Rightarrow> bool"
    and items :: "'s \<Rightarrow> 'k list"
    and prio :: "'s \<Rightarrow> 'k \<Rightarrow> int"
    and pop :: "'s \<Rightarrow> 'k option \<times> 's"
  assumes items_sorted: "inv s \<Longrightarrow> sorted_wrt (\<lambda>i j. prio s j \<le> prio s i) (items s)"
    and pop_empty: "inv s \<Longrightarrow> items s = [] \<Longrightarrow> fst (pop s) = None"
    and pop_first: "inv s \<Longrightarrow> items s = i # is \<Longrightarrow>
       fst (pop s) = Some i \<and> items (snd (pop s)) = is \<and> inv (snd (pop s)) \<and> prio (snd (pop s)) = prio s"
begin

fun drain :: "nat \<Rightarrow> 's \<Rightarrow> 'k list" where
  "drain 0 s = []"
| "drain (Suc n) s = (case fst (pop s) of None \<Rightarrow> [] | Some i \<Rightarrow> i # drain n (snd (pop s)))"

lemma drain_items: "inv s \<Longrightarrow> length (items s) \<le> n \<Longrightarrow> drain n s = items s"
proof (induction n arbitrary: s)
  case (Suc n)
  show ?case
  proof (cases "items s")
    case Nil
    then show ?thesis using Suc.prems pop_empty by simp
  next
    case (Cons i "is")
    with Suc pop_first [OF Suc.prems(1) Cons] show ?thesis by simp
  qed
qed simp

lemma drain_sorted: "inv s \<Longrightarrow> length (items s) \<le> n \<Longrightarrow> sorted_wrt (\<lambda>i j. prio s j \<le> prio s i) (drain n s)"
  by (simp add: drain_items items_sorted)

lemma pop_None_iff: "inv s \<Longrightarrow> fst (pop s) = None \<longleftrightarrow> items s = []"
  using pop_empty pop_first by (cases "items s") auto

lemma pop_max:
  assumes "inv s" and "fst (pop s) = Some i"
  shows "i \<in> set (items s) \<and> (\<forall>j \<in> set (items s). prio s j \<le> prio s i)"
proof (cases "items s")
  case Nil
  then show ?thesis using assms pop_empty by simp
next
  case (Cons k ks)
  then have "k = i" using assms pop_first [OF assms(1) Cons] by simp
  then show ?thesis using items_sorted [OF assms(1)] Cons by auto
qed

end

end
