(* ===== verification/StoreProps.thy ===== *)
theory StoreProps
  imports Store Contracts
begin

text \<open>
  What the store promises. Its limits, scope limits and usage satisfy the contracts of
  \<open>Contracts\<close>. Then: the well-formedness invariant of the tables and its preservation
  by every operation, the ledger of cumulative usage that \<^verbatim>\<open>RemoveContainer\<close> keeps, and the
  functional behaviour of container resolution, segments and migration.
\<close>

subsection \<open>The contracts hold of the store\<close>

definition db_ok :: "store \<Rightarrow> bool" where
  "db_ok s \<longleftrightarrow> db_rerr s = None \<and> db_werr s = None \<and> db_cerr s = None"

lemma exec_ok [simp]: "db_werr s = None \<Longrightarrow> exec f s = (None, f s)"
  by (simp add: exec_def)

lemma exec_ignore_ok [simp]: "db_werr s = None \<Longrightarrow> exec_ignore f s = f s"
  by (simp add: exec_ignore_def)

text \<open>The effect of each write when the database accepts it.\<close>

lemma store_writes:
  assumes "db_werr s = None"
  shows SetLimit_ok: "SetLimit cid lt v s = (None, s\<lparr>t_limits := tbl_put (cid, lt) v (t_limits s)\<rparr>)"
    and SetUsage_ok: "SetUsage cid lt v s = (None, s\<lparr>t_usage := tbl_put (cid, lt) v (t_usage s)\<rparr>)"
    and AddUsage_ok: "AddUsage cid lt v s = (None, s\<lparr>t_usage := tbl_add (cid, lt) v (t_usage s)\<rparr>)"
    and SetScopeLimit_ok: "SetScopeLimit sc lt v s =
          (None, s\<lparr>t_scope_limits := tbl_put (sc, lt) v (t_scope_limits s),
                   t_global_limits := (if sc = ScopeHost then tbl_put lt v (t_global_limits s)
                                       else t_global_limits s)\<rparr>)"
  using assms
  by (auto simp: SetLimit_def SetUsage_def AddUsage_def SetScopeLimit_def exec_def exec_ignore_def)

lemma query_int_cases:
  "query_int s c = (case db_rerr s of Some e \<Rightarrow> Inl e | None \<Rightarrow> scan_int (case c of None \<Rightarrow> 0 | Some v \<Rightarrow> v))"
  by (auto simp: query_int_def scan_int_def split: option.splits)

lemmas store_reads = GetLimit_def GetUsage_def GetScopeLimit_def query_int_cases scan_int_def

interpretation lim: limit_table db_ok in64 "\<lambda>(c, t). SetLimit c t" "\<lambda>s (c, t). GetLimit s c t"
  by unfold_locales (auto simp: store_writes store_reads db_ok_def split: if_splits)

interpretation slim: limit_table db_ok in64 "\<lambda>(c, t). SetScopeLimit c t" "\<lambda>s (c, t). GetScopeLimit s c t"
  by unfold_locales (auto simp: store_writes store_reads db_ok_def split: if_splits)

interpretation usg: counter_table db_ok in64 "\<lambda>(c, t). SetUsage c t" "\<lambda>s (c, t). GetUsage s c t"
  "\<lambda>(c, t). AddUsage c t"
  by unfold_locales
     (auto simp: store_writes store_reads db_ok_def mget0_def split: option.splits if_splits)

subsection \<open>The invariant of the tables\<close>

text \<open>
  Primary keys are unique, a row's key is the prefix of its Docker ID, the frozen column is
  a flag, and the two legacy host tables agree with the scope tables.
\<close>

definition row_wf :: "container_row \<Rightarrow> bool" where
  "row_wf r \<longleftrightarrow> 12 \<le> length (r_docker_id r) \<and> r_id r = take 12 (r_docker_id r) \<and> r_frozen r \<in> {0, 1}"

definition tables_wf :: "store \<Rightarrow> bool" where
  "tables_wf s \<longleftrightarrow>
     distinct (map r_id (t_containers s)) \<and> list_all row_wf (t_containers s) \<and>
     tbl_wf (t_limits s) \<and> tbl_wf (t_usage s) \<and> tbl_wf (t_global_limits s) \<and>
     tbl_wf (t_global_usage_accum s) \<and> tbl_wf (t_scope_limits s) \<and>
     tbl_wf (t_scope_usage_accum s) \<and> distinct (map sr_id (t_segments s)) \<and>
     tbl_wf (t_segment_config s)"

definition legacy_sync :: "store \<Rightarrow> bool" where
  "legacy_sync s \<longleftrightarrow>
     (\<forall>lt. map_of (t_global_limits s) lt = map_of (t_scope_limits s) (ScopeHost, lt)) \<and>
     (\<forall>lt. map_of (t_global_usage_accum s) lt = map_of (t_scope_usage_accum s) (ScopeHost, lt))"

definition wf_store :: "store \<Rightarrow> bool" where
  "wf_store s \<longleftrightarrow> tables_wf s \<and> legacy_sync s"

lemmas wf_store_defs = wf_store_def tables_wf_def legacy_sync_def

lemma wf_storeD:
  "wf_store s \<Longrightarrow> distinct (map r_id (t_containers s))"
  "wf_store s \<Longrightarrow> tbl_wf (t_usage s)" "wf_store s \<Longrightarrow> tbl_wf (t_limits s)"
  "wf_store s \<Longrightarrow> tbl_wf (t_scope_limits s)" "wf_store s \<Longrightarrow> tbl_wf (t_scope_usage_accum s)"
  "wf_store s \<Longrightarrow> r \<in> set (t_containers s) \<Longrightarrow> row_wf r"
  by (auto simp: wf_store_defs list_all_iff)

named_theorems wf_ops "operations that keep the store well formed"

lemma wf_empty_store [wf_ops, simp]: "wf_store empty_store"
  by (simp add: wf_store_defs empty_store_def)

lemma exec_cases: "exec f s = (None, f s) \<or> (\<exists>e. exec f s = (Some e, s))"
  by (auto simp: exec_def split: option.split)

lemma exec_inv: "P s \<Longrightarrow> P (f s) \<Longrightarrow> P (snd (exec f s))"
  by (auto simp: exec_def split: option.split)

lemma exec_ignore_inv: "P s \<Longrightarrow> P (f s) \<Longrightarrow> P (exec_ignore f s)"
  by (auto simp: exec_ignore_def)

lemma map_r_id_replace: "map r_id (replace_row r rows) = filter (\<lambda>i. i \<noteq> r_id r) (map r_id rows) @ [r_id r]"
  by (induction rows) (auto simp: replace_row_def)

lemma distinct_replace_row: "distinct (map r_id rows) \<Longrightarrow> distinct (map r_id (replace_row r rows))"
  by (simp add: map_r_id_replace)

lemma map_r_id_update_rows:
  "(\<And>r. r_id (f r) = r_id r) \<Longrightarrow> map r_id (update_rows cid f rows) = map r_id rows"
  by (induction rows) (auto simp: update_rows_def)

lemma list_all_update_rows:
  "list_all P rows \<Longrightarrow> (\<And>r. P r \<Longrightarrow> P (f r)) \<Longrightarrow> list_all P (update_rows cid f rows)"
  by (auto simp: update_rows_def list_all_iff)

lemma list_all_replace_row: "list_all P rows \<Longrightarrow> P r \<Longrightarrow> list_all P (replace_row r rows)"
  by (auto simp: replace_row_def list_all_iff)

lemma distinct_map_filter_key: "distinct (map f xs) \<Longrightarrow> distinct (map f (filter P xs))"
  by (rule distinct_map_filter)

lemma wf_RegisterContainer [wf_ops]:
  "wf_store s \<Longrightarrow> wf_store (snd (RegisterContainer d n now s))"
  by (auto simp: RegisterContainer_def Let_def exec_def wf_store_defs row_wf_def
      intro!: distinct_replace_row list_all_replace_row split: option.splits)

lemma wf_SetLimit [wf_ops]: "wf_store s \<Longrightarrow> wf_store (snd (SetLimit c lt v s))"
  unfolding SetLimit_def by (rule exec_inv) (simp_all add: wf_store_defs)

lemma wf_SetUsage [wf_ops]: "wf_store s \<Longrightarrow> wf_store (snd (SetUsage c lt v s))"
  unfolding SetUsage_def by (rule exec_inv) (simp_all add: wf_store_defs)

lemma wf_AddUsage [wf_ops]: "wf_store s \<Longrightarrow> wf_store (snd (AddUsage c lt v s))"
  unfolding AddUsage_def by (rule exec_inv) (simp_all add: wf_store_defs)

lemma tbl_wf_fold_put: "tbl_wf t \<Longrightarrow> tbl_wf (fold (\<lambda>(k, v). tbl_put (f k) v) kvs t)"
  by (induction kvs arbitrary: t) auto

lemma tbl_wf_fold_ins_ignore: "tbl_wf t \<Longrightarrow> tbl_wf (fold (\<lambda>(k, v). tbl_ins_ignore (f k) v) kvs t)"
  by (induction kvs arbitrary: t) auto

lemma wf_CopyLimits [wf_ops]: "wf_store s \<Longrightarrow> wf_store (snd (CopyLimits a b s))"
  unfolding CopyLimits_def by (rule exec_inv) (simp_all add: wf_store_defs tbl_wf_fold_put)

lemma wf_SetScopeLimit [wf_ops]: "wf_store s \<Longrightarrow> wf_store (snd (SetScopeLimit sc lt v s))"
proof (cases "db_werr s")
  case None
  assume "wf_store s"
  then show ?thesis
    unfolding SetScopeLimit_ok [OF None] by (auto simp: wf_store_defs)
qed (simp add: SetScopeLimit_def exec_def)

lemma wf_CreateSegment [wf_ops]: "wf_store s \<Longrightarrow> wf_store (snd (CreateSegment c n now s))"
  by (auto simp: CreateSegment_def wf_store_defs find_segment_def find_None_iff image_iff
      split: option.splits)

lemma wf_DeleteSegment [wf_ops]:
  assumes "wf_store s"
  shows "wf_store (snd (DeleteSegment c s))"
proof -
  define f1 where "f1 = (\<lambda>s::store. s\<lparr>t_scope_limits := tbl_del (\<lambda>k. fst k = SegmentScope c) (t_scope_limits s)\<rparr>)"
  define f2 where "f2 = (\<lambda>s::store. s\<lparr>t_scope_usage_accum := tbl_del (\<lambda>k. fst k = SegmentScope c) (t_scope_usage_accum s)\<rparr>)"
  define f3 where "f3 = (\<lambda>s::store. s\<lparr>t_segments := filter (\<lambda>r. sr_id r \<noteq> c) (t_segments s)\<rparr>)"
  have "wf_store (f1 s')" if "wf_store s'" for s'
    using that by (auto simp: wf_store_defs f1_def)
  then have 1: "wf_store (exec_ignore f1 s)"
    using assms exec_ignore_inv [where P = wf_store] by blast
  have "wf_store (f2 s')" if "wf_store s'" for s'
    using that by (auto simp: wf_store_defs f2_def)
  then have 2: "wf_store (exec_ignore f2 (exec_ignore f1 s))"
    using 1 exec_ignore_inv [where P = wf_store] by blast
  have "wf_store (f3 s')" if "wf_store s'" for s'
    using that by (auto simp: wf_store_defs f3_def distinct_map_filter_key)
  then have "wf_store (snd (exec f3 (exec_ignore f2 (exec_ignore f1 s))))"
    using 2 exec_inv [where P = wf_store] by blast
  then show ?thesis
    using assms unfolding DeleteSegment_def Let_def f1_def f2_def f3_def by simp
qed

lemma wf_SetContainerSegment [wf_ops]: "wf_store s \<Longrightarrow> wf_store (snd (SetContainerSegment c g s))"
  unfolding SetContainerSegment_def
  by (rule exec_inv) (auto simp: wf_store_defs map_r_id_update_rows row_wf_def intro!: list_all_update_rows)

lemma wf_SetFrozen [wf_ops]: "wf_store s \<Longrightarrow> wf_store (snd (SetFrozen c b s))"
  unfolding SetFrozen_def
  by (rule exec_inv) (auto simp: wf_store_defs map_r_id_update_rows row_wf_def intro!: list_all_update_rows)

lemma wf_SetSegmentConfig [wf_ops]: "wf_store s \<Longrightarrow> wf_store (snd (SetSegmentConfig g k v s))"
  unfolding SetSegmentConfig_def by (rule exec_inv) (simp_all add: wf_store_defs)

lemma wf_DeleteSegmentConfig [wf_ops]: "wf_store s \<Longrightarrow> wf_store (snd (DeleteSegmentConfig g k s))"
  unfolding DeleteSegmentConfig_def by (rule exec_inv) (simp_all add: wf_store_defs)

subsection \<open>Removing a container\<close>

definition usage_amount :: "store \<Rightarrow> string \<Rightarrow> limit_type \<Rightarrow> int" where
  "usage_amount s cid lt =
     (case map_of (t_usage s) (cid, lt) of
        Some v \<Rightarrow> if in64 v \<and> 0 < v then v else 0 | None \<Rightarrow> 0)"

definition accum_scope :: "string option \<Rightarrow> scope \<Rightarrow> bool" where
  "accum_scope seg sc \<longleftrightarrow> sc = ScopeHost \<or> (\<exists>g. seg = Some g \<and> g \<noteq> '''' \<and> sc = SegmentScope g)"

lemma exec_ignore_err [simp]: "db_werr s = Some e \<Longrightarrow> exec_ignore f s = s"
  by (simp add: exec_ignore_def)

lemma accumulate_type_err: "db_werr s \<noteq> None \<Longrightarrow> accumulate_type cid seg lt s = s"
  by (auto simp: accumulate_type_def Let_def split: option.split)

lemma accumulate_type_simps [simp]:
  "t_usage (accumulate_type cid seg lt s) = t_usage s"
  "t_limits (accumulate_type cid seg lt s) = t_limits s"
  "t_containers (accumulate_type cid seg lt s) = t_containers s"
  "t_scope_limits (accumulate_type cid seg lt s) = t_scope_limits s"
  "t_global_limits (accumulate_type cid seg lt s) = t_global_limits s"
  "t_segments (accumulate_type cid seg lt s) = t_segments s"
  "t_segment_config (accumulate_type cid seg lt s) = t_segment_config s"
  "db_werr (accumulate_type cid seg lt s) = db_werr s"
  "db_rerr (accumulate_type cid seg lt s) = db_rerr s"
  "db_cerr (accumulate_type cid seg lt s) = db_cerr s"
  by (simp_all add: accumulate_type_def exec_ignore_def Let_def split: option.split)

lemma accumulate_type_wf: "wf_store s \<Longrightarrow> wf_store (accumulate_type cid seg lt s)"
proof (cases "db_werr s = None")
  case True
  assume "wf_store s"
  with True show ?thesis
    by (auto simp: accumulate_type_def Let_def wf_store_defs mget0_def split: option.split)
qed (simp add: accumulate_type_err)

lemma fold_accumulate_wf: "wf_store s \<Longrightarrow> wf_store (fold (accumulate_type cid seg) lts s)"
  by (induction lts arbitrary: s) (auto simp: accumulate_type_wf)

lemma fold_accumulate_simps [simp]:
  "t_usage (fold (accumulate_type cid seg) lts s) = t_usage s"
  "t_limits (fold (accumulate_type cid seg) lts s) = t_limits s"
  "t_containers (fold (accumulate_type cid seg) lts s) = t_containers s"
  "t_scope_limits (fold (accumulate_type cid seg) lts s) = t_scope_limits s"
  "t_global_limits (fold (accumulate_type cid seg) lts s) = t_global_limits s"
  "t_segments (fold (accumulate_type cid seg) lts s) = t_segments s"
  "t_segment_config (fold (accumulate_type cid seg) lts s) = t_segment_config s"
  "db_werr (fold (accumulate_type cid seg) lts s) = db_werr s"
  "db_rerr (fold (accumulate_type cid seg) lts s) = db_rerr s"
  "db_cerr (fold (accumulate_type cid seg) lts s) = db_cerr s"
  by (induction lts arbitrary: s) simp_all

lemma usage_amount_accumulate [simp]: "usage_amount (accumulate_type cid seg lt s) = usage_amount s"
  by (rule ext)+ (simp add: usage_amount_def)

lemma accumulate_type_accum:
  assumes "db_werr s = None"
  shows "mget0 (map_of (t_scope_usage_accum (accumulate_type cid seg lt s))) (sc, lt') =
           mget0 (map_of (t_scope_usage_accum s)) (sc, lt')
           + (if accum_scope seg sc \<and> lt' = lt then usage_amount s cid lt else 0)"
  using assms
  by (auto simp: accumulate_type_def Let_def usage_amount_def accum_scope_def split: option.split)

lemma fold_accumulate_accum:
  assumes "db_werr s = None" and "distinct lts"
  shows "mget0 (map_of (t_scope_usage_accum (fold (accumulate_type cid seg) lts s))) (sc, lt') =
           mget0 (map_of (t_scope_usage_accum s)) (sc, lt')
           + (if accum_scope seg sc \<and> lt' \<in> set lts then usage_amount s cid lt' else 0)"
  using assms
  by (induction lts arbitrary: s) (auto simp: accumulate_type_accum)

abbreviation row_segment :: "store \<Rightarrow> string \<Rightarrow> string option" where
  "row_segment s cid \<equiv> (case find_row cid s of None \<Rightarrow> None | Some r \<Rightarrow> r_segment_id r)"

lemma RemoveContainer_ok:
  "db_ok s \<Longrightarrow> RemoveContainer cid s =
    (None, (fold (accumulate_type cid (row_segment s cid)) CumulativeLimitTypes s)
       \<lparr>t_usage := tbl_del (\<lambda>k. fst k = cid) (t_usage s),
        t_limits := tbl_del (\<lambda>k. fst k = cid) (t_limits s),
        t_containers := filter (\<lambda>r. r_id r \<noteq> cid) (t_containers s)\<rparr>)"
  by (simp add: RemoveContainer_def db_ok_def Let_def)

lemma wf_RemoveContainer [wf_ops]:
  assumes "wf_store s"
  shows "wf_store (snd (RemoveContainer cid s))"
proof -
  define seg where "seg = (case find_row cid s of None \<Rightarrow> None | Some r \<Rightarrow> r_segment_id r)"
  let ?s = "fold (accumulate_type cid seg) CumulativeLimitTypes s"
  have wf: "wf_store ?s" using assms by (rule fold_accumulate_wf)
  then have wf': "wf_store (?s\<lparr>t_usage := tbl_del (\<lambda>k. fst k = cid) (t_usage s),
        t_limits := tbl_del (\<lambda>k. fst k = cid) (t_limits s),
        t_containers := filter (\<lambda>r. r_id r \<noteq> cid) (t_containers s)\<rparr>)"
    by (auto simp: wf_store_defs distinct_map_filter_key list_all_iff)
  have "db_werr s \<noteq> None \<Longrightarrow> fold (accumulate_type cid seg) lts s = s" for lts
    by (induction lts) (simp_all add: accumulate_type_err)
  with wf wf' assms show ?thesis
    by (cases "db_werr s = None")
       (auto simp: RemoveContainer_def Let_def seg_def [symmetric] split: option.split)
qed

subsection \<open>The ledger of cumulative usage\<close>

text \<open>
  What a scope has used of a type, as the daemon's books say: what removed containers left
  in the accumulator, plus the counters of the containers that are in the scope now.
\<close>

definition in_scope :: "scope \<Rightarrow> container_row \<Rightarrow> bool" where
  "in_scope sc r \<longleftrightarrow> sc = ScopeHost \<or> r_segment_id r = Some (SegmentID sc)"

definition cell :: "store \<Rightarrow> string \<Rightarrow> limit_type \<Rightarrow> int" where
  "cell s cid lt = mget0 (map_of (t_usage s)) (cid, lt)"

definition ledger :: "store \<Rightarrow> scope \<Rightarrow> limit_type \<Rightarrow> int" where
  "ledger s sc lt =
     mget0 (map_of (t_scope_usage_accum s)) (sc, lt)
     + sum_list (map (\<lambda>r. cell s (r_id r) lt) (filter (in_scope sc) (t_containers s)))"

definition real_scope :: "scope \<Rightarrow> bool" where
  "real_scope sc \<longleftrightarrow> sc = ScopeHost \<or> (\<exists>g. g \<noteq> '''' \<and> sc = SegmentScope g)"

lemma find_row_Some: "find_row cid s = Some r \<Longrightarrow> r \<in> set (t_containers s) \<and> r_id r = cid"
  by (auto simp: find_row_def find_Some_iff)

lemma find_row_None: "find_row cid s = None \<longleftrightarrow> cid \<notin> r_id ` set (t_containers s)"
  by (auto simp: find_row_def find_None_iff)

lemma find_row_unique:
  "distinct (map r_id (t_containers s)) \<Longrightarrow> r \<in> set (t_containers s) \<Longrightarrow> find_row (r_id r) s = Some r"
proof -
  assume d: "distinct (map r_id (t_containers s))" and r: "r \<in> set (t_containers s)"
  then obtain r' where r': "find_row (r_id r) s = Some r'"
    using find_row_None [of "r_id r" s] by fastforce
  from find_row_Some [OF this] have "r' = r"
    using d r by (auto simp: distinct_map inj_on_def)
  with r' show ?thesis by simp
qed

lemma accum_scope_in_scope:
  "real_scope sc \<Longrightarrow> r_segment_id r \<noteq> Some '''' \<Longrightarrow> accum_scope (r_segment_id r) sc \<longleftrightarrow> in_scope sc r"
  by (auto simp: accum_scope_def in_scope_def real_scope_def)

lemma sum_list_remove_key:
  fixes f :: "'r \<Rightarrow> int"
  assumes "distinct (map key rows)" and "r \<in> set rows"
  shows "sum_list (map f (filter P rows)) =
           sum_list (map f (filter P (filter (\<lambda>x. key x \<noteq> key r) rows))) + (if P r then f r else 0)"
  using assms
proof (induction rows)
  case Nil
  then show ?case by simp
next
  case (Cons x rows)
  show ?case
  proof (cases "r = x")
    case True
    with Cons.prems have "filter (\<lambda>y. key y \<noteq> key x) rows = rows"
      by (intro filter_True) (auto simp: rev_image_eqI)
    with True show ?thesis by auto
  next
    case False
    with Cons have "key x \<noteq> key r" by force
    with Cons False show ?thesis by auto
  qed
qed

lemma ledger_RemoveContainer:
  assumes wf: "wf_store s" and ok: "db_ok s" and row: "find_row cid s = Some r"
    and seg: "r_segment_id r \<noteq> Some ''''" and sc: "real_scope sc"
    and val: "in64 (cell s cid lt)" "0 \<le> cell s cid lt"
  shows "ledger (snd (RemoveContainer cid s)) sc lt =
           (if lt \<in> set CumulativeLimitTypes \<or> \<not> in_scope sc r then ledger s sc lt
            else ledger s sc lt - cell s cid lt)"
proof -
  let ?s = "snd (RemoveContainer cid s)"
  let ?rest = "filter (\<lambda>x. r_id x \<noteq> r_id r) (t_containers s)"
  have r: "r \<in> set (t_containers s)" "r_id r = cid" using find_row_Some [OF row] by auto
  have amount: "usage_amount s cid lt = cell s cid lt"
    using val by (auto simp: usage_amount_def cell_def mget0_def split: option.split)
  have acc: "mget0 (map_of (t_scope_usage_accum ?s)) (sc, lt) =
      mget0 (map_of (t_scope_usage_accum s)) (sc, lt)
      + (if in_scope sc r \<and> lt \<in> set CumulativeLimitTypes then cell s cid lt else 0)"
    using ok row sc seg
    by (simp add: RemoveContainer_ok fold_accumulate_accum db_ok_def accum_scope_in_scope amount)
  have "cell ?s c lt = cell s c lt" if "c \<noteq> cid" for c
    using ok that by (simp add: RemoveContainer_ok cell_def mget0_def)
  then have cells: "map (\<lambda>r. cell ?s (r_id r) lt) (filter (in_scope sc) ?rest) =
      map (\<lambda>r. cell s (r_id r) lt) (filter (in_scope sc) ?rest)"
    using r by (auto intro: map_cong)
  have rest: "t_containers ?s = ?rest" using ok r by (simp add: RemoveContainer_ok)
  have "ledger ?s sc lt = mget0 (map_of (t_scope_usage_accum ?s)) (sc, lt)
      + sum_list (map (\<lambda>r. cell s (r_id r) lt) (filter (in_scope sc) ?rest))"
    by (simp only: ledger_def rest cells)
  moreover have "ledger s sc lt = mget0 (map_of (t_scope_usage_accum s)) (sc, lt)
      + (sum_list (map (\<lambda>r. cell s (r_id r) lt) (filter (in_scope sc) ?rest))
         + (if in_scope sc r then cell s cid lt else 0))"
    unfolding ledger_def
    using sum_list_remove_key [OF wf_storeD(1) [OF wf] r(1), of "\<lambda>r. cell s (r_id r) lt" "in_scope sc"]
    by (simp only: r(2))
  ultimately show ?thesis by (simp add: acc)
qed

subsection \<open>All stores the daemon can reach\<close>

datatype store_op =
    OpRegister string string int
  | OpRemove string
  | OpSetLimit string limit_type int
  | OpSetUsage string limit_type int
  | OpAddUsage string limit_type int
  | OpCopyLimits string string
  | OpSetScopeLimit scope limit_type int
  | OpCreateSegment string string int
  | OpDeleteSegment string
  | OpSetContainerSegment string "string option"
  | OpSetSegmentConfig string string string
  | OpDeleteSegmentConfig string string
  | OpSetFrozen string bool
  | OpReopen
  | OpFault "err option" "err option" "err option"

fun store_step :: "store_op \<Rightarrow> store \<Rightarrow> store" where
  "store_step (OpRegister d n now) s = snd (RegisterContainer d n now s)"
| "store_step (OpRemove c) s = snd (RemoveContainer c s)"
| "store_step (OpSetLimit c lt v) s = snd (SetLimit c lt v s)"
| "store_step (OpSetUsage c lt v) s = snd (SetUsage c lt v s)"
| "store_step (OpAddUsage c lt v) s = snd (AddUsage c lt v s)"
| "store_step (OpCopyLimits a b) s = snd (CopyLimits a b s)"
| "store_step (OpSetScopeLimit sc lt v) s = snd (SetScopeLimit sc lt v s)"
| "store_step (OpCreateSegment c n now) s = snd (CreateSegment c n now s)"
| "store_step (OpDeleteSegment c) s = snd (DeleteSegment c s)"
| "store_step (OpSetContainerSegment c g) s = snd (SetContainerSegment c g s)"
| "store_step (OpSetSegmentConfig g k v) s = snd (SetSegmentConfig g k v s)"
| "store_step (OpDeleteSegmentConfig g k) s = snd (DeleteSegmentConfig g k s)"
| "store_step (OpSetFrozen c b) s = snd (SetFrozen c b s)"
| "store_step OpReopen s = snd (migrate s)"
| "store_step (OpFault r w c) s = s\<lparr>db_rerr := r, db_werr := w, db_cerr := c\<rparr>"

inductive store_reach :: "store \<Rightarrow> bool" where
  sr_new: "store_reach empty_store"
| sr_step: "store_reach s \<Longrightarrow> store_reach (store_step op s)"

lemma fold_ins_ignore_lookup:
  assumes "inj f"
  shows "map_of (fold (\<lambda>(k, v). tbl_ins_ignore (f k) v) kvs t) j =
    (case map_of t j of
       Some v \<Rightarrow> Some v
     | None \<Rightarrow> map_of (map (\<lambda>(k, v). (f k, v)) kvs) j)"
proof (induction kvs arbitrary: t)
  case Nil
  then show ?case by (simp split: option.split)
next
  case (Cons kv kvs)
  then show ?case by (cases kv) (auto split: option.split)
qed

lemma map_of_inj_image: "inj f \<Longrightarrow> map_of (map (\<lambda>(k, v). (f k, v)) kvs) (f k) = map_of kvs k"
  by (induction kvs) (auto dest: injD)

lemma map_of_not_image: "j \<notin> range f \<Longrightarrow> map_of (map (\<lambda>(k, v). (f k, v)) kvs) j = None"
  by (induction kvs) auto

lemma inj_Pair_host: "inj (Pair sc)"
  by (simp add: inj_on_def)

lemma migrate_lookup:
  assumes "db_werr s = None"
  shows "map_of (t_scope_limits (snd (migrate s))) (sc, lt) =
           (case map_of (t_scope_limits s) (sc, lt) of
              Some v \<Rightarrow> Some v
            | None \<Rightarrow> if sc = ScopeHost then map_of (t_global_limits s) lt else None)"
    and "map_of (t_scope_usage_accum (snd (migrate s))) (sc, lt) =
           (case map_of (t_scope_usage_accum s) (sc, lt) of
              Some v \<Rightarrow> Some v
            | None \<Rightarrow> if sc = ScopeHost then map_of (t_global_usage_accum s) lt else None)"
  using assms
  by (auto simp: migrate_def fold_ins_ignore_lookup [OF inj_Pair_host] map_of_inj_image [OF inj_Pair_host]
      intro!: map_of_not_image split: option.split)

lemma wf_migrate [wf_ops]: "wf_store s \<Longrightarrow> wf_store (snd (migrate s))"
proof (cases "db_werr s")
  case None
  assume wf: "wf_store s"
  have "tables_wf (snd (migrate s))"
    using wf None tbl_wf_fold_ins_ignore [of "t_scope_limits s" "Pair ScopeHost" "t_global_limits s"]
      tbl_wf_fold_ins_ignore [of "t_scope_usage_accum s" "Pair ScopeHost" "t_global_usage_accum s"]
    by (simp add: wf_store_def tables_wf_def migrate_def)
  moreover have "t_global_limits (snd (migrate s)) = t_global_limits s"
    "t_global_usage_accum (snd (migrate s)) = t_global_usage_accum s"
    using None by (simp_all add: migrate_def)
  then have "legacy_sync (snd (migrate s))"
    using wf by (auto simp: wf_store_def legacy_sync_def migrate_lookup [OF None] split: option.split)
  ultimately show ?thesis by (simp add: wf_store_def)
qed (simp add: migrate_def)

lemma wf_fault [wf_ops]: "wf_store s \<Longrightarrow> wf_store (s\<lparr>db_rerr := r, db_werr := w, db_cerr := c\<rparr>)"
  by (simp add: wf_store_defs)

lemma wf_store_step: "wf_store s \<Longrightarrow> wf_store (store_step op s)"
  by (cases op) (simp_all add: wf_ops)

text \<open>A run of operations from the empty store.\<close>

definition run_store :: "store_op list \<Rightarrow> store" where
  "run_store ops = fold store_step ops empty_store"

lemma store_reach_fold: "store_reach s \<Longrightarrow> store_reach (fold store_step ops s)"
  by (induction ops arbitrary: s) (auto intro: sr_step)

lemma store_reach_run: "store_reach (run_store ops)"
  unfolding run_store_def by (rule store_reach_fold) (rule sr_new)

lemma wf_run_store: "wf_store s \<Longrightarrow> wf_store (fold store_step ops s)"
  by (induction ops arbitrary: s) (auto intro: wf_store_step)

subsection \<open>Resolving a name\<close>

definition no_wildcard :: "string \<Rightarrow> bool" where
  "no_wildcard q \<longleftrightarrow> list_all (\<lambda>c. c \<noteq> CHR ''%'' \<and> c \<noteq> CHR ''_'') q"

lemma sql_like_percent [simp]: "sql_like ''%'' s"
  by (induction s) auto

lemma sql_like_prefix: "no_wildcard q \<Longrightarrow> sql_like (q @ ''%'') s \<longleftrightarrow> prefix (to_lower q) (to_lower s)"
proof (induction q arbitrary: s)
  case Nil
  then show ?case by (simp add: to_lower_def)
next
  case (Cons p q)
  then show ?case by (cases s) (auto simp: no_wildcard_def to_lower_def)
qed

lemma find_Some_mem: "find P xs = Some x \<Longrightarrow> x \<in> set xs \<and> P x"
  by (auto simp: find_Some_iff)

lemma find_unique:
  assumes "x \<in> set xs" and "P x" and "\<And>y. y \<in> set xs \<Longrightarrow> P y \<Longrightarrow> y = x"
  shows "find P xs = Some x"
proof (cases "find P xs")
  case None
  then show ?thesis using assms(1,2) by (auto simp: find_None_iff)
next
  case (Some y)
  then show ?thesis using find_Some_mem [OF Some] assms(3) by simp
qed

lemma find_row_mem: "r \<in> set (t_containers s) \<Longrightarrow> find_row (r_id r) s \<noteq> None"
  by (simp add: find_row_None)

lemma Resolve_sound:
  assumes "ResolveContainerID s q = Inr c"
  shows "find_row c s \<noteq> None"
proof -
  have "\<exists>r \<in> set (t_containers s). r_id r = c"
    using assms unfolding ResolveContainerID_def Let_def
    by (auto split: if_splits option.splits simp: find_row_def find_Some_iff)
  then show ?thesis using find_row_mem by metis
qed

lemma Resolve_exact: "db_rerr s = None \<Longrightarrow> find_row q s \<noteq> None \<Longrightarrow> ResolveContainerID s q = Inr q"
  by (auto simp: ResolveContainerID_def dest: find_row_Some split: option.splits)

subsection \<open>A concrete store\<close>

definition demo_ops :: "store_op list" where
  "demo_ops =
     [OpRegister ''0123456789abcdef'' ''web'' 1000000000,
      OpRegister ''fedcba9876543210'' ''db'' 2000000000,
      OpCreateSegment ''team'' ''Team'' 3000000000,
      OpSetContainerSegment ''0123456789ab'' (Some ''team''),
      OpSetLimit ''0123456789ab'' LimitCPU 1000,
      OpAddUsage ''0123456789ab'' LimitCPU 500,
      OpSetUsage ''0123456789ab'' LimitRAM 300,
      OpAddUsage ''fedcba987654'' LimitCPU 70,
      OpSetScopeLimit (SegmentScope ''team'') LimitCPU 5000,
      OpSetScopeLimit ScopeHost LimitCPU 9000]"

definition demo_store :: store where
  "demo_store = run_store demo_ops"

lemma demo_store_eval:
  "demo_store =
     \<lparr>t_containers =
        [\<lparr>r_id = ''0123456789ab'', r_docker_id = ''0123456789abcdef'', r_name = ''web'',
          r_registered_at = 1, r_frozen = 0, r_segment_id = Some ''team''\<rparr>,
         \<lparr>r_id = ''fedcba987654'', r_docker_id = ''fedcba9876543210'', r_name = ''db'',
          r_registered_at = 2, r_frozen = 0, r_segment_id = None\<rparr>],
      t_limits = [((''0123456789ab'', LimitCPU), 1000)],
      t_usage = [((''0123456789ab'', LimitCPU), 500), ((''0123456789ab'', LimitRAM), 300),
                 ((''fedcba987654'', LimitCPU), 70)],
      t_global_limits = [(LimitCPU, 9000)], t_global_usage_accum = [],
      t_scope_limits = [((''segment:team'', LimitCPU), 5000), (('''', LimitCPU), 9000)],
      t_scope_usage_accum = [],
      t_segments = [\<lparr>sr_id = ''team'', sr_name = ''Team'', sr_created_at = 3\<rparr>],
      t_segment_config = [], db_rerr = None, db_werr = None, db_cerr = None\<rparr>"
  by code_simp

lemma demo_reach: "store_reach demo_store"
  unfolding demo_store_def by (rule store_reach_run)

lemma demo_ok: "db_ok demo_store"
  by (simp add: db_ok_def demo_store_eval)



lemma demo_wf: "wf_store demo_store"
  unfolding demo_store_def run_store_def by (rule wf_run_store) simp

text \<open>C6: removing a registered container never lowers what a scope has used of a
  cumulative type: for the host and for every segment, the scope's total (accumulator plus
  the counters of its present containers) of a cumulative type is unchanged, and of RAM and
  disk it drops by exactly the container's counter if the container was in that scope.\<close>

theorem remove_keeps_cumulative_totals:
  assumes "wf_store s" and "db_ok s" and "find_row cid s = Some r"
    and "r_segment_id r \<noteq> Some ''''" and "real_scope sc"
    and "in64 (cell s cid lt)" and "0 \<le> cell s cid lt"
  shows "fst (RemoveContainer cid s) = None \<and>
         find_row cid (snd (RemoveContainer cid s)) = None \<and>
         ledger (snd (RemoveContainer cid s)) sc lt =
           (if lt \<in> set CumulativeLimitTypes \<or> \<not> in_scope sc r then ledger s sc lt
            else ledger s sc lt - cell s cid lt)"
  using assms(2) ledger_RemoveContainer [OF assms] by (auto simp: RemoveContainer_ok find_row_None)

theorem remove_keeps_cumulative_totals_witness:
  "ledger (snd (RemoveContainer ''0123456789ab'' demo_store)) (SegmentScope ''team'') LimitCPU = 500
   \<and> ledger (snd (RemoveContainer ''0123456789ab'' demo_store)) ScopeHost LimitCPU = 570
   \<and> ledger (snd (RemoveContainer ''0123456789ab'' demo_store)) (SegmentScope ''team'') LimitRAM = 0"
proof -
  have r: "find_row ''0123456789ab'' demo_store =
      Some \<lparr>r_id = ''0123456789ab'', r_docker_id = ''0123456789abcdef'', r_name = ''web'',
          r_registered_at = 1, r_frozen = 0, r_segment_id = Some ''team''\<rparr>"
    by (simp add: find_row_def demo_store_eval)
  have sc: "real_scope (SegmentScope ''team'')" "real_scope ScopeHost"
    by (auto simp: real_scope_def)
  have c: "cell demo_store ''0123456789ab'' LimitCPU = 500" "cell demo_store ''0123456789ab'' LimitRAM = 300"
    by (simp_all add: cell_def mget0_def demo_store_eval)
  have l: "ledger demo_store (SegmentScope ''team'') LimitCPU = 500"
    "ledger demo_store ScopeHost LimitCPU = 570" "ledger demo_store (SegmentScope ''team'') LimitRAM = 300"
    by (simp_all add: ledger_def cell_def mget0_def in_scope_def demo_store_eval)
  have cum: "LimitCPU \<in> set CumulativeLimitTypes" "LimitRAM \<notin> set CumulativeLimitTypes"
    by (simp_all add: CumulativeLimitTypes_def)
  show ?thesis
    using remove_keeps_cumulative_totals [OF demo_wf demo_ok r _ sc(1), of LimitCPU]
      remove_keeps_cumulative_totals [OF demo_wf demo_ok r _ sc(2), of LimitCPU]
      remove_keeps_cumulative_totals [OF demo_wf demo_ok r _ sc(1), of LimitRAM]
    by (simp add: c l cum in_scope_def in64_def)
qed

text \<open>The totals of a scope are only as durable as the database: when every statement
  inside the transaction of \<^verbatim>\<open>RemoveContainer\<close> is refused but the commit is not, the function
  reports success although nothing was removed or accumulated; when the commit is refused it
  reports the error and the store is unchanged.\<close>

theorem remove_container_faults:
  assumes "db_rerr s = None" and "db_werr s = Some e"
  shows "RemoveContainer cid s = (db_cerr s, s)"
proof -
  have "fold (accumulate_type cid seg) lts s = s" for seg lts
    using assms(2) by (induction lts) (simp_all add: accumulate_type_err)
  then show ?thesis
    using assms by (auto simp: RemoveContainer_def Let_def split: option.split)
qed

theorem remove_container_faults_witness:
  "RemoveContainer ''0123456789ab'' (demo_store\<lparr>db_werr := Some ''database is locked''\<rparr>)
     = (None, demo_store\<lparr>db_werr := Some ''database is locked''\<rparr>)
   \<and> find_row ''0123456789ab'' (demo_store\<lparr>db_werr := Some ''database is locked''\<rparr>) \<noteq> None"
  using remove_container_faults [of "demo_store\<lparr>db_werr := Some ''database is locked''\<rparr>"
      "''database is locked''" "''0123456789ab''"]
  by (simp add: demo_store_eval find_row_def)

text \<open>A container can be named by its short ID, and, when no container has the name as
  its short ID, by any wildcard-free prefix of its Docker ID (letters in either case) that no
  other registered container shares; whatever \<^verbatim>\<open>ResolveContainerID\<close> answers is the ID of a
  registered container.\<close>

theorem resolve_container:
  assumes "db_rerr s = None" and "r \<in> set (t_containers s)"
    and "no_wildcard q" and "prefix (to_lower q) (to_lower (r_docker_id r))"
    and "\<forall>r' \<in> set (t_containers s). prefix (to_lower q) (to_lower (r_docker_id r')) \<longrightarrow> r' = r"
  shows "ResolveContainerID s (r_id r) = Inr (r_id r) \<and>
         (find_row q s = None \<longrightarrow> ResolveContainerID s q = Inr (r_id r)) \<and>
         (\<forall>q' c. ResolveContainerID s q' = Inr c \<longrightarrow> find_row c s \<noteq> None)"
proof -
  have "find_row (r_id r) s \<noteq> None" using find_row_mem [OF assms(2)] .
  then have exact: "ResolveContainerID s (r_id r) = Inr (r_id r)"
    using Resolve_exact assms(1) by blast
  have "sql_like (q @ ''%'') (r_docker_id r)"
    using sql_like_prefix [OF assms(3)] assms(4) by blast
  moreover have "r' = r" if "r' \<in> set (t_containers s)" "sql_like (q @ ''%'') (r_docker_id r')" for r'
    using that sql_like_prefix [OF assms(3)] assms(5) by blast
  ultimately have "find (\<lambda>r. sql_like (q @ ''%'') (r_docker_id r)) (t_containers s) = Some r"
    using find_unique [OF assms(2), of "\<lambda>r. sql_like (q @ ''%'') (r_docker_id r)"] by blast
  then have "find_row q s = None \<longrightarrow> ResolveContainerID s q = Inr (r_id r)"
    using assms(1) by (simp add: ResolveContainerID_def)
  moreover have "\<forall>q' c. ResolveContainerID s q' = Inr c \<longrightarrow> find_row c s \<noteq> None"
    by (intro allI impI) (rule Resolve_sound)
  ultimately show ?thesis using exact by (intro conjI)
qed

theorem resolve_container_witness:
  "ResolveContainerID demo_store ''FEDC'' = Inr ''fedcba987654''"
proof -
  let ?r = "\<lparr>r_id = ''fedcba987654'', r_docker_id = ''fedcba9876543210'', r_name = ''db'',
          r_registered_at = 2, r_frozen = 0, r_segment_id = None\<rparr>"
  have lower: "to_lower ''FEDC'' = ''fedc''" "to_lower ''fedcba9876543210'' = ''fedcba9876543210''"
    "to_lower ''0123456789abcdef'' = ''0123456789abcdef''"
    by code_simp+
  have 1: "db_rerr demo_store = None" "?r \<in> set (t_containers demo_store)"
    by (simp_all add: demo_store_eval)
  have 2: "no_wildcard ''FEDC''" "prefix (to_lower ''FEDC'') (to_lower (r_docker_id ?r))"
    by (simp_all add: no_wildcard_def lower)
  have 3: "\<forall>r' \<in> set (t_containers demo_store).
       prefix (to_lower ''FEDC'') (to_lower (r_docker_id r')) \<longrightarrow> r' = ?r"
    by (simp add: demo_store_eval lower)
  have 4: "find_row ''FEDC'' demo_store = None"
    by (simp add: demo_store_eval find_row_def)
  show ?thesis using resolve_container [OF 1 2 3] 4 by simp
qed

text \<open>The empty query, which a request for \<^verbatim>\<open>/containers/\<close> produces, resolves to the
  first registered container: an empty prefix matches every Docker ID.\<close>

theorem resolve_empty_query:
  assumes "db_rerr s = None" and "t_containers s = r # rs" and "find_row '''' s = None"
  shows "ResolveContainerID s '''' = Inr (r_id r)"
  using assms by (simp add: ResolveContainerID_def)

theorem resolve_empty_query_witness: "ResolveContainerID demo_store '''' = Inr ''0123456789ab''"
  using resolve_empty_query [of demo_store] by (simp add: demo_store_eval find_row_def)

text \<open>Registering a Docker ID again keeps the limits and usage recorded under its short
  ID but resets the row: whatever it was before, the container is afterwards recorded as not
  frozen and in no segment.\<close>

theorem register_resets_row:
  assumes "db_werr s = None" and "12 \<le> length d"
  shows "\<exists>c s'. RegisterContainer d n now s = (Inr c, s') \<and> c_ID c = take 12 d \<and>
           find_row (take 12 d) s' =
             Some \<lparr>r_id = take 12 d, r_docker_id = d, r_name = n, r_registered_at = now div 1000000000,
                   r_frozen = 0, r_segment_id = None\<rparr> \<and>
           (\<forall>c. c \<noteq> take 12 d \<longrightarrow> find_row c s' = find_row c s) \<and>
           t_limits s' = t_limits s \<and> t_usage s' = t_usage s"
proof -
  define row where "row = \<lparr>r_id = take 12 d, r_docker_id = d, r_name = n,
      r_registered_at = now div 1000000000, r_frozen = 0, r_segment_id = None\<rparr>"
  have "find (\<lambda>r. r_id r = take 12 d) (replace_row row rows) = Some row" for rows
    by (induction rows) (auto simp: replace_row_def row_def)
  moreover have "c \<noteq> take 12 d \<Longrightarrow>
      find (\<lambda>r. r_id r = c) (replace_row row rows) = find (\<lambda>r. r_id r = c) rows" for c rows
    by (induction rows) (auto simp: replace_row_def row_def)
  ultimately show ?thesis
    using assms by (simp add: RegisterContainer_def find_row_def row_def)
qed

theorem register_resets_row_witness:
  "\<exists>c s'. RegisterContainer ''0123456789abcdef'' ''web'' 5000000000
            (snd (SetFrozen ''0123456789ab'' True demo_store)) = (Inr c, s') \<and>
     map_option r_frozen (find_row ''0123456789ab'' s') = Some 0 \<and>
     map_option r_segment_id (find_row ''0123456789ab'' s') = Some None \<and>
     map_option r_frozen (find_row ''0123456789ab'' (snd (SetFrozen ''0123456789ab'' True demo_store))) = Some 1"
proof -
  let ?s = "snd (SetFrozen ''0123456789ab'' True demo_store)"
  have "db_werr ?s = None" and 1: "map_option r_frozen (find_row ''0123456789ab'' ?s) = Some 1"
    by (simp_all add: SetFrozen_def exec_def demo_store_eval update_rows_def find_row_def)
  then show ?thesis
    using register_resets_row [of ?s "''0123456789abcdef''" "''web''" 5000000000] 1 by auto
qed

text \<open>Opening a database is an upgrade that never loses or overrides anything: the host
  scope reads the legacy value exactly where it had none of its own, other scopes read what
  they read before, and opening it again changes no limit and no accumulated total.\<close>

theorem migrate_upgrades:
  assumes "db_werr s = None"
  shows "fst (migrate s) = None \<and>
     map_of (t_scope_limits (snd (migrate s))) (sc, lt) =
       (case map_of (t_scope_limits s) (sc, lt) of
          Some v \<Rightarrow> Some v
        | None \<Rightarrow> if sc = ScopeHost then map_of (t_global_limits s) lt else None) \<and>
     map_of (t_scope_usage_accum (snd (migrate s))) (sc, lt) =
       (case map_of (t_scope_usage_accum s) (sc, lt) of
          Some v \<Rightarrow> Some v
        | None \<Rightarrow> if sc = ScopeHost then map_of (t_global_usage_accum s) lt else None) \<and>
     map_of (t_scope_limits (snd (migrate (snd (migrate s))))) (sc, lt) =
       map_of (t_scope_limits (snd (migrate s))) (sc, lt) \<and>
     map_of (t_scope_usage_accum (snd (migrate (snd (migrate s))))) (sc, lt) =
       map_of (t_scope_usage_accum (snd (migrate s))) (sc, lt)"
proof -
  let ?s = "snd (migrate s)"
  have ok: "fst (migrate s) = None" "db_werr ?s = None" "t_global_limits ?s = t_global_limits s"
    "t_global_usage_accum ?s = t_global_usage_accum s"
    using assms by (simp_all add: migrate_def)
  show ?thesis
    using ok by (simp add: migrate_lookup [OF assms] migrate_lookup [OF ok(2)] split: option.split)
qed

theorem migrate_upgrades_witness:
  "map_of (t_scope_limits (snd (migrate (empty_store\<lparr>t_global_limits := [(LimitCPU, 7)]\<rparr>))))
     (ScopeHost, LimitCPU) = Some 7"
  using migrate_upgrades [of "empty_store\<lparr>t_global_limits := [(LimitCPU, 7)]\<rparr>" ScopeHost LimitCPU]
  by (simp add: empty_store_def)

definition store_results :: "store_op \<Rightarrow> store \<Rightarrow> err option" where
  "store_results op s =
     (case op of
        OpRegister d n now \<Rightarrow> (case fst (RegisterContainer d n now s) of Inl e \<Rightarrow> Some e | Inr _ \<Rightarrow> None)
      | OpRemove c \<Rightarrow> fst (RemoveContainer c s)
      | OpSetLimit c lt v \<Rightarrow> fst (SetLimit c lt v s)
      | OpSetUsage c lt v \<Rightarrow> fst (SetUsage c lt v s)
      | OpAddUsage c lt v \<Rightarrow> fst (AddUsage c lt v s)
      | OpCopyLimits a b \<Rightarrow> fst (CopyLimits a b s)
      | OpSetScopeLimit sc lt v \<Rightarrow> fst (SetScopeLimit sc lt v s)
      | OpCreateSegment c n now \<Rightarrow> (case fst (CreateSegment c n now s) of Inl e \<Rightarrow> Some e | Inr _ \<Rightarrow> None)
      | OpDeleteSegment c \<Rightarrow> fst (DeleteSegment c s)
      | OpSetContainerSegment c g \<Rightarrow> fst (SetContainerSegment c g s)
      | OpSetSegmentConfig g k v \<Rightarrow> fst (SetSegmentConfig g k v s)
      | OpDeleteSegmentConfig g k \<Rightarrow> fst (DeleteSegmentConfig g k s)
      | OpSetFrozen c b \<Rightarrow> fst (SetFrozen c b s)
      | OpReopen \<Rightarrow> fst (migrate s)
      | OpFault r w c \<Rightarrow> None)"

lemma exec_error: "fst (exec f s) = Some e \<Longrightarrow> snd (exec f s) = s"
  by (auto simp: exec_def split: option.splits)

lemma DeleteSegment_error: "fst (DeleteSegment c s) = Some e \<Longrightarrow> snd (DeleteSegment c s) = s"
  by (cases "db_werr s") (auto simp: DeleteSegment_def Let_def exec_def)

lemmas store_write_defs = SetLimit_def SetUsage_def AddUsage_def CopyLimits_def
  SetContainerSegment_def SetSegmentConfig_def DeleteSegmentConfig_def SetFrozen_def

lemmas store_action_defs = RegisterContainer_def RemoveContainer_def SetScopeLimit_def
  CreateSegment_def migrate_def

text \<open>A store operation that reports an error has not changed the store: limits, usage,
  scope limits, registration, segments and the removal transaction are all or nothing.\<close>

theorem store_error_unchanged:
  assumes "store_results op s = Some e"
  shows "store_step op s = s"
proof (cases op)
  case (OpDeleteSegment c)
  then show ?thesis using assms DeleteSegment_error by (auto simp: store_results_def)
qed (use assms in \<open>auto simp: store_results_def store_write_defs store_action_defs exec_def Let_def
      split: option.splits if_splits sum.splits\<close>)

theorem store_error_unchanged_witness:
  "store_step (OpDeleteSegment ''team'') demo_store = demo_store"
proof -
  have "\<exists>e. store_results (OpDeleteSegment ''team'') demo_store = Some e"
    by (simp add: store_results_def DeleteSegment_def Let_def demo_store_eval)
  then show ?thesis using store_error_unchanged by blast
qed

lemma update_rows_set:
  "x \<in> set (update_rows cid f rows) \<longleftrightarrow> (\<exists>r \<in> set rows. x = (if r_id r = cid then f r else r))"
  unfolding update_rows_def set_map image_iff by (rule refl)

definition listed :: "store \<Rightarrow> scope \<Rightarrow> string \<Rightarrow> bool" where
  "listed s sc cid \<longleftrightarrow>
     (case ListContainersByScope s sc of Inl _ \<Rightarrow> False | Inr cs \<Rightarrow> cid \<in> c_ID ` set cs)"

lemma listed_iff:
  "db_rerr s = None \<Longrightarrow> listed s sc cid \<longleftrightarrow> (\<exists>r \<in> set (t_containers s). in_scope sc r \<and> r_id r = cid)"
  by (auto simp: listed_def ListContainersByScope_def in_scope_def row_to_container_def image_iff)

text \<open>A container is in at most one segment: after it is assigned to a segment it is
  listed in that segment's scope and in the host's, and in no other segment's; and a segment
  with a container cannot be deleted.\<close>

theorem segment_membership:
  assumes "db_ok s" and "find_row cid s \<noteq> None"
  shows "fst (SetContainerSegment cid (Some g) s) = None \<and>
     (listed (snd (SetContainerSegment cid (Some g) s)) (SegmentScope h) cid \<longleftrightarrow> h = g) \<and>
     listed (snd (SetContainerSegment cid (Some g) s)) ScopeHost cid \<and>
     fst (DeleteSegment g (snd (SetContainerSegment cid (Some g) s))) \<noteq> None"
proof -
  let ?s = "snd (SetContainerSegment cid (Some g) s)"
  have rows: "t_containers ?s = update_rows cid (\<lambda>r. r\<lparr>r_segment_id := Some g\<rparr>) (t_containers s)"
    and rerr: "db_rerr ?s = None" and ok: "fst (SetContainerSegment cid (Some g) s) = None"
    using assms(1) by (simp_all add: SetContainerSegment_def db_ok_def)
  obtain r where r: "r \<in> set (t_containers s)" "r_id r = cid"
    using assms(2) by (auto simp: find_row_None)
  define r' where "r' = r\<lparr>r_segment_id := Some g\<rparr>"
  have r': "r_segment_id r' = Some g" "r_id r' = cid" using r by (simp_all add: r'_def)
  have mem: "r' \<in> set (t_containers ?s)"
    unfolding rows update_rows_set r'_def using r by (intro bexI [of _ r]) simp_all
  have only: "r_segment_id x = Some g" if "x \<in> set (t_containers ?s)" "r_id x = cid" for x
    using that unfolding rows update_rows_set by (elim bexE) (simp split: if_splits)
  have seg: "listed ?s (SegmentScope h) cid \<longleftrightarrow> h = g"
  proof
    assume "listed ?s (SegmentScope h) cid"
    then obtain x where "x \<in> set (t_containers ?s)" "r_id x = cid" "in_scope (SegmentScope h) x"
      unfolding listed_iff [OF rerr] by blast
    then show "h = g" using only [of x] by (simp add: in_scope_def)
  next
    assume "h = g"
    then have "in_scope (SegmentScope h) r'" using r' by (simp add: in_scope_def)
    then show "listed ?s (SegmentScope h) cid"
      unfolding listed_iff [OF rerr] using mem r' by blast
  qed
  have host: "listed ?s ScopeHost cid"
    unfolding listed_iff [OF rerr] in_scope_def using mem r' by blast
  have "filter (\<lambda>r. r_segment_id r = Some g) (t_containers ?s) \<noteq> []"
    using mem r' by (auto simp: filter_empty_conv)
  then have "fst (DeleteSegment g ?s) \<noteq> None"
    using rerr by (simp add: DeleteSegment_def Let_def)
  with ok seg host show ?thesis by blast
qed

theorem segment_membership_witness:
  "listed (snd (SetContainerSegment ''fedcba987654'' (Some ''team'') demo_store))
      (SegmentScope ''team'') ''fedcba987654'' \<and>
   \<not> listed (snd (SetContainerSegment ''fedcba987654'' (Some ''team'') demo_store))
      (SegmentScope ''other'') ''fedcba987654''"
proof -
  have "find_row ''fedcba987654'' demo_store \<noteq> None" by (simp add: demo_store_eval find_row_def)
  from segment_membership [OF demo_ok this, of "''team''" "''team''"]
    segment_membership [OF demo_ok this, of "''team''" "''other''"]
  show ?thesis by simp
qed

text \<open>Deleting a segment that no container is assigned to clears its limits and its
  accumulated totals, removes it, and leaves every other scope and segment alone; its
  configuration rows stay behind, so a segment created later under the same ID inherits
  them.\<close>

theorem delete_segment_effect:
  assumes "db_ok s" and "\<forall>r \<in> set (t_containers s). r_segment_id r \<noteq> Some g"
  shows "fst (DeleteSegment g s) = None \<and>
     find_segment g (snd (DeleteSegment g s)) = None \<and>
     (\<forall>h. h \<noteq> g \<longrightarrow> find_segment h (snd (DeleteSegment g s)) = find_segment h s) \<and>
     (\<forall>sc lt. map_of (t_scope_limits (snd (DeleteSegment g s))) (sc, lt) =
        (if sc = SegmentScope g then None else map_of (t_scope_limits s) (sc, lt))) \<and>
     (\<forall>sc lt. map_of (t_scope_usage_accum (snd (DeleteSegment g s))) (sc, lt) =
        (if sc = SegmentScope g then None else map_of (t_scope_usage_accum s) (sc, lt))) \<and>
     (\<forall>k. map_of (t_segment_config (snd (DeleteSegment g s))) (g, k) = map_of (t_segment_config s) (g, k))"
proof -
  have "filter (\<lambda>r. r_segment_id r = Some g) (t_containers s) = []"
    using assms(2) by (simp add: filter_empty_conv)
  then have eff: "DeleteSegment g s =
      (None, s\<lparr>t_scope_limits := tbl_del (\<lambda>k. fst k = SegmentScope g) (t_scope_limits s),
               t_scope_usage_accum := tbl_del (\<lambda>k. fst k = SegmentScope g) (t_scope_usage_accum s),
               t_segments := filter (\<lambda>r. sr_id r \<noteq> g) (t_segments s)\<rparr>)"
    using assms(1) by (simp add: DeleteSegment_def Let_def db_ok_def)
  have other: "h \<noteq> g \<Longrightarrow> find (\<lambda>r. sr_id r = h) (filter (\<lambda>r. sr_id r \<noteq> g) rows) =
      find (\<lambda>r. sr_id r = h) rows" for h rows
    by (induction rows) auto
  have same: "find (\<lambda>r. sr_id r = g) (filter (\<lambda>r. sr_id r \<noteq> g) rows) = None" for rows
    by (simp add: find_None_iff)
  show ?thesis by (simp add: eff find_segment_def other same)
qed

theorem delete_segment_effect_witness:
  "fst (DeleteSegment ''team'' (snd (SetSegmentConfig ''team'' ''note'' ''x'' (snd (SetContainerSegment ''0123456789ab'' None demo_store))))) = None
   \<and> map_of (t_segment_config (snd (DeleteSegment ''team'' (snd (SetSegmentConfig ''team'' ''note'' ''x''
        (snd (SetContainerSegment ''0123456789ab'' None demo_store))))))) (''team'', ''note'') = Some ''x''"
proof -
  let ?s = "snd (SetSegmentConfig ''team'' ''note'' ''x'' (snd (SetContainerSegment ''0123456789ab'' None demo_store)))"
  have "db_ok ?s" "\<forall>r \<in> set (t_containers ?s). r_segment_id r \<noteq> Some ''team''"
    "map_of (t_segment_config ?s) (''team'', ''note'') = Some ''x''"
    by (simp_all add: demo_store_eval SetSegmentConfig_def SetContainerSegment_def exec_def db_ok_def
        update_rows_def tbl_put_def)
  then show ?thesis using delete_segment_effect [of ?s "''team''"] by simp
qed

subsection \<open>What is left when only usage changes\<close>

text \<open>All of the store but the usage of containers.\<close>

definition besides_usage :: "store \<Rightarrow> store" where
  "besides_usage s = s\<lparr>t_usage := []\<rparr>"

lemma besides_SetUsage [simp]: "besides_usage (snd (SetUsage c lt v s)) = besides_usage s"
  by (simp add: SetUsage_def exec_def besides_usage_def split: option.split)

lemma besides_AddUsage [simp]: "besides_usage (snd (AddUsage c lt v s)) = besides_usage s"
  by (simp add: AddUsage_def exec_def besides_usage_def split: option.split)

end
