(* ===== verification/ProxyProps.thy ===== *)
theory ProxyProps
  imports Proxy Contracts
begin

text \<open>
  What the spending proxy guarantees: the gate (no tracked call leaves while the budget or
  the scope's spending is exhausted), exact accounting and the bound on overshoot, what
  happens to credentials, the activity log, error deduplication and model names. The
  tracker's totals satisfy the counter contract of \<open>Contracts\<close>.
\<close>

subsection \<open>The totals are a counter table\<close>

text \<open>
  The tracker's range: non-negative amounts whose micro-cents, rounding included, fit.
\<close>

definition mc_ok :: "int \<Rightarrow> bool" where
  "mc_ok v \<longleftrightarrow> 0 \<le> v \<and> in64 (v * 1000 + 999)"

definition tracker_ok :: "spending_tracker \<Rightarrow> bool" where
  "tracker_ok st \<longleftrightarrow> (\<forall>c. 0 \<le> mget0 (p_spending st) c \<and> mc_ok (mget0 (p_spending st) c div 1000))"

lemma mc_ok_wrap: "mc_ok v \<Longrightarrow> wrap64 (v * 1000) = v * 1000"
  by (rule wrap64_id) (auto simp: mc_ok_def in64_def)

lemma tracker_okD:
  "tracker_ok st \<Longrightarrow> 0 \<le> mget0 (p_spending st) c" "tracker_ok st \<Longrightarrow> mc_ok (mget0 (p_spending st) c div 1000)"
  by (simp_all add: tracker_ok_def)

lemma GetSpending_div: "tracker_ok st \<Longrightarrow> GetSpending st c = mget0 (p_spending st) c div 1000"
  by (simp add: GetSpending_def go_div_nonneg tracker_okD)

lemma set_spending_simps [simp]:
  "p_spending (set_spending c v st) = (p_spending st)(c \<mapsto> v)"
  "p_budgets (set_spending c v st) = p_budgets st"
  "p_scopeBlocked (set_spending c v st) = p_scopeBlocked st"
  "p_containerScopes (set_spending c v st) = p_containerScopes st"
  "p_enabledHosts (set_spending c v st) = p_enabledHosts st"
  "p_ollamaHost (set_spending c v st) = p_ollamaHost st"
  "p_prices (set_spending c v st) = p_prices st"
  "p_apiKeys (set_spending c v st) = p_apiKeys st"
  by (simp_all add: set_spending_def)

lemma tracker_ok_set: "tracker_ok st \<Longrightarrow> 0 \<le> v \<Longrightarrow> mc_ok (v div 1000) \<Longrightarrow> tracker_ok (set_spending c v st)"
  by (simp add: tracker_ok_def)

lemma add_micro_eq:
  "snd (add_micro c d st) = set_spending c (wrap64 (mget0 (p_spending st) c + d)) st"
  "fst (add_micro c d st) = [(c, go_div (wrap64 (mget0 (p_spending st) c + d)) 1000)]"
  by (simp_all add: add_micro_def Let_def)

lemma AddSpending_exact:
  assumes ok: "tracker_ok st" and d: "0 \<le> d" and r: "mc_ok (GetSpending st c + d)"
  shows "tracker_ok (snd (AddSpending c d st)) \<and> GetSpending (snd (AddSpending c d st)) c = GetSpending st c + d"
proof -
  define m where "m = mget0 (p_spending st) c"
  have m: "0 \<le> m" using tracker_okD(1) [OF ok] by (simp add: m_def)
  have g: "GetSpending st c = m div 1000" by (simp add: GetSpending_div [OF ok] m_def)
  have "in64 ((m div 1000 + d) * 1000 + 999)" using r g by (simp add: mc_ok_def)
  moreover have "m + d * 1000 \<le> (m div 1000 + d) * 1000 + 999"
    by presburger
  ultimately have "in64 (m + d * 1000)" using m d by (auto simp: in64_def)
  then have w: "wrap64 (m + d * 1000) = m + d * 1000" by (rule wrap64_id)
  have div: "(m + d * 1000) div 1000 = m div 1000 + d" by simp
  have "snd (AddSpending c d st) = set_spending c (m + d * 1000) st"
    by (simp add: AddSpending_def add_micro_eq m_def [symmetric] w)
  moreover have "tracker_ok (set_spending c (m + d * 1000) st)"
  proof (rule tracker_ok_set)
    show "mc_ok ((m + d * 1000) div 1000)" unfolding div using r g by simp
  qed (use ok m d in simp_all)
  ultimately show ?thesis
    using div g by (simp add: GetSpending_div [of "set_spending c (m + d * 1000) st"])
qed

lemma SetSpending_exact:
  assumes "tracker_ok st" "mc_ok v"
  shows "tracker_ok (SetSpending c v st) \<and>
         GetSpending (SetSpending c v st) c' = (if c' = c then v else GetSpending st c')"
proof -
  have "0 \<le> v" using assms(2) by (simp add: mc_ok_def)
  then have "tracker_ok (SetSpending c v st)"
    using assms by (auto simp: SetSpending_def mc_ok_wrap intro!: tracker_ok_set)
  then show ?thesis
    using assms by (simp add: GetSpending_div) (simp add: SetSpending_def mc_ok_wrap)
qed

interpretation spend: counter_table tracker_ok mc_ok
  "\<lambda>c v st. (None, SetSpending c v st)" "\<lambda>st c. Inr (GetSpending st c)"
  "\<lambda>c d st. (None, snd (AddSpending c d st))"
proof unfold_locales
  fix s and k :: string and v
  assume "tracker_ok s" "mc_ok v"
  then show "fst (None, SetSpending k v s) = None \<and> tracker_ok (snd (None, SetSpending k v s))"
    by (simp add: SetSpending_exact)
next
  fix s v and k k' :: string
  assume "tracker_ok s" "mc_ok v"
  then show "Inr (GetSpending (snd (None, SetSpending k v s)) k') = (if k' = k then Inr v else Inr (GetSpending s k'))"
    by (simp add: SetSpending_exact)
next
  fix s and k :: string and v d
  assume "tracker_ok s" "Inr (GetSpending s k) = Inr v" "0 \<le> d" "mc_ok (v + d)"
  then show "fst (None, snd (AddSpending k d s)) = None \<and> tracker_ok (snd (None, snd (AddSpending k d s))) \<and>
      Inr (GetSpending (snd (None, snd (AddSpending k d s))) k) = Inr (v + d)"
    by (simp add: AddSpending_exact)
next
  fix s and k' k :: string and d
  assume "tracker_ok s" "k' \<noteq> k"
  then show "Inr (GetSpending (snd (None, snd (AddSpending k d s))) k') = Inr (GetSpending s k')"
    by (simp add: AddSpending_def add_micro_eq GetSpending_def)
qed

subsection \<open>The gate\<close>

text \<open>A container may not spend: its budget is exhausted, or its scope's spending is blocked.\<close>

definition no_spending :: "spending_tracker \<Rightarrow> string \<Rightarrow> bool" where
  "no_spending st cid \<longleftrightarrow>
     (0 < mget0 (p_budgets st) cid \<and> mget0 (p_budgets st) cid \<le> mget0 (p_spending st) cid) \<or>
     mgetb (p_scopeBlocked st) ScopeHost \<or>
     (\<exists>sc. p_containerScopes st cid = Some sc \<and> mgetb (p_scopeBlocked st) sc)"

text \<open>The request reached something outside the daemon.\<close>

definition let_through :: "proxy_outcome \<Rightarrow> bool" where
  "let_through out =
     (case po_Result out of
        Answered _ (Some _) \<Rightarrow> True
      | Tunnel _ \<Rightarrow> True
      | Answered _ None \<Rightarrow> False
      | ToOllama \<Rightarrow> False)"

definition answer_status :: "proxy_outcome \<Rightarrow> int" where
  "answer_status out = (case po_Result out of Answered r _ \<Rightarrow> rp_Status r | ToOllama \<Rightarrow> 0 | Tunnel _ \<Rightarrow> 200)"

lemma isScopeSpendingBlocked_iff:
  "isScopeSpendingBlocked st cid \<longleftrightarrow>
     mgetb (p_scopeBlocked st) ScopeHost \<or>
     (\<exists>sc. p_containerScopes st cid = Some sc \<and> mgetb (p_scopeBlocked st) sc)"
  by (auto simp: isScopeSpendingBlocked_def split: option.split)

lemma no_spending_cases:
  "no_spending st cid \<longleftrightarrow>
     0 < mget0 (p_budgets st) cid \<and> mget0 (p_budgets st) cid \<le> mget0 (p_spending st) cid \<or>
     isScopeSpendingBlocked st cid"
  by (simp add: no_spending_def isScopeSpendingBlocked_iff)

lemma RecordActivity_simps [simp]:
  "p_spending (RecordActivity c a st) = p_spending st"
  "p_budgets (RecordActivity c a st) = p_budgets st"
  "p_scopeBlocked (RecordActivity c a st) = p_scopeBlocked st"
  "p_containerScopes (RecordActivity c a st) = p_containerScopes st"
  "p_enabledHosts (RecordActivity c a st) = p_enabledHosts st"
  "p_ollamaHost (RecordActivity c a st) = p_ollamaHost st"
  "p_prices (RecordActivity c a st) = p_prices st"
  by (simp_all add: RecordActivity_def Let_def)

lemma refuse_simps [simp]:
  "let_through (fst (refuse now cid r code msg st)) = False"
  "answer_status (fst (refuse now cid r code msg st)) = code"
  "po_Updates (fst (refuse now cid r code msg st)) = []"
  "p_spending (snd (refuse now cid r code msg st)) = p_spending st"
  by (simp_all add: refuse_def answer_def let_through_def answer_status_def http_error_def)

lemma answer_simps [simp]:
  "let_through (answer r) = False" "answer_status (answer r) = rp_Status r" "po_Updates (answer r) = []"
  by (simp_all add: answer_def let_through_def answer_status_def)

lemma http_error_status [simp]: "rp_Status (http_error m c) = c"
  by (simp add: http_error_def)

lemma tracked_not_disabled:
  "isTrackedAPI st host \<Longrightarrow> p_ollamaHost st \<noteq> Some (stripPort host) \<Longrightarrow>
   \<not> isDisabledProvider st host \<and> \<not> isOllamaHost st host"
  by (auto simp: isTrackedAPI_def isDisabledProvider_def isOllamaHost_def Let_def split: option.splits if_splits)

lemma proxyHandler_blocked:
  assumes "isTrackedAPI st (hr_Host r)" and "p_ollamaHost st \<noteq> Some (stripPort (hr_Host r))"
    and "no_spending st cid"
  shows "\<exists>msg. proxyHandler ne js now cid r st = refuse now cid r 429 msg st"
  using assms tracked_not_disabled [OF assms(1,2)]
  by (auto simp: proxyHandler_def Let_def no_spending_cases)

text \<open>C3: no spending past the gate: while a container's budget is set and used up, or the
  spending of the host or of its segment is blocked, a request of that container to a tracked
  provider is answered 429 by the proxy, nothing is sent upstream, no tunnel is opened and no
  spending is recorded, for plain requests and for CONNECT, on the container's own endpoint
  and on the shared one.\<close>

theorem spending_gate:
  assumes "isTrackedAPI st (hr_Host r)" and "p_ollamaHost st \<noteq> Some (stripPort (hr_Host r))"
    and "no_spending st cid" and "cid \<noteq> ''''"
  shows "answer_status (fst (ConnectHandler ne js now cid r st)) = 429 \<and>
         \<not> let_through (fst (ConnectHandler ne js now cid r st)) \<and>
         po_Updates (fst (ConnectHandler ne js now cid r st)) = [] \<and>
         p_spending (snd (ConnectHandler ne js now cid r st)) = p_spending st \<and>
         (resolver (remote_host r) = cid \<longrightarrow>
          SharedProxyHandler ne js now (Some resolver) r st = ConnectHandler ne js now cid r st)"
proof -
  have "answer_status (handleConnect ne cid r st) = 429 \<and> \<not> let_through (handleConnect ne cid r st)
      \<and> po_Updates (handleConnect ne cid r st) = []"
    using assms by (auto simp: handleConnect_def Let_def no_spending_cases)
  moreover obtain msg where "proxyHandler ne js now cid r st = refuse now cid r 429 msg st"
    using proxyHandler_blocked [OF assms(1-3)] by blast
  ultimately show ?thesis
    using assms(4) by (auto simp: ConnectHandler_def SharedProxyHandler_def Let_def)
qed

definition demo_request :: http_request where
  "demo_request =
     \<lparr>hr_Method = ''POST'', hr_Host = ''api.openai.com'', hr_Path = ''/v1/chat/completions'',
      hr_RawQuery = '''', hr_URL = ''http://api.openai.com/v1/chat/completions'',
      hr_RemoteAddr = ''172.17.0.2:4711'', hr_Header = [(''Authorization'', [''Bearer stolen''])],
      hr_Body = ''x''\<rparr>"

definition demo_net :: net_env where
  "demo_net =
     \<lparr>net_new = (\<lambda>m u. None),
      net_trip = (\<lambda>q. Inr \<lparr>ur_Status = 200, ur_Header = [], ur_Body = Inr ''ok''\<rparr>),
      net_dial = (\<lambda>a. None), net_hijack = True, net_duration = 5\<rparr>"

definition demo_json :: json_env where
  "demo_json =
     \<lparr>json_usage = (\<lambda>b. Some \<lparr>au_PromptTokens = 10, au_CompletionTokens = 5, au_InputTokens = 0,
        au_OutputTokens = 0, au_Model = ''gpt-4o-2024-08-06''\<rparr>),
      json_error = (\<lambda>b. None)\<rparr>"

definition demo_tracker :: spending_tracker where
  "demo_tracker =
     SetAPIKey ''api.openai.com'' ''key'' (UpdateBudget ''c1'' 2 (SetSpending ''c1'' 1 NewSpendingTracker))"

lemma demo_host: "isTrackedAPI demo_tracker (hr_Host demo_request)"
  "p_ollamaHost demo_tracker \<noteq> Some (stripPort (hr_Host demo_request))"
  by (simp_all add: isTrackedAPI_def IsTrackedAPIHost_def demo_request_def demo_tracker_def
      NewSpendingTracker_def SetAPIKey_def UpdateBudget_def SetSpending_def)

theorem spending_gate_witness:
  "answer_status (fst (ConnectHandler demo_net demo_json 0 ''c1'' demo_request (SetSpending ''c1'' 2 demo_tracker))) = 429"
proof -
  let ?st = "SetSpending ''c1'' 2 demo_tracker"
  have 1: "isTrackedAPI ?st (hr_Host demo_request)" "p_ollamaHost ?st \<noteq> Some (stripPort (hr_Host demo_request))"
    by (simp_all add: isTrackedAPI_def IsTrackedAPIHost_def demo_request_def demo_tracker_def
      NewSpendingTracker_def SetAPIKey_def UpdateBudget_def SetSpending_def)
  have 2: "no_spending ?st ''c1''"
    by (simp add: no_spending_def demo_tracker_def SetAPIKey_def UpdateBudget_def SetSpending_def wrap64_def)
  from spending_gate [OF 1 2, of demo_net demo_json 0 "\<lambda>_. ''''"] show ?thesis
    by simp
qed

subsection \<open>Accounting\<close>

text \<open>What a response costs, by the usage in its body and the price list.\<close>

definition response_cost :: "json_env \<Rightarrow> spending_tracker \<Rightarrow> string \<Rightarrow> int" where
  "response_cost js st body =
     (case json_usage js body of
        None \<Rightarrow> 0
      | Some u \<Rightarrow>
          CalculateSpendingMicroCents (wrap64 (au_PromptTokens u + au_InputTokens u))
            (wrap64 (au_CompletionTokens u + au_OutputTokens u))
            (case p_prices st (normalizeModelName (au_Model u)) of Some p \<Rightarrow> p | None \<Rightarrow> fallback_pricing))"

lemma handleUpstreamError_simps [simp]:
  "p_spending (snd (handleUpstreamError js now cid h code b st)) = p_spending st"
  "p_budgets (snd (handleUpstreamError js now cid h code b st)) = p_budgets st"
  "p_prices (snd (handleUpstreamError js now cid h code b st)) = p_prices st"
  "p_enabledHosts (snd (handleUpstreamError js now cid h code b st)) = p_enabledHosts st"
  "p_ollamaHost (snd (handleUpstreamError js now cid h code b st)) = p_ollamaHost st"
  "p_scopeBlocked (snd (handleUpstreamError js now cid h code b st)) = p_scopeBlocked st"
  "p_containerScopes (snd (handleUpstreamError js now cid h code b st)) = p_containerScopes st"
  by (simp_all add: handleUpstreamError_def Let_def split: option.split)

lemma CalculateSpending_0 [simp]: "CalculateSpendingMicroCents 0 0 p = 0"
  by (simp add: CalculateSpendingMicroCents_def)

lemma track_cases:
  obtains act ups where
    "trackSpendingWithActivity js now cid h path m rq body code dur st =
       (act, ups, st) \<and> response_cost js st body = 0 \<and> ups = []"
  | act where
    "trackSpendingWithActivity js now cid h path m rq body code dur st =
       (act, fst (add_micro cid (response_cost js st body) st), snd (add_micro cid (response_cost js st body) st))"
proof (cases "json_usage js body")
  case None
  then show thesis by (intro that(1)) (simp add: trackSpendingWithActivity_def response_cost_def)
next
  case (Some u)
  show thesis
  proof (cases "wrap64 (au_PromptTokens u + au_InputTokens u) = 0 \<and>
                wrap64 (au_CompletionTokens u + au_OutputTokens u) = 0")
    case True
    with Some show thesis
      by (intro that(1)) (simp add: trackSpendingWithActivity_def response_cost_def Let_def)
  next
    case False
    with Some show thesis
      by (intro that(2))
         (auto simp: trackSpendingWithActivity_def response_cost_def Let_def split: prod.split)
  qed
qed

lemma wrap64_idem_spend: "in64 x \<Longrightarrow> wrap64 (x + 0) = x"
  by (simp add: wrap64_id)



text \<open>Several requests one after the other.\<close>

definition run_requests ::
  "net_env \<Rightarrow> json_env \<Rightarrow> int \<Rightarrow> string \<Rightarrow> http_request list \<Rightarrow> spending_tracker \<Rightarrow> spending_tracker" where
  "run_requests ne js now cid rs st = fold (\<lambda>r st. snd (ConnectHandler ne js now cid r st)) rs st"

lemma forward_spending_bound:
  assumes "\<forall>b. 0 \<le> response_cost js st b \<and> response_cost js st b \<le> C"
    and "0 \<le> mget0 (p_spending st) cid" and "mget0 (p_spending st) cid + C < 2 ^ 63"
  shows "mget0 (p_spending (snd (forward ne js now cid r st))) cid \<in>
           {mget0 (p_spending st) cid .. mget0 (p_spending st) cid + C}"
    and "p_prices (snd (forward ne js now cid r st)) = p_prices st"
    and "p_budgets (snd (forward ne js now cid r st)) = p_budgets st"
    and "p_enabledHosts (snd (forward ne js now cid r st)) = p_enabledHosts st"
    and "p_ollamaHost (snd (forward ne js now cid r st)) = p_ollamaHost st"
proof -
  have C: "0 \<le> C" using assms(1) by (meson order_trans)
  have w: "wrap64 (mget0 (p_spending st) cid + response_cost js st b) =
      mget0 (p_spending st) cid + response_cost js st b" for b
    by (rule wrap64_id) (use assms(1) [rule_format, of b] assms(2,3) in \<open>auto simp: in64_def\<close>)
  let ?track = "\<lambda>body code. snd (snd (trackSpendingWithActivity js now cid (hr_Host r) (hr_Path r)
      (hr_Method r) (hr_Body r) body code (net_duration ne) st))"
  have track: "mget0 (p_spending (?track body code)) cid
        \<in> {mget0 (p_spending st) cid .. mget0 (p_spending st) cid + C} \<and>
      p_prices (?track body code) = p_prices st \<and> p_budgets (?track body code) = p_budgets st \<and>
      p_enabledHosts (?track body code) = p_enabledHosts st \<and>
      p_ollamaHost (?track body code) = p_ollamaHost st" for body code
    using track_cases [of js now cid "hr_Host r" "hr_Path r" "hr_Method r" "hr_Body r" body code
        "net_duration ne" st]
  proof cases
    case 1
    with C show ?thesis by simp
  next
    case 2
    with assms(1) show ?thesis by (simp add: add_micro_eq w)
  qed
  show "mget0 (p_spending (snd (forward ne js now cid r st))) cid \<in>
           {mget0 (p_spending st) cid .. mget0 (p_spending st) cid + C}"
    using track C
    by (simp add: forward_def Let_def case_prod_unfold split: option.split sum.split)
  show "p_prices (snd (forward ne js now cid r st)) = p_prices st"
    "p_budgets (snd (forward ne js now cid r st)) = p_budgets st"
    "p_enabledHosts (snd (forward ne js now cid r st)) = p_enabledHosts st"
    "p_ollamaHost (snd (forward ne js now cid r st)) = p_ollamaHost st"
    using track
    by (simp_all add: forward_def Let_def case_prod_unfold split: option.split sum.split)
qed

lemma forward_untracked: "\<not> isTrackedAPI st (hr_Host r) \<Longrightarrow> snd (forward ne js now cid r st) = st"
  by (simp add: forward_def Let_def split: option.split sum.split)

lemma response_cost_prices: "p_prices st' = p_prices st \<Longrightarrow> response_cost js st' = response_cost js st"
  by (rule ext) (simp add: response_cost_def split: option.split)

definition gate_inv :: "json_env \<Rightarrow> int \<Rightarrow> string \<Rightarrow> int \<Rightarrow> spending_tracker \<Rightarrow> bool" where
  "gate_inv js C cid b st \<longleftrightarrow>
     mget0 (p_budgets st) cid = b \<and> 0 \<le> mget0 (p_spending st) cid \<and>
     mget0 (p_spending st) cid < b + C \<and>
     (\<forall>body. 0 \<le> response_cost js st body \<and> response_cost js st body \<le> C)"

lemma ConnectHandler_gate_inv:
  assumes inv: "gate_inv js C cid b st" and "0 < b" and big: "b + C < 2 ^ 63"
  shows "gate_inv js C cid b (snd (ConnectHandler ne js now cid r st))"
proof -
  have costs: "\<forall>body. 0 \<le> response_cost js st body \<and> response_cost js st body \<le> C"
    using inv by (simp add: gate_inv_def)
  have keep: "gate_inv js C cid b st'" if "p_spending st' = p_spending st" "p_budgets st' = p_budgets st"
    "p_prices st' = p_prices st" for st'
    using inv that response_cost_prices [OF that(3)] by (simp add: gate_inv_def)
  have refuse: "gate_inv js C cid b (snd (refuse now cid r code msg st))" for code msg
    by (rule keep) (simp_all add: refuse_def)
  have fwd: "gate_inv js C cid b (snd (forward ne js now cid r st))"
    if spent: "isTrackedAPI st (hr_Host r) \<Longrightarrow> mget0 (p_spending st) cid < b"
  proof (cases "isTrackedAPI st (hr_Host r)")
    case False
    then show ?thesis using inv by (simp add: forward_untracked)
  next
    case True
    from spent [OF True] have room: "mget0 (p_spending st) cid + C < 2 ^ 63" using big by simp
    have nonneg: "0 \<le> mget0 (p_spending st) cid" using inv by (simp add: gate_inv_def)
    note fb = forward_spending_bound [OF costs nonneg room, of ne now r]
    show ?thesis
      using fb(1,3) inv spent [OF True] nonneg response_cost_prices [OF fb(2)] by (simp add: gate_inv_def)
  qed
  have "mget0 (p_budgets st) cid = b" using inv by (simp add: gate_inv_def)
  then have "gate_inv js C cid b (snd (proxyHandler ne js now cid r st))"
    using refuse fwd inv \<open>0 < b\<close> by (auto simp: proxyHandler_def Let_def not_le)
  then show ?thesis using inv by (simp add: ConnectHandler_def)
qed

lemma run_requests_gate_inv:
  "gate_inv js C cid b st \<Longrightarrow> 0 < b \<Longrightarrow> b + C < 2 ^ 63 \<Longrightarrow> gate_inv js C cid b (run_requests ne js now cid rs st)"
  unfolding run_requests_def
  by (induction rs arbitrary: st) (simp_all add: ConnectHandler_gate_inv)


lemma demo_cost: "response_cost demo_json demo_tracker body = 7500"
proof -
  have norm: "normalizeModelName ''gpt-4o-2024-08-06'' = ''gpt-4o''" by code_simp
  have pr: "p_prices demo_tracker = map_of defaultPrices"
    by (simp add: demo_tracker_def SetAPIKey_def UpdateBudget_def SetSpending_def NewSpendingTracker_def)
  show ?thesis
    by (simp add: response_cost_def demo_json_def norm pr defaultPrices_def CalculateSpendingMicroCents_def
        price_def wrap64_def)
qed


subsection \<open>Credentials\<close>

lemma header_get_set: "header_get k (header_set k' v h) = (if k = k' then v else header_get k h)"
  by (simp add: header_get_def header_set_def update_conv' split: list.splits)

lemma header_get_del: "header_get k (header_del k' h) = (if k = k' then '''' else header_get k h)"
proof -
  have "map_of (header_del k' h) k = (if k = k' then None else map_of h k)"
    by (induction h) (auto simp: header_del_def)
  then show ?thesis by (simp add: header_get_def)
qed

lemma map_of_header_del: "map_of (header_del k' h) k = (if k = k' then None else map_of h k)"
  by (induction h) (auto simp: header_del_def)

text \<open>The relay keeps credentials apart: a request to a tracked provider for which the
  daemon holds a key goes out over HTTPS to that provider's host with the daemon's key in the
  provider's header, whatever credentials the container sent are removed, and every other
  header is passed on; a request that is not relayed goes out unchanged, so the daemon's
  key is never put on it.\<close>

theorem relay_credentials:
  assumes "h = stripPort (hr_Host r)"
  shows "(if isTrackedAPI st (hr_Host r) \<and> HasAPIKey st h then
            prefix (''https://'' @ h @ hr_Path r) (or_URL (outgoing_request st r)) \<and>
            header_get ''Authorization'' (or_Header (outgoing_request st r)) =
              (if h = ''api.openai.com'' then ''Bearer '' @ mgets (p_apiKeys st) h else '''') \<and>
            header_get ''X-Api-Key'' (or_Header (outgoing_request st r)) =
              (if h = ''api.anthropic.com'' then mgets (p_apiKeys st) h else '''') \<and>
            (\<forall>k. k \<notin> {''Authorization'', ''X-Api-Key'', ''Anthropic-Version''} \<longrightarrow>
               header_get k (or_Header (outgoing_request st r)) = header_get k (hr_Header r))
          else outgoing_request st r =
            \<lparr>or_Method = hr_Method r, or_URL = hr_URL r, or_Header = hr_Header r, or_Body = hr_Body r\<rparr>)"
  using assms
  by (auto simp: outgoing_request_def outgoing_headers_def HasAPIKey_def Let_def header_get_set header_get_del)

theorem relay_credentials_witness:
  "header_get ''Authorization'' (or_Header (outgoing_request demo_tracker demo_request)) = ''Bearer key''"
proof -
  have "stripPort (hr_Host demo_request) = ''api.openai.com''"
    by (simp add: demo_request_def stripPort_def split_host_port_no_colon)
  moreover have "mgets (p_apiKeys demo_tracker) ''api.openai.com'' = ''key''"
    by (simp add: demo_tracker_def SetAPIKey_def)
  ultimately show ?thesis
    using relay_credentials [OF refl, of demo_tracker demo_request] demo_host(1) by (simp add: HasAPIKey_def)
qed

subsection \<open>Activity, errors, names\<close>

lemma RecordActivity_log:
  "GetActivity (RecordActivity cid a st) c =
     (if c = cid then drop (Suc (length (GetActivity st cid)) - 20) (GetActivity st cid @ [a]) else GetActivity st c)"
  by (auto simp: RecordActivity_def GetActivity_def Let_def maxActivityPerContainer_def)

lemma drop_last_append:
  fixes xs :: "'a list"
  assumes "0 < n"
  shows "drop (Suc (length (drop (length xs - n) xs)) - n) (drop (length xs - n) xs @ [a]) =
         drop (Suc (length xs) - n) (xs @ [a])"
  using assms by (cases "length xs < n") (auto simp: Suc_diff_le not_less)

text \<open>The activity log of a container is exactly its twenty most recent entries, oldest
  first, and recording for one container does not touch another's.\<close>

theorem activity_recent:
  assumes "GetActivity st cid = []"
  shows "GetActivity (fold (RecordActivity cid) as st) cid = drop (length as - 20) as \<and>
         length (GetActivity (fold (RecordActivity cid) as st) cid) \<le> 20 \<and>
         (c \<noteq> cid \<longrightarrow> GetActivity (fold (RecordActivity cid) as st) c = GetActivity st c)"
proof -
  have "GetActivity (fold (RecordActivity cid) as st) cid = drop (length as - 20) as"
  proof (induction as rule: rev_induct)
    case Nil
    then show ?case using assms by simp
  next
    case (snoc a as)
    then show ?case using drop_last_append [of 20 as a] by (simp add: RecordActivity_log)
  qed
  moreover have "c \<noteq> cid \<Longrightarrow> GetActivity (fold (RecordActivity cid) as st) c = GetActivity st c"
    by (induction as arbitrary: st) (simp_all add: RecordActivity_log)
  ultimately show ?thesis by simp
qed

definition demo_activity :: "int \<Rightarrow> proxy_activity" where
  "demo_activity t = (blocked_activity t demo_request 429 ''x'')"

theorem activity_recent_witness:
  "length (GetActivity (fold (RecordActivity ''c1'') (map demo_activity [1..30]) NewSpendingTracker) ''c1'') = 20"
proof -
  have "GetActivity NewSpendingTracker ''c1'' = []"
    by (simp add: GetActivity_def NewSpendingTracker_def)
  from activity_recent [OF this, of "map demo_activity [1..30]" "''c2''"] show ?thesis by simp
qed

definition error_key :: "json_env \<Rightarrow> string \<Rightarrow> string \<Rightarrow> string" where
  "error_key js host body =
     stripPort host @ '':'' @
     (case json_error js body of Some e \<Rightarrow> if ae_Message e \<noteq> '''' then ae_Type e else '''' | None \<Rightarrow> '''')"

lemma handleUpstreamError_key:
  assumes "p_hasErrorCallback st"
  shows "handleUpstreamError js now cid host code body st =
     (if \<exists>t. p_errorDedup st (error_key js host body) = Some t \<and> now - t < errorDedupInterval
      then (None, st)
      else (Some \<lparr>ue_ContainerID = cid, ue_Host = stripPort host, ue_StatusCode = code,
              ue_ErrorType = (case json_error js body of Some e \<Rightarrow> if ae_Message e \<noteq> '''' then ae_Type e else '''' | None \<Rightarrow> ''''),
              ue_ErrorMessage = (case json_error js body of Some e \<Rightarrow> ae_Message e | None \<Rightarrow> ''''),
              ue_RequestID = (case json_error js body of Some e \<Rightarrow> if ae_Message e \<noteq> '''' then ae_RequestID e else '''' | None \<Rightarrow> '''')\<rparr>,
            st\<lparr>p_errorDedup := (p_errorDedup st)(error_key js host body \<mapsto> now)\<rparr>))"
proof (cases "json_error js body")
  case None
  then show ?thesis
    using assms by (auto simp: handleUpstreamError_def error_key_def Let_def split: option.split)
next
  case (Some e)
  then show ?thesis
    using assms by (cases "ae_Message e = ''''")
      (auto simp: handleUpstreamError_def error_key_def Let_def split: option.split)
qed

text \<open>Upstream errors are reported at most once per five minutes for each host and error
  type: an error is reported exactly when the last report of its key is absent or at least
  five minutes old, and after a report at time t no error of that key is reported before
  t + 5 min, whatever the container, status or message.\<close>

theorem error_reports_deduplicated:
  assumes "p_hasErrorCallback st"
  shows "(fst (handleUpstreamError js now cid host code body st) \<noteq> None \<longleftrightarrow>
           (case p_errorDedup st (error_key js host body) of
              None \<Rightarrow> True | Some t \<Rightarrow> now - t \<ge> 300000000000)) \<and>
         (fst (handleUpstreamError js now cid host code body st) \<noteq> None \<longrightarrow>
            error_key js host' body' = error_key js host body \<longrightarrow> now' < now + 300000000000 \<longrightarrow>
            fst (handleUpstreamError js now' cid' host' code' body'
                   (snd (handleUpstreamError js now cid host code body st))) = None)"
  using assms
  by (auto simp: handleUpstreamError_key errorDedupInterval_def split: option.splits if_splits)

theorem error_reports_deduplicated_witness:
  "fst (handleUpstreamError demo_json 5 ''c1'' ''api.openai.com'' 500 ''''
        (snd (handleUpstreamError demo_json 0 ''c2'' ''api.openai.com:443'' 429 '''' (SetErrorCallback NewSpendingTracker)))) = None"
proof -
  have 1: "p_hasErrorCallback (SetErrorCallback NewSpendingTracker)" by (simp add: SetErrorCallback_def)
  have hosts: "stripPort ''api.openai.com:443'' = ''api.openai.com''" "stripPort ''api.openai.com'' = ''api.openai.com''"
    by code_simp+
  then have 2: "error_key demo_json ''api.openai.com'' '''' = error_key demo_json ''api.openai.com:443'' ''''"
    by (simp add: error_key_def demo_json_def)
  have 3: "p_errorDedup (SetErrorCallback NewSpendingTracker) k = None" for k
    by (simp add: SetErrorCallback_def NewSpendingTracker_def)
  show ?thesis
    using error_reports_deduplicated [OF 1, of demo_json 0 "''c2''" "''api.openai.com:443''" 429 "''''"
        "''api.openai.com''" "''''" 5 "''c1''" 500] 2
    by (simp add: 3)
qed

lemma prefixes_longest_first:
  "find (\<lambda>p. prefix p m) ps = Some p \<Longrightarrow>
   sorted_wrt (\<lambda>p q. \<not> strict_prefix p q) ps \<Longrightarrow>
   q \<in> set ps \<Longrightarrow> prefix q m \<Longrightarrow> length q \<le> length p"
proof -
  assume f: "find (\<lambda>p. prefix p m) ps = Some p"
    and sorted: "sorted_wrt (\<lambda>p q. \<not> strict_prefix p q) ps"
    and q: "q \<in> set ps" "prefix q m"
  from f obtain i where i: "i < length ps" "ps ! i = p" "prefix p m" "\<forall>j < i. \<not> prefix (ps ! j) m"
    by (auto simp: find_Some_iff)
  from q obtain j where j: "j < length ps" "ps ! j = q" by (auto simp: in_set_conv_nth)
  then have "\<not> j < i" using i(4) q(2) by blast
  then have "j = i \<or> \<not> strict_prefix p q"
    using sorted_wrt_nth_less [OF sorted, of i j] i(2) j by (metis linorder_neqE_nat)
  moreover have "prefix p q \<or> prefix q p" using i(3) q(2) by (rule prefix_same_cases)
  ultimately show ?thesis
    using i(2) j(2) by (auto simp: strict_prefix_def dest: prefix_length_le)
qed

lemma model_prefixes_order: "sorted_wrt (\<lambda>p q. \<not> strict_prefix p q) model_prefixes"
  by (simp add: model_prefixes_def strict_prefix_def)

text \<open>A dated or versioned model name is priced by the longest known model name it starts
  with, letters in either case (so \<^verbatim>\<open>gpt-4o-mini-2024-07-18\<close> is priced as
  \<^verbatim>\<open>gpt-4o-mini\<close>, never as \<^verbatim>\<open>gpt-4o\<close> or \<^verbatim>\<open>gpt-4\<close>), every known name has a price of its own,
  and a name that starts with none of them is only lower-cased.\<close>

theorem model_name_longest_prefix:
  "(if \<exists>q \<in> set model_prefixes. prefix q (to_lower m)
    then normalizeModelName m \<in> set model_prefixes \<and> prefix (normalizeModelName m) (to_lower m) \<and>
         (\<forall>q \<in> set model_prefixes. prefix q (to_lower m) \<longrightarrow> length q \<le> length (normalizeModelName m)) \<and>
         map_of defaultPrices (normalizeModelName m) \<noteq> None
    else normalizeModelName m = to_lower m)"
proof (cases "find (\<lambda>p. prefix p (to_lower m)) model_prefixes")
  case None
  then have "normalizeModelName m = to_lower m" by (simp add: normalizeModelName_def)
  moreover have "\<not> (\<exists>q \<in> set model_prefixes. prefix q (to_lower m))"
    using None by (auto simp: find_None_iff)
  ultimately show ?thesis by (simp only: if_False)
next
  case (Some p)
  then have p: "p \<in> set model_prefixes" "prefix p (to_lower m)" by (auto simp: find_Some_iff)
  have "normalizeModelName m = p" using Some by (simp add: normalizeModelName_def)
  moreover have "\<forall>q \<in> set model_prefixes. map_of defaultPrices q \<noteq> None"
    by (simp add: model_prefixes_def defaultPrices_def)
  ultimately show ?thesis
    using p prefixes_longest_first [OF Some model_prefixes_order] by auto
qed

theorem model_name_longest_prefix_witness:
  "normalizeModelName ''GPT-4o-mini-2024-07-18'' \<in> set model_prefixes"
proof -
  have "\<exists>q \<in> set model_prefixes. prefix q (to_lower ''GPT-4o-mini-2024-07-18'')" by code_simp
  then show ?thesis using model_name_longest_prefix [of "''GPT-4o-mini-2024-07-18''"] by simp
qed

text \<open>Disabling a provider stops plain requests to it but not tunnels: when a provider host
  is known and switched off, a plain request is refused with 403, yet a CONNECT to the same
  host is tunnelled without looking at the switch, the budget or the scope's spending.\<close>

theorem disabled_provider_tunnel:
  assumes "IsTrackedAPIHost (stripPort (hr_Host r))" and "IsTrackedAPIHost (hr_Host r)"
    and "p_enabledHosts st \<noteq> []" and "\<not> host_enabled st (stripPort (hr_Host r))"
    and "net_dial ne (hr_Host r) = None" and "net_hijack ne"
  shows "answer_status (fst (proxyHandler ne js now cid r st)) = 403 \<and>
         po_Result (handleConnect ne cid r st) = Tunnel (hr_Host r)"
  using assms
  by (simp add: proxyHandler_def isDisabledProvider_def handleConnect_def isTrackedAPI_def)

theorem disabled_provider_tunnel_witness:
  "po_Result (handleConnect demo_net ''c1'' (demo_request\<lparr>hr_Host := ''api.openai.com:443''\<rparr>)
     (EnableHost ''api.openai.com'' False (SetSpending ''c1'' 2 demo_tracker))) = Tunnel ''api.openai.com:443''"
proof -
  let ?r = "demo_request\<lparr>hr_Host := ''api.openai.com:443''\<rparr>"
  let ?st = "EnableHost ''api.openai.com'' False (SetSpending ''c1'' 2 demo_tracker)"
  have h: "stripPort ''api.openai.com:443'' = ''api.openai.com''" by code_simp
  have 1: "IsTrackedAPIHost (stripPort (hr_Host ?r))" "IsTrackedAPIHost (hr_Host ?r)"
    by (simp_all add: h IsTrackedAPIHost_def)
  have 2: "p_enabledHosts ?st \<noteq> []" "\<not> host_enabled ?st (stripPort (hr_Host ?r))"
    by (simp_all add: h host_enabled_def EnableHost_def tbl_put_def demo_tracker_def SetAPIKey_def
        UpdateBudget_def SetSpending_def NewSpendingTracker_def)
  have 3: "net_dial demo_net (hr_Host ?r) = None" "net_hijack demo_net"
    by (simp_all add: demo_net_def)
  show ?thesis using disabled_provider_tunnel [OF 1 2 3, of demo_json 0 "''c1''"] by simp
qed

end
