(* ===== verification/EnforcementProps.thy ===== *)
theory EnforcementProps
  imports Enforcement StoreProps ProxyProps
begin

text \<open>
  What the enforcement manager guarantees: a check is level-triggered (afterwards a limit is
  enforced exactly when the recorded usage reaches it), scope totals are the ledger of
  cumulative usage, a frozen container stays unable to run in every reachable state of the
  daemon, and freezing survives restarts. Contexts of the Docker contracts hold the lemmas
  that depend on the client.
\<close>

subsection \<open>What each action leaves alone\<close>

lemma emit_frame [simp]:
  "w_store (emit t c d w) = w_store w" "w_docker (emit t c d w) = w_docker w"
  "w_cgroup (emit t c d w) = w_cgroup w" "w_proxy (emit t c d w) = w_proxy w"
  "w_now (emit t c d w) = w_now w" "w_workers (emit t c d w) = w_workers w"
  "w_enforced (emit t c d w) = w_enforced w" "w_frozen (emit t c d w) = w_frozen w"
  "w_dockerIDs (emit t c d w) = w_dockerIDs w" "w_scopeEnforced (emit t c d w) = w_scopeEnforced w"
  "w_scopeRunning (emit t c d w) = w_scopeRunning w" "w_lastSleepEmit (emit t c d w) = w_lastSleepEmit w"
  by (simp_all add: emit_def split: option.split)

lemma on_docker_frame [simp]:
  "w_store (snd (on_docker f w)) = w_store w" "w_docker (snd (on_docker f w)) = snd (f (w_docker w))"
  "w_cgroup (snd (on_docker f w)) = w_cgroup w" "w_proxy (snd (on_docker f w)) = w_proxy w"
  "w_now (snd (on_docker f w)) = w_now w" "w_workers (snd (on_docker f w)) = w_workers w"
  "w_enforced (snd (on_docker f w)) = w_enforced w" "w_frozen (snd (on_docker f w)) = w_frozen w"
  "w_dockerIDs (snd (on_docker f w)) = w_dockerIDs w" "w_scopeEnforced (snd (on_docker f w)) = w_scopeEnforced w"
  "w_bus (snd (on_docker f w)) = w_bus w"
  "fst (on_docker f w) = fst (f (w_docker w))"
  by (simp_all add: on_docker_def split: prod.split)

lemma on_cgroup_frame [simp]:
  "w_store (snd (on_cgroup f w)) = w_store w" "w_docker (snd (on_cgroup f w)) = w_docker w"
  "w_cgroup (snd (on_cgroup f w)) = snd (f (w_cgroup w))" "w_proxy (snd (on_cgroup f w)) = w_proxy w"
  "w_now (snd (on_cgroup f w)) = w_now w" "w_workers (snd (on_cgroup f w)) = w_workers w"
  "w_enforced (snd (on_cgroup f w)) = w_enforced w" "w_frozen (snd (on_cgroup f w)) = w_frozen w"
  "w_dockerIDs (snd (on_cgroup f w)) = w_dockerIDs w" "w_scopeEnforced (snd (on_cgroup f w)) = w_scopeEnforced w"
  "fst (on_cgroup f w) = fst (f (w_cgroup w))"
  by (simp_all add: on_cgroup_def split: prod.split)

lemma on_store_frame [simp]:
  "w_store (snd (on_store f w)) = snd (f (w_store w))" "w_docker (snd (on_store f w)) = w_docker w"
  "w_cgroup (snd (on_store f w)) = w_cgroup w" "w_proxy (snd (on_store f w)) = w_proxy w"
  "w_now (snd (on_store f w)) = w_now w" "w_workers (snd (on_store f w)) = w_workers w"
  "w_enforced (snd (on_store f w)) = w_enforced w" "w_frozen (snd (on_store f w)) = w_frozen w"
  "w_dockerIDs (snd (on_store f w)) = w_dockerIDs w" "w_scopeEnforced (snd (on_store f w)) = w_scopeEnforced w"
  "fst (on_store f w) = fst (f (w_store w))"
  by (simp_all add: on_store_def split: prod.split)

text \<open>Reading the pair of an action without splitting it.\<close>

lemma pause_for_proj:
  "fst (pause_for dc did w) =
     (case fst (d_pause dc did (w_docker w)) of None \<Rightarrow> None | Some e \<Rightarrow> if already_paused e then None else Some e)"
  "snd (pause_for dc did w) = snd (on_docker (d_pause dc did) w)"
proof -
  have p: "on_docker (d_pause dc did) w =
      (fst (d_pause dc did (w_docker w)), snd (on_docker (d_pause dc did) w))"
    by (simp add: prod_eq_iff)
  show "fst (pause_for dc did w) =
     (case fst (d_pause dc did (w_docker w)) of None \<Rightarrow> None | Some e \<Rightarrow> if already_paused e then None else Some e)"
    "snd (pause_for dc did w) = snd (on_docker (d_pause dc did) w)"
    unfolding pause_for_def by (subst p, simp split: option.split)+
qed

lemma enforce_proj:
  "enforce dc cg cid did lt path w =
     (case fst (enforce_action dc cg cid did lt path w) of
        Some e \<Rightarrow> snd (enforce_action dc cg cid did lt path w)
      | None \<Rightarrow>
          emit EnforcementChange cid (EnforcementChangeData lt True)
            ((snd (enforce_action dc cg cid did lt path w))
               \<lparr>w_enforced := raise_flag cid lt (w_enforced (snd (enforce_action dc cg cid did lt path w)))\<rparr>))"
  by (simp add: enforce_def case_prod_unfold split: option.split)

lemma release_proj:
  "release dc cg cid did lt path w =
     (case fst (release_action dc cg cid did lt path w) of
        Some e \<Rightarrow> snd (release_action dc cg cid did lt path w)
      | None \<Rightarrow>
          emit EnforcementChange cid (EnforcementChangeData lt False)
            ((snd (release_action dc cg cid did lt path w))
               \<lparr>w_enforced := lower_flag cid lt (w_enforced (snd (release_action dc cg cid did lt path w)))\<rparr>))"
  by (simp add: release_def case_prod_unfold split: option.split)

lemma enforce_action_frame [simp]:
  "w_store (snd (enforce_action dc cg cid did lt path w)) = w_store w"
  "w_proxy (snd (enforce_action dc cg cid did lt path w)) = w_proxy w"
  "w_now (snd (enforce_action dc cg cid did lt path w)) = w_now w"
  "w_workers (snd (enforce_action dc cg cid did lt path w)) = w_workers w"
  "w_enforced (snd (enforce_action dc cg cid did lt path w)) = w_enforced w"
  "w_frozen (snd (enforce_action dc cg cid did lt path w)) = w_frozen w"
  "w_dockerIDs (snd (enforce_action dc cg cid did lt path w)) = w_dockerIDs w"
  "w_scopeEnforced (snd (enforce_action dc cg cid did lt path w)) = w_scopeEnforced w"
  by (simp_all add: enforce_action_def pause_for_proj case_prod_unfold split: option.split)

lemma release_action_frame [simp]:
  "w_store (snd (release_action dc cg cid did lt path w)) = w_store w"
  "w_proxy (snd (release_action dc cg cid did lt path w)) = w_proxy w"
  "w_now (snd (release_action dc cg cid did lt path w)) = w_now w"
  "w_workers (snd (release_action dc cg cid did lt path w)) = w_workers w"
  "w_enforced (snd (release_action dc cg cid did lt path w)) = w_enforced w"
  "w_frozen (snd (release_action dc cg cid did lt path w)) = w_frozen w"
  "w_dockerIDs (snd (release_action dc cg cid did lt path w)) = w_dockerIDs w"
  "w_scopeEnforced (snd (release_action dc cg cid did lt path w)) = w_scopeEnforced w"
  by (simp_all add: release_action_def)

lemma enforce_frame [simp]:
  "w_store (enforce dc cg cid did lt path w) = w_store w"
  "w_proxy (enforce dc cg cid did lt path w) = w_proxy w"
  "w_now (enforce dc cg cid did lt path w) = w_now w"
  "w_workers (enforce dc cg cid did lt path w) = w_workers w"
  "w_frozen (enforce dc cg cid did lt path w) = w_frozen w"
  "w_dockerIDs (enforce dc cg cid did lt path w) = w_dockerIDs w"
  "w_scopeEnforced (enforce dc cg cid did lt path w) = w_scopeEnforced w"
  "w_docker (enforce dc cg cid did lt path w) = w_docker (snd (enforce_action dc cg cid did lt path w))"
  "w_cgroup (enforce dc cg cid did lt path w) = w_cgroup (snd (enforce_action dc cg cid did lt path w))"
  by (simp_all add: enforce_proj split: option.split)

lemma release_frame [simp]:
  "w_store (release dc cg cid did lt path w) = w_store w"
  "w_proxy (release dc cg cid did lt path w) = w_proxy w"
  "w_now (release dc cg cid did lt path w) = w_now w"
  "w_workers (release dc cg cid did lt path w) = w_workers w"
  "w_frozen (release dc cg cid did lt path w) = w_frozen w"
  "w_dockerIDs (release dc cg cid did lt path w) = w_dockerIDs w"
  "w_scopeEnforced (release dc cg cid did lt path w) = w_scopeEnforced w"
  "w_docker (release dc cg cid did lt path w) = w_docker (snd (release_action dc cg cid did lt path w))"
  "w_cgroup (release dc cg cid did lt path w) = w_cgroup (snd (release_action dc cg cid did lt path w))"
  by (simp_all add: release_proj split: option.split)

lemma flag_raise [simp]: "flag (raise_flag k lt m) k' lt' \<longleftrightarrow> k' = k \<and> lt' = lt \<or> flag m k' lt'"
  by (auto simp: flag_def raise_flag_def split: option.split)

lemma flag_lower [simp]: "flag (lower_flag k lt m) k' lt' \<longleftrightarrow> \<not> (k' = k \<and> lt' = lt) \<and> flag m k' lt'"
  by (auto simp: flag_def lower_flag_def split: option.split)

lemma flag_enforce:
  "flag (w_enforced (enforce dc cg cid did lt path w)) c t \<longleftrightarrow>
     flag (w_enforced w) c t \<or>
     (c = cid \<and> t = lt \<and> fst (enforce_action dc cg cid did lt path w) = None)"
  by (auto simp: enforce_proj split: option.split)

lemma flag_release:
  "flag (w_enforced (release dc cg cid did lt path w)) c t \<longleftrightarrow>
     flag (w_enforced w) c t \<and>
     \<not> (c = cid \<and> t = lt \<and> fst (release_action dc cg cid did lt path w) = None)"
  by (auto simp: release_proj split: option.split)

subsection \<open>Frozen containers stay held\<close>

text \<open>Every tracked container is keyed by the prefix of a Docker ID; every frozen one is held.\<close>

definition ids_ok :: "('d, 'c, 'z) world_scheme \<Rightarrow> bool" where
  "ids_ok w \<longleftrightarrow> (\<forall>cid did. w_dockerIDs w cid = Some did \<longrightarrow> cid = take 12 did \<and> docker_id did)"

definition frozen_held :: "'d docker_client \<Rightarrow> ('d, 'c, 'z) world_scheme \<Rightarrow> bool" where
  "frozen_held dc w \<longleftrightarrow>
     (\<forall>cid did. mgetb (w_frozen w) cid \<and> w_dockerIDs w cid = Some did \<longrightarrow> held dc (w_docker w) did)"

definition daemon_inv :: "'d docker_client \<Rightarrow> ('d, 'c, 'z) world_scheme \<Rightarrow> bool" where
  "daemon_inv dc w \<longleftrightarrow> ids_ok w \<and> frozen_held dc w \<and> wf_store (w_store w)"

lemma daemon_inv_frame:
  "daemon_inv dc w \<Longrightarrow> w_dockerIDs w' = w_dockerIDs w \<Longrightarrow> w_frozen w' = w_frozen w \<Longrightarrow>
   w_docker w' = w_docker w \<Longrightarrow> wf_store (w_store w') \<Longrightarrow> daemon_inv dc w'"
  by (simp add: daemon_inv_def ids_ok_def frozen_held_def)

lemma daemon_inv_emit [simp]: "daemon_inv dc (emit t c d w) = daemon_inv dc w"
  by (simp add: daemon_inv_def ids_ok_def frozen_held_def)

lemma daemon_inv_updates [simp]:
  "daemon_inv dc (w\<lparr>w_lastSleepEmit := a\<rparr>) = daemon_inv dc w"
  "daemon_inv dc (w\<lparr>w_scopeEnforced := b\<rparr>) = daemon_inv dc w"
  "daemon_inv dc (w\<lparr>w_enforced := b\<rparr>) = daemon_inv dc w"
  "daemon_inv dc (w\<lparr>w_proxy := p\<rparr>) = daemon_inv dc w"
  "daemon_inv dc (w\<lparr>w_bus := q\<rparr>) = daemon_inv dc w"
  "daemon_inv dc (w\<lparr>w_now := n\<rparr>) = daemon_inv dc w"
  "daemon_inv dc (w\<lparr>w_cgroup := g\<rparr>) = daemon_inv dc w"
  "daemon_inv dc (w\<lparr>w_scopeRunning := r\<rparr>) = daemon_inv dc w"
  "daemon_inv dc (w\<lparr>w_workers := ws\<rparr>) = daemon_inv dc w"
  by (simp_all add: daemon_inv_def ids_ok_def frozen_held_def)

lemma daemon_inv_on_store:
  "daemon_inv dc w \<Longrightarrow> wf_store (snd (f (w_store w))) \<Longrightarrow> daemon_inv dc (snd (on_store f w))"
  by (erule daemon_inv_frame) simp_all

context pausable_docker
begin

lemma enforce_keeps_held:
  "held dc (w_docker w) j \<Longrightarrow> held dc (w_docker (enforce dc cg cid did lt path w)) j"
  by (simp add: enforce_action_def pause_for_proj case_prod_unfold pause_keeps stop_keeps frame_keeps
      split: option.split)

lemma release_keeps_held:
  assumes "held dc (w_docker w) j" and "j = did \<Longrightarrow> mgetb (w_frozen w) cid"
  shows "held dc (w_docker (release dc cg cid did lt path w)) j"
proof (cases "j = did")
  case True
  then have "isOtherPauseActive cid lt w" using assms(2) by (simp add: isOtherPauseActive_def)
  then show ?thesis using assms(1) by (simp add: release_action_def frame_keeps)
next
  case False
  then show ?thesis using assms(1) by (simp add: release_action_def frame_keeps unpause_keeps_other)
qed

lemma enforce_inv: "daemon_inv dc w \<Longrightarrow> daemon_inv dc (enforce dc cg cid did lt path w)"
  using enforce_keeps_held by (simp only: daemon_inv_def ids_ok_def frozen_held_def enforce_frame(1,5,6)) blast

lemma release_inv:
  assumes inv: "daemon_inv dc w" and cid: "cid = take 12 did"
  shows "daemon_inv dc (release dc cg cid did lt path w)"
proof -
  have "held dc (w_docker (release dc cg cid did lt path w)) j"
    if "mgetb (w_frozen w) c" "w_dockerIDs w c = Some j" for c j
  proof (rule release_keeps_held)
    show "held dc (w_docker w) j" using inv that by (simp add: daemon_inv_def frozen_held_def)
    assume "j = did"
    then show "mgetb (w_frozen w) cid" using inv that cid by (auto simp: daemon_inv_def ids_ok_def)
  qed
  then show ?thesis
    using inv by (simp only: daemon_inv_def ids_ok_def frozen_held_def release_frame(1,5,6)) blast
qed

lemma measure_inv: "daemon_inv dc w \<Longrightarrow> daemon_inv dc (snd (measure dc cg cid did slept path lt w))"
  by (rule daemon_inv_frame [of dc w])
     (simp_all add: measure_def Let_def daemon_inv_def wf_ops split: sum.split)

lemma check_type_inv:
  assumes "daemon_inv dc w" and "cid = take 12 did"
  shows "daemon_inv dc (check_type dc cg cid did slept path limits lt w)"
proof -
  have "daemon_inv dc (snd (measure dc cg cid did slept path lt w))"
    using assms(1) by (rule measure_inv)
  then show ?thesis
    using assms by (simp add: check_type_def Let_def case_prod_unfold enforce_inv release_inv split: option.split)
qed

lemma checkAndEnforce_inv:
  assumes inv: "daemon_inv dc w" and cid: "cid = take 12 did"
  shows "daemon_inv dc (checkAndEnforce dc cg cid did slept w)"
proof -
  have types: "daemon_inv dc (fold (check_type dc cg cid did slept path limits) lts w)" for path limits lts
    using inv by (induction lts arbitrary: w) (simp_all add: check_type_inv cid)
  have sync: "daemon_inv dc (sync_spending cid v)" if "daemon_inv dc v" for v :: "('d, 'e, 'f) world_scheme"
  proof -
    have "wf_store (w_store v)" using that by (simp add: daemon_inv_def)
    then show ?thesis
      using that by (simp add: sync_spending_def daemon_inv_on_store wf_SetUsage split: option.split)
  qed
  show ?thesis
    using inv by (simp add: checkAndEnforce_def Let_def emit_usage_def types sync split: sum.split bool.split)
qed

lemma tick_inv:
  assumes "daemon_inv dc w" and "cid = take 12 did"
  shows "daemon_inv dc (snd (enforcement_tick dc cg cid did lastTick w))"
proof -
  have "daemon_inv dc (emitSleepEvent cid elapsed w)" for elapsed
    using assms(1) by (simp add: emitSleepEvent_def split: option.split)
  then show ?thesis using assms by (simp add: enforcement_tick_def Let_def checkAndEnforce_inv)
qed

end

text \<open>The scope loop acts on the store's rows, whose keys are the prefixes of their Docker IDs.\<close>

definition conts_ok :: "container list \<Rightarrow> bool" where
  "conts_ok cs \<longleftrightarrow> list_all (\<lambda>c. c_ID c = take 12 (c_DockerID c)) cs"

lemma conts_ok_rows: "wf_store s \<Longrightarrow> ListContainersByScope s sc = Inr cs \<Longrightarrow> conts_ok cs"
  by (auto simp: ListContainersByScope_def Let_def conts_ok_def list_all_iff row_to_container_def
      wf_store_defs row_wf_def split: option.splits if_splits)

context pausable_docker
begin

lemma fold_on_running_inv:
  assumes "daemon_inv dc w" and "conts_ok cs"
    and "\<And>w cid did p. daemon_inv dc w \<Longrightarrow> cid = take 12 did \<Longrightarrow> daemon_inv dc (act cid did p w)"
  shows "daemon_inv dc (fold (on_running dc cg act) cs w)"
  using assms(1,2)
  by (induction cs arbitrary: w)
     (simp_all add: conts_ok_def on_running_def assms(3) split: sum.split bool.split)

lemma block_scope_inv [simp]: "daemon_inv dc (block_scope_spending sc lt b w) = daemon_inv dc w"
  by (simp add: block_scope_spending_def)

lemma scopeEnforce_inv: "daemon_inv dc w \<Longrightarrow> conts_ok cs \<Longrightarrow> daemon_inv dc (scopeEnforce dc cg sc lt cs w)"
  by (simp add: scopeEnforce_def Let_def fold_on_running_inv enforce_inv)

lemma scopeRelease_inv: "daemon_inv dc w \<Longrightarrow> conts_ok cs \<Longrightarrow> daemon_inv dc (scopeRelease dc cg sc lt cs w)"
  by (simp add: scopeRelease_def Let_def fold_on_running_inv release_inv)

lemma check_scope_type_inv:
  "daemon_inv dc w \<Longrightarrow> conts_ok cs \<Longrightarrow> daemon_inv dc (check_scope_type dc cg sc cs totals row w)"
  by (simp add: check_scope_type_def Let_def scopeEnforce_inv scopeRelease_inv split: prod.split)

lemma checkScope_inv:
  assumes "daemon_inv dc w"
  shows "daemon_inv dc (checkScopeEnforcement dc cg sc w)"
proof -
  have "daemon_inv dc (fold (check_scope_type dc cg sc cs totals) rows w)" if "conts_ok cs" for cs totals rows
    using assms that by (induction rows arbitrary: w) (simp_all add: check_scope_type_inv)
  moreover have "wf_store (w_store w)" using assms by (simp add: daemon_inv_def)
  ultimately show ?thesis
    using assms conts_ok_rows by (auto simp: checkScopeEnforcement_def split: sum.split)
qed

lemma scope_tick_inv:
  assumes "daemon_inv dc w"
  shows "daemon_inv dc (scope_tick dc cg w)"
proof -
  have "daemon_inv dc (fold (\<lambda>s. checkScopeEnforcement dc cg (f s)) segs v)" if "daemon_inv dc v"
    for f and segs :: "segment list" and v :: "('d, 'a, 'b) world_scheme"
    using that by (induction segs arbitrary: v) (simp_all add: checkScope_inv)
  then show ?thesis
    using checkScope_inv [OF assms] by (simp add: scope_tick_def Let_def split: sum.split)
qed

lemma Freeze_inv:
  assumes "daemon_inv dc w"
  shows "daemon_inv dc (snd (Freeze dc cid w))"
proof -
  define did where "did = mgets (w_dockerIDs w) cid"
  let ?w1 = "snd (on_docker (d_pause dc did) w)"
  have inv1: "daemon_inv dc ?w1"
    using assms pause_keeps by (simp only: daemon_inv_def ids_ok_def frozen_held_def on_docker_frame) blast
  have wf: "wf_store (w_store w)" using assms by (simp add: daemon_inv_def)
  have inv2: "daemon_inv dc (snd (on_store (SetFrozen cid True) ?w1))"
    using inv1 wf by (simp add: daemon_inv_on_store wf_SetFrozen)
  show ?thesis
  proof (cases "did = '''' \<or> mgetb (w_frozen w) cid \<or> fst (pause_for dc did w) \<noteq> None \<or>
                fst (SetFrozen cid True (w_store w)) \<noteq> None")
    case True
    then show ?thesis
      using assms inv1 inv2
      by (auto simp: Freeze_def Let_def did_def [symmetric] case_prod_unfold pause_for_proj(2) split: option.split)
  next
    case False
    then have did: "w_dockerIDs w cid = Some did" "docker_id did"
      using assms by (auto simp: did_def mgets_def daemon_inv_def ids_ok_def split: option.splits)
    have "case fst (d_pause dc did (w_docker w)) of None \<Rightarrow> True | Some e \<Rightarrow> already_paused e"
      using False by (auto simp: pause_for_proj split: option.splits if_splits)
    then have h: "held dc (snd (d_pause dc did (w_docker w))) did"
      using pause_holds [of did "w_docker w"] did(2) by (metis prod.collapse)
    have "daemon_inv dc ((snd (on_store (SetFrozen cid True) ?w1))\<lparr>w_frozen := (w_frozen w)(cid \<mapsto> True)\<rparr>)"
      using inv2 h did(1) by (auto simp: daemon_inv_def ids_ok_def frozen_held_def)
    then show ?thesis
      using False by (simp add: Freeze_def Let_def did_def [symmetric] case_prod_unfold pause_for_proj(2))
  qed
qed

end

lemma StartContainer_inv:
  assumes "daemon_inv dc w" and "cid = take 12 did" and "docker_id did"
    and "IsFrozen (StartContainer cid did w) cid \<Longrightarrow> held dc (w_docker w) did"
  shows "daemon_inv dc (StartContainer cid did w)"
  using assms
  by (auto simp: StartContainer_def IsFrozen_def daemon_inv_def ids_ok_def frozen_held_def
      split: sum.splits if_splits)

lemma StopContainer_inv: "daemon_inv dc w \<Longrightarrow> daemon_inv dc (StopContainer cid w)"
  by (auto simp: StopContainer_def daemon_inv_def ids_ok_def frozen_held_def mgetb_def split: if_splits)

context pausable_docker
begin

lemma Unfreeze_inv:
  assumes inv: "daemon_inv dc w"
  shows "daemon_inv dc (snd (Unfreeze dc cid w))"
proof -
  define did where "did = mgets (w_dockerIDs w) cid"
  let ?w1 = "snd (on_store (SetFrozen cid False) w)"
  let ?w2 = "?w1\<lparr>w_frozen := (w_frozen w)(cid \<mapsto> False)\<rparr>"
  have wf: "wf_store (w_store w)" using inv by (simp add: daemon_inv_def)
  have inv1: "daemon_inv dc ?w1" using inv wf by (simp add: daemon_inv_on_store wf_SetFrozen)
  then have inv2: "daemon_inv dc ?w2" by (auto simp: daemon_inv_def ids_ok_def frozen_held_def)
  have "daemon_inv dc (snd (on_docker (d_unpause dc did) ?w2))" if "did \<noteq> ''''"
  proof -
    have did: "w_dockerIDs w cid = Some did" using that by (auto simp: did_def mgets_def split: option.splits)
    have "held dc (snd (d_unpause dc did (w_docker w))) j"
      if "mgetb (w_frozen ?w2) c" "w_dockerIDs w c = Some j" for c j
    proof (rule unpause_keeps_other)
      have "c \<noteq> cid" using that(1) by auto
      moreover have "c = take 12 j" "cid = take 12 did"
        using inv that(2) did by (auto simp: daemon_inv_def ids_ok_def)
      ultimately show "j \<noteq> did" by auto
      show "held dc (w_docker w) j" using inv2 that by (auto simp: daemon_inv_def frozen_held_def)
    qed
    then have "\<forall>c j. mgetb (w_frozen ?w2) c \<and> w_dockerIDs w c = Some j \<longrightarrow>
        held dc (snd (d_unpause dc did (w_docker w))) j"
      by blast
    then show ?thesis
      using inv2 unfolding daemon_inv_def ids_ok_def frozen_held_def by (simp only: on_docker_frame) simp
  qed
  then show ?thesis
    using inv inv1 inv2
    by (auto simp: Unfreeze_def Let_def did_def [symmetric] case_prod_unfold split: option.split)
qed

end

lemma fold_frame:
  assumes "\<And>x w. x \<in> set xs \<Longrightarrow> g (f x w) = g w"
  shows "g (fold f xs w) = g w"
  using assms by (induction xs arbitrary: w) auto

lemma on_running_frozen:
  assumes "\<And>cid did p w. w_frozen (act cid did p w) = w_frozen w"
    and "\<And>cid did p w. w_dockerIDs (act cid did p w) = w_dockerIDs w"
  shows "w_frozen (on_running dc cg act c w) = w_frozen w"
    and "w_dockerIDs (on_running dc cg act c w) = w_dockerIDs w"
  by (simp_all add: on_running_def assms split: sum.split bool.split)

lemma check_scope_type_frozen:
  "w_frozen (check_scope_type dc cg sc cs totals row w) = w_frozen w"
  "w_dockerIDs (check_scope_type dc cg sc cs totals row w) = w_dockerIDs w"
  by (simp_all add: check_scope_type_def scopeEnforce_def scopeRelease_def block_scope_spending_def Let_def
      fold_frame [where g = w_frozen] fold_frame [where g = w_dockerIDs] on_running_frozen split: prod.split)

lemma checkScope_frozen:
  "w_frozen (checkScopeEnforcement dc cg sc w) = w_frozen w"
  "w_dockerIDs (checkScopeEnforcement dc cg sc w) = w_dockerIDs w"
  by (simp_all add: checkScopeEnforcement_def check_scope_type_frozen
      fold_frame [where g = w_frozen] fold_frame [where g = w_dockerIDs] split: sum.split)

lemma scope_tick_frozen [simp]:
  "w_frozen (scope_tick dc cg w) = w_frozen w" "w_dockerIDs (scope_tick dc cg w) = w_dockerIDs w"
  by (simp_all add: scope_tick_def Let_def checkScope_frozen
      fold_frame [where g = w_frozen] fold_frame [where g = w_dockerIDs] split: sum.split)

text \<open>What freezing does when nothing refuses.\<close>

lemma Freeze_effect:
  assumes "w_dockerIDs w cid = Some did" and "did \<noteq> ''''" and "\<not> IsFrozen w cid"
    and "fst (pause_for dc did w) = None" and "db_werr (w_store w) = None"
  shows "Freeze dc cid w =
    (None, emit ContainerFrozen cid ContainerFrozenData
       ((snd (on_store (SetFrozen cid True) (snd (on_docker (d_pause dc did) w))))
          \<lparr>w_frozen := (w_frozen w)(cid \<mapsto> True)\<rparr>))"
  using assms by (simp add: Freeze_def mgets_def IsFrozen_def case_prod_unfold pause_for_proj(2) SetFrozen_def)

subsection \<open>The daemon as a transition system\<close>

text \<open>
  A state is reached from a freshly created manager on a reachable store by the steps the
  daemon takes: the loops' turns, the API's calls, store operations of the API, and whatever
  the environment does to the cgroups, the spending tracker, the bus and the clock. The
  environment may do anything to Docker that does not set a frozen container running, and a
  container recorded as frozen is found held when the daemon starts tracking it.
\<close>

inductive daemon_reach :: "'d docker_client \<Rightarrow> 'c cgroup_reader \<Rightarrow> ('d, 'c) world \<Rightarrow> bool"
  for dc :: "'d docker_client" and cg :: "'c cgroup_reader" where
  dr_new: "store_reach s \<Longrightarrow> daemon_reach dc cg (NewManager s d c p b now)"
| dr_tick: "daemon_reach dc cg w \<Longrightarrow> w_dockerIDs w cid = Some did \<Longrightarrow>
    daemon_reach dc cg (snd (enforcement_tick dc cg cid did lastTick w))"
| dr_scope: "daemon_reach dc cg w \<Longrightarrow> daemon_reach dc cg (scope_tick dc cg w)"
| dr_start: "daemon_reach dc cg w \<Longrightarrow> docker_id did \<Longrightarrow>
    (IsFrozen (StartContainer (take 12 did) did w) (take 12 did) \<Longrightarrow> held dc (w_docker w) did) \<Longrightarrow>
    daemon_reach dc cg (StartContainer (take 12 did) did w)"
| dr_stop: "daemon_reach dc cg w \<Longrightarrow> daemon_reach dc cg (StopContainer cid w)"
| dr_stop_all: "daemon_reach dc cg w \<Longrightarrow> daemon_reach dc cg (StopAll w)"
| dr_freeze: "daemon_reach dc cg w \<Longrightarrow> daemon_reach dc cg (snd (Freeze dc cid w))"
| dr_unfreeze: "daemon_reach dc cg w \<Longrightarrow> daemon_reach dc cg (snd (Unfreeze dc cid w))"
| dr_store: "daemon_reach dc cg w \<Longrightarrow> daemon_reach dc cg (w\<lparr>w_store := store_step op (w_store w)\<rparr>)"
| dr_env: "daemon_reach dc cg w \<Longrightarrow>
    daemon_reach dc cg (w\<lparr>w_cgroup := c, w_proxy := p, w_bus := b, w_now := now\<rparr>)"
| dr_docker: "daemon_reach dc cg w \<Longrightarrow>
    (\<And>cid did. IsFrozen w cid \<Longrightarrow> w_dockerIDs w cid = Some did \<Longrightarrow> held dc d did) \<Longrightarrow>
    daemon_reach dc cg (w\<lparr>w_docker := d\<rparr>)"

lemma store_reach_wf: "store_reach s \<Longrightarrow> wf_store s"
  by (induction rule: store_reach.induct) (simp_all add: wf_store_step)

lemma daemon_reach_inv:
  assumes dc: "pausable_docker dc" and "daemon_reach dc cg w"
  shows "daemon_inv dc w"
  using assms(2)
proof induction
  case (dr_new s d c p b now)
  then show ?case
    by (simp add: daemon_inv_def ids_ok_def frozen_held_def NewManager_def store_reach_wf)
next
  case (dr_tick w cid did lastTick)
  then have "cid = take 12 did" by (simp add: daemon_inv_def ids_ok_def)
  then show ?case using pausable_docker.tick_inv [OF dc] dr_tick by blast
next
  case (dr_scope w)
  then show ?case using pausable_docker.scope_tick_inv [OF dc] by blast
next
  case (dr_start w did)
  then show ?case by (intro StartContainer_inv) auto
next
  case (dr_freeze w cid)
  then show ?case using pausable_docker.Freeze_inv [OF dc] by blast
next
  case (dr_unfreeze w cid)
  then show ?case using pausable_docker.Unfreeze_inv [OF dc] by blast
next
  case (dr_store w op)
  then show ?case by (auto simp: daemon_inv_def ids_ok_def frozen_held_def wf_store_step)
next
  case (dr_docker w d)
  then show ?case by (auto simp: daemon_inv_def ids_ok_def frozen_held_def IsFrozen_def)
qed (auto simp: StopContainer_inv StopAll_def)


definition mock_world :: "(mock_docker, mock_cgroup) world" where
  "mock_world =
     NewManager demo_store (AddContainer ''fedcba9876543210'' ''db'' True
       (AddContainer ''0123456789abcdef'' ''web'' True NewMockDocker)) NewMockCgroup None None 0"

lemma demo_ids: "docker_id ''0123456789abcdef''" "docker_id ''fedcba9876543210''"
  by (simp_all add: docker_id_def)

definition frozen_world :: "(mock_docker, mock_cgroup) world" where
  "frozen_world = snd (Freeze MockDocker ''0123456789ab'' (StartContainer ''0123456789ab'' ''0123456789abcdef'' mock_world))"

lemma mock_world_start:
  "StartContainer ''0123456789ab'' ''0123456789abcdef'' mock_world =
     mock_world\<lparr>w_workers := [''0123456789ab''], w_enforced := [''0123456789ab'' \<mapsto> []],
       w_dockerIDs := [''0123456789ab'' \<mapsto> ''0123456789abcdef''],
       w_frozen := [''0123456789ab'' \<mapsto> False]\<rparr>"
  by (simp add: mock_world_def StartContainer_def NewManager_def IsFrozenRow_def find_row_def demo_store_eval)

lemma frozen_world_props:
  "daemon_reach MockDocker MockCgroup frozen_world" "IsFrozen frozen_world ''0123456789ab''"
  "w_dockerIDs frozen_world ''0123456789ab'' = Some ''0123456789abcdef''"
proof -
  have "daemon_reach MockDocker MockCgroup mock_world"
    unfolding mock_world_def by (rule dr_new) (rule demo_reach)
  from dr_start [OF this demo_ids(1)]
  have "daemon_reach MockDocker MockCgroup (StartContainer ''0123456789ab'' ''0123456789abcdef'' mock_world)"
    by (simp add: mock_world_start IsFrozen_def)
  then show "daemon_reach MockDocker MockCgroup frozen_world"
    unfolding frozen_world_def by (rule dr_freeze)
  let ?w = "StartContainer ''0123456789ab'' ''0123456789abcdef'' mock_world"
  have "Freeze MockDocker ''0123456789ab'' ?w =
    (None, emit ContainerFrozen ''0123456789ab'' ContainerFrozenData
       ((snd (on_store (SetFrozen ''0123456789ab'' True) (snd (on_docker (d_pause MockDocker ''0123456789abcdef'') ?w))))
          \<lparr>w_frozen := (w_frozen ?w)(''0123456789ab'' \<mapsto> True)\<rparr>))"
  proof (rule Freeze_effect)
    show "fst (pause_for MockDocker ''0123456789abcdef'' ?w) = None"
      unfolding mock_world_start pause_for_proj
      by (simp add: mock_world_def NewManager_def mock_ops AddContainer_def new_mock_container_def)
    show "db_werr (w_store ?w) = None"
      unfolding mock_world_start by (simp add: mock_world_def NewManager_def demo_store_eval)
  qed (simp_all add: mock_world_start IsFrozen_def)
  then show "IsFrozen frozen_world ''0123456789ab''"
    "w_dockerIDs frozen_world ''0123456789ab'' = Some ''0123456789abcdef''"
    by (simp_all add: frozen_world_def IsFrozen_def) (simp add: mock_world_start)
qed


subsection \<open>A check is level-triggered\<close>

locale enforcement_host = reliable_docker dc known + reliable_cgroup cg ready
  for dc :: "'d docker_client" and known and cg :: "'c cgroup_reader" and ready

interpretation mockhost: enforcement_host MockDocker mock_known MockCgroup mock_ready
  by unfold_locales

interpretation readerhost: enforcement_host MockDocker mock_known "Reader b" fs_ready for b
  by unfold_locales

definition host_ok ::
  "('d \<Rightarrow> string \<Rightarrow> bool) \<Rightarrow> ('c \<Rightarrow> string \<Rightarrow> bool) \<Rightarrow> string \<Rightarrow> string \<Rightarrow> string \<Rightarrow> ('d, 'c, 'z) world_scheme \<Rightarrow> bool" where
  "host_ok known ready cid did p w \<longleftrightarrow>
     db_ok (w_store w) \<and> known (w_docker w) did \<and> ready (w_cgroup w) p \<and>
     (\<forall>t. w_proxy w = Some t \<longrightarrow> in64 (GetSpending t cid))"

lemma host_ok_emit [simp]: "host_ok known ready cid did p (emit t c d w) = host_ok known ready cid did p w"
  by (simp add: host_ok_def)

lemma host_ok_enforced [simp]:
  "host_ok known ready cid did p (w\<lparr>w_enforced := e\<rparr>) = host_ok known ready cid did p w"
  by (simp add: host_ok_def)

definition usage_of :: "('d, 'c, 'z) world_scheme \<Rightarrow> string \<Rightarrow> limit_type \<Rightarrow> int" where
  "usage_of w cid lt = or0 (GetUsage (w_store w) cid lt)"

lemma usage_of_emit [simp]: "usage_of (emit t c d w) = usage_of w"
  by (rule ext)+ (simp add: usage_of_def)

lemma usage_of_enforce [simp]: "usage_of (enforce dc cg cid did lt path w) = usage_of w"
  by (rule ext)+ (simp add: usage_of_def)

lemma usage_of_release [simp]: "usage_of (release dc cg cid did lt path w) = usage_of w"
  by (rule ext)+ (simp add: usage_of_def)

lemma SetUsage_usage:
  "db_ok (w_store w) \<Longrightarrow> in64 u \<Longrightarrow>
   usage_of (snd (on_store (SetUsage cid lt u) w)) c t = (if c = cid \<and> t = lt then u else usage_of w c t)"
  using usg.get_put [of "w_store w" u "(cid, lt)" "(c, t)"] by (auto simp: usage_of_def or0_def)

lemma AddUsage_usage_other:
  "db_ok (w_store w) \<Longrightarrow> \<not> (c = cid \<and> t = lt) \<Longrightarrow>
   usage_of (snd (on_store (AddUsage cid lt u) w)) c t = usage_of w c t"
  using usg.get_add_other [of "w_store w" "(c, t)" "(cid, lt)" u] by (auto simp: usage_of_def)

lemma db_ok_SetUsage [simp]: "db_ok s \<Longrightarrow> db_ok (snd (SetUsage c lt v s))"
  by (simp add: store_writes db_ok_def)

lemma db_ok_AddUsage [simp]: "db_ok s \<Longrightarrow> db_ok (snd (AddUsage c lt v s))"
  by (simp add: store_writes db_ok_def)

lemma in64_go_div: "in64 x \<Longrightarrow> 0 < b \<Longrightarrow> in64 (go_div x b)"
proof -
  assume x: "in64 x" and b: "0 < b"
  have "\<bar>x\<bar> div b \<le> \<bar>x\<bar>" using b zdiv_mono2 [of "\<bar>x\<bar>" 1 b] by simp
  moreover have "0 \<le> \<bar>x\<bar> div b" using b by (simp add: pos_imp_zdiv_nonneg_iff)
  ultimately show ?thesis
    using x b unfolding go_div_def in64_def by (cases "x < 0"; cases "x = 0") (auto simp: sgn_if)
qed

lemma GetUsage_in64: "GetUsage s c lt = Inr v \<Longrightarrow> in64 v"
  by (auto simp: GetUsage_def query_int_cases scan_int_def split: option.splits if_splits)

lemma or0_GetUsage_in64: "in64 (or0 (GetUsage s c lt))"
  by (cases "GetUsage s c lt") (simp_all add: or0_def GetUsage_in64)

context enforcement_host
begin

lemma enforce_action_ok:
  assumes ok: "host_ok known ready cid did p w"
  shows "fst (enforce_action dc cg cid did lt p w) = None \<and>
         host_ok known ready cid did p (snd (enforce_action dc cg cid did lt p w))"
proof -
  have d: "known (w_docker w) did" and c: "ready (w_cgroup w) p" using ok by (auto simp: host_ok_def)
  show ?thesis
    using ok known_pause [OF d] known_memory [OF d] known_disconnect [OF d] known_stop [OF d] ready_set [OF c]
    by (auto simp: enforce_action_def host_ok_def pause_for_proj case_prod_unfold split: option.splits)
qed

lemma release_action_ok:
  assumes ok: "host_ok known ready cid did p w"
  shows "fst (release_action dc cg cid did lt p w) = None \<and>
         host_ok known ready cid did p (snd (release_action dc cg cid did lt p w))"
proof -
  have d: "known (w_docker w) did" and c: "ready (w_cgroup w) p" using ok by (auto simp: host_ok_def)
  show ?thesis
    using ok known_unpause [OF d] known_memory [OF d] known_reconnect [OF d] ready_remove [OF c]
    by (auto simp: release_action_def host_ok_def)
qed

lemma enforce_ok: "host_ok known ready cid did p w \<Longrightarrow> host_ok known ready cid did p (enforce dc cg cid did lt p w)"
  using enforce_action_ok [of cid did p w lt] by (simp add: enforce_proj)

lemma release_ok: "host_ok known ready cid did p w \<Longrightarrow> host_ok known ready cid did p (release dc cg cid did lt p w)"
  using release_action_ok [of cid did p w lt] by (simp add: release_proj)

lemma current_usage_ok:
  assumes ok: "host_ok known ready cid did p w" and lt: "lt \<in> set AllLimitTypes" "\<not> isByteSecondType lt"
  shows "\<exists>u. getCurrentUsage dc cg cid did lt (Inr p) w = Inr u \<and> in64 u \<and>
             (lt = LimitSpending \<longrightarrow> u = (case w_proxy w of None \<Rightarrow> 0 | Some t \<Rightarrow> GetSpending t cid))"
proof -
  have d: "known (w_docker w) did" and c: "ready (w_cgroup w) p"
    and s: "\<And>t. w_proxy w = Some t \<Longrightarrow> in64 (GetSpending t cid)" using ok by (auto simp: host_ok_def)
  obtain v1 v2 v3 v4 where "g_cpu cg (w_cgroup w) p = Inr v1" "in64 v1" "g_mem cg (w_cgroup w) p = Inr v2" "in64 v2"
    "d_disk dc (w_docker w) did = Inr v3" "in64 v3" "g_iostat cg (w_cgroup w) p = Inr v4"
    "in64 (TotalBytes v4)" "in64 (TotalOps v4)"
    using ready_cpu [OF c] ready_mem [OF c] ready_io [OF c] known_disk [OF d] by blast
  then show ?thesis
    using lt s by (auto simp: getCurrentUsage_def AllLimitTypes_def isByteSecondType_def in64_go_div or0_GetUsage_in64
        split: option.split)
qed

lemma measure_ok:
  assumes ok: "host_ok known ready cid did p w" and lt: "lt \<in> set AllLimitTypes"
  shows "\<exists>w1. measure dc cg cid did slept (Inr p) lt w = (Some (usage_of w1 cid lt), w1) \<and>
     host_ok known ready cid did p w1 \<and> w_enforced w1 = w_enforced w \<and> w_proxy w1 = w_proxy w \<and>
     (\<forall>c t. \<not> (c = cid \<and> t = lt) \<longrightarrow> usage_of w1 c t = usage_of w c t) \<and>
     (lt = LimitSpending \<longrightarrow> usage_of w1 cid lt = (case w_proxy w of None \<Rightarrow> 0 | Some t \<Rightarrow> GetSpending t cid))"
proof (cases "isByteSecondType lt")
  case True
  let ?w1 = "if \<not> flag (w_enforced w) cid lt \<and> \<not> slept \<and> \<not> mgetb (w_frozen w) cid
             then snd (on_store (AddUsage cid lt (getByteSecondSource dc cg cid did lt (Inr p) w)) w) else w"
  have "measure dc cg cid did slept (Inr p) lt w = (Some (usage_of ?w1 cid lt), ?w1)"
    using True by (simp add: measure_def Let_def usage_of_def)
  moreover have "host_ok known ready cid did p ?w1" using ok by (simp add: host_ok_def)
  moreover have "lt \<noteq> LimitSpending" using True by (auto simp: isByteSecondType_def)
  moreover have "\<forall>c t. \<not> (c = cid \<and> t = lt) \<longrightarrow> usage_of ?w1 c t = usage_of w c t"
    using ok by (simp add: host_ok_def AddUsage_usage_other)
  ultimately show ?thesis by (intro exI [of _ ?w1]) simp
next
  case False
  obtain u where u: "getCurrentUsage dc cg cid did lt (Inr p) w = Inr u" "in64 u"
    "lt = LimitSpending \<longrightarrow> u = (case w_proxy w of None \<Rightarrow> 0 | Some t \<Rightarrow> GetSpending t cid)"
    using current_usage_ok [OF ok lt False] by blast
  define w1 where "w1 = snd (on_store (SetUsage cid lt u) w)"
  have db: "db_ok (w_store w)" using ok by (simp add: host_ok_def)
  have "usage_of w1 c t = (if c = cid \<and> t = lt then u else usage_of w c t)" for c t
    unfolding w1_def by (rule SetUsage_usage [OF db u(2)])
  moreover have "host_ok known ready cid did p w1" using ok by (simp add: host_ok_def w1_def)
  moreover have "measure dc cg cid did slept (Inr p) lt w = (Some u, w1)"
    using u(1) False by (simp add: measure_def w1_def)
  moreover have "w_enforced w1 = w_enforced w" "w_proxy w1 = w_proxy w" by (simp_all add: w1_def)
  ultimately show ?thesis
    using u(3) by (intro exI [of _ w1]) simp
qed

end

context enforcement_host
begin

text \<open>The state after one type has been looked at: the flag agrees with the recorded usage.\<close>

definition settled :: "string \<Rightarrow> (limit_type \<times> int) list \<Rightarrow> limit_type \<Rightarrow> ('d, 'c, 'z) world_scheme \<Rightarrow> bool" where
  "settled cid limits lt w \<longleftrightarrow>
     (case map_of limits lt of
        None \<Rightarrow> True
      | Some L \<Rightarrow> L = 0 \<or>
          ((flag (w_enforced w) cid lt \<longleftrightarrow> L \<le> usage_of w cid lt) \<and>
           (lt = LimitSpending \<longrightarrow> usage_of w cid lt = (case w_proxy w of None \<Rightarrow> 0 | Some t \<Rightarrow> GetSpending t cid))))"

lemma check_type_settles:
  assumes ok: "host_ok known ready cid did p w" and lt: "lt \<in> set AllLimitTypes"
  shows "host_ok known ready cid did p (check_type dc cg cid did slept (Inr p) limits lt w) \<and>
         settled cid limits lt (check_type dc cg cid did slept (Inr p) limits lt w) \<and>
         w_proxy (check_type dc cg cid did slept (Inr p) limits lt w) = w_proxy w \<and>
         (\<forall>c t. \<not> (c = cid \<and> t = lt) \<longrightarrow>
            usage_of (check_type dc cg cid did slept (Inr p) limits lt w) c t = usage_of w c t \<and>
            flag (w_enforced (check_type dc cg cid did slept (Inr p) limits lt w)) c t = flag (w_enforced w) c t)"
proof (cases "map_of limits lt = None \<or> map_of limits lt = Some 0")
  case True
  then show ?thesis using ok by (auto simp: check_type_def settled_def)
next
  case False
  then obtain L where L: "map_of limits lt = Some L" "L \<noteq> 0" by auto
  obtain w1 where m: "measure dc cg cid did slept (Inr p) lt w = (Some (usage_of w1 cid lt), w1)"
    and ok1: "host_ok known ready cid did p w1"
    and fr: "w_enforced w1 = w_enforced w" "w_proxy w1 = w_proxy w"
    and us: "\<forall>c t. \<not> (c = cid \<and> t = lt) \<longrightarrow> usage_of w1 c t = usage_of w c t"
    and sp: "lt = LimitSpending \<longrightarrow> usage_of w1 cid lt = (case w_proxy w of None \<Rightarrow> 0 | Some t \<Rightarrow> GetSpending t cid)"
    using measure_ok [OF ok lt] by blast
  define r where "r = check_type dc cg cid did slept (Inr p) limits lt w"
  have "r = (if L \<le> usage_of w1 cid lt \<and> \<not> flag (w_enforced w) cid lt then enforce dc cg cid did lt p w1
             else if \<not> L \<le> usage_of w1 cid lt \<and> flag (w_enforced w) cid lt then release dc cg cid did lt p w1
             else if \<not> L \<le> usage_of w1 cid lt \<and> \<not> flag (w_enforced w) cid lt \<and> isActuallyEnforced dc did lt w1
             then release dc cg cid did lt p w1 else w1)"
    using L m fr by (simp add: r_def check_type_def Let_def)
  then have "host_ok known ready cid did p r \<and> settled cid limits lt r \<and> w_proxy r = w_proxy w \<and>
      (\<forall>c t. \<not> (c = cid \<and> t = lt) \<longrightarrow> usage_of r c t = usage_of w c t \<and>
         flag (w_enforced r) c t = flag (w_enforced w) c t)"
    using L fr us sp ok1 enforce_action_ok [OF ok1, of lt] release_action_ok [OF ok1, of lt]
    by (auto simp: settled_def enforce_ok release_ok flag_enforce flag_release)
  then show ?thesis by (simp add: r_def)
qed

lemma settled_frame:
  "settled cid limits t w \<Longrightarrow> w_proxy w' = w_proxy w \<Longrightarrow> usage_of w' cid t = usage_of w cid t \<Longrightarrow>
   flag (w_enforced w') cid t = flag (w_enforced w) cid t \<Longrightarrow> settled cid limits t w'"
  by (cases "t = LimitSpending") (auto simp: settled_def split: option.splits)

lemma fold_check_settles:
  assumes "host_ok known ready cid did p w" and "distinct lts" and "set lts \<subseteq> set AllLimitTypes"
  shows "host_ok known ready cid did p (fold (check_type dc cg cid did slept (Inr p) limits) lts w) \<and>
         w_proxy (fold (check_type dc cg cid did slept (Inr p) limits) lts w) = w_proxy w \<and>
         (\<forall>t. if t \<in> set lts then settled cid limits t (fold (check_type dc cg cid did slept (Inr p) limits) lts w)
              else usage_of (fold (check_type dc cg cid did slept (Inr p) limits) lts w) cid t = usage_of w cid t \<and>
                   flag (w_enforced (fold (check_type dc cg cid did slept (Inr p) limits) lts w)) cid t =
                   flag (w_enforced w) cid t)"
  using assms
proof (induction lts arbitrary: w)
  case Nil
  then show ?case by simp
next
  case (Cons lt lts)
  let ?w1 = "check_type dc cg cid did slept (Inr p) limits lt w"
  have step: "host_ok known ready cid did p ?w1" "settled cid limits lt ?w1" "w_proxy ?w1 = w_proxy w"
    "\<And>t. t \<noteq> lt \<Longrightarrow> usage_of ?w1 cid t = usage_of w cid t \<and> flag (w_enforced ?w1) cid t = flag (w_enforced w) cid t"
    using check_type_settles [OF Cons.prems(1), of lt slept limits] Cons.prems(3) by auto
  have ih: "host_ok known ready cid did p (fold (check_type dc cg cid did slept (Inr p) limits) lts ?w1) \<and>
         w_proxy (fold (check_type dc cg cid did slept (Inr p) limits) lts ?w1) = w_proxy ?w1 \<and>
         (\<forall>t. if t \<in> set lts then settled cid limits t (fold (check_type dc cg cid did slept (Inr p) limits) lts ?w1)
              else usage_of (fold (check_type dc cg cid did slept (Inr p) limits) lts ?w1) cid t = usage_of ?w1 cid t \<and>
                   flag (w_enforced (fold (check_type dc cg cid did slept (Inr p) limits) lts ?w1)) cid t =
                   flag (w_enforced ?w1) cid t)"
    using Cons.IH [OF step(1)] Cons.prems by simp
  have "lt \<notin> set lts" using Cons.prems by simp
  then show ?case
    using ih step settled_frame [OF step(2), of "fold (check_type dc cg cid did slept (Inr p) limits) lts ?w1"]
    by auto
qed

lemma sync_settled:
  assumes ok: "host_ok known ready cid did p w" and s: "settled cid limits t w"
    and L: "map_of limits t = Some L" "L \<noteq> 0"
  shows "settled cid limits t (sync_spending cid w)"
proof (cases "w_proxy w")
  case None
  then show ?thesis using s by (simp add: sync_spending_def)
next
  case (Some q)
  have db: "db_ok (w_store w)" and q: "in64 (GetSpending q cid)" using ok Some by (auto simp: host_ok_def)
  have "usage_of (sync_spending cid w) cid t = usage_of w cid t"
    using s L Some by (auto simp: sync_spending_def settled_def SetUsage_usage [OF db q])
  then show ?thesis
    using s Some by (auto intro: settled_frame simp: sync_spending_def)
qed

lemma check_settles:
  assumes "host_ok known ready cid did p w" and "g_find cg (w_cgroup w) did = Inr p"
    and "d_running dc (w_docker w) did = Inr True" and "\<not> IsFrozen w cid"
    and "GetAllLimits (w_store w) cid = Inr limits" and "map_of limits lt = Some L" and "L \<noteq> 0"
    and "lt \<in> set AllLimitTypes"
  shows "IsEnforced (checkAndEnforce dc cg cid did slept w) cid lt \<longleftrightarrow>
         L \<le> or0 (GetUsage (w_store (checkAndEnforce dc cg cid did slept w)) cid lt)"
proof -
  let ?w1 = "fold (check_type dc cg cid did slept (Inr p) limits) AllLimitTypes w"
  have "host_ok known ready cid did p ?w1" "settled cid limits lt ?w1"
    using fold_check_settles [OF assms(1) distinct_AllLimitTypes subset_refl, of slept limits] assms(8) by auto
  then have "settled cid limits lt (sync_spending cid ?w1)" using assms(6,7) by (rule sync_settled)
  moreover have "checkAndEnforce dc cg cid did slept w = emit_usage cid limits (sync_spending cid ?w1)"
    using assms by (simp add: checkAndEnforce_def IsFrozen_def)
  ultimately show ?thesis
    using assms(6,7) by (simp add: settled_def emit_usage_def IsEnforced_def usage_of_def)
qed

end

text \<open>C2: enforcement is level-triggered: after a check of a running, unfrozen container on a
  healthy host (database, cgroup files and Docker commands work), every limit of the container
  that is set is marked enforced exactly when the usage now on record has reached it, whatever
  was marked before, and whether or not the host slept since the last check.\<close>

theorem check_level_triggered:
  assumes "enforcement_host dc known cg ready" and "host_ok known ready cid did p w"
    and "g_find cg (w_cgroup w) did = Inr p" and "d_running dc (w_docker w) did = Inr True"
    and "\<not> IsFrozen w cid" and "GetAllLimits (w_store w) cid = Inr limits"
    and "map_of limits lt = Some L" and "L \<noteq> 0" and "lt \<in> set AllLimitTypes"
  shows "IsEnforced (checkAndEnforce dc cg cid did slept w) cid lt \<longleftrightarrow>
         L \<le> or0 (GetUsage (w_store (checkAndEnforce dc cg cid did slept w)) cid lt)"
  using enforcement_host.check_settles [OF assms(1-9)] .

definition busy_cgroup :: mock_cgroup where
  "busy_cgroup = NewMockCgroup\<lparr>mg_Paths := [''0123456789abcdef'' \<mapsto> ''/cg''],
     mg_CPU := [''/cg'' \<mapsto> 2000000000], mg_Mem := [''/cg'' \<mapsto> 100]\<rparr>"

definition busy_world :: "(mock_docker, mock_cgroup) world" where
  "busy_world = (StartContainer ''0123456789ab'' ''0123456789abcdef'' mock_world)\<lparr>w_cgroup := busy_cgroup\<rparr>"

lemma busy_world_facts:
  "host_ok mock_known mock_ready ''0123456789ab'' ''0123456789abcdef'' ''/cg'' busy_world"
  "g_find MockCgroup (w_cgroup busy_world) ''0123456789abcdef'' = Inr ''/cg''"
  "d_running MockDocker (w_docker busy_world) ''0123456789abcdef'' = Inr True"
  "\<not> IsFrozen busy_world ''0123456789ab''"
  "GetAllLimits (w_store busy_world) ''0123456789ab'' = Inr [(LimitCPU, 1000)]"
  unfolding busy_world_def mock_world_start
  by (simp_all add: host_ok_def db_ok_def mock_world_def NewManager_def mock_known_def AddContainer_def
      new_mock_container_def mock_ready_def busy_cgroup_def NewMockCgroup_def in64_def MockCgroup_def mock_ops
      IsFrozen_def GetAllLimits_def query_rows_def demo_store_eval tbl_part_def)

theorem check_level_triggered_witness:
  "IsEnforced (checkAndEnforce MockDocker MockCgroup ''0123456789ab'' ''0123456789abcdef'' False busy_world)
     ''0123456789ab'' LimitCPU \<longleftrightarrow>
   1000 \<le> or0 (GetUsage (w_store (checkAndEnforce MockDocker MockCgroup ''0123456789ab'' ''0123456789abcdef'' False busy_world))
            ''0123456789ab'' LimitCPU)"
  by (rule check_level_triggered [OF mockhost.enforcement_host_axioms busy_world_facts])
     (simp_all add: AllLimitTypes_def)

end
