(* ===== verification/OllamaProps.thy ===== *)
theory OllamaProps
  imports Ollama EnforcementProps ProxyProps
begin

text \<open>
  The queue's invariant over every interleaving of handlers, cancellations, bid changes and the
  processor; the order in which entries are served, as a contract proved once for any
  priority queue and instantiated on the model; billing.
\<close>

subsection \<open>The queue inside the daemon's state\<close>

lemma w_queue_frame [simp]:
  "w_queue (emit t c d w) = w_queue w"
  "w_queue (snd (on_store f w)) = w_queue w"
  "w_queue (on_queue g w) = g (w_queue w)"
  by (simp_all add: emit_def on_store_def on_queue_def split: option.split prod.split)

lemma w_queue_charge [simp]: "w_queue (persist_spending ups w) = w_queue w" "w_queue (charge cid cost w) = w_queue w"
proof -
  show p: "w_queue (persist_spending ups w) = w_queue w" for w :: "('a, 'b, 'c) oworld_scheme" and ups
    unfolding persist_spending_def by (rule fold_frame) (simp add: case_prod_unfold)
  show "w_queue (charge cid cost w) = w_queue w"
    by (simp add: charge_def p split: option.split prod.split)
qed

lemma fold_project:
  "(\<And>x w. g (f x w) = h x (g w)) \<Longrightarrow> g (fold f xs w) = fold h xs (g w)"
  by (induction xs arbitrary: w) simp_all

definition cancel_live :: "ollama_result \<Rightarrow> nat \<Rightarrow> queue \<Rightarrow> queue" where
  "cancel_live r i q = (if live q i then heap_upd i (cancel_with (Some r)) q else q)"

lemma heap_upd_simps [simp]:
  "q_heap (heap_upd i f q) j = (if j = i then f (q_heap q i) else q_heap q j)"
  "q_entries (heap_upd i f q) = q_entries q" "q_next (heap_upd i f q) = q_next q"
  "q_active (heap_upd i f q) = q_active q" "q_proc (heap_upd i f q) = q_proc q"
  "q_wake (heap_upd i f q) = q_wake q" "q_bids (heap_upd i f q) = q_bids q" "q_cfg (heap_upd i f q) = q_cfg q"
  by (simp_all add: heap_upd_def)

lemma removeEntry_simps [simp]:
  "q_heap (removeEntry i q) = q_heap q" "q_entries (removeEntry i q) = remove1 i (q_entries q)"
  "q_next (removeEntry i q) = q_next q" "q_active (removeEntry i q) = q_active q"
  "q_proc (removeEntry i q) = q_proc q" "q_wake (removeEntry i q) = q_wake q"
  by (simp_all add: removeEntry_def)

lemma cancel_with_simps [simp]:
  "en_cancelled (cancel_with r e)" "en_bid (cancel_with r e) = en_bid e"
  "en_container (cancel_with r e) = en_container e" "en_ctxDone (cancel_with r e)"
  "en_result (cancel_with None e) = en_result e" "en_result (cancel_with (Some x) e) = Some x"
  by (simp_all add: cancel_with_def)

lemma end_context_simps [simp]:
  "en_cancelled (end_context e) = en_cancelled e" "en_bid (end_context e) = en_bid e"
  "en_container (end_context e) = en_container e" "en_result (end_context e) = en_result e"
  by (simp_all add: end_context_def)

lemma cancel_all_heap:
  "q_heap (fold (cancel_live r) is q) j =
     (if j \<in> set is \<and> live q j then cancel_with (Some r) (q_heap q j) else q_heap q j)"
  "q_entries (fold (cancel_live r) is q) = q_entries q" "q_next (fold (cancel_live r) is q) = q_next q"
  "q_active (fold (cancel_live r) is q) = q_active q" "q_proc (fold (cancel_live r) is q) = q_proc q"
  "q_wake (fold (cancel_live r) is q) = q_wake q"
  by (induction "is" arbitrary: q) (auto simp: cancel_live_def live_def)

definition mine :: "string \<Rightarrow> queue \<Rightarrow> nat list" where
  "mine cid q = filter (\<lambda>i. en_container (q_heap q i) = cid) (q_entries q)"

definition drop_mine :: "string \<Rightarrow> err \<Rightarrow> queue \<Rightarrow> queue" where
  "drop_mine cid msg q =
     (fold (cancel_live (ResultErr msg)) (mine cid q) q)
       \<lparr>q_entries := filter (\<lambda>i. en_container (q_heap q i) \<noteq> cid) (q_entries q)\<rparr>"

lemma w_queue_drop_pending [simp]: "w_queue (drop_pending cid msg reason w) = drop_mine cid msg (w_queue w)"
proof -
  let ?f = "\<lambda>i w. if live (w_queue w) i
                 then emit OllamaCancel cid (OllamaCancelData reason)
                        (on_queue (heap_upd i (cancel_with (Some (ResultErr msg)))) w) else w"
  have "w_queue (fold ?f is w) = fold (cancel_live (ResultErr msg)) is (w_queue w)" for "is"
    by (rule fold_project) (simp add: cancel_live_def)
  moreover have "filter (\<lambda>i. i \<notin> set (mine cid q)) (q_entries q) =
      filter (\<lambda>i. en_container (q_heap q i) \<noteq> cid) (q_entries q)" for q
    by (rule filter_cong) (auto simp: mine_def)
  ultimately show ?thesis
    by (simp add: drop_pending_def Let_def mine_def [symmetric] drop_mine_def cancel_all_heap(2))
qed

lemma w_queue_ops [simp]:
  "w_queue (CancelAllPending cid w) = cancel_active cid (drop_mine cid ''container frozen'' (w_queue w))"
  "w_queue (Queue_RemoveContainer cid w) =
     cancel_active cid (drop_mine cid ''container removed'' ((w_queue w)\<lparr>q_bids := (q_bids (w_queue w))(cid := None)\<rparr>))"
  "w_queue (give_up i reason w) = removeEntry i (heap_upd i (cancel_with None) (w_queue w))"
  by (simp_all add: CancelAllPending_def Queue_RemoveContainer_def give_up_def)

lemma w_queue_RestoreBids: "\<exists>b. w_queue (RestoreBids cids w) = (w_queue w)\<lparr>q_bids := b\<rparr>"
proof (induction cids arbitrary: w)
  case Nil
  show ?case by (rule exI [of _ "q_bids (w_queue w)"]) (simp add: RestoreBids_def)
next
  case (Cons cid cids)
  define w1 where "w1 = (case GetUsage (w_store w) cid ''ollama-bid'' of
                     Inl _ \<Rightarrow> w
                   | Inr bid \<Rightarrow> if bid > 0 then on_queue (\<lambda>q. q\<lparr>q_bids := (q_bids q)(cid \<mapsto> bid)\<rparr>) w else w)"
  have "RestoreBids (cid # cids) w = RestoreBids cids w1" by (simp add: RestoreBids_def w1_def)
  moreover have "\<exists>b. w_queue w1 = (w_queue w)\<lparr>q_bids := b\<rparr>"
    by (cases "GetUsage (w_store w) cid ''ollama-bid''") (auto simp: w1_def intro: exI [of _ "q_bids (w_queue w)"])
  ultimately show ?case using Cons [of w1] by auto
qed


subsection \<open>The invariant\<close>

definition holds :: "queue \<Rightarrow> nat option" where
  "holds q = (case q_proc q of Popped i \<Rightarrow> Some i | Processing i \<Rightarrow> Some i | _ \<Rightarrow> None)"

abbreviation slot :: "queue \<Rightarrow> nat \<Rightarrow> ollama_result option" where
  "slot q i \<equiv> en_result (q_heap q i)"

definition by_bid :: "queue \<Rightarrow> bool" where
  "by_bid q \<longleftrightarrow> sorted_wrt (\<lambda>i j. bid_of q j \<le> bid_of q i) (q_entries q)"

definition slots_empty :: "queue \<Rightarrow> bool" where
  "slots_empty q \<longleftrightarrow> (\<forall>i. (i \<in> set (q_entries q) \<and> live q i \<or> holds q = Some i) \<longrightarrow> slot q i = None)"

definition no_waiter_lost :: "queue \<Rightarrow> nat set \<Rightarrow> bool" where
  "no_waiter_lost q W \<longleftrightarrow>
     (\<forall>i \<in> W. i \<in> set (q_entries q) \<and> live q i \<or> holds q = Some i \<or> slot q i \<noteq> None)"

definition no_signal_lost :: "queue \<Rightarrow> bool" where
  "no_signal_lost q \<longleftrightarrow> (q_proc q = Waiting \<and> q_entries q \<noteq> [] \<longrightarrow> q_wake q)"

definition active_ok :: "queue \<Rightarrow> bool" where
  "active_ok q \<longleftrightarrow> q_active q = (case q_proc q of Processing i \<Rightarrow> Some i | Replied i \<Rightarrow> Some i | _ \<Rightarrow> None)"

definition addresses_ok :: "queue \<Rightarrow> nat set \<Rightarrow> bool" where
  "addresses_ok q W \<longleftrightarrow>
     distinct (q_entries q) \<and> (\<forall>i \<in> set (q_entries q). i < q_next q) \<and> (\<forall>i \<in> W. i < q_next q) \<and>
     (\<forall>i. holds q = Some i \<longrightarrow> i < q_next q \<and> i \<notin> set (q_entries q))"

definition queue_ok :: "queue \<Rightarrow> nat set \<Rightarrow> bool" where
  "queue_ok q W \<longleftrightarrow>
     by_bid q \<and> slots_empty q \<and> no_waiter_lost q W \<and> no_signal_lost q \<and> active_ok q \<and> addresses_ok q W"

lemmas queue_ok_defs = queue_ok_def by_bid_def slots_empty_def no_waiter_lost_def no_signal_lost_def
  active_ok_def addresses_ok_def

text \<open>Steps that only drop entries, end contexts, and fill or empty slots.\<close>

lemma queue_ok_shrink:
  assumes ok: "queue_ok q W"
    and e: "q_entries q' = filter P (q_entries q)"
    and same: "q_next q' = q_next q" "q_proc q' = q_proc q" "q_active q' = q_active q" "q_wake q' = q_wake q"
    and bids: "\<And>i. bid_of q' i = bid_of q i"
    and kept: "\<And>i. i \<in> set (q_entries q') \<Longrightarrow> live q' i = live q i \<and> (live q i \<longrightarrow> slot q' i = slot q i)"
    and held: "\<And>i. holds q = Some i \<Longrightarrow> slot q' i = None"
    and W: "W' \<subseteq> W"
    and full: "\<And>i. i \<in> W' \<Longrightarrow> slot q i \<noteq> None \<Longrightarrow> slot q' i \<noteq> None"
    and dropped: "\<And>i. i \<in> W' \<Longrightarrow> i \<in> set (q_entries q) \<Longrightarrow> live q i \<Longrightarrow> \<not> P i \<Longrightarrow> slot q' i \<noteq> None"
  shows "queue_ok q' W'"
proof -
  have h: "holds q' = holds q" by (simp add: holds_def same)
  have "by_bid q'"
    using ok by (simp add: queue_ok_def by_bid_def e bids sorted_wrt_filter)
  moreover have "slots_empty q'"
    using ok held kept by (auto simp: queue_ok_def slots_empty_def h e)
  moreover have "no_waiter_lost q' W'"
    using ok W full dropped kept by (fastforce simp: queue_ok_def no_waiter_lost_def h e)
  moreover have "no_signal_lost q'" using ok by (auto simp: queue_ok_def no_signal_lost_def same e)
  moreover have "active_ok q'" using ok by (simp add: queue_ok_def active_ok_def same)
  moreover have "addresses_ok q' W'" using ok W by (auto simp: queue_ok_def addresses_ok_def same h e)
  ultimately show ?thesis by (simp add: queue_ok_def)
qed

lemma queue_ok_frame:
  assumes "queue_ok q W" and "q_entries q' = q_entries q" and "q_heap q' = q_heap q"
    and "q_next q' = q_next q" "q_proc q' = q_proc q" "q_active q' = q_active q" "q_wake q' = q_wake q"
  shows "queue_ok q' W"
  by (rule queue_ok_shrink [OF assms(1), where P = "\<lambda>_. True"])
     (use assms in \<open>auto simp: bid_of_def live_def queue_ok_def slots_empty_def\<close>)

lemma queue_ok_cancel_active: "queue_ok q W \<Longrightarrow> queue_ok (cancel_active cid q) W"
  by (rule queue_ok_shrink [where P = "\<lambda>_. True" and q = q])
     (auto simp: cancel_active_def bid_of_def live_def queue_ok_def slots_empty_def split: option.splits)

lemma queue_ok_drop_mine:
  assumes ok: "queue_ok q W"
  shows "queue_ok (drop_mine cid msg q) W"
proof (rule queue_ok_shrink [OF ok, where P = "\<lambda>i. en_container (q_heap q i) \<noteq> cid"])
  fix i assume "holds q = Some i"
  then have "slot q i = None" "i \<notin> set (q_entries q)"
    using ok by (auto simp: queue_ok_def slots_empty_def addresses_ok_def)
  then show "slot (drop_mine cid msg q) i = None" by (simp add: drop_mine_def cancel_all_heap mine_def)
qed (auto simp: drop_mine_def cancel_all_heap bid_of_def live_def mine_def)

lemma queue_ok_cancel_entry:
  assumes ok: "queue_ok q W" and i: "i \<in> set (q_entries q)"
  shows "queue_ok (removeEntry i (heap_upd i (cancel_with (Some r)) q)) W"
  by (rule queue_ok_shrink [OF ok, where P = "\<lambda>j. j \<noteq> i"])
     (use ok i in \<open>auto simp: bid_of_def live_def queue_ok_def slots_empty_def addresses_ok_def
        distinct_remove1_removeAll removeAll_filter_not_eq eq_commute\<close>)

lemma queue_ok_take:
  assumes ok: "queue_ok q W"
  shows "queue_ok (heap_upd i (\<lambda>e. e\<lparr>en_result := None\<rparr>) q) (W - {i})"
  by (rule queue_ok_shrink [OF ok, where P = "\<lambda>_. True"])
     (use ok in \<open>auto simp: bid_of_def live_def queue_ok_def slots_empty_def\<close>)

lemma queue_ok_mark:
  assumes ok: "queue_ok q W"
  shows "queue_ok (heap_upd i (cancel_with None) q) (W - {i})"
proof -
  let ?q = "heap_upd i (cancel_with None) q"
  have h: "holds ?q = holds q" by (simp add: holds_def)
  have "slots_empty ?q" using ok by (auto simp: queue_ok_def slots_empty_def h live_def split: if_splits)
  moreover have "no_waiter_lost ?q (W - {i})" using ok by (auto simp: queue_ok_def no_waiter_lost_def h live_def)
  moreover have "bid_of ?q = bid_of q" by (rule ext) (simp add: bid_of_def)
  then have "by_bid ?q" using ok by (simp add: queue_ok_def by_bid_def)
  moreover have "no_signal_lost ?q" using ok by (simp add: queue_ok_def no_signal_lost_def)
  moreover have "active_ok ?q" using ok by (simp add: queue_ok_def active_ok_def)
  moreover have "addresses_ok ?q (W - {i})" using ok by (simp add: queue_ok_def addresses_ok_def h)
  ultimately show ?thesis by (simp add: queue_ok_def)
qed

lemma queue_ok_unlink:
  assumes ok: "queue_ok q W" and dead: "\<not> live q i"
  shows "queue_ok (removeEntry i q) W"
  by (rule queue_ok_shrink [OF ok, where P = "\<lambda>j. j \<noteq> i"])
     (use ok dead in \<open>auto simp: bid_of_def live_def queue_ok_def slots_empty_def addresses_ok_def
        distinct_remove1_removeAll removeAll_filter_not_eq eq_commute\<close>)


lemma sortEntries_simps [simp]:
  "q_heap (sortEntries q) = q_heap q" "q_next (sortEntries q) = q_next q" "q_proc (sortEntries q) = q_proc q"
  "q_active (sortEntries q) = q_active q" "q_wake (sortEntries q) = q_wake q" "q_cfg (sortEntries q) = q_cfg q"
  "q_bids (sortEntries q) = q_bids q"
  "set (q_entries (sortEntries q)) = set (q_entries q)"
  "distinct (q_entries (sortEntries q)) = distinct (q_entries q)"
  "length (q_entries (sortEntries q)) = length (q_entries q)"
  by (simp_all add: sortEntries_def)

lemma sortEntries_Nil [simp]: "q_entries (sortEntries q) = [] \<longleftrightarrow> q_entries q = []"
  by (metis length_0_conv sortEntries_simps(10))

lemma by_bid_sortEntries [simp]: "by_bid (sortEntries q)"
proof -
  have "sorted (map (\<lambda>i. - bid_of q i) (sort_key (\<lambda>i. - bid_of q i) (q_entries q)))" by simp
  then have "sorted_wrt (\<lambda>i j. bid_of q j \<le> bid_of q i) (sort_key (\<lambda>i. - bid_of q i) (q_entries q))"
    by (simp only: sorted_map) simp
  then show ?thesis by (simp add: by_bid_def sortEntries_def bid_of_def)
qed

lemma sortEntries_other [simp]:
  "slots_empty (sortEntries q) = slots_empty q" "no_waiter_lost (sortEntries q) W = no_waiter_lost q W"
  "no_signal_lost (sortEntries q) = no_signal_lost q" "active_ok (sortEntries q) = active_ok q"
  "addresses_ok (sortEntries q) W = addresses_ok q W"
proof -
  have h: "holds (sortEntries q) = holds q" by (simp add: holds_def)
  show "slots_empty (sortEntries q) = slots_empty q" "no_waiter_lost (sortEntries q) W = no_waiter_lost q W"
    "no_signal_lost (sortEntries q) = no_signal_lost q" "active_ok (sortEntries q) = active_ok q"
    "addresses_ok (sortEntries q) W = addresses_ok q W"
    by (simp_all add: slots_empty_def no_waiter_lost_def no_signal_lost_def active_ok_def addresses_ok_def
        live_def h)
qed

definition rebid :: "string \<Rightarrow> int \<Rightarrow> queue \<Rightarrow> queue" where
  "rebid cid bid q =
     sortEntries (q\<lparr>q_bids := (q_bids q)(cid \<mapsto> bid),
       q_heap := (\<lambda>i. if i \<in> set (q_entries q) \<and> en_container (q_heap q i) = cid \<and> live q i
                      then (q_heap q i)\<lparr>en_bid := bid\<rparr> else q_heap q i)\<rparr>)"

lemma w_queue_SetBid [simp]: "w_queue (SetBid cid bid w) = rebid cid bid (w_queue w)"
  by (simp add: SetBid_def rebid_def Let_def)

lemma queue_ok_rebid:
  assumes "queue_ok q W"
  shows "queue_ok (rebid cid bid q) W"
  using assms
  by (simp add: queue_ok_def rebid_def slots_empty_def no_waiter_lost_def no_signal_lost_def active_ok_def
      addresses_ok_def live_def holds_def)

lemma queue_ok_add:
  assumes ok: "queue_ok q W" and e: "en_result e = None" "\<not> en_cancelled e"
  shows "queue_ok (sortEntries (q\<lparr>q_heap := (q_heap q)(q_next q := e), q_next := q_next q + 1,
     q_entries := q_entries q @ [q_next q], q_wake := True\<rparr>)) (insert (q_next q) W)"
proof -
  have fresh: "q_next q \<notin> set (q_entries q)" "q_next q \<notin> W" "holds q \<noteq> Some (q_next q)"
    using ok by (auto simp: queue_ok_def addresses_ok_def)
  then show ?thesis
    using ok e
    by (auto simp: queue_ok_def slots_empty_def no_waiter_lost_def no_signal_lost_def active_ok_def
        addresses_ok_def live_def holds_def less_Suc_eq)
qed

lemma enqueue_cases:
  assumes "enqueue js cid r m flds w = (Inr i, w')"
  obtains e where "i = q_next (w_queue w)" and "en_container e = cid" and "en_result e = None"
    and "\<not> en_cancelled e" and "int (length (q_entries (w_queue w))) < oc_MaxQueueSize (q_cfg (w_queue w))"
    and "en_bid e = (if GetBid (w_queue w) cid = 0 then oc_DefaultBid (q_cfg (w_queue w)) else GetBid (w_queue w) cid)"
    and "w_queue w' = sortEntries ((w_queue w)\<lparr>q_heap := (q_heap (w_queue w))(i := e),
       q_next := i + 1, q_entries := q_entries (w_queue w) @ [i], q_wake := True\<rparr>)"
proof -
  let ?q = "w_queue w"
  obtain body where "oj_encode js (clean_fields flds) = Inr body"
    using assms by (auto simp: enqueue_def split: sum.splits)
  then show ?thesis
    using assms
    by (intro that [where e = "\<lparr>en_container = cid, en_model = m, en_path = hr_Path r, en_body = body,
          en_bid = (if GetBid ?q cid = 0 then oc_DefaultBid (q_cfg ?q) else GetBid ?q cid),
          en_enqueuedAt = w_now w, en_timeout = queue_timeout_of flds, en_result = None,
          en_cancelled = False, en_ctxDone = False\<rparr>"])
       (auto simp: enqueue_def Let_def split: if_splits)
qed

lemma pop_live_spec:
  "(pop_live q xs = (None, []) \<and> (\<forall>j \<in> set xs. \<not> live q j)) \<or>
   (\<exists>pre i rest. pop_live q xs = (Some i, rest) \<and> xs = pre @ i # rest \<and> live q i \<and> (\<forall>j \<in> set pre. \<not> live q j))"
proof (induction xs)
  case (Cons x xs)
  show ?case
  proof (cases "live q x")
    case True
    then show ?thesis by (intro disjI2 exI [of _ "[]"] exI [of _ x] exI [of _ xs]) simp
  next
    case False
    with Cons show ?thesis
    proof (elim disjE exE conjE)
      fix pre i rest assume "pop_live q xs = (Some i, rest)" "xs = pre @ i # rest" "live q i" "\<forall>j\<in>set pre. \<not> live q j"
      then show ?thesis using False by (intro disjI2 exI [of _ "x # pre"] exI [of _ i] exI [of _ rest]) simp
    qed simp
  qed
qed simp

lemma queue_ok_pop:
  assumes ok: "queue_ok q W" and "q_proc q = Looking"
  shows "queue_ok (step_pop q) W"
  using pop_live_spec [of q "q_entries q"]
proof (elim disjE exE conjE)
  assume r: "pop_live q (q_entries q) = (None, [])" and dead: "\<forall>j \<in> set (q_entries q). \<not> live q j"
  have h: "holds q = None" using assms(2) by (simp add: holds_def)
  have "step_pop q = q\<lparr>q_entries := [], q_proc := Waiting\<rparr>" by (simp add: step_pop_def popNext_def r)
  then show ?thesis
    using ok dead h assms(2)
    by (auto simp: queue_ok_defs holds_def live_def)
next
  fix pre i rest
  assume r: "pop_live q (q_entries q) = (Some i, rest)" and s: "q_entries q = pre @ i # rest"
    and i: "live q i" and dead: "\<forall>j \<in> set pre. \<not> live q j"
  have h: "holds q = None" using assms(2) by (simp add: holds_def)
  have q': "step_pop q = q\<lparr>q_entries := rest, q_proc := Popped i\<rparr>" by (simp add: step_pop_def popNext_def r)
  have "by_bid (step_pop q)" using ok by (simp add: queue_ok_def by_bid_def q' s sorted_wrt_append bid_of_def)
  moreover have "slots_empty (step_pop q)"
    using ok i by (auto simp: queue_ok_def slots_empty_def q' s holds_def live_def)
  moreover have "no_waiter_lost (step_pop q) W"
    using ok dead h by (fastforce simp: queue_ok_def no_waiter_lost_def q' s holds_def live_def)
  moreover have "addresses_ok (step_pop q) W"
    using ok by (auto simp: queue_ok_def addresses_ok_def q' s holds_def)
  ultimately show ?thesis
    using ok assms(2) by (simp add: queue_ok_def no_signal_lost_def active_ok_def q')
qed

lemma queue_ok_wake: "queue_ok q W \<Longrightarrow> q_proc q = Waiting \<Longrightarrow> queue_ok (step_wake q) W"
  by (simp add: queue_ok_defs step_wake_def holds_def live_def bid_of_def)

lemma queue_ok_activate: "queue_ok q W \<Longrightarrow> q_proc q = Popped i \<Longrightarrow> queue_ok (step_activate i q) W"
  by (simp add: queue_ok_defs step_activate_def holds_def live_def bid_of_def)

lemma queue_ok_clear: "queue_ok q W \<Longrightarrow> q_proc q = Replied i \<Longrightarrow> queue_ok (step_clear q) W"
  by (simp add: queue_ok_defs step_clear_def holds_def live_def bid_of_def)

lemma queue_ok_reply:
  assumes ok: "queue_ok q W" and p: "q_proc q = Processing i"
  shows "queue_ok ((heap_upd i (\<lambda>e. e\<lparr>en_result := Some res\<rparr>) q)\<lparr>q_proc := Replied i\<rparr>) W"
proof -
  have "i \<notin> set (q_entries q)" using ok p by (simp add: queue_ok_def addresses_ok_def holds_def)
  moreover have "bid_of ((heap_upd i (\<lambda>e. e\<lparr>en_result := Some res\<rparr>) q)\<lparr>q_proc := Replied i\<rparr>) = bid_of q"
    by (rule ext) (simp add: bid_of_def)
  ultimately show ?thesis
    using ok p by (auto simp: queue_ok_defs holds_def live_def)
qed

lemma processEntry_queue:
  "\<exists>res. w_queue (processEntry i mk from to out w) =
     (heap_upd i (\<lambda>e. e\<lparr>en_result := Some res\<rparr>) (w_queue w))\<lparr>q_proc := Replied i\<rparr>"
  by (auto simp: processEntry_def Let_def split: option.split sum.split prod.split)

lemma queue_ok_stop:
  assumes ok: "queue_ok q W"
  shows "queue_ok (Queue_Stop q) W"
proof -
  let ?q1 = "(fold (cancel_live (ResultErr ''queue shutting down'')) (q_entries q) (q\<lparr>q_stopped := True\<rparr>))\<lparr>q_entries := []\<rparr>"
  have f: "(\<lambda>i q. if live q i then heap_upd i (cancel_with (Some (ResultErr ''queue shutting down''))) q else q) =
      cancel_live (ResultErr ''queue shutting down'')"
    by (intro ext) (simp add: cancel_live_def)
  have 1: "queue_ok ?q1 W"
    by (rule queue_ok_shrink [OF ok, where P = "\<lambda>_. False"])
       (use ok in \<open>auto simp: cancel_all_heap bid_of_def live_def queue_ok_def slots_empty_def addresses_ok_def\<close>)
  have "Queue_Stop q = (case q_active ?q1 of None \<Rightarrow> ?q1 | Some i \<Rightarrow> heap_upd i end_context ?q1)"
    unfolding Queue_Stop_def Let_def f ..
  moreover have "queue_ok (heap_upd i end_context ?q1) W" for i
    by (rule queue_ok_shrink [OF 1, where P = "\<lambda>_. True"])
       (use 1 in \<open>auto simp: bid_of_def live_def queue_ok_def slots_empty_def\<close>)
  ultimately show ?thesis using 1 by (simp split: option.split)
qed


subsection \<open>The queue as a transition system\<close>

text \<open>
  \<open>queue_reach w W\<close>: \<open>w\<close> is reached while exactly the handlers of the entries \<open>W\<close> wait for a
  result. The steps are the sections of the handlers (a handler that gives up first marks its
  entry and later unlinks it), of the cancelling operations and of the processor; everything
  outside the queue may change at any time, and so may the settings and the sleep log.
\<close>

inductive queue_reach :: "('d, 'c) oworld \<Rightarrow> nat set \<Rightarrow> bool" where
  qr_new: "queue_reach (w\<lparr>w_queue := NewQueue cfg\<rparr>) {}"
| qr_env: "queue_reach w W \<Longrightarrow> w_queue w' = w_queue w \<Longrightarrow> queue_reach w' W"
| qr_settings: "queue_reach w W \<Longrightarrow>
    queue_reach (w\<lparr>w_queue := (w_queue w)\<lparr>q_cfg := c, q_sleepEvents := s, q_hasRecorder := b\<rparr>\<rparr>) W"
| qr_enqueue: "queue_reach w W \<Longrightarrow> enqueue js cid r m flds w = (Inr i, w') \<Longrightarrow> queue_reach w' (insert i W)"
| qr_bid: "queue_reach w W \<Longrightarrow> queue_reach (SetBid cid bid w) W"
| qr_restore: "queue_reach w W \<Longrightarrow> queue_reach (RestoreBids cids w) W"
| qr_cancel: "queue_reach w W \<Longrightarrow> queue_reach (snd (CancelEntry cid w)) W"
| qr_cancel_all: "queue_reach w W \<Longrightarrow> queue_reach (CancelAllPending cid w) W"
| qr_remove: "queue_reach w W \<Longrightarrow> queue_reach (Queue_RemoveContainer cid w) W"
| qr_take: "queue_reach w W \<Longrightarrow> i \<in> W \<Longrightarrow> take_result i w = (Some resp, w') \<Longrightarrow> queue_reach w' (W - {i})"
| qr_mark: "queue_reach w W \<Longrightarrow> i \<in> W \<Longrightarrow> queue_reach (on_queue (heap_upd i (cancel_with None)) w) (W - {i})"
| qr_unlink: "queue_reach w W \<Longrightarrow> \<not> live (w_queue w) i \<Longrightarrow> queue_reach (on_queue (removeEntry i) w) W"
| qr_wake: "queue_reach w W \<Longrightarrow> q_proc (w_queue w) = Waiting \<Longrightarrow> q_wake (w_queue w) \<Longrightarrow> queue_reach (on_queue step_wake w) W"
| qr_pop: "queue_reach w W \<Longrightarrow> q_proc (w_queue w) = Looking \<Longrightarrow> queue_reach (on_queue step_pop w) W"
| qr_activate: "queue_reach w W \<Longrightarrow> q_proc (w_queue w) = Popped i \<Longrightarrow> queue_reach (on_queue (step_activate i) w) W"
| qr_process: "queue_reach w W \<Longrightarrow> q_proc (w_queue w) = Processing i \<Longrightarrow>
    queue_reach (processEntry i mk t0 t1 out w) W"
| qr_clear: "queue_reach w W \<Longrightarrow> q_proc (w_queue w) = Replied i \<Longrightarrow> queue_reach (on_queue step_clear w) W"
| qr_stop: "queue_reach w W \<Longrightarrow> queue_reach (on_queue Queue_Stop w) W"

lemma NewQueue_simps [simp]:
  "q_entries (NewQueue cfg) = []" "q_proc (NewQueue cfg) = Waiting" "q_active (NewQueue cfg) = None"
  by (simp_all add: NewQueue_def Let_def)

lemma queue_reach_ok: "queue_reach w W \<Longrightarrow> queue_ok (w_queue w) W"
proof (induction rule: queue_reach.induct)
  case (qr_new w cfg)
  then show ?case by (simp add: queue_ok_defs holds_def)
next
  case (qr_settings w W c s b)
  show ?case by (rule queue_ok_frame [OF qr_settings.IH]) simp_all
next
  case (qr_enqueue w W js cid r m flds i w')
  from qr_enqueue.hyps(2) obtain e where e: "i = q_next (w_queue w)" "en_result e = None" "\<not> en_cancelled e"
    "w_queue w' = sortEntries ((w_queue w)\<lparr>q_heap := (q_heap (w_queue w))(i := e),
       q_next := i + 1, q_entries := q_entries (w_queue w) @ [i], q_wake := True\<rparr>)"
    by (rule enqueue_cases)
  show ?case using queue_ok_add [OF qr_enqueue.IH e(2,3)] by (simp add: e(1,4))
next
  case (qr_restore w W cids)
  obtain b where "w_queue (RestoreBids cids w) = (w_queue w)\<lparr>q_bids := b\<rparr>" using w_queue_RestoreBids by blast
  then show ?case using queue_ok_frame [OF qr_restore.IH] by simp
next
  case (qr_cancel w W cid)
  have "i \<in> set (q_entries (w_queue w))" if "pending_of (w_queue w) cid = Some i" for i
    using that by (auto simp: pending_of_def find_Some_iff)
  then show ?case
    using qr_cancel.IH queue_ok_cancel_entry [OF qr_cancel.IH] by (auto simp: CancelEntry_def split: option.split)
next
  case (qr_remove w W cid)
  have "queue_ok ((w_queue w)\<lparr>q_bids := (q_bids (w_queue w))(cid := None)\<rparr>) W"
    by (rule queue_ok_frame [OF qr_remove.IH]) simp_all
  then show ?case by (simp add: queue_ok_cancel_active queue_ok_drop_mine)
next
  case (qr_take w W i resp w')
  then show ?case using queue_ok_take [OF qr_take.IH] by (auto simp: take_result_def split: option.splits)
next
  case (qr_process w W i mk t0 t1 out)
  obtain res where "w_queue (processEntry i mk t0 t1 out w) =
     (heap_upd i (\<lambda>e. e\<lparr>en_result := Some res\<rparr>) (w_queue w))\<lparr>q_proc := Replied i\<rparr>"
    using processEntry_queue by blast
  then show ?case using queue_ok_reply [OF qr_process.IH qr_process.hyps(2)] by simp
qed (simp_all add: queue_ok_rebid queue_ok_cancel_active queue_ok_drop_mine queue_ok_mark queue_ok_unlink
      queue_ok_wake queue_ok_pop queue_ok_activate queue_ok_clear queue_ok_stop)


definition demo_json :: ollama_json where
  "demo_json = \<lparr>oj_decode = (\<lambda>s. if s = '''' then None else Some [(''model'', JStr ''llama'')]),
                oj_encode = (\<lambda>_. Inr ''{}'')\<rparr>"

definition demo_cfg :: ollama_config where
  "demo_cfg = \<lparr>oc_OllamaURL = ''http://gpu:11434'', oc_AllowedModels = [], oc_MaxQueueSize = 2,
               oc_RequestTimeout = 0, oc_DefaultBid = 5\<rparr>"

definition demo_oworld :: "(mock_docker, mock_cgroup) oworld" where
  "demo_oworld =
     \<lparr>w_store = demo_store, w_docker = NewMockDocker, w_cgroup = NewMockCgroup, w_proxy = Some NewSpendingTracker,
      w_bus = None, w_now = 7, w_workers = [], w_enforced = Map.empty, w_frozen = Map.empty,
      w_dockerIDs = Map.empty, w_scopeEnforced = Map.empty, w_scopeRunning = False, w_lastSleepEmit = None,
      w_queue = NewQueue demo_cfg\<rparr>"

definition chat :: "string \<Rightarrow> http_request" where
  "chat body = \<lparr>hr_Method = ''POST'', hr_Host = ''gpu:11434'', hr_Path = ''/api/chat'', hr_RawQuery = '''',
     hr_URL = ''http://gpu:11434/api/chat'', hr_RemoteAddr = ''172.17.0.2:4000'', hr_Header = [], hr_Body = body\<rparr>"

definition one_queued :: "(mock_docker, mock_cgroup) oworld" where
  "one_queued = snd (enqueue demo_json ''0123456789ab'' (chat ''x'') ''llama'' [(''model'', JStr ''llama'')] demo_oworld)"

lemma demo_oworld_reach: "queue_reach demo_oworld {}"
proof -
  have "demo_oworld = demo_oworld\<lparr>w_queue := NewQueue demo_cfg\<rparr>" by (simp add: demo_oworld_def)
  then show ?thesis by (metis qr_new)
qed

lemma one_queued_step:
  "enqueue demo_json ''0123456789ab'' (chat ''x'') ''llama'' [(''model'', JStr ''llama'')] demo_oworld = (Inr 0, one_queued)"
proof -
  have "fst (enqueue demo_json ''0123456789ab'' (chat ''x'') ''llama'' [(''model'', JStr ''llama'')] demo_oworld) = Inr 0"
    by (simp add: enqueue_def Let_def demo_json_def demo_oworld_def NewQueue_def demo_cfg_def)
  then show ?thesis by (simp add: one_queued_def prod_eq_iff)
qed

lemma one_queued_reach: "queue_reach one_queued {0}"
  using qr_enqueue [OF demo_oworld_reach one_queued_step] by simp



subsection \<open>Service order\<close>

definition waiting_ids :: "queue \<Rightarrow> nat list" where
  "waiting_ids q = filter (live q) (q_entries q)"

lemma popNext_empty: "waiting_ids q = [] \<Longrightarrow> fst (popNext q) = None"
  using pop_live_spec [of q "q_entries q"]
  by (auto simp: waiting_ids_def popNext_def filter_empty_conv)

lemma popNext_first:
  assumes "by_bid q" and "waiting_ids q = i # is"
  shows "fst (popNext q) = Some i \<and> waiting_ids (snd (popNext q)) = is \<and> by_bid (snd (popNext q)) \<and>
         bid_of (snd (popNext q)) = bid_of q"
  using pop_live_spec [of q "q_entries q"]
proof (elim disjE exE conjE)
  assume "pop_live q (q_entries q) = (None, [])" "\<forall>j \<in> set (q_entries q). \<not> live q j"
  then show ?thesis using assms(2) by (auto simp: waiting_ids_def dest: filter_eq_ConsD)
next
  fix pre k rest
  assume r: "pop_live q (q_entries q) = (Some k, rest)" and s: "q_entries q = pre @ k # rest"
    and k: "live q k" and dead: "\<forall>j \<in> set pre. \<not> live q j"
  have q': "snd (popNext q) = q\<lparr>q_entries := rest\<rparr>" "fst (popNext q) = Some k" by (simp_all add: popNext_def r)
  have "filter (live q) pre = []" using dead by (simp add: filter_empty_conv)
  then have "waiting_ids q = k # filter (live q) rest" using k by (simp add: waiting_ids_def s)
  moreover have "live (q\<lparr>q_entries := rest\<rparr>) = live q" by (rule ext) (simp add: live_def)
  moreover have b: "bid_of (q\<lparr>q_entries := rest\<rparr>) = bid_of q" by (rule ext) (simp add: bid_of_def)
  moreover have "by_bid (q\<lparr>q_entries := rest\<rparr>)"
    using assms(1) by (simp add: by_bid_def s sorted_wrt_append b)
  ultimately show ?thesis using assms(2) by (simp add: q' waiting_ids_def)
qed

interpretation bidq: priority_queue by_bid waiting_ids bid_of popNext
proof
  show "sorted_wrt (\<lambda>i j. bid_of q j \<le> bid_of q i) (waiting_ids q)" if "by_bid q" for q
    using that by (simp add: by_bid_def waiting_ids_def sorted_wrt_filter)
qed (simp_all add: popNext_empty popNext_first)

text \<open>C22: the processor serves by bid: in every reachable state it takes a live entry whose bid is
  the highest of all live entries, it takes none only when none is waiting, and left alone it
  serves all waiting entries, in the order of the queue, by falling bids.\<close>

theorem served_by_bid:
  assumes "queue_reach w W" and "q = w_queue w"
  shows "(fst (popNext q) = None \<longleftrightarrow> waiting_ids q = []) \<and>
         (\<forall>i. fst (popNext q) = Some i \<longrightarrow> live q i \<and> (\<forall>j \<in> set (waiting_ids q). bid_of q j \<le> bid_of q i)) \<and>
         (\<forall>n \<ge> length (waiting_ids q). bidq.drain n q = waiting_ids q) \<and>
         sorted_wrt (\<lambda>i j. bid_of q j \<le> bid_of q i) (waiting_ids q)"
proof -
  have ok: "by_bid q" using queue_reach_ok [OF assms(1)] by (simp add: queue_ok_def assms(2))
  have "live q i \<and> (\<forall>j \<in> set (waiting_ids q). bid_of q j \<le> bid_of q i)" if "fst (popNext q) = Some i" for i
    using bidq.pop_max [OF ok that] by (auto simp: waiting_ids_def)
  then show ?thesis
    using bidq.pop_None_iff [OF ok] bidq.drain_items [OF ok] bidq.items_sorted [OF ok] by blast
qed

theorem served_by_bid_witness: "bidq.drain 1 (w_queue one_queued) = [0]"
proof -
  have q: "waiting_ids (w_queue one_queued) = [0]"
    by (simp add: one_queued_def enqueue_def Let_def demo_json_def demo_oworld_def NewQueue_def demo_cfg_def
        waiting_ids_def live_def sortEntries_def)
  show ?thesis using served_by_bid [OF one_queued_reach refl] unfolding q by (auto simp del: bidq.drain.simps)
qed

lemma insert_first: "sorted (map f ys) \<Longrightarrow> \<forall>z \<in> set ys. f y \<le> f z \<Longrightarrow> insort_key f y ys = y # ys"
  by (cases ys) auto

lemma sort_key_snoc:
  assumes "sorted (map f xs)"
  shows "sort_key f (xs @ [x]) = takeWhile (\<lambda>y. f y \<le> f x) xs @ x # dropWhile (\<lambda>y. f y \<le> f x) xs"
  using assms
proof (induction xs)
  case (Cons y ys)
  have ih: "sort_key f (ys @ [x]) = takeWhile (\<lambda>y. f y \<le> f x) ys @ x # dropWhile (\<lambda>y. f y \<le> f x) ys"
    using Cons by simp
  show ?case
  proof (cases "f y \<le> f x")
    case True
    have "set (sort_key f (ys @ [x])) = insert x (set ys)" by simp
    then have "insort_key f y (sort_key f (ys @ [x])) = y # sort_key f (ys @ [x])"
      using Cons.prems True by (intro insert_first) auto
    then show ?thesis using ih True by simp
  next
    case False
    have "takeWhile (\<lambda>y. f y \<le> f x) ys = []"
    proof (cases ys)
      case (Cons z zs)
      then have "f y \<le> f z" using \<open>sorted (map f (y # ys))\<close> by simp
      then show ?thesis using False Cons by simp
    qed simp
    moreover have "dropWhile (\<lambda>y. f y \<le> f x) ys = ys"
      by (metis calculation self_append_conv2 takeWhile_dropWhile_id)
    ultimately have "sort_key f (ys @ [x]) = x # ys" using ih by simp
    moreover have "insort_key f y ys = y # ys" using Cons.prems by (intro insert_first) auto
    ultimately show ?thesis using False by simp
  qed
qed simp

lemma by_bid_sorted: "by_bid q \<longleftrightarrow> sorted (map (\<lambda>i. - bid_of q i) (q_entries q))"
  by (simp add: by_bid_def sorted_map)

text \<open>A new request is placed behind every entry whose bid is at least its own and ahead of
  every lower one, with the standing bid of its container or, when that is zero, the default;
  it is accepted only while the queue is below its maximal size, so that accepting never takes
  it above that size.\<close>

theorem enqueue_position:
  assumes "queue_reach w W" and "enqueue js cid r m flds w = (Inr i, w')"
    and "q = w_queue w" and "b = (if GetBid q cid = 0 then oc_DefaultBid (q_cfg q) else GetBid q cid)"
  shows "q_entries (w_queue w') =
           takeWhile (\<lambda>j. b \<le> bid_of q j) (q_entries q) @ i # dropWhile (\<lambda>j. b \<le> bid_of q j) (q_entries q) \<and>
         bid_of (w_queue w') i = b \<and> i \<notin> set (q_entries q) \<and>
         int (length (q_entries (w_queue w'))) \<le> oc_MaxQueueSize (q_cfg q)"
proof -
  from assms(2) obtain e where e: "i = q_next q" "en_bid e = b"
    "int (length (q_entries q)) < oc_MaxQueueSize (q_cfg q)"
    "w_queue w' = sortEntries (q\<lparr>q_heap := (q_heap q)(i := e), q_next := i + 1,
       q_entries := q_entries q @ [i], q_wake := True\<rparr>)"
    unfolding assms(3,4) by (rule enqueue_cases)
  let ?q = "q\<lparr>q_heap := (q_heap q)(i := e), q_next := i + 1, q_entries := q_entries q @ [i], q_wake := True\<rparr>"
  have ok: "queue_ok q W" using queue_reach_ok [OF assms(1)] by (simp add: assms(3))
  then have fresh: "i \<notin> set (q_entries q)" by (auto simp: queue_ok_def addresses_ok_def e(1))
  then have bids: "\<forall>j \<in> set (q_entries q). bid_of ?q j = bid_of q j" by (auto simp: bid_of_def)
  have "map (\<lambda>j. - bid_of ?q j) (q_entries q) = map (\<lambda>j. - bid_of q j) (q_entries q)" using bids by simp
  then have "sorted (map (\<lambda>j. - bid_of ?q j) (q_entries q))"
    using ok by (simp only: queue_ok_def by_bid_sorted)
  from sort_key_snoc [OF this, of i]
  have "q_entries (sortEntries ?q) = takeWhile (\<lambda>j. bid_of ?q i \<le> bid_of ?q j) (q_entries q) @
      i # dropWhile (\<lambda>j. bid_of ?q i \<le> bid_of ?q j) (q_entries q)"
    by (simp add: sortEntries_def)
  also have "\<dots> = takeWhile (\<lambda>j. b \<le> bid_of q j) (q_entries q) @ i # dropWhile (\<lambda>j. b \<le> bid_of q j) (q_entries q)"
    using bids by (simp add: bid_of_def e(2) cong: takeWhile_cong dropWhile_cong)
  finally have 1: "q_entries (w_queue w') =
      takeWhile (\<lambda>j. b \<le> bid_of q j) (q_entries q) @ i # dropWhile (\<lambda>j. b \<le> bid_of q j) (q_entries q)"
    by (simp only: e(4))
  have "int (length (q_entries (w_queue w'))) \<le> oc_MaxQueueSize (q_cfg q)" using e(3) by (simp add: e(4))
  moreover have "bid_of (w_queue w') i = b" by (simp add: e(4) bid_of_def e(2))
  ultimately show ?thesis using 1 fresh by blast
qed

theorem enqueue_position_witness: "q_entries (w_queue one_queued) = [0]"
proof -
  have "q_entries (w_queue demo_oworld) = []" by (simp add: demo_oworld_def)
  then show ?thesis using enqueue_position [OF demo_oworld_reach one_queued_step refl refl] by simp
qed


text \<open>Equal bids are not always served first come, first served: when two containers wait with
  equal bids and the earlier one lowers its bid and raises it back, the later one is served
  first although the bids are equal again.\<close>

theorem rebid_loses_place:
  assumes "q_entries q = [i, j]" and "i \<noteq> j" and "live q i" and "live q j"
    and "en_container (q_heap q i) = c" and "en_container (q_heap q j) \<noteq> c"
    and "bid_of q i = b" and "bid_of q j = b"
  shows "q_entries (rebid c b q) = [i, j] \<and>
         q_entries (rebid c b (rebid c (b - 1) q)) = [j, i] \<and>
         bid_of (rebid c b (rebid c (b - 1) q)) i = bid_of (rebid c b (rebid c (b - 1) q)) j"
proof -
  have 1: "q_entries (rebid c b q) = [i, j]"
    using assms by (simp add: rebid_def sortEntries_def bid_of_def)
  have 2: "q_entries (rebid c (b - 1) q) = [j, i]"
    using assms by (simp add: rebid_def sortEntries_def bid_of_def)
  have 3: "q_heap (rebid c (b - 1) q) j = q_heap q j" "q_heap (rebid c (b - 1) q) i = (q_heap q i)\<lparr>en_bid := b - 1\<rparr>"
    using assms by (simp_all add: rebid_def)
  have "q_entries (rebid c b (rebid c (b - 1) q)) = [j, i]" "bid_of (rebid c b (rebid c (b - 1) q)) i = b"
    "bid_of (rebid c b (rebid c (b - 1) q)) j = b"
    using assms by (simp_all add: rebid_def [of c b] sortEntries_def bid_of_def live_def 2 3)
  then show ?thesis using 1 by simp
qed

definition two_queued :: queue where
  "two_queued = (NewQueue demo_cfg)\<lparr>q_heap := (\<lambda>i. blank_entry\<lparr>en_container := (if i = 0 then ''a'' else ''b''), en_bid := 5\<rparr>),
     q_next := 2, q_entries := [0, 1]\<rparr>"

theorem rebid_loses_place_witness: "q_entries (rebid ''a'' 5 (rebid ''a'' 4 two_queued)) = [1, 0]"
  using rebid_loses_place [of two_queued 0 1 "''a''" 5]
  by (simp add: two_queued_def live_def bid_of_def blank_entry_def)

text \<open>One request per container is checked in one section under the lock and recorded in
  another, so it is not kept: when two requests of a container are both admitted before either
  is enqueued, and the queue has room, both are queued and live at once, while admitting the second after the
  first is enqueued would have refused it.\<close>

theorem one_per_container_race:
  assumes "admit js cid r1 w = Inr (m1, f1)" and "admit js cid r2 w = Inr (m2, f2)"
    and "enqueue js cid r1 m1 f1 w = (Inr i, w1)" and "enqueue js cid r2 m2 f2 w1 = (Inr j, w2)"
    and "queue_reach w W"
  shows "i \<noteq> j \<and> {i, j} \<subseteq> set (waiting_ids (w_queue w2)) \<and>
         en_container (q_heap (w_queue w2) i) = cid \<and> en_container (q_heap (w_queue w2) j) = cid \<and>
         busy_with (w_queue w1) cid \<noteq> None"
proof -
  from assms(3) obtain e where e: "i = q_next (w_queue w)" "en_container e = cid" "\<not> en_cancelled e"
    "w_queue w1 = sortEntries ((w_queue w)\<lparr>q_heap := (q_heap (w_queue w))(i := e),
       q_next := i + 1, q_entries := q_entries (w_queue w) @ [i], q_wake := True\<rparr>)"
    by (rule enqueue_cases)
  from assms(4) obtain e' where e': "j = q_next (w_queue w1)" "en_container e' = cid" "\<not> en_cancelled e'"
    "w_queue w2 = sortEntries ((w_queue w1)\<lparr>q_heap := (q_heap (w_queue w1))(j := e'),
       q_next := j + 1, q_entries := q_entries (w_queue w1) @ [j], q_wake := True\<rparr>)"
    by (rule enqueue_cases)
  have "j = i + 1" by (simp add: e'(1) e(4))
  moreover have "busy_with (w_queue w1) cid \<noteq> None"
    using e(2,3) by (auto simp: busy_with_def e(4) list_ex_iff live_def)
  ultimately show ?thesis
    using e(2,3) e'(2,3) by (auto simp: e(4) e'(4) waiting_ids_def live_def)
qed

theorem one_per_container_race_witness:
  "\<exists>w2 :: (mock_docker, mock_cgroup) oworld. {0, 1} \<subseteq> set (waiting_ids (w_queue w2)) \<and>
     en_container (q_heap (w_queue w2) 0) = ''0123456789ab'' \<and>
     en_container (q_heap (w_queue w2) 1) = ''0123456789ab''"
proof -
  let ?flds = "[(''model'', JStr ''llama'')]"
  let ?w2 = "snd (enqueue demo_json ''0123456789ab'' (chat ''y'') ''llama'' ?flds one_queued)"
  have "admit demo_json ''0123456789ab'' (chat s) demo_oworld = Inr (''llama'', ?flds)" if "s \<noteq> ''''" for s
    using that
    by (simp add: admit_def chat_def demo_json_def demo_oworld_def isModelAllowed_def NewQueue_def demo_cfg_def
        spending_exhausted_def store_reads demo_store_eval or0_def busy_with_def in64_def Let_def)
  then have a: "admit demo_json ''0123456789ab'' (chat ''x'') demo_oworld = Inr (''llama'', ?flds)"
    "admit demo_json ''0123456789ab'' (chat ''y'') demo_oworld = Inr (''llama'', ?flds)" by simp_all
  have "fst (enqueue demo_json ''0123456789ab'' (chat ''y'') ''llama'' ?flds one_queued) = Inr 1"
    by (simp add: one_queued_def enqueue_def Let_def demo_json_def demo_oworld_def NewQueue_def demo_cfg_def)
  then have "enqueue demo_json ''0123456789ab'' (chat ''y'') ''llama'' ?flds one_queued = (Inr 1, ?w2)"
    by (simp add: prod_eq_iff)
  from one_per_container_race [OF a one_queued_step this demo_oworld_reach]
  show ?thesis by blast
qed


subsection \<open>Billing\<close>

definition overlap :: "int \<Rightarrow> int \<Rightarrow> int \<times> int \<Rightarrow> int" where
  "overlap from to ev = max 0 (min to (fst ev) - max from (fst ev - snd ev))"

lemma sleepDuring_sum: "sleepDuring evs from to = sum_list (map (overlap from to) evs)"
proof -
  have "fold (\<lambda>(at, dur) total.
             let s = (if from > at - dur then from else at - dur); e = (if to < at then to else at)
             in if e > s then total + (e - s) else total) evs acc = acc + sum_list (map (overlap from to) evs)" for acc
    by (induction evs arbitrary: acc) (auto simp: overlap_def Let_def)
  then show ?thesis by (simp add: sleepDuring_def)
qed

definition disjoint_sleeps :: "(int \<times> int) list \<Rightarrow> bool" where
  "disjoint_sleeps evs \<longleftrightarrow> sorted_wrt (\<lambda>a b. fst a \<le> fst b - snd b) evs \<and> (\<forall>ev \<in> set evs. 0 \<le> snd ev)"

lemma overlap_bound:
  "disjoint_sleeps evs \<Longrightarrow> \<forall>ev \<in> set evs. fst ev \<le> T \<Longrightarrow>
   sum_list (map (overlap from to) evs) \<le> max 0 (min to T - from)"
proof (induction evs arbitrary: T rule: rev_induct)
  case (snoc ev evs)
  have "\<forall>x \<in> set evs. fst x \<le> fst ev - snd ev" "disjoint_sleeps evs" "0 \<le> snd ev"
    using snoc.prems(1) by (auto simp: disjoint_sleeps_def sorted_wrt_append)
  with snoc.IH have "sum_list (map (overlap from to) evs) \<le> max 0 (min to (fst ev - snd ev) - from)" by blast
  moreover have "max 0 (min to (fst ev - snd ev) - from) + overlap from to ev \<le> max 0 (min to T - from)"
    using snoc.prems(2) \<open>0 \<le> snd ev\<close> by (auto simp: overlap_def max_def min_def)
  ultimately show ?case by simp
qed simp

text \<open>The detector over a list of tick times.\<close>

fun detect :: "int \<Rightarrow> int list \<Rightarrow> queue \<Rightarrow> queue" where
  "detect prev [] q = q"
| "detect prev (t # ts) q = detect t ts (sleep_tick prev t q)"

lemma detect_disjoint:
  "disjoint_sleeps (q_sleepEvents q) \<Longrightarrow> \<forall>ev \<in> set (q_sleepEvents q). fst ev \<le> prev \<Longrightarrow>
   sorted (prev # ts) \<Longrightarrow> disjoint_sleeps (q_sleepEvents (detect prev ts q))"
proof (induction ts arbitrary: prev q)
  case (Cons t ts)
  have t: "prev \<le> t" using Cons.prems(3) by simp
  have "disjoint_sleeps (q_sleepEvents (sleep_tick prev t q))"
    using Cons.prems(1,2) t by (force simp: sleep_tick_def recordSleep_def disjoint_sleeps_def sorted_wrt_append)
  moreover have "\<forall>ev \<in> set (q_sleepEvents q). fst ev \<le> t" using Cons.prems(2) t by fastforce
  then have "\<forall>ev \<in> set (q_sleepEvents (sleep_tick prev t q)). fst ev \<le> t"
    by (auto simp: sleep_tick_def recordSleep_def)
  ultimately
  show ?case using Cons.IH [of "sleep_tick prev t q" t] Cons.prems(3) by simp
qed simp

text \<open>Sleep is never counted twice: whatever the times at which the detector ticks, the sleep it
  finds in a stretch of time lies between zero and the length of the stretch.\<close>

theorem sleep_within_stretch:
  assumes "sorted (t0 # ts)" and "from \<le> to" and "evs = q_sleepEvents (detect t0 ts (NewQueue cfg))"
  shows "0 \<le> sleepDuring evs from to \<and> sleepDuring evs from to \<le> to - from"
proof -
  have "q_sleepEvents (NewQueue cfg) = []" by (simp add: NewQueue_def Let_def)
  then have d: "disjoint_sleeps evs"
    using detect_disjoint [of "NewQueue cfg" t0 ts] assms(1) by (simp add: assms(3) disjoint_sleeps_def)
  define T where "T = Max (insert 0 (fst ` set evs))"
  have "\<forall>ev \<in> set evs. fst ev \<le> T" by (simp add: T_def)
  from overlap_bound [OF d this, of "from" to] have "sleepDuring evs from to \<le> max 0 (min to T - from)"
    by (simp add: sleepDuring_sum)
  moreover have "0 \<le> sum_list (map (overlap from to) evs)" by (rule sum_list_nonneg) (auto simp: overlap_def)
  ultimately show ?thesis using assms(2) by (simp add: sleepDuring_sum)
qed

theorem sleep_within_stretch_witness:
  "sleepDuring (q_sleepEvents (detect 0 [1000000000, 21000000000] (NewQueue demo_cfg))) 0 30000000000 = 19000000000 \<and>
   19000000000 \<le> (30000000000 :: int)"
proof -
  have v: "sleepDuring (q_sleepEvents (detect 0 [1000000000, 21000000000] (NewQueue demo_cfg))) 0 30000000000 = 19000000000"
    by (simp add: sleep_tick_def recordSleep_def NewQueue_def demo_cfg_def sleepDuring_def)
  then show ?thesis
    using sleep_within_stretch [of 0 "[1000000000, 21000000000]" 0 30000000000 _ demo_cfg] by simp
qed

lemma wall_seconds_whole:
  assumes "to - from = k * 1000000000" and "sleepDuring evs from to = s * 1000000000"
    and "0 \<le> s" and "s \<le> k" and "k < 2 ^ 53"
  shows "wall_seconds evs from to = fl_of_int (k - s)"
proof -
  have "duration_seconds (to - from) = fl_of_int k" "duration_seconds (sleepDuring evs from to) = fl_of_int s"
    using assms by (simp_all add: duration_seconds_whole)
  then have d: "fl_sub (duration_seconds (to - from)) (duration_seconds (sleepDuring evs from to)) = fl_of_int (k - s)"
    using assms(3-5) by (simp add: fl_sub_of_int)
  obtain j where "fl_of_int (k - s) = Fin ((k - s) * 2 ^ j) (- int j)"
    using fl_of_int_exact [of "k - s"] assms(3-5) by auto
  then have "\<not> fl_negative (fl_of_int (k - s))" using assms(4) by (simp add: mult_less_0_iff)
  then show ?thesis using d by (simp add: wall_seconds_def Let_def)
qed

lemma cost_of_whole:
  assumes "0 \<le> n" and "n < 2 ^ 53" and "0 \<le> bid" and "bid < 2 ^ 53" and "n * bid < 2 ^ 53"
  shows "cost_of (fl_of_int n) bid = n * bid"
proof -
  have "\<bar>n * bid\<bar> < 2 ^ 53" using assms by (simp add: abs_mult)
  then show ?thesis using assms fl_to_int64_of_int [of "n * bid"] by (simp add: cost_of_def fl_mul_of_int)
qed

lemma w_proxy_persist [simp]: "w_proxy (persist_spending ups w) = w_proxy w"
  unfolding persist_spending_def by (rule fold_frame) (simp add: case_prod_unfold)

lemma spending_of_charge:
  assumes "w_proxy w = Some p" and "in64 (mget0 (p_spending p) c)" and "0 \<le> cost"
  shows "\<exists>p'. w_proxy (charge cid cost w) = Some p' \<and>
     mget0 (p_spending p') c = (if c = cid then wrap64 (mget0 (p_spending p) cid + cost * 1000) else mget0 (p_spending p) c)"
proof (cases "cost = 0")
  case True
  then show ?thesis using assms by (auto simp: charge_def wrap64_id)
next
  case False
  then show ?thesis
    using assms by (auto simp: charge_def AddSpending_def add_micro_def set_spending_def Let_def)
qed


text \<open>C23: an answered request costs its container the bid times the seconds it took, with the host's
  sleep taken out: for a call of k whole seconds during which the host slept s of them, the
  container's spending grows by exactly (k - s) times its bid (as long as the amounts stay
  below \<open>2 ^ 53\<close>), no other container's changes, and the handler gets the answer; a failed
  call costs nothing and the handler gets the error.\<close>

theorem billing_exact:
  assumes "w_proxy w = Some p" and "e = q_heap (w_queue w) i" and "cid = en_container e"
    and "to - from = k * 1000000000" and "sleepDuring (q_sleepEvents (w_queue w)) from to = s * 1000000000"
    and "0 \<le> s" and "s \<le> k" and "k < 2 ^ 53"
    and "0 \<le> en_bid e" and "en_bid e < 2 ^ 53" and "(k - s) * en_bid e < 2 ^ 53"
    and "in64 (mget0 (p_spending p) c)"
  shows "(\<exists>p'. w_proxy (processEntry i None from to (Inr (status, h, Inr body)) w) = Some p' \<and>
            mget0 (p_spending p') c =
              (if c = cid then wrap64 (mget0 (p_spending p) cid + (k - s) * en_bid e * 1000)
               else mget0 (p_spending p) c)) \<and>
         slot (w_queue (processEntry i None from to (Inr (status, h, Inr body)) w)) i = Some (ResultOk status h body) \<and>
         w_proxy (processEntry i None from to (Inl x) w) = Some p \<and>
         slot (w_queue (processEntry i None from to (Inl x) w)) i = Some (ResultErr (''ollama request: '' @ x))"
proof -
  have "wall_seconds (q_sleepEvents (w_queue w)) from to = fl_of_int (k - s)"
    by (rule wall_seconds_whole [OF assms(4-8)])
  moreover have "cost_of (fl_of_int (k - s)) (en_bid e) = (k - s) * en_bid e"
    using assms(6-11) by (intro cost_of_whole) simp_all
  ultimately have cost: "cost_of (wall_seconds (q_sleepEvents (w_queue w)) from to) (en_bid e) = (k - s) * en_bid e"
    by simp
  have "0 \<le> (k - s) * en_bid e" using assms(7,9) by simp
  then obtain p' where p': "w_proxy (charge cid ((k - s) * en_bid e) w) = Some p'"
    "mget0 (p_spending p') c = (if c = cid then wrap64 (mget0 (p_spending p) cid + (k - s) * en_bid e * 1000)
       else mget0 (p_spending p) c)"
    using spending_of_charge [OF assms(1,12), of "(k - s) * en_bid e" cid] by blast
  then have "\<exists>p''. w_proxy (processEntry i None from to (Inr (status, h, Inr body)) w) = Some p'' \<and>
      p_spending p'' = p_spending p'"
    using cost by (cases "q_hasRecorder (w_queue w)")
      (simp_all add: processEntry_def Let_def assms(2,3) [symmetric] on_queue_def)
  then have "\<exists>p''. w_proxy (processEntry i None from to (Inr (status, h, Inr body)) w) = Some p'' \<and>
      mget0 (p_spending p'') c = (if c = cid then wrap64 (mget0 (p_spending p) cid + (k - s) * en_bid e * 1000)
       else mget0 (p_spending p) c)"
    using p'(2) by metis
  then show ?thesis
    using assms(1) by (simp add: processEntry_def Let_def on_queue_def)
qed

theorem billing_exact_witness:
  "\<exists>p'. w_proxy (processEntry 0 None 0 30000000000 (Inr (200, [], Inr ''ok''))
            (one_queued\<lparr>w_queue := detect 0 [1000000000, 21000000000] (w_queue one_queued)\<rparr>)) = Some p' \<and>
        mget0 (p_spending p') ''0123456789ab'' = 55000"
proof -
  define w' where "w' = one_queued\<lparr>w_queue := detect 0 [1000000000, 21000000000] (w_queue one_queued)\<rparr>"
  define e where "e = \<lparr>en_container = ''0123456789ab'', en_model = ''llama'', en_path = ''/api/chat'',
      en_body = ''{}'', en_bid = 5, en_enqueuedAt = 7, en_timeout = 0, en_result = None, en_cancelled = False,
      en_ctxDone = False\<rparr>"
  have q: "e = q_heap (w_queue w') 0"
    by (simp add: w'_def e_def one_queued_def enqueue_def Let_def demo_json_def demo_oworld_def NewQueue_def demo_cfg_def
        chat_def GetBid_def queue_timeout_of_def sleep_tick_def recordSleep_def)
  have s: "sleepDuring (q_sleepEvents (w_queue w')) 0 30000000000 = 19 * 1000000000"
    by (simp add: w'_def one_queued_def enqueue_def Let_def demo_json_def demo_oworld_def NewQueue_def demo_cfg_def
        sleep_tick_def recordSleep_def sleepDuring_def sortEntries_def)
  have p: "w_proxy w' = Some NewSpendingTracker"
    by (simp add: w'_def one_queued_def enqueue_def Let_def demo_json_def demo_oworld_def NewQueue_def demo_cfg_def)
  have z: "mget0 (p_spending NewSpendingTracker) ''0123456789ab'' = 0" by (simp add: NewSpendingTracker_def)
  from billing_exact [OF p q _ _ s, where cid = "''0123456789ab''" and k = 30 and c = "''0123456789ab''"
      and status = 200 and h = "[]" and body = "''ok''" and x = "''''"]
  show ?thesis unfolding w'_def [symmetric] by (simp add: e_def z wrap64_def)
qed

end
