(* ===== verification/ScopeProps.thy ===== *)
theory ScopeProps
  imports EnforcementProps "HOL-Library.Multiset"
begin

text \<open>
  Scope enforcement: the total a scope is judged by is the ledger of cumulative usage, the
  scope's marks and the proxy's spending block are level-triggered, and the interaction of
  the scope loop with the container loops, frozen containers and restarts.
\<close>

subsection \<open>The scope's total is the ledger\<close>

lemma sum_list_sort_key: "sum_list (map f (sort_key k xs)) = (sum_list (map f xs) :: int)"
proof -
  have "mset (map f (sort_key k xs)) = mset (map f xs)" by simp
  then show ?thesis by (metis sum_mset_sum_list)
qed

lemma wrap64_add_wrap: "wrap64 (wrap64 a + b) = wrap64 (a + b)"
  by simp

lemma add_usages_sum:
  assumes "wrap64 (m lt) = m lt"
  shows "add_usages us m lt = wrap64 (m lt + sum_list (map snd (filter (\<lambda>r. fst r = lt) us)))"
  using assms
proof (induction us arbitrary: m)
  case Nil
  then show ?case by (simp add: add_usages_def)
next
  case (Cons u us)
  obtain t v where u: "u = (t, v)" by force
  have "add_usages (u # us) m lt = add_usages us (m(t := wrap64 (m t + v))) lt"
    by (simp add: add_usages_def u)
  also have "\<dots> = wrap64 ((m(t := wrap64 (m t + v))) lt + sum_list (map snd (filter (\<lambda>r. fst r = lt) us)))"
    using Cons.prems by (intro Cons.IH) simp
  finally show ?case by (simp add: u add.assoc)
qed

lemma sum_filter_key: "tbl_wf us \<Longrightarrow> sum_list (map snd (filter (\<lambda>r. fst r = lt) us)) = mget0 (map_of us) lt"
proof (induction us)
  case Nil
  then show ?case by simp
next
  case (Cons u us)
  obtain t v where u: "u = (t, v)" by force
  show ?case
  proof (cases "t = lt")
    case True
    with Cons.prems have "map_of us lt = None" by (auto simp: u map_of_eq_None_iff)
    then have "sum_list (map snd (filter (\<lambda>r. fst r = lt) us)) = 0"
      using Cons by (simp add: mget0_def)
    then show ?thesis using True by (simp add: u mget0_def)
  next
    case False
    then show ?thesis using Cons by (simp add: u mget0_def)
  qed
qed

definition cells_fit :: "store \<Rightarrow> bool" where
  "cells_fit s \<longleftrightarrow> list_all (\<lambda>r. in64 (snd r)) (t_usage s) \<and> list_all (\<lambda>r. in64 (snd r)) (t_scope_usage_accum s)"

lemma list_all_tbl_part: "list_all (\<lambda>r. P (snd r)) t \<Longrightarrow> list_all (\<lambda>r. P (snd r)) (tbl_part a t)"
  by (auto simp: tbl_part_def list_all_iff)

lemma GetAllUsage_ok:
  "cells_fit s \<Longrightarrow> db_rerr s = None \<Longrightarrow> GetAllUsage s c = Inr (tbl_part c (t_usage s))"
  by (simp add: GetAllUsage_def query_rows_def cells_fit_def list_all_tbl_part)

lemma GetScopeUsageAccum_ok:
  "cells_fit s \<Longrightarrow> db_rerr s = None \<Longrightarrow> GetScopeUsageAccum s sc = Inr (tbl_part sc (t_scope_usage_accum s))"
  by (simp add: GetScopeUsageAccum_def query_rows_def cells_fit_def list_all_tbl_part)

lemma container_totals:
  assumes wf: "wf_store s" and fit: "cells_fit s" and rerr: "db_rerr s = None" and m: "wrap64 (m lt) = m lt"
  shows "fold (\<lambda>c m. case GetAllUsage s (c_ID c) of Inl _ \<Rightarrow> m | Inr us \<Rightarrow> add_usages us m) cs m lt =
         wrap64 (m lt + sum_list (map (\<lambda>c. cell s (c_ID c) lt) cs))"
  using m
proof (induction cs arbitrary: m)
  case Nil
  then show ?case by simp
next
  case (Cons c cs)
  let ?us = "tbl_part (c_ID c) (t_usage s)"
  have "tbl_wf ?us" using wf_storeD(2) [OF wf] by (rule tbl_wf_part)
  then have step: "add_usages ?us m lt = wrap64 (m lt + cell s (c_ID c) lt)"
    by (simp add: add_usages_sum [where m = m and lt = lt, OF Cons.prems] sum_filter_key cell_def mget0_def)
  then have "fold (\<lambda>c m. case GetAllUsage s (c_ID c) of Inl _ \<Rightarrow> m | Inr us \<Rightarrow> add_usages us m) cs (add_usages ?us m) lt =
      wrap64 (add_usages ?us m lt + sum_list (map (\<lambda>c. cell s (c_ID c) lt) cs))"
    by (intro Cons.IH) simp
  then show ?case by (simp add: GetAllUsage_ok [OF fit rerr] step add.assoc)
qed

lemma scope_usage_ledger:
  assumes wf: "wf_store s" and fit: "cells_fit s" and rerr: "db_rerr s = None"
    and cs: "ListContainersByScope s sc = Inr cs"
  shows "scope_usage s sc cs lt = wrap64 (ledger s sc lt)"
proof -
  let ?rows = "filter (in_scope sc) (t_containers s)"
  have "cs = map row_to_container (sort_key r_registered_at ?rows)"
    using cs rerr by (simp add: ListContainersByScope_def Let_def in_scope_def [abs_def] split: if_splits)
  then have "sum_list (map (\<lambda>c. cell s (c_ID c) lt) cs) =
      sum_list (map (\<lambda>r. cell s (r_id r) lt) (sort_key r_registered_at ?rows))"
    by (simp add: row_to_container_def comp_def)
  also have "\<dots> = sum_list (map (\<lambda>r. cell s (r_id r) lt) ?rows)"
    by (rule sum_list_sort_key)
  finally have sum: "sum_list (map (\<lambda>c. cell s (c_ID c) lt) cs) = sum_list (map (\<lambda>r. cell s (r_id r) lt) ?rows)" .
  let ?m = "fold (\<lambda>c m. case GetAllUsage s (c_ID c) of Inl _ \<Rightarrow> m | Inr us \<Rightarrow> add_usages us m) cs (\<lambda>_. 0)"
  let ?us = "tbl_part sc (t_scope_usage_accum s)"
  have m: "?m lt = wrap64 (sum_list (map (\<lambda>r. cell s (r_id r) lt) ?rows))"
    using container_totals [OF wf fit rerr, of "\<lambda>_. 0" lt cs] sum by simp
  have "tbl_wf ?us" using wf_storeD(5) [OF wf] by (rule tbl_wf_part)
  then have "add_usages ?us ?m lt = wrap64 (?m lt + mget0 (map_of (t_scope_usage_accum s)) (sc, lt))"
    by (subst add_usages_sum) (simp_all add: m sum_filter_key mget0_def)
  then show ?thesis
    by (simp add: scope_usage_def Let_def GetScopeUsageAccum_ok [OF fit rerr] m ledger_def add.commute)
qed

text \<open>C4: the usage a scope is judged by is its ledger: the code's sum over the listed
  containers' counters and the accumulator of removed containers is, for every type, the
  scope's ledger (as a 64-bit sum); with the conservation of the ledger under removal, a
  scope's cumulative totals never drop because a container is removed.\<close>

theorem scope_usage_is_ledger:
  assumes wf: "wf_store s" and fit: "cells_fit s" and rerr: "db_rerr s = None"
    and cs: "ListContainersByScope s sc = Inr cs"
  shows "scope_usage s sc cs lt = wrap64 (ledger s sc lt)"
  using assms by (rule scope_usage_ledger)

theorem scope_usage_is_ledger_witness:
  "\<exists>cs. ListContainersByScope demo_store ScopeHost = Inr cs \<and> scope_usage demo_store ScopeHost cs LimitCPU = 570"
proof -
  have fit: "cells_fit demo_store" and rerr: "db_rerr demo_store = None"
    by (simp_all add: cells_fit_def demo_store_eval in64_def)
  obtain cs where cs: "ListContainersByScope demo_store ScopeHost = Inr cs"
    using rerr by (simp add: ListContainersByScope_def)
  have "ledger demo_store ScopeHost LimitCPU = 570"
    by (simp add: ledger_def cell_def mget0_def in_scope_def demo_store_eval)
  then show ?thesis
    using cs scope_usage_is_ledger [OF demo_wf fit rerr cs, of LimitCPU] by (simp add: wrap64_def)
qed

subsection \<open>Scope enforcement is level-triggered\<close>

lemma on_running_frame:
  assumes "\<And>cid did p w. g (act cid did p w) = g w"
  shows "g (on_running dc cg act c w) = g w"
  by (simp add: on_running_def assms split: sum.split bool.split)

lemma scopeEnforce_frame:
  "w_store (scopeEnforce dc cg sc lt cs w) = w_store w"
  "w_scopeEnforced (scopeEnforce dc cg sc lt cs w) = raise_flag sc lt (w_scopeEnforced w)"
  "w_proxy (scopeEnforce dc cg sc lt cs w) =
     (if lt = LimitSpending then map_option (SetScopeSpendingBlocked sc True) (w_proxy w) else w_proxy w)"
  by (simp_all add: scopeEnforce_def Let_def block_scope_spending_def
      fold_frame [where g = w_store] fold_frame [where g = w_scopeEnforced] fold_frame [where g = w_proxy]
      on_running_frame [where g = w_store] on_running_frame [where g = w_scopeEnforced]
      on_running_frame [where g = w_proxy])

lemma scopeRelease_frame:
  "w_store (scopeRelease dc cg sc lt cs w) = w_store w"
  "w_scopeEnforced (scopeRelease dc cg sc lt cs w) = lower_flag sc lt (w_scopeEnforced w)"
  "w_proxy (scopeRelease dc cg sc lt cs w) =
     (if lt = LimitSpending then map_option (SetScopeSpendingBlocked sc False) (w_proxy w) else w_proxy w)"
  by (simp_all add: scopeRelease_def Let_def block_scope_spending_def
      fold_frame [where g = w_store] fold_frame [where g = w_scopeEnforced] fold_frame [where g = w_proxy]
      on_running_frame [where g = w_store] on_running_frame [where g = w_scopeEnforced]
      on_running_frame [where g = w_proxy])

text \<open>The proxy's block of a scope agrees with the scope's spending mark.\<close>

definition block_in_sync :: "scope \<Rightarrow> ('d, 'c, 'z) world_scheme \<Rightarrow> bool" where
  "block_in_sync sc w \<longleftrightarrow>
     (\<forall>t. w_proxy w = Some t \<longrightarrow> (mgetb (p_scopeBlocked t) sc \<longleftrightarrow> IsScopeEnforced w sc LimitSpending))"

lemma check_scope_type_level:
  "w_store (check_scope_type dc cg sc cs totals (lt, L) w) = w_store w"
  "IsScopeEnforced (check_scope_type dc cg sc cs totals (lt, L) w) sc t \<longleftrightarrow>
     (if t = lt \<and> L \<noteq> 0 then L \<le> totals lt else IsScopeEnforced w sc t)"
  "block_in_sync sc w \<Longrightarrow> block_in_sync sc (check_scope_type dc cg sc cs totals (lt, L) w)"
  by (auto simp: check_scope_type_def Let_def scopeEnforce_frame scopeRelease_frame IsScopeEnforced_def
      block_in_sync_def SetScopeSpendingBlocked_def flag_def raise_flag_def lower_flag_def split: option.splits)

lemma fold_scope_level:
  assumes "tbl_wf rows"
  shows "w_store (fold (check_scope_type dc cg sc cs totals) rows w) = w_store w \<and>
     (IsScopeEnforced (fold (check_scope_type dc cg sc cs totals) rows w) sc t \<longleftrightarrow>
        (case map_of rows t of None \<Rightarrow> IsScopeEnforced w sc t
         | Some L \<Rightarrow> if L = 0 then IsScopeEnforced w sc t else L \<le> totals t)) \<and>
     (block_in_sync sc w \<longrightarrow> block_in_sync sc (fold (check_scope_type dc cg sc cs totals) rows w))"
  using assms
proof (induction rows arbitrary: w)
  case Nil
  then show ?case by simp
next
  case (Cons r rows)
  obtain lt L where r: "r = (lt, L)" by force
  let ?w1 = "check_scope_type dc cg sc cs totals (lt, L) w"
  have "lt \<notin> fst ` set rows" "tbl_wf rows" using Cons.prems by (auto simp: r)
  moreover have "map_of rows lt = None" using Cons.prems by (auto simp: r map_of_eq_None_iff)
  ultimately show ?case
    using Cons.IH [of ?w1] by (auto simp: r check_scope_type_level split: option.splits)
qed

lemma checkScope_level:
  assumes "GetAllScopeLimits (w_store w) sc = Inr limits" and "tbl_wf limits"
    and "ListContainersByScope (w_store w) sc = Inr cs"
  shows "w_store (checkScopeEnforcement dc cg sc w) = w_store w"
    and "map_of limits lt = Some L \<Longrightarrow> L \<noteq> 0 \<Longrightarrow>
         IsScopeEnforced (checkScopeEnforcement dc cg sc w) sc lt \<longleftrightarrow> L \<le> scope_usage (w_store w) sc cs lt"
    and "block_in_sync sc w \<Longrightarrow> block_in_sync sc (checkScopeEnforcement dc cg sc w)"
  using assms fold_scope_level [OF assms(2), of dc cg sc cs "scope_usage (w_store w) sc cs" w lt]
  by (auto simp: checkScopeEnforcement_def)

text \<open>C5: scope limits are level-triggered and reach the proxy: after a check of the host or of
  a segment whose limits and containers can be read, each limit that is set is marked enforced
  for the scope exactly when the scope's total has reached it; and if the spending limit is
  reached, the proxy lets no container of that scope spend any more (every container for the
  host's scope, the assigned ones for a segment), while if it is not reached the proxy does not
  hold this scope against anyone.\<close>

theorem scope_check_level_triggered:
  assumes "GetAllScopeLimits (w_store w) sc = Inr limits" and "tbl_wf limits"
    and "ListContainersByScope (w_store w) sc = Inr cs"
    and "map_of limits lt = Some L" and "L \<noteq> 0" and "block_in_sync sc w"
  shows "(IsScopeEnforced (checkScopeEnforcement dc cg sc w) sc lt \<longleftrightarrow> L \<le> scope_usage (w_store w) sc cs lt) \<and>
     (lt = LimitSpending \<longrightarrow>
        (\<forall>t. w_proxy (checkScopeEnforcement dc cg sc w) = Some t \<longrightarrow>
           (mgetb (p_scopeBlocked t) sc \<longleftrightarrow> L \<le> scope_usage (w_store w) sc cs lt) \<and>
           (L \<le> scope_usage (w_store w) sc cs lt \<longrightarrow>
              (\<forall>cid. sc = ScopeHost \<or> p_containerScopes t cid = Some sc \<longrightarrow> no_spending t cid))))"
  using checkScope_level(2) [OF assms(1-5), where dc = dc and cg = cg]
    checkScope_level(3) [OF assms(1-3,6), where dc = dc and cg = cg]
  by (auto simp: block_in_sync_def no_spending_def)

definition spent_world :: "(mock_docker, mock_cgroup) world" where
  "spent_world = mock_world\<lparr>w_proxy := Some NewSpendingTracker,
     w_store := snd (SetUsage ''0123456789ab'' LimitSpending 50 (snd (SetScopeLimit ScopeHost LimitSpending 40 demo_store)))\<rparr>"

theorem scope_check_level_triggered_witness:
  "IsScopeEnforced (checkScopeEnforcement MockDocker MockCgroup ScopeHost spent_world) ScopeHost LimitSpending"
proof -
  have store: "w_store spent_world = snd (SetUsage ''0123456789ab'' LimitSpending 50 (snd (SetScopeLimit ScopeHost LimitSpending 40 demo_store)))"
    by (simp add: spent_world_def)
  have lim: "GetAllScopeLimits (w_store spent_world) ScopeHost = Inr [(LimitCPU, 9000), (LimitSpending, 40)]"
    unfolding store
    by (simp add: GetAllScopeLimits_def query_rows_def SetUsage_def SetScopeLimit_def exec_def exec_ignore_def
        demo_store_eval tbl_put_def tbl_part_def ScopeHost_def in64_def)
  have wf: "wf_store (w_store spent_world)" and fit: "cells_fit (w_store spent_world)"
    and rerr: "db_rerr (w_store spent_world) = None"
    unfolding store
    by (simp_all add: demo_wf wf_ops)
       (simp_all add: cells_fit_def SetUsage_def SetScopeLimit_def exec_def exec_ignore_def demo_store_eval
         tbl_put_def in64_def)
  obtain cs where cs: "ListContainersByScope (w_store spent_world) ScopeHost = Inr cs"
    using rerr by (simp add: ListContainersByScope_def)
  have "ledger (w_store spent_world) ScopeHost LimitSpending = 50"
    unfolding store
    by (simp add: ledger_def cell_def mget0_def in_scope_def SetUsage_def SetScopeLimit_def exec_def
        exec_ignore_def demo_store_eval tbl_put_def)
  then have total: "scope_usage (w_store spent_world) ScopeHost cs LimitSpending = 50"
    using scope_usage_ledger [OF wf fit rerr cs, of LimitSpending] by (simp add: wrap64_def)
  have "block_in_sync ScopeHost spent_world"
    by (simp add: block_in_sync_def spent_world_def NewSpendingTracker_def IsScopeEnforced_def flag_def
        mock_world_def NewManager_def)
  then show ?thesis
    using scope_check_level_triggered [OF lim _ cs, of LimitSpending 40 MockDocker MockCgroup] total by simp
qed

subsection \<open>Where the loops disagree\<close>

context enforcement_host
begin

lemma cpu_released:
  assumes ok: "host_ok known ready cid did p w" and lt: "L \<noteq> 0" "go_div usec 1000000 < L"
    and cpu: "g_cpu cg (w_cgroup w) p = Inr usec" and p: "d_paused dc (w_docker w) did = Inr True"
    and nf: "\<not> IsFrozen w cid" and own: "\<not> IsEnforced w cid LimitDisk"
    and scopes: "\<forall>sc. \<not> IsScopeEnforced w sc LimitDisk"
  shows "d_paused dc (w_docker (check_type dc cg cid did slept (Inr p) [(LimitCPU, L)] LimitCPU w)) did = Inr False \<and>
         w_scopeEnforced (check_type dc cg cid did slept (Inr p) [(LimitCPU, L)] LimitCPU w) = w_scopeEnforced w"
proof -
  define w1 where "w1 = snd (on_store (SetUsage cid LimitCPU (go_div usec 1000000)) w)"
  have m: "measure dc cg cid did slept (Inr p) LimitCPU w = (Some (go_div usec 1000000), w1)"
    using cpu by (simp add: measure_def isByteSecondType_def getCurrentUsage_def w1_def)
  have other: "\<not> isOtherPauseActive cid LimitCPU w1"
    using nf own scopes
    by (simp add: isOtherPauseActive_def w1_def IsFrozen_def IsEnforced_def IsScopeEnforced_def pauseTypes_def split: sum.split)
  have d: "fst (d_unpause dc did (w_docker w)) = None"
    using ok known_unpause by (simp add: host_ok_def)
  then have un: "d_paused dc (snd (d_unpause dc did (w_docker w))) did = Inr False"
    using unpause_ok [of did "w_docker w"] by (metis prod.collapse)
  have act: "release_action dc cg cid did LimitCPU p w1 = on_docker (d_unpause dc did) w1"
    using other p by (simp add: release_action_def orF_def w1_def)
  have "w_docker (release dc cg cid did LimitCPU p w1) = snd (d_unpause dc did (w_docker w))"
    by (simp add: act) (simp add: w1_def)
  moreover have "check_type dc cg cid did slept (Inr p) [(LimitCPU, L)] LimitCPU w = release dc cg cid did LimitCPU p w1"
    using m lt p by (simp add: check_type_def isActuallyEnforced_def w1_def Let_def)
  ultimately show ?thesis using un by (simp add: w1_def)
qed

end


lemma fold_absent_types:
  "lts \<inter> dom (map_of limits) = {} \<Longrightarrow> set xs \<subseteq> lts \<Longrightarrow> fold (check_type dc cg cid did slept path limits) xs w = w"
  by (induction xs arbitrary: w) (auto simp: check_type_def domIff split: option.split)

lemma sync_emit_docker [simp]:
  "w_docker (emit_usage cid limits (sync_spending cid w)) = w_docker w"
  "w_scopeEnforced (emit_usage cid limits (sync_spending cid w)) = w_scopeEnforced w"
  by (simp_all add: emit_usage_def sync_spending_def split: option.split)

text \<open>C34: the container's loop undoes a pause that a scope imposed, and the scope's loop does
  not restore it. A running container below its own CPU limit, paused because the host's total
  CPU time has reached the host's limit (the host's CPU flag is up), is running again after
  its next check, although the flag is still up; and as long as the flag stays up and the host's
  total exceeds the limit, the host's check of the CPU limit touches no container. (The guard
  \<^verbatim>\<open>isOtherPauseActive\<close> skips the very limit type being released in every scope.)\<close>

theorem scope_pause_undone:
  assumes "enforcement_host dc known cg ready" and "host_ok known ready cid did p w"
    and "IsScopeEnforced w ScopeHost LimitCPU" and "d_paused dc (w_docker w) did = Inr True"
    and "d_running dc (w_docker w) did = Inr True" and "g_find cg (w_cgroup w) did = Inr p"
    and "GetAllLimits (w_store w) cid = Inr [(LimitCPU, L)]" and "L \<noteq> 0"
    and "g_cpu cg (w_cgroup w) p = Inr usec" and "go_div usec 1000000 < L"
    and "\<not> IsFrozen w cid" and "\<not> IsEnforced w cid LimitDisk"
    and "\<forall>sc. \<not> IsScopeEnforced w sc LimitDisk"
    and "w' = checkAndEnforce dc cg cid did slept w" and "G \<le> totals LimitCPU"
  shows "d_paused dc (w_docker w') did = Inr False \<and> IsScopeEnforced w' ScopeHost LimitCPU \<and>
         w_docker (check_scope_type dc cg ScopeHost cs totals (LimitCPU, G) w') = w_docker w'"
proof -
  let ?w1 = "check_type dc cg cid did slept (Inr p) [(LimitCPU, L)] LimitCPU w"
  have "fold (check_type dc cg cid did slept (Inr p) [(LimitCPU, L)]) AllLimitTypes w = ?w1"
    using fold_absent_types [of "- {LimitCPU}" "[(LimitCPU, L)]" "tl AllLimitTypes" dc cg cid did slept "Inr p" ?w1]
    by (simp add: AllLimitTypes_def)
  then have w': "w' = emit_usage cid [(LimitCPU, L)] (sync_spending cid ?w1)"
    using assms(5,6,7,11,14) by (simp add: checkAndEnforce_def IsFrozen_def)
  have "d_paused dc (w_docker ?w1) did = Inr False \<and> w_scopeEnforced ?w1 = w_scopeEnforced w"
    using enforcement_host.cpu_released [OF assms(1,2,8,10,9,4,11,12,13)] .
  then have main: "d_paused dc (w_docker w') did = Inr False" "w_scopeEnforced w' = w_scopeEnforced w"
    by (simp_all add: w')
  then have up: "IsScopeEnforced w' ScopeHost LimitCPU" using assms(3) by (simp add: IsScopeEnforced_def)
  then have "w_docker (check_scope_type dc cg ScopeHost cs totals (LimitCPU, G) w') = w_docker w'"
    using assms(15) by (auto simp: check_scope_type_def Let_def IsScopeEnforced_def flag_def split: option.split)
  then show ?thesis using main(1) up by simp
qed

definition scope_paused_world :: "(mock_docker, mock_cgroup) world" where
  "scope_paused_world = busy_world
     \<lparr>w_docker := snd (d_pause MockDocker ''0123456789abcdef'' (w_docker busy_world)),
      w_cgroup := busy_cgroup\<lparr>mg_CPU := [''/cg'' \<mapsto> 5000000]\<rparr>,
      w_scopeEnforced := [ScopeHost \<mapsto> [(LimitCPU, True)]]\<rparr>"

lemma scope_paused_world_facts:
  "host_ok mock_known mock_ready ''0123456789ab'' ''0123456789abcdef'' ''/cg'' scope_paused_world"
  "IsScopeEnforced scope_paused_world ScopeHost LimitCPU"
  "d_paused MockDocker (w_docker scope_paused_world) ''0123456789abcdef'' = Inr True"
  "d_running MockDocker (w_docker scope_paused_world) ''0123456789abcdef'' = Inr True"
  "g_find MockCgroup (w_cgroup scope_paused_world) ''0123456789abcdef'' = Inr ''/cg''"
  "GetAllLimits (w_store scope_paused_world) ''0123456789ab'' = Inr [(LimitCPU, 1000)]"
  "g_cpu MockCgroup (w_cgroup scope_paused_world) ''/cg'' = Inr 5000000"
  "\<not> IsFrozen scope_paused_world ''0123456789ab''"
  "\<not> IsEnforced scope_paused_world ''0123456789ab'' LimitDisk"
  "\<forall>sc. \<not> IsScopeEnforced scope_paused_world sc LimitDisk"
  unfolding scope_paused_world_def busy_world_def mock_world_start
  by (simp_all add: host_ok_def db_ok_def mock_world_def NewManager_def mock_known_def AddContainer_def
      new_mock_container_def mock_ready_def busy_cgroup_def NewMockCgroup_def in64_def MockCgroup_def mock_ops
      IsFrozen_def IsEnforced_def IsScopeEnforced_def flag_def mgetb_def GetAllLimits_def query_rows_def
      demo_store_eval tbl_part_def)

theorem scope_pause_undone_witness:
  "d_paused MockDocker (w_docker (checkAndEnforce MockDocker MockCgroup ''0123456789ab'' ''0123456789abcdef'' False
     scope_paused_world)) ''0123456789abcdef'' = Inr False"
proof -
  note f = scope_paused_world_facts
  show ?thesis
    using scope_pause_undone [OF mockhost.enforcement_host_axioms f(1,2,3,4,5,6) _ f(7) _ f(8,9,10) refl,
        of 9000 "\<lambda>_. 9000" False "[]"] by (simp add: go_div_def)
qed


lemma AllLimitTypes_split:
  assumes "lt \<in> set AllLimitTypes"
  obtains xs ys where "AllLimitTypes = xs @ lt # ys" and "lt \<notin> set xs" and "lt \<notin> set ys"
proof -
  obtain xs ys where split: "AllLimitTypes = xs @ lt # ys" using assms by (meson split_list)
  then have "distinct (xs @ lt # ys)" using distinct_AllLimitTypes by simp
  then show ?thesis using that [OF split] by auto
qed

lemma fold_single_limit:
  assumes "lt \<in> set AllLimitTypes"
  shows "fold (check_type dc cg cid did slept path [(lt, L)]) AllLimitTypes w =
         check_type dc cg cid did slept path [(lt, L)] lt w"
proof -
  obtain xs ys where split: "AllLimitTypes = xs @ lt # ys" "lt \<notin> set xs" "lt \<notin> set ys"
    using assms by (rule AllLimitTypes_split)
  have skip: "fold (check_type dc cg cid did slept path [(lt, L)]) zs v = v" if "lt \<notin> set zs"
    for zs and v :: "('a, 'b, 'c) world_scheme"
    by (rule fold_absent_types [where lts = "- {lt}"]) (use that in auto)
  show ?thesis by (simp add: split(1) skip split(2,3))
qed

text \<open>C35: limits are enforced on the transition only. A container that was stopped because a
  byte-second limit was reached, and that somebody starts again while its counter is still at
  the limit, is left alone by its checks: it runs on, is not stopped a second time, and its
  counter does not move any more.\<close>

theorem restart_after_kill_runs:
  assumes "isByteSecondType lt" and "IsEnforced w cid lt" and "\<not> IsFrozen w cid"
    and "GetAllLimits (w_store w) cid = Inr [(lt, L)]" and "L \<noteq> 0"
    and "GetUsage (w_store w) cid lt = Inr u" and "L \<le> u"
    and "d_running dc (w_docker w) did = Inr True"
    and "w' = checkAndEnforce dc cg cid did slept w"
  shows "w_docker w' = w_docker w \<and> d_running dc (w_docker w') did = Inr True \<and>
         GetUsage (w_store w') cid lt = Inr u \<and> IsEnforced w' cid lt"
proof -
  have lt: "lt \<in> set AllLimitTypes" "lt \<noteq> LimitSpending"
    using assms(1) by (auto simp: isByteSecondType_def AllLimitTypes_def)
  have "check_type dc cg cid did slept path [(lt, L)] lt w = w" for path
    using assms(1,2,5-7) by (simp add: check_type_def measure_def IsEnforced_def or0_def Let_def)
  then have w': "w' = emit_usage cid [(lt, L)] (sync_spending cid w)"
    using assms(3,4,8) by (simp add: assms(9) checkAndEnforce_def IsFrozen_def Let_def fold_single_limit [OF lt(1)])
  have "GetUsage (snd (SetUsage cid LimitSpending v s)) cid lt = GetUsage s cid lt" for v s
    using lt(2) by (auto simp: SetUsage_def GetUsage_def query_int_cases exec_def split: option.split)
  then show ?thesis
    using assms(2,6,8) by (simp add: w' emit_usage_def sync_spending_def IsEnforced_def split: option.split)
qed

definition killed_world :: "(mock_docker, mock_cgroup) world" where
  "killed_world = busy_world
     \<lparr>w_store := demo_store\<lparr>t_limits := [((''0123456789ab'', LimitRAMUsageBSec), 100)],
                            t_usage := [((''0123456789ab'', LimitRAMUsageBSec), 120)]\<rparr>,
      w_enforced := [''0123456789ab'' \<mapsto> [(LimitRAMUsageBSec, True)]]\<rparr>"

theorem restart_after_kill_runs_witness:
  "d_running MockDocker (w_docker (checkAndEnforce MockDocker MockCgroup ''0123456789ab'' ''0123456789abcdef'' False
     killed_world)) ''0123456789abcdef'' = Inr True"
proof -
  have run: "d_running MockDocker (w_docker killed_world) ''0123456789abcdef'' = Inr True"
    "\<not> IsFrozen killed_world ''0123456789ab''"
    using busy_world_facts(3,4) by (simp_all add: killed_world_def IsFrozen_def)
  have enf: "IsEnforced killed_world ''0123456789ab'' LimitRAMUsageBSec"
    by (simp add: killed_world_def IsEnforced_def flag_def mgetb_def)
  have lims: "GetAllLimits (w_store killed_world) ''0123456789ab'' = Inr [(LimitRAMUsageBSec, 100)]"
    by (simp add: killed_world_def GetAllLimits_def query_rows_def demo_store_eval tbl_part_def in64_def)
  have u: "GetUsage (w_store killed_world) ''0123456789ab'' LimitRAMUsageBSec = Inr 120"
    by (simp add: killed_world_def store_reads demo_store_eval in64_def)
  show ?thesis
    by (rule restart_after_kill_runs [OF _ enf run(2) lims _ u _ run(1) refl, THEN conjunct2, THEN conjunct1])
       (simp_all add: isByteSecondType_def)
qed

end
