(* ===== verification/FreezeProps.thy ===== *)
theory FreezeProps
  imports EnforcementProps
begin

text \<open>
  What freezing and unfreezing a container do, how a freeze survives a restart of the daemon
  and what it misses after a reboot of the host, and the metering of byte-seconds across
  periods in which the host slept.
\<close>

subsection \<open>The frozen column\<close>

lemma find_update_rows:
  "(\<And>r. r_id (f r) = r_id r) \<Longrightarrow>
   find (\<lambda>r. r_id r = c) (update_rows cid f rs) =
     map_option (\<lambda>r. if c = cid then f r else r) (find (\<lambda>r. r_id r = c) rs)"
  by (induction rs) (auto simp: update_rows_def)

lemma SetFrozen_row:
  assumes "db_werr s = None" and "db_rerr s = None" and "find_row cid s \<noteq> None"
  shows "IsFrozenRow (snd (SetFrozen cid b s)) cid = Inr b"
  using assms by (auto simp: SetFrozen_def IsFrozenRow_def exec_def find_row_def find_update_rows)

lemma SetFrozen_container [simp]: "GetContainer (snd (SetFrozen cid b s)) c = GetContainer s c"
  by (simp add: SetFrozen_def exec_def GetContainer_def find_row_def find_update_rows row_to_container_def
      split: option.split)

lemma StartContainer_fresh:
  "IsFrozen (StartContainer cid did (NewManager s d c p b now)) cid \<longleftrightarrow> IsFrozenRow s cid = Inr True"
  by (simp add: IsFrozen_def StartContainer_def NewManager_def split: sum.split)

subsection \<open>Freezing and unfreezing\<close>

text \<open>C12: a freeze is durable and idempotent: freezing a tracked container on a host where
  Docker pauses it and the database writes succeeds, sets the flag, leaves the container
  paused, and a second freeze changes nothing; a daemon restarted on the resulting database
  takes the container up as frozen, with the container still paused.\<close>

theorem freeze_is_durable:
  assumes "pausable_docker dc" and "w_dockerIDs w cid = Some did" and "docker_id did" and "did \<noteq> ''''"
    and "\<not> IsFrozen w cid" and "fst (pause_for dc did w) = None"
    and "db_ok (w_store w)" and "find_row cid (w_store w) \<noteq> None"
    and "w' = snd (Freeze dc cid w)"
  shows "fst (Freeze dc cid w) = None \<and> IsFrozen w' cid \<and> held dc (w_docker w') did \<and>
         Freeze dc cid w' = (None, w') \<and>
         IsFrozen (StartContainer cid did (NewManager (w_store w') (w_docker w') c p b now)) cid"
proof -
  have db: "db_werr (w_store w) = None" "db_rerr (w_store w) = None" using assms(7) by (auto simp: db_ok_def)
  have f: "Freeze dc cid w =
    (None, emit ContainerFrozen cid ContainerFrozenData
       ((snd (on_store (SetFrozen cid True) (snd (on_docker (d_pause dc did) w))))
          \<lparr>w_frozen := (w_frozen w)(cid \<mapsto> True)\<rparr>))"
    using Freeze_effect [OF assms(2,4,5,6) db(1)] .
  have w': "w_frozen w' = (w_frozen w)(cid \<mapsto> True)" "w_dockerIDs w' = w_dockerIDs w"
    "w_docker w' = snd (d_pause dc did (w_docker w))" "w_store w' = snd (SetFrozen cid True (w_store w))"
    by (simp_all add: assms(9) f)
  have "case fst (d_pause dc did (w_docker w)) of None \<Rightarrow> True | Some e \<Rightarrow> already_paused e"
    using assms(6) by (auto simp: pause_for_proj split: option.splits if_splits)
  then have h: "held dc (w_docker w') did"
    using pausable_docker.pause_holds [OF assms(1), of did "w_docker w"] assms(3) unfolding w'(3)
    by (metis prod.collapse)
  have again: "Freeze dc cid w' = (None, w')"
    using assms(2,4) by (simp add: Freeze_def w' mgets_def)
  have "IsFrozen (StartContainer cid did (NewManager (w_store w') (w_docker w') c p b now)) cid"
    unfolding StartContainer_fresh w'(4) by (rule SetFrozen_row [OF db assms(8)])
  with f h again show ?thesis by (simp add: IsFrozen_def w')
qed

theorem freeze_is_durable_witness:
  "IsFrozen (StartContainer ''0123456789ab'' ''0123456789abcdef''
     (NewManager (w_store frozen_world) (w_docker frozen_world) NewMockCgroup None None 5)) ''0123456789ab''"
proof -
  let ?w = "StartContainer ''0123456789ab'' ''0123456789abcdef'' mock_world"
  have 1: "w_dockerIDs ?w ''0123456789ab'' = Some ''0123456789abcdef''" "\<not> IsFrozen ?w ''0123456789ab''"
    by (simp_all add: mock_world_start IsFrozen_def)
  have 2: "fst (pause_for MockDocker ''0123456789abcdef'' ?w) = None"
    unfolding mock_world_start pause_for_proj
    by (simp add: mock_world_def NewManager_def mock_ops AddContainer_def new_mock_container_def)
  have 3: "w_store ?w = demo_store" unfolding mock_world_start by (simp add: mock_world_def NewManager_def)
  have 4: "find_row ''0123456789ab'' demo_store \<noteq> None" by (simp add: find_row_def demo_store_eval)
  show ?thesis
    using freeze_is_durable [OF mock.pausable_docker_axioms 1(1) demo_ids(1) _ 1(2) 2 _ _ frozen_world_def,
        of NewMockCgroup None None 5] demo_ok 4
    by (simp add: 3)
qed

lemma any_pause_held:
  assumes "db_ok (w_store w)" and "find_row cid (w_store w) = Some row"
  shows "any_pause_enforced cid w \<longleftrightarrow>
    (\<exists>lt. (lt = LimitCPU \<or> lt = LimitDisk) \<and>
       (IsEnforced w cid lt \<or> IsScopeEnforced w ScopeHost lt \<or>
        (\<exists>g. r_segment_id row = Some g \<and> g \<noteq> '''' \<and> IsScopeEnforced w (SegmentScope g) lt)))"
  using assms
  by (auto simp: any_pause_enforced_def GetContainer_def db_ok_def row_to_container_def pauseTypes_def
      IsEnforced_def IsScopeEnforced_def split: option.splits)

text \<open>C11: unfreezing a frozen container on a healthy host clears the flag in memory and in the
  database, reports whether some pause-type limit (its own, the host's or its segment's) still
  holds the container, and unpauses it in Docker exactly when none does and it was paused.\<close>

theorem unfreeze_respects_limits:
  assumes "pausable_docker dc" and "w_dockerIDs w cid = Some did" and "did \<noteq> ''''"
    and "IsFrozen w cid" and "db_ok (w_store w)" and "find_row cid (w_store w) = Some row"
    and "d_paused dc (w_docker w) did = Inr True" and "fst (d_unpause dc did (w_docker w)) = None"
    and "w' = snd (Unfreeze dc cid w)"
    and "still \<longleftrightarrow> (\<exists>lt. (lt = LimitCPU \<or> lt = LimitDisk) \<and>
          (IsEnforced w cid lt \<or> IsScopeEnforced w ScopeHost lt \<or>
           (\<exists>g. r_segment_id row = Some g \<and> g \<noteq> '''' \<and> IsScopeEnforced w (SegmentScope g) lt)))"
  shows "fst (Unfreeze dc cid w) = Inr still \<and>
         \<not> IsFrozen w' cid \<and> IsFrozenRow (w_store w') cid = Inr False \<and>
         d_paused dc (w_docker w') did = Inr still"
proof -
  have still: "any_pause_enforced cid w = still"
    using any_pause_held [OF assms(5,6)] assms(10) by simp
  let ?w2 = "(snd (on_store (SetFrozen cid False) w))\<lparr>w_frozen := (w_frozen w)(cid \<mapsto> False)\<rparr>"
  have db: "db_werr (w_store w) = None" "db_rerr (w_store w) = None" using assms(5) by (auto simp: db_ok_def)
  have any: "any_pause_enforced cid ?w2 = any_pause_enforced cid w"
    by (simp add: any_pause_enforced_def split: sum.split)
  have ok: "fst (SetFrozen cid False (w_store w)) = None" using db by (simp add: SetFrozen_def exec_def)
  have un: "d_paused dc (snd (d_unpause dc did (w_docker w))) did = Inr False"
    using pausable_docker.unpause_ok [OF assms(1), of did "w_docker w"] assms(8) by (metis prod.collapse)
  define b where "b = still"
  define w3 where "w3 = (if b then ?w2 else snd (on_docker (d_unpause dc did) ?w2))"
  have u: "Unfreeze dc cid w = (Inr b, emit ContainerUnfrozen cid (ContainerUnfrozenData b) w3)"
    using assms(2,3,4,7,8) ok any still
    by (simp add: Unfreeze_def Let_def mgets_def IsFrozen_def case_prod_unfold orF_def w3_def b_def [symmetric])
  have "w_store w' = snd (SetFrozen cid False (w_store w))" "\<not> IsFrozen w' cid"
    "d_paused dc (w_docker w') did = Inr b"
    unfolding assms(9) u using un assms(7) by (simp_all add: w3_def IsFrozen_def)
  then show ?thesis
    using SetFrozen_row [OF db, of cid False] assms(6) by (simp add: u b_def)
qed


theorem unfreeze_respects_limits_witness:
  "d_paused MockDocker (w_docker (snd (Unfreeze MockDocker ''0123456789ab'' frozen_world))) ''0123456789abcdef'' =
     Inr False"
proof -
  let ?w = "StartContainer ''0123456789ab'' ''0123456789abcdef'' mock_world"
  have "Freeze MockDocker ''0123456789ab'' ?w =
    (None, emit ContainerFrozen ''0123456789ab'' ContainerFrozenData
       ((snd (on_store (SetFrozen ''0123456789ab'' True) (snd (on_docker (d_pause MockDocker ''0123456789abcdef'') ?w))))
          \<lparr>w_frozen := (w_frozen ?w)(''0123456789ab'' \<mapsto> True)\<rparr>))"
  proof (rule Freeze_effect)
    show "fst (pause_for MockDocker ''0123456789abcdef'' ?w) = None"
      unfolding mock_world_start pause_for_proj
      by (simp add: mock_world_def NewManager_def mock_ops AddContainer_def new_mock_container_def)
    show "db_werr (w_store ?w) = None"
      unfolding mock_world_start by (simp add: mock_world_def NewManager_def demo_store_eval)
  qed (simp_all add: mock_world_start IsFrozen_def)
  then have w: "w_store frozen_world = snd (SetFrozen ''0123456789ab'' True demo_store)"
    "w_docker frozen_world = snd (d_pause MockDocker ''0123456789abcdef'' (w_docker mock_world))"
    "w_enforced frozen_world = [''0123456789ab'' \<mapsto> []]" "w_scopeEnforced frozen_world = Map.empty"
    by (simp_all add: frozen_world_def) (simp_all add: mock_world_start, simp_all add: mock_world_def NewManager_def)
  obtain row where s: "db_ok (w_store frozen_world)" "find_row ''0123456789ab'' (w_store frozen_world) = Some row"
    unfolding w by (simp add: SetFrozen_def exec_def find_row_def demo_store_eval update_rows_def db_ok_def)
  have free: "False \<longleftrightarrow> (\<exists>lt. (lt = LimitCPU \<or> lt = LimitDisk) \<and>
          (IsEnforced frozen_world ''0123456789ab'' lt \<or> IsScopeEnforced frozen_world ScopeHost lt \<or>
           (\<exists>g. r_segment_id row = Some g \<and> g \<noteq> '''' \<and> IsScopeEnforced frozen_world (SegmentScope g) lt)))"
    by (simp add: IsEnforced_def IsScopeEnforced_def flag_def w)
  have p: "d_paused MockDocker (w_docker frozen_world) ''0123456789abcdef'' = Inr True"
    "fst (d_unpause MockDocker ''0123456789abcdef'' (w_docker frozen_world)) = None"
    unfolding w by (simp_all add: mock_world_def NewManager_def mock_ops AddContainer_def new_mock_container_def)
  show ?thesis
    using unfreeze_respects_limits [OF mock.pausable_docker_axioms frozen_world_props(3) _ frozen_world_props(2) s p refl free]
    by simp
qed

text \<open>A freeze does not survive a reboot of the host: when a daemon starts on a database in
  which a container is frozen while Docker runs it unpaused (as it does after the host
  restarted), nothing pauses it: freezing it again is a successful no-op, and its checks
  return at once, so that its usage is not recorded and no limit of its own is enforced.\<close>

theorem frozen_unpaused_unenforced:
  assumes "IsFrozenRow s cid = Inr True" and "did \<noteq> ''''"
    and "w = StartContainer cid did (NewManager s d c p b now)"
  shows "w_docker w = d \<and> Freeze dc cid w = (None, w) \<and> checkAndEnforce dc cg cid did slept w = w"
  using assms by (simp add: Freeze_def checkAndEnforce_def StartContainer_def NewManager_def mgets_def)

theorem frozen_unpaused_unenforced_witness:
  "\<exists>w :: (mock_docker, mock_cgroup) world. IsFrozen w ''0123456789ab'' \<and>
     d_running MockDocker (w_docker w) ''0123456789abcdef'' = Inr True \<and>
     d_paused MockDocker (w_docker w) ''0123456789abcdef'' = Inr False \<and>
     Freeze MockDocker ''0123456789ab'' w = (None, w) \<and>
     checkAndEnforce MockDocker MockCgroup ''0123456789ab'' ''0123456789abcdef'' False w = w"
proof -
  let ?s = "snd (SetFrozen ''0123456789ab'' True demo_store)"
  let ?d = "AddContainer ''0123456789abcdef'' ''web'' True NewMockDocker"
  have row: "IsFrozenRow ?s ''0123456789ab'' = Inr True"
    by (rule SetFrozen_row) (simp_all add: demo_store_eval find_row_def)
  have d: "d_running MockDocker ?d ''0123456789abcdef'' = Inr True"
    "d_paused MockDocker ?d ''0123456789abcdef'' = Inr False"
    by (simp_all add: mock_ops AddContainer_def new_mock_container_def)
  let ?w = "StartContainer ''0123456789ab'' ''0123456789abcdef'' (NewManager ?s ?d NewMockCgroup None None 0)"
  have "IsFrozen ?w ''0123456789ab''" unfolding StartContainer_fresh by (rule row)
  then show ?thesis
    using frozen_unpaused_unenforced [OF row _ refl, of "''0123456789abcdef''" ?d NewMockCgroup None None 0 MockDocker MockCgroup False] d
    by (intro exI [of _ ?w]) simp
qed

subsection \<open>Byte-seconds across sleep\<close>

lemma usage_writes_frame [simp]:
  "t_limits (snd (AddUsage c t v s)) = t_limits s" "db_rerr (snd (AddUsage c t v s)) = db_rerr s"
  "t_limits (snd (SetUsage c t v s)) = t_limits s" "db_rerr (snd (SetUsage c t v s)) = db_rerr s"
  by (simp_all add: AddUsage_def SetUsage_def exec_def split: option.split)

lemma check_type_limits:
  "t_limits (w_store (check_type dc cg cid did slept path limits lt w)) = t_limits (w_store w)"
  "w_frozen (check_type dc cg cid did slept path limits lt w) = w_frozen w"
  "db_rerr (w_store (check_type dc cg cid did slept path limits lt w)) = db_rerr (w_store w)"
  by (simp_all add: check_type_def measure_def Let_def case_prod_unfold split: option.split sum.split)

lemma fold_check_limits:
  "t_limits (w_store (fold (check_type dc cg cid did slept path limits) lts w)) = t_limits (w_store w) \<and>
   w_frozen (fold (check_type dc cg cid did slept path limits) lts w) = w_frozen w \<and>
   db_rerr (w_store (fold (check_type dc cg cid did slept path limits) lts w)) = db_rerr (w_store w)"
  by (induction lts arbitrary: w) (simp_all add: check_type_limits)


lemma usage_writes_other:
  "\<not> (c' = c \<and> t' = t) \<Longrightarrow> GetUsage (snd (AddUsage c t v s)) c' t' = GetUsage s c' t'"
  "\<not> (c' = c \<and> t' = t) \<Longrightarrow> GetUsage (snd (SetUsage c t v s)) c' t' = GetUsage s c' t'"
  by (auto simp: AddUsage_def SetUsage_def GetUsage_def query_int_cases exec_def split: option.split)

lemma check_type_other:
  assumes "db_ok (w_store w)" and "t \<noteq> lt"
  shows "db_ok (w_store (check_type dc cg cid did slept path limits lt w)) \<and>
         GetUsage (w_store (check_type dc cg cid did slept path limits lt w)) cid t = GetUsage (w_store w) cid t \<and>
         flag (w_enforced (check_type dc cg cid did slept path limits lt w)) cid t = flag (w_enforced w) cid t"
proof -
  have "db_ok (w_store (snd (measure dc cg cid did slept path lt w))) \<and>
        GetUsage (w_store (snd (measure dc cg cid did slept path lt w))) cid t = GetUsage (w_store w) cid t \<and>
        w_enforced (snd (measure dc cg cid did slept path lt w)) = w_enforced w"
    using assms by (simp add: measure_def Let_def usage_writes_other split: sum.split)
  then show ?thesis
    using assms by (simp add: check_type_def Let_def case_prod_unfold flag_enforce flag_release split: option.split)
qed

lemma check_type_db:
  "db_ok (w_store w) \<Longrightarrow> db_ok (w_store (check_type dc cg cid did slept path limits lt w))"
  by (simp add: check_type_def measure_def Let_def case_prod_unfold split: option.split sum.split)

lemma fold_other_type:
  assumes "db_ok (w_store w)" and "t \<notin> set lts"
  shows "db_ok (w_store (fold (check_type dc cg cid did slept path limits) lts w)) \<and>
         GetUsage (w_store (fold (check_type dc cg cid did slept path limits) lts w)) cid t = GetUsage (w_store w) cid t \<and>
         flag (w_enforced (fold (check_type dc cg cid did slept path limits) lts w)) cid t =
           flag (w_enforced w) cid t"
  using assms
proof (induction lts arbitrary: w)
  case (Cons lt lts)
  have "t \<noteq> lt" using Cons.prems(2) by simp
  from check_type_other [OF Cons.prems(1) this]
  show ?case using Cons.IH [of "check_type dc cg cid did slept path limits lt w"] Cons.prems by simp
qed simp

lemma byte_second_step:
  assumes "db_ok (w_store w)" and "\<not> IsFrozen w cid" and "isByteSecondType lt"
    and "map_of limits lt = Some L" and "L \<noteq> 0" and "w' = check_type dc cg cid did slept path limits lt w"
    and "R = getByteSecondSource dc cg cid did lt path w"
  shows "(slept \<or> flag (w_enforced w) cid lt \<longrightarrow> usage_of w' cid lt = usage_of w cid lt) \<and>
         (\<not> slept \<and> \<not> flag (w_enforced w) cid lt \<and> 0 \<le> R \<and> in64 (usage_of w cid lt + R) \<and>
            GetUsage (w_store w) cid lt = Inr (usage_of w cid lt) \<longrightarrow>
          usage_of w' cid lt = usage_of w cid lt + R)"
proof -
  let ?w1 = "if \<not> flag (w_enforced w) cid lt \<and> \<not> slept \<and> \<not> mgetb (w_frozen w) cid
             then snd (on_store (AddUsage cid lt R) w) else w"
  have "usage_of w' cid lt = usage_of ?w1 cid lt"
    using assms(3-7) by (simp add: check_type_def measure_def Let_def)
  then show ?thesis
    using assms(1,2) usg.add_ok [of "w_store w" "(cid, lt)" "usage_of w cid lt" R]
    by (auto simp: IsFrozen_def usage_of_def or0_def)
qed

text \<open>C10: reserved memory and disk are billed per second of running: a check adds the
  container's current RAM (or disk) limit to its byte-seconds exactly once, unless the host
  slept since the last check or the byte-second limit is already enforced; no byte-second
  counter moves in a check after sleep, whatever the host's other readings are.\<close>

theorem byte_seconds_metered:
  assumes "db_ok (w_store w)" and "d_running dc (w_docker w) did = Inr True" and "\<not> IsFrozen w cid"
    and "GetAllLimits (w_store w) cid = Inr limits" and "map_of limits lt = Some L" and "L \<noteq> 0"
    and "isByteSecondType lt" and "GetUsage (w_store w) cid lt = Inr u"
    and "w' = checkAndEnforce dc cg cid did slept w"
    and "R = or0 (GetLimit (w_store w) cid (if lt = LimitRAMRequestBSec then LimitRAM else LimitDisk))"
  shows "(slept \<or> IsEnforced w cid lt \<longrightarrow> usage_of w' cid lt = u) \<and>
         (\<not> slept \<and> \<not> IsEnforced w cid lt \<and> (lt = LimitRAMRequestBSec \<or> lt = LimitDiskRequestBSec) \<and>
            0 \<le> R \<and> in64 (u + R) \<longrightarrow> usage_of w' cid lt = u + R)"
proof -
  let ?f = "check_type dc cg cid did slept (g_find cg (w_cgroup w) did) limits"
  have lt: "lt \<in> set AllLimitTypes" "lt \<noteq> LimitSpending"
    using assms(7) by (auto simp: isByteSecondType_def AllLimitTypes_def)
  then obtain xs ys where split: "AllLimitTypes = xs @ lt # ys" by (meson split_list)
  have notin: "lt \<notin> set xs" "lt \<notin> set ys" using distinct_AllLimitTypes unfolding split by auto
  define w1 where "w1 = fold ?f xs w"
  define w2 where "w2 = ?f lt w1"
  have w1: "db_ok (w_store w1)" "GetUsage (w_store w1) cid lt = Inr u"
    "flag (w_enforced w1) cid lt = flag (w_enforced w) cid lt"
    using fold_other_type [OF assms(1) notin(1)] assms(8) by (simp_all add: w1_def)
  have fr: "t_limits (w_store w1) = t_limits (w_store w)" "w_frozen w1 = w_frozen w"
    "db_rerr (w_store w1) = db_rerr (w_store w)"
    by (simp_all add: w1_def fold_check_limits)
  have "lt = LimitRAMRequestBSec \<or> lt = LimitDiskRequestBSec \<Longrightarrow>
      getByteSecondSource dc cg cid did lt (g_find cg (w_cgroup w) did) w1 = R"
    using fr by (auto simp: assms(10) getByteSecondSource_def GetLimit_def query_int_cases)
  then have step: "(slept \<or> IsEnforced w cid lt \<longrightarrow> usage_of w2 cid lt = u) \<and>
         (\<not> slept \<and> \<not> IsEnforced w cid lt \<and> (lt = LimitRAMRequestBSec \<or> lt = LimitDiskRequestBSec) \<and>
            0 \<le> R \<and> in64 (u + R) \<longrightarrow> usage_of w2 cid lt = u + R)"
    using byte_second_step [OF w1(1) _ assms(7,5,6) w2_def refl] assms(3) fr(2) w1
    by (auto simp: IsFrozen_def IsEnforced_def usage_of_def or0_def)
  have "db_ok (w_store w2)" unfolding w2_def using w1(1) by (rule check_type_db)
  then have "usage_of (fold ?f ys w2) cid lt = usage_of w2 cid lt"
    using fold_other_type [of w2, OF _ notin(2), of dc cg cid did slept _ limits] by (simp add: usage_of_def)
  moreover have "w' = emit_usage cid limits (sync_spending cid (fold ?f ys w2))"
    using assms(2-4) unfolding assms(9) checkAndEnforce_def split
    by (simp add: IsFrozen_def w1_def w2_def Let_def)
  moreover have "usage_of (sync_spending cid v) cid lt = usage_of v cid lt" for v :: "('a, 'b, 'c) world_scheme"
    using lt(2) by (simp add: sync_spending_def usage_of_def usage_writes_other split: option.split)
  ultimately have "usage_of w' cid lt = usage_of w2 cid lt" by (simp add: emit_usage_def)
  then show ?thesis using step by simp
qed


definition metered_world :: "(mock_docker, mock_cgroup) world" where
  "metered_world = busy_world\<lparr>w_store :=
     snd (SetLimit ''0123456789ab'' LimitRAMRequestBSec 9000 (snd (SetLimit ''0123456789ab'' LimitRAM 300 demo_store)))\<rparr>"

theorem byte_seconds_metered_witness:
  "usage_of (checkAndEnforce MockDocker MockCgroup ''0123456789ab'' ''0123456789abcdef'' False metered_world)
     ''0123456789ab'' LimitRAMRequestBSec = 300 \<and>
   usage_of (checkAndEnforce MockDocker MockCgroup ''0123456789ab'' ''0123456789abcdef'' True metered_world)
     ''0123456789ab'' LimitRAMRequestBSec = 0"
proof -
  have st: "w_store metered_world =
      demo_store\<lparr>t_limits := [((''0123456789ab'', LimitCPU), 1000), ((''0123456789ab'', LimitRAM), 300),
                              ((''0123456789ab'', LimitRAMRequestBSec), 9000)]\<rparr>"
    by (simp add: metered_world_def store_writes demo_store_eval tbl_put_def in64_def)
  have run: "d_running MockDocker (w_docker metered_world) ''0123456789abcdef'' = Inr True"
    "\<not> IsFrozen metered_world ''0123456789ab''" "\<not> IsEnforced metered_world ''0123456789ab'' LimitRAMRequestBSec"
    using busy_world_facts(3,4)
    by (simp_all add: metered_world_def IsFrozen_def)
       (simp_all add: IsEnforced_def flag_def busy_world_def mock_world_start mgetb_def)
  have db: "db_ok (w_store metered_world)" by (simp add: st db_ok_def demo_store_eval)
  have lims: "GetAllLimits (w_store metered_world) ''0123456789ab'' =
      Inr [(LimitCPU, 1000), (LimitRAM, 300), (LimitRAMRequestBSec, 9000)]"
    by (simp add: st GetAllLimits_def query_rows_def demo_store_eval tbl_part_def in64_def)
  have u: "GetUsage (w_store metered_world) ''0123456789ab'' LimitRAMRequestBSec = Inr 0"
    by (simp add: st store_reads demo_store_eval in64_def)
  have r: "or0 (GetLimit (w_store metered_world) ''0123456789ab'' LimitRAM) = 300"
    by (simp add: st store_reads demo_store_eval in64_def or0_def)
  note f = byte_seconds_metered [OF db run(1,2) lims _ _ _ u refl refl, of 9000, simplified r isByteSecondType_def, simplified]
  show ?thesis using f [of False] f [of True] run(3) r by (simp add: in64_def)
qed

end
