(* ===== verification/ApiProps.thy ===== *)
theory ApiProps
  imports ApiServer OllamaProps ScopeProps FreezeProps
begin

text \<open>
  What the API server guarantees: host limits stay above what containers are promised while the
  server keeps them consistent, and the ways around that; what a limit request sets; that the
  port for containers changes nothing but the caller's bid; freezing together with the queue;
  what a listener of one segment can reach; and the configuration file.
\<close>

subsection \<open>What the helpers leave alone\<close>

lemma on_proxy_frame [simp]:
  "w_store (on_proxy f w) = w_store w" "w_docker (on_proxy f w) = w_docker w" "w_cgroup (on_proxy f w) = w_cgroup w"
  "w_proxy (on_proxy f w) = map_option f (w_proxy w)" "w_bus (on_proxy f w) = w_bus w" "w_now (on_proxy f w) = w_now w"
  "w_workers (on_proxy f w) = w_workers w" "w_enforced (on_proxy f w) = w_enforced w"
  "w_frozen (on_proxy f w) = w_frozen w" "w_dockerIDs (on_proxy f w) = w_dockerIDs w"
  "w_scopeEnforced (on_proxy f w) = w_scopeEnforced w"
  by (simp_all add: on_proxy_def)

lemma on_proxy_queue [simp]: "w_queue (on_proxy f w) = w_queue w"
  by (simp add: on_proxy_def)

lemma on_docker_queue [simp]: "w_queue (snd (on_docker f w)) = w_queue w"
  by (simp add: on_docker_def split: prod.split)

lemma on_queue_frame [simp]:
  "w_store (on_queue f w) = w_store w" "w_docker (on_queue f w) = w_docker w" "w_cgroup (on_queue f w) = w_cgroup w"
  "w_proxy (on_queue f w) = w_proxy w" "w_bus (on_queue f w) = w_bus w" "w_now (on_queue f w) = w_now w"
  "w_workers (on_queue f w) = w_workers w" "w_enforced (on_queue f w) = w_enforced w"
  "w_frozen (on_queue f w) = w_frozen w" "w_dockerIDs (on_queue f w) = w_dockerIDs w"
  "w_scopeEnforced (on_queue f w) = w_scopeEnforced w"
  by (simp_all add: on_queue_def)

text \<open>The server's own fields, which nothing below the server touches.\<close>

definition settings :: "('d, 'c, 'z) server_scheme \<Rightarrow> _" where
  "settings w = (s_hasOllama w, s_configPath w, s_configFile w, s_fsErr w, s_ipMap w, s_done w, s_errorWebhooks w,
     s_keepLimitsConsistent w, s_scopedListeners w)"

lemma settings_frame [simp]:
  "settings (emit t c d w) = settings w" "settings (snd (on_store f w)) = settings w"
  "settings (snd (on_docker g w)) = settings w" "settings (on_proxy h w) = settings w"
  "settings (on_queue k w) = settings w"
  by (simp_all add: settings_def emit_def on_store_def on_docker_def on_proxy_def on_queue_def
      split: option.split prod.split)

lemma settings_updates [simp]:
  "settings (w\<lparr>w_store := a\<rparr>) = settings w" "settings (w\<lparr>w_docker := b\<rparr>) = settings w"
  "settings (w\<lparr>w_proxy := c\<rparr>) = settings w" "settings (w\<lparr>w_bus := d\<rparr>) = settings w"
  "settings (w\<lparr>w_frozen := e\<rparr>) = settings w" "settings (w\<lparr>w_workers := f\<rparr>) = settings w"
  "settings (w\<lparr>w_enforced := g\<rparr>) = settings w" "settings (w\<lparr>w_queue := h\<rparr>) = settings w"
  by (simp_all add: settings_def)

lemma settingsD:
  assumes "settings w' = settings w"
  shows "s_hasOllama w' = s_hasOllama w" "s_keepLimitsConsistent w' = s_keepLimitsConsistent w" "s_ipMap w' = s_ipMap w"
    "s_configFile w' = s_configFile w" "s_errorWebhooks w' = s_errorWebhooks w"
  using assms by (simp_all add: settings_def)

lemma apply_ram_frame [simp]:
  "w_store (apply_ram dc cid lt v w) = w_store w" "w_proxy (apply_ram dc cid lt v w) = w_proxy w"
  by (simp_all add: apply_ram_def split: sum.split)

lemma apply_budget_frame [simp]: "w_store (apply_budget cid lt v w) = w_store w" "w_docker (apply_budget cid lt v w) = w_docker w"
  by (simp_all add: apply_budget_def)

lemma limit_change_frame [simp]:
  "w_store (limit_change_event req cid a b w) = w_store w" "w_docker (limit_change_event req cid a b w) = w_docker w"
  "w_proxy (limit_change_event req cid a b w) = w_proxy w"
  by (simp_all add: limit_change_event_def)

subsection \<open>Promised limits\<close>

text \<open>What the containers are promised of a type, with what removed ones have used.\<close>

definition promised :: "store \<Rightarrow> limit_type \<Rightarrow> int" where
  "promised s lt =
     (\<Sum>r\<leftarrow>t_containers s. or0 (GetLimit s (r_id r) lt)) + accum_of s ScopeHost lt"

definition consistent :: "store \<Rightarrow> limit_type \<Rightarrow> bool" where
  "consistent s lt \<longleftrightarrow>
     (0 < or0 (GetScopeLimit s ScopeHost lt) \<longrightarrow> promised s lt \<le> or0 (GetScopeLimit s ScopeHost lt))"

definition limits_sane :: "store \<Rightarrow> limit_type \<Rightarrow> bool" where
  "limits_sane s lt \<longleftrightarrow>
     (\<forall>r \<in> set (t_containers s). 0 \<le> or0 (GetLimit s (r_id r) lt)) \<and>
     0 \<le> accum_of s ScopeHost lt \<and> promised s lt < 2 ^ 63"

lemma fold_wrap64_sum:
  "wrap64 a = a \<Longrightarrow>
   fold (\<lambda>c t. if P c then t else wrap64 (t + g c)) cs a = wrap64 (a + (\<Sum>c\<leftarrow>cs. if P c then 0 else g c))"
proof (induction cs arbitrary: a)
  case (Cons c cs)
  show ?case using Cons.IH [of a] Cons.IH [of "wrap64 (a + g c)"] Cons.prems by (simp add: add.assoc)
qed simp

lemma sum_sort_key: "(\<Sum>r\<leftarrow>sort_key k rows. (g r :: int)) = (\<Sum>r\<leftarrow>rows. g r)"
proof -
  have "mset (map g (sort_key k rows)) = mset (map g rows)" by simp
  then show ?thesis by (metis sum_mset_sum_list)
qed

lemma sumContainerLimits_sum:
  assumes "db_rerr s = None"
  shows "sumContainerLimits s lt ex =
    wrap64 (\<Sum>r\<leftarrow>t_containers s. if r_id r = ex then 0 else or0 (GetLimit s (r_id r) lt))"
proof -
  have "fold (\<lambda>c t. if c_ID c = ex then t else wrap64 (t + or0 (GetLimit s (c_ID c) lt)))
      (map row_to_container (sort_key r_registered_at (t_containers s))) 0 =
    wrap64 (\<Sum>r\<leftarrow>sort_key r_registered_at (t_containers s). if r_id r = ex then 0 else or0 (GetLimit s (r_id r) lt))"
    by (subst fold_wrap64_sum) (simp_all add: o_def row_to_container_def cong: if_cong)
  then show ?thesis using assms by (simp add: sumContainerLimits_def ListContainers_def sum_sort_key)
qed

lemma sum_without:
  assumes "distinct (map r_id rows)"
  shows "(\<Sum>r\<leftarrow>rows. if r_id r = x then 0 else (g (r_id r) :: int)) =
    (\<Sum>r\<leftarrow>rows. g (r_id r)) - (if x \<in> r_id ` set rows then g x else 0)"
  using assms by (induction rows) (auto simp: image_iff)

lemma committed_promised:
  assumes wf: "wf_store s" and db: "db_rerr s = None"
  shows "committed s lt cid =
    wrap64 (promised s lt - (if cid \<in> r_id ` set (t_containers s) then or0 (GetLimit s cid lt) else 0))"
  using sum_without [OF wf_storeD(1) [OF wf], where g = "\<lambda>c. or0 (GetLimit s c lt)" and x = cid]
  by (simp add: committed_def sumContainerLimits_sum [OF db] promised_def) (simp add: algebra_simps)

lemma no_empty_id: "wf_store s \<Longrightarrow> '''' \<notin> r_id ` set (t_containers s)"
  using wf_storeD(6) by (fastforce simp: row_wf_def)

lemma member_le_sum_nonneg:
  "(\<And>x. x \<in> set xs \<Longrightarrow> 0 \<le> (g x :: int)) \<Longrightarrow> r \<in> set xs \<Longrightarrow> g r \<le> (\<Sum>x\<leftarrow>xs. g x)"
proof (induction xs)
  case (Cons x xs)
  have "0 \<le> (\<Sum>x\<leftarrow>xs. g x)" using Cons.prems(1) by (intro sum_list_nonneg) auto
  then show ?case using Cons by (cases "r = x") (fastforce intro: add_increasing)+
qed simp

lemma promised_bounds:
  assumes "limits_sane s lt" and "r \<in> set (t_containers s)"
  shows "or0 (GetLimit s (r_id r) lt) \<le> promised s lt"
proof -
  have "or0 (GetLimit s (r_id r) lt) \<le> (\<Sum>r\<leftarrow>t_containers s. or0 (GetLimit s (r_id r) lt))"
    by (rule member_le_sum_nonneg) (use assms in \<open>auto simp: limits_sane_def\<close>)
  then show ?thesis using assms(1) by (simp add: promised_def limits_sane_def)
qed

subsection \<open>Limits stay consistent\<close>

lemma in64_limit_op: "limit_op op a v = Inr n \<Longrightarrow> in64 v \<Longrightarrow> in64 n"
  by (auto simp: limit_op_def Let_def in64_wrap64 split: if_splits)

text \<open>All that a limit request can do to the store is to write the value its checks allow.\<close>

lemma handleLimits_store:
  assumes "w_store (snd (handleLimits ae r cid w)) \<noteq> w_store w"
  obtains req v n why where "hr_Method r = ''PUT''" and "ae_limit ae (hr_Body r) = Inr req"
    and "limit_op (op_of req) (or0 (GetLimit (w_store w) cid (lr_Type req))) (lr_Value req) = Inr v"
    and "keep_consistent w cid req (or0 (GetLimit (w_store w) cid (lr_Type req))) v = Inr (n, why)"
    and "w_store (snd (handleLimits ae r cid w)) =
           (w_store w)\<lparr>t_limits := tbl_put (cid, lr_Type req) n (t_limits (w_store w))\<rparr>"
  using assms
  by (auto simp: handleLimits_def Let_def case_prod_unfold SetLimit_def exec_def on_store_def
      split: if_splits sum.splits option.splits prod.splits)

lemma handleGlobalLimits_store:
  assumes "w_store (snd (handleGlobalLimits ae r w)) \<noteq> w_store w"
  obtains req n where "hr_Method r = ''PUT''" and "ae_limit ae (hr_Body r) = Inr req"
    and "limit_op (op_of req) (or0 (GetScopeLimit (w_store w) ScopeHost (lr_Type req))) (lr_Value req) = Inr n"
    and "\<not> (s_keepLimitsConsistent w \<and> op_of req \<noteq> ''increase'' \<and> 0 < committed (w_store w) (lr_Type req) '''' \<and>
            n < committed (w_store w) (lr_Type req) '''')"
    and "w_store (snd (handleGlobalLimits ae r w)) = snd (SetScopeLimit ScopeHost (lr_Type req) n (w_store w))"
  using assms
  by (auto simp: handleGlobalLimits_def Let_def case_prod_unfold on_store_def
      split: if_splits sum.splits option.splits prod.splits)

lemma scope_reads_SetLimit [simp]:
  "GetScopeLimit (s\<lparr>t_limits := t\<rparr>) sc lt = GetScopeLimit s sc lt"
  "accum_of (s\<lparr>t_limits := t\<rparr>) sc lt = accum_of s sc lt"
  by (simp_all add: GetScopeLimit_def query_int_def accum_of_def GetScopeUsageAccum_def query_rows_def)

lemma GetLimit_put:
  assumes "db_rerr s = None"
  shows "GetLimit (s\<lparr>t_limits := tbl_put (c, t) n (t_limits s)\<rparr>) c' t' =
    (if c' = c \<and> t' = t then scan_int n else GetLimit s c' t')"
  using assms by (cases "c' = c \<and> t' = t") (auto simp: store_reads)

lemma promised_put:
  assumes wf: "wf_store s" and db: "db_rerr s = None" and "in64 n"
  shows "promised (s\<lparr>t_limits := tbl_put (cid, t) n (t_limits s)\<rparr>) lt =
    (if lt = t \<and> cid \<in> r_id ` set (t_containers s) then promised s lt - or0 (GetLimit s cid lt) + n else promised s lt)"
proof (cases "lt = t")
  case True
  have n: "or0 (scan_int n) = n" using assms(3) by (simp add: scan_int_def or0_def)
  have "(\<Sum>r\<leftarrow>rows. or0 (if r_id r = cid then scan_int n else GetLimit s (r_id r) t)) =
      (\<Sum>r\<leftarrow>rows. or0 (GetLimit s (r_id r) t)) + (if cid \<in> r_id ` set rows then n - or0 (GetLimit s cid t) else 0)"
    if "distinct (map r_id rows)" for rows
    using that by (induction rows) (auto simp: image_iff n)
  from this [OF wf_storeD(1) [OF wf]] show ?thesis
    using True by (simp add: promised_def GetLimit_put [OF db])
qed (simp add: promised_def GetLimit_put [OF db])

lemma keep_consistent_bound:
  assumes "s_keepLimitsConsistent w" and "op_of req \<noteq> ''decrease''"
    and "keep_consistent w cid req old v = Inr (n, why)"
    and "0 < or0 (GetScopeLimit (w_store w) ScopeHost (lr_Type req))"
    and "0 \<le> wrap64 (or0 (GetScopeLimit (w_store w) ScopeHost (lr_Type req)) - committed (w_store w) (lr_Type req) cid)"
  shows "n \<le> wrap64 (or0 (GetScopeLimit (w_store w) ScopeHost (lr_Type req)) - committed (w_store w) (lr_Type req) cid)"
  using assms by (auto simp: keep_consistent_def Let_def split: if_splits)

lemma or0_scan: "or0 (GetScopeLimit s sc lt) < 2 ^ 63" "or0 (GetLimit s c lt) < 2 ^ 63" "- (2 ^ 63) \<le> or0 (GetLimit s c lt)"
  by (auto simp: store_reads or0_def in64_def split: option.split)

lemma promised_nonneg: "limits_sane s lt \<Longrightarrow> 0 \<le> promised s lt"
  unfolding promised_def limits_sane_def by (intro add_nonneg_nonneg sum_list_nonneg) auto

lemma wrap64_increase:
  assumes "0 < g" and "g < 2 ^ 63" and "0 \<le> v" and "in64 v" and "0 < wrap64 (g + v)"
  shows "g \<le> wrap64 (g + v)"
proof (cases "g + v < 2 ^ 63")
  case True
  then show ?thesis using assms by (simp add: wrap64_id in64_def)
next
  case False
  have "(g + v + 2 ^ 63) mod 2 ^ 64 = g + v + 2 ^ 63 - 2 ^ 64"
    using False assms(1-4) by (subst mod_pos_geq) (auto simp: in64_def)
  then show ?thesis using assms False by (auto simp: wrap64_def in64_def)
qed

lemma handleLimits_consistent:
  assumes keep: "s_keepLimitsConsistent w" and wf: "wf_store (w_store w)" and db: "db_rerr (w_store w) = None"
    and ok: "consistent (w_store w) lt" and cid: "cid \<in> r_id ` set (t_containers (w_store w))"
    and req: "\<And>q. ae_limit ae (hr_Body r) = Inr q \<Longrightarrow>
                in64 (lr_Value q) \<and> limits_sane (w_store w) (lr_Type q) \<and> (op_of q = ''decrease'' \<longrightarrow> 0 \<le> lr_Value q)"
  shows "consistent (w_store (snd (handleLimits ae r cid w))) lt"
proof (cases "w_store (snd (handleLimits ae r cid w)) = w_store w")
  case False
  then obtain q v n why where q: "ae_limit ae (hr_Body r) = Inr q"
    and v: "limit_op (op_of q) (or0 (GetLimit (w_store w) cid (lr_Type q))) (lr_Value q) = Inr v"
    and n: "keep_consistent w cid q (or0 (GetLimit (w_store w) cid (lr_Type q))) v = Inr (n, why)"
    and s': "w_store (snd (handleLimits ae r cid w)) =
           (w_store w)\<lparr>t_limits := tbl_put (cid, lr_Type q) n (t_limits (w_store w))\<rparr>"
    by (rule handleLimits_store)
  let ?s = "w_store w" and ?t = "lr_Type q"
  let ?old = "or0 (GetLimit ?s cid ?t)" and ?g = "or0 (GetScopeLimit ?s ScopeHost ?t)"
  have sane: "limits_sane ?s ?t" and v64: "in64 (lr_Value q)" using req [OF q] by auto
  have old: "0 \<le> ?old" "?old \<le> promised ?s ?t"
    using sane cid promised_bounds [OF sane] by (auto simp: limits_sane_def)
  have p: "promised ?s ?t < 2 ^ 63" using sane by (simp add: limits_sane_def)
  have c: "committed ?s ?t cid = promised ?s ?t - ?old"
    using committed_promised [OF wf db] cid old p by (simp add: wrap64_id in64_def)
  have n64: "in64 n"
    using n in64_limit_op [OF v v64] by (auto simp: keep_consistent_def Let_def split: if_splits)
  have "n \<le> ?g - promised ?s ?t + ?old" if g: "0 < ?g" and eq: "lt = ?t"
  proof (cases "op_of q = ''decrease''")
    case True
    then have "n \<le> ?old"
      using v n req [OF q] old or0_scan(2) [of ?s cid ?t] old
      by (auto simp: limit_op_def keep_consistent_def Let_def wrap64_id in64_def split: if_splits)
    moreover have "promised ?s ?t \<le> ?g" using ok g eq by (simp add: consistent_def)
    ultimately show ?thesis by simp
  next
    case False
    have "wrap64 (?g - committed ?s ?t cid) = ?g - promised ?s ?t + ?old"
      using or0_scan(1) [of ?s ScopeHost ?t] g old p by (simp add: c wrap64_id in64_def)
    moreover have "promised ?s ?t \<le> ?g" using ok g eq by (simp add: consistent_def)
    ultimately show ?thesis using keep_consistent_bound [OF keep False n g] old by simp
  qed
  then show ?thesis
    using ok promised_put [OF wf db n64] cid by (auto simp: consistent_def s')
qed (use ok in simp)

lemma handleGlobalLimits_consistent:
  assumes keep: "s_keepLimitsConsistent w" and wf: "wf_store (w_store w)" and db: "db_rerr (w_store w) = None"
    and ok: "consistent (w_store w) lt"
    and req: "\<And>q. ae_limit ae (hr_Body r) = Inr q \<Longrightarrow>
                in64 (lr_Value q) \<and> limits_sane (w_store w) (lr_Type q) \<and>
                (op_of q = ''increase'' \<longrightarrow> 0 \<le> lr_Value q \<and> 0 < or0 (GetScopeLimit (w_store w) ScopeHost (lr_Type q)))"
  shows "consistent (w_store (snd (handleGlobalLimits ae r w))) lt"
proof (cases "w_store (snd (handleGlobalLimits ae r w)) = w_store w")
  case False
  then obtain q n where q: "ae_limit ae (hr_Body r) = Inr q"
    and n: "limit_op (op_of q) (or0 (GetScopeLimit (w_store w) ScopeHost (lr_Type q))) (lr_Value q) = Inr n"
    and c: "\<not> (s_keepLimitsConsistent w \<and> op_of q \<noteq> ''increase'' \<and> 0 < committed (w_store w) (lr_Type q) '''' \<and>
               n < committed (w_store w) (lr_Type q) '''')"
    and s': "w_store (snd (handleGlobalLimits ae r w)) = snd (SetScopeLimit ScopeHost (lr_Type q) n (w_store w))"
    by (rule handleGlobalLimits_store)
  let ?s = "w_store w" and ?t = "lr_Type q"
  let ?g = "or0 (GetScopeLimit ?s ScopeHost ?t)"
  have sane: "limits_sane ?s ?t" and v64: "in64 (lr_Value q)" using req [OF q] by auto
  have nonneg: "0 \<le> promised ?s ?t" by (simp add: promised_nonneg sane)
  then have c': "committed ?s ?t '''' = promised ?s ?t"
    using committed_promised [OF wf db, of ?t "''''"] no_empty_id [OF wf] sane
    by (simp add: wrap64_id in64_def limits_sane_def)
  have n64: "in64 n" by (rule in64_limit_op [OF n v64])
  have bound: "promised ?s ?t \<le> n" if "0 < n" "lt = ?t"
  proof (cases "op_of q = ''increase''")
    case True
    then have g: "0 < ?g" "0 \<le> lr_Value q" using req [OF q] by auto
    then have "?g \<le> n"
      using n True that or0_scan(1) [of ?s ScopeHost ?t] v64 by (auto simp: limit_op_def wrap64_increase)
    then show ?thesis using ok g that by (simp add: consistent_def)
  next
    case False
    then show ?thesis using c keep c' nonneg that by auto
  qed
  have werr: "db_werr ?s = None"
    using False s' by (auto simp: SetScopeLimit_def exec_def split: option.splits)
  have "promised (snd (SetScopeLimit ScopeHost ?t n ?s)) lt = promised ?s lt"
    using werr by (simp add: store_writes promised_def GetLimit_def query_int_def accum_of_def GetScopeUsageAccum_def query_rows_def)
  moreover have "or0 (GetScopeLimit (snd (SetScopeLimit ScopeHost ?t n ?s)) ScopeHost lt) =
      (if lt = ?t then n else or0 (GetScopeLimit ?s ScopeHost lt))"
    using werr db n64 by (auto simp: store_writes store_reads or0_def)
  ultimately show ?thesis using ok bound by (auto simp: consistent_def s')
qed (use ok in simp)


text \<open>A server over the mock Docker engine and the example store, and requests to it.\<close>

definition demo_server :: "(mock_docker, mock_cgroup) server" where
  "demo_server =
     \<lparr>w_store = demo_store, w_docker = w_docker mock_world, w_cgroup = NewMockCgroup, w_proxy = Some NewSpendingTracker,
      w_bus = None, w_now = 7, w_workers = [''0123456789ab''], w_enforced = [''0123456789ab'' \<mapsto> []],
      w_frozen = [''0123456789ab'' \<mapsto> False], w_dockerIDs = [''0123456789ab'' \<mapsto> ''0123456789abcdef''],
      w_scopeEnforced = Map.empty, w_scopeRunning = True, w_lastSleepEmit = None, w_queue = NewQueue demo_cfg,
      s_hasOllama = True, s_configPath = ''/var/lib/ddl/config.json'', s_configFile = None, s_fsErr = None,
      s_ipMap = [''172.17.0.2'' \<mapsto> ''0123456789ab''], s_done = False, s_errorWebhooks = [],
      s_keepLimitsConsistent = True, s_scopedListeners = []\<rparr>"

definition demo_env :: "limit_req \<Rightarrow> (string \<times> json) list \<Rightarrow> mock_docker api_env" where
  "demo_env req obj =
     \<lparr>ae_dc = MockDocker, ae_limit = (\<lambda>_. Inr req), ae_register = (\<lambda>_. Inr (''0123456789abcdef'', ''team'')),
      ae_clone_name = (\<lambda>_. ''copy''), ae_bid = (\<lambda>_. Inr (lr_Value req)), ae_toggles = (\<lambda>_. Inr []),
      ae_segment = (\<lambda>_. Inr (''team'', '''')), ae_listener = (\<lambda>_. Inr (''host'', '':9090'', '''')),
      ae_object = (\<lambda>_. Inr obj), ae_file = (\<lambda>_. Inr obj), ae_indent = (\<lambda>_. Inr ''json''), ae_text = (\<lambda>_. ''v''),
      ae_dur_err = (\<lambda>_. ''bad''), ae_proxy_listen = Inr ''127.0.0.1:9000'', ae_listen = (\<lambda>_ a. Inr a),
      ae_upgrade = (\<lambda>_. None)\<rparr>"

definition api_request :: "string \<Rightarrow> string \<Rightarrow> http_request" where
  "api_request m path =
     \<lparr>hr_Method = m, hr_Host = ''ddl'', hr_Path = path, hr_RawQuery = '''', hr_URL = path,
      hr_RemoteAddr = ''172.17.0.2:4000'', hr_Header = [], hr_Body = ''x''\<rparr>"

lemma demo_store_wf: "wf_store demo_store"
  unfolding demo_store_def run_store_def by (rule wf_run_store) simp

lemma demo_limits_sane: "limits_sane demo_store LimitCPU"
  by (simp add: limits_sane_def promised_def accum_of_def store_reads GetScopeUsageAccum_def query_rows_def
      demo_store_eval or0_def in64_def tbl_part_def mget0_def)


text \<open>What a request leaves in the store, and in the proxy, when the database accepts it.\<close>

definition stored :: "('d, 'c, 'z) world_scheme \<Rightarrow> string \<Rightarrow> limit_type \<Rightarrow> int" where
  "stored w cid lt = or0 (GetLimit (w_store w) cid lt)"

lemma handleLimits_put:
  assumes "hr_Method r = ''PUT''" and "ae_limit ae (hr_Body r) = Inr q"
    and "limit_op (op_of q) (stored w cid (lr_Type q)) (lr_Value q) = Inr v"
  shows "keep_consistent w cid q (stored w cid (lr_Type q)) v = Inl reply \<Longrightarrow> handleLimits ae r cid w = (reply, w)"
    and "keep_consistent w cid q (stored w cid (lr_Type q)) v = Inr (n, why) \<Longrightarrow> db_ok (w_store w) \<Longrightarrow> in64 n \<Longrightarrow>
         status_of (fst (handleLimits ae r cid w)) = (case why of None \<Rightarrow> 200 | Some _ \<Rightarrow> 209) \<and>
         w_store (snd (handleLimits ae r cid w)) =
           (w_store w)\<lparr>t_limits := tbl_put (cid, lr_Type q) n (t_limits (w_store w))\<rparr> \<and>
         stored (snd (handleLimits ae r cid w)) cid (lr_Type q) = n \<and>
         ((c, t) \<noteq> (cid, lr_Type q) \<longrightarrow> stored (snd (handleLimits ae r cid w)) c t = stored w c t) \<and>
         w_proxy (snd (handleLimits ae r cid w)) =
           (if lr_Type q = LimitSpending then map_option (UpdateBudget cid n) (w_proxy w) else w_proxy w)"
proof -
  show "keep_consistent w cid q (stored w cid (lr_Type q)) v = Inl reply \<Longrightarrow> handleLimits ae r cid w = (reply, w)"
    using assms by (simp add: handleLimits_def stored_def Let_def)
  assume k: "keep_consistent w cid q (stored w cid (lr_Type q)) v = Inr (n, why)" and db: "db_ok (w_store w)" and n: "in64 n"
  have o: "on_store (SetLimit cid (lr_Type q) n) w = (None, w\<lparr>w_store := snd (SetLimit cid (lr_Type q) n (w_store w))\<rparr>)"
    using db by (simp add: on_store_def store_writes db_ok_def)
  have g: "or0 (GetLimit (snd (SetLimit cid (lr_Type q) n (w_store w))) c t) =
      (if (c, t) = (cid, lr_Type q) then n else stored w c t)" for c t
    using lim.get_put [OF db n, of "(cid, lr_Type q)" "(c, t)"] by (auto simp: stored_def or0_def)
  show "status_of (fst (handleLimits ae r cid w)) = (case why of None \<Rightarrow> 200 | Some _ \<Rightarrow> 209) \<and>
         w_store (snd (handleLimits ae r cid w)) =
           (w_store w)\<lparr>t_limits := tbl_put (cid, lr_Type q) n (t_limits (w_store w))\<rparr> \<and>
         stored (snd (handleLimits ae r cid w)) cid (lr_Type q) = n \<and>
         ((c, t) \<noteq> (cid, lr_Type q) \<longrightarrow> stored (snd (handleLimits ae r cid w)) c t = stored w c t) \<and>
         w_proxy (snd (handleLimits ae r cid w)) =
           (if lr_Type q = LimitSpending then map_option (UpdateBudget cid n) (w_proxy w) else w_proxy w)"
    using assms k o g [of c t] g [of cid "lr_Type q"] db
    by (auto simp: handleLimits_def stored_def Let_def apply_budget_def store_writes db_ok_def split: option.split)
qed

lemma budget_of_put:
  assumes "w_proxy w' = (if lt = LimitSpending then map_option (UpdateBudget cid n) (w_proxy w) else w_proxy w)"
  shows "lt = LimitSpending \<Longrightarrow> w_proxy w' = Some p \<Longrightarrow> mget0 (p_budgets p) cid = wrap64 (n * 1000)"
  using assms by (auto simp: UpdateBudget_def)

text \<open>What is left of the host limit for a container, and the refusal of an increase beyond it.\<close>

definition left_for :: "('d, 'c, 'z) server_scheme \<Rightarrow> string \<Rightarrow> limit_type \<Rightarrow> int" where
  "left_for w cid lt =
     (let g = or0 (GetScopeLimit (w_store w) ScopeHost lt) in
      if s_keepLimitsConsistent w \<and> 0 < g
      then max 0 (g - (promised (w_store w) lt - stored w cid lt)) else 2 ^ 63 - 1)"

lemma left_for_bounds:
  assumes "limits_sane (w_store w) lt" and "cid \<in> r_id ` set (t_containers (w_store w))"
  shows "0 \<le> left_for w cid lt" "left_for w cid lt \<le> 2 ^ 63 - 1"
    and "0 \<le> stored w cid lt" "stored w cid lt \<le> promised (w_store w) lt" "stored w cid lt < 2 ^ 63"
proof -
  show *: "0 \<le> stored w cid lt" "stored w cid lt \<le> promised (w_store w) lt" "stored w cid lt < 2 ^ 63"
    using assms promised_bounds [OF assms(1)] or0_scan(2) [of "w_store w" cid lt]
    by (auto simp: limits_sane_def stored_def)
  show "0 \<le> left_for w cid lt" "left_for w cid lt \<le> 2 ^ 63 - 1"
    using or0_scan(1) [of "w_store w" ScopeHost lt] * by (auto simp: left_for_def Let_def)
qed

lemma keep_consistent_left:
  assumes "db_rerr (w_store w) = None" and "wf_store (w_store w)"
    and "cid \<in> r_id ` set (t_containers (w_store w))" and "limits_sane (w_store w) (lr_Type q)" and "in64 x"
  shows "op_of q \<noteq> ''increase'' \<Longrightarrow>
         keep_consistent w cid q (stored w cid (lr_Type q)) x =
           (if op_of q \<noteq> ''decrease'' \<and> left_for w cid (lr_Type q) < x
            then Inr (left_for w cid (lr_Type q), Some (''capped to stay within global limit ('' @
                        show_int (left_for w cid (lr_Type q)) @ '' available)''))
            else Inr (x, None))"
    and "op_of q = ''increase'' \<Longrightarrow>
         (if left_for w cid (lr_Type q) < x
          then (\<exists>m. keep_consistent w cid q (stored w cid (lr_Type q)) x = Inl (writeJSON400 m))
          else keep_consistent w cid q (stored w cid (lr_Type q)) x = Inr (x, None))"
proof -
  let ?lt = "lr_Type q"
  let ?g = "or0 (GetScopeLimit (w_store w) ScopeHost ?lt)"
  note old = left_for_bounds [OF assms(4,3)]
  have p: "promised (w_store w) ?lt < 2 ^ 63" using assms(4) by (simp add: limits_sane_def)
  have "committed (w_store w) ?lt cid = promised (w_store w) ?lt - stored w cid ?lt"
    using committed_promised [OF assms(2,1), of ?lt cid] assms(3) old p by (simp add: stored_def wrap64_id in64_def)
  then have m: "wrap64 (?g - committed (w_store w) ?lt cid) = ?g - (promised (w_store w) ?lt - stored w cid ?lt)"
    if "0 < ?g"
    using that or0_scan(1) [of "w_store w" ScopeHost ?lt] old p by (simp add: wrap64_id in64_def)
  show "op_of q \<noteq> ''increase'' \<Longrightarrow>
         keep_consistent w cid q (stored w cid ?lt) x =
           (if op_of q \<noteq> ''decrease'' \<and> left_for w cid ?lt < x
            then Inr (left_for w cid ?lt, Some (''capped to stay within global limit ('' @
                        show_int (left_for w cid ?lt) @ '' available)''))
            else Inr (x, None))"
    "op_of q = ''increase'' \<Longrightarrow>
         (if left_for w cid ?lt < x
          then (\<exists>m. keep_consistent w cid q (stored w cid ?lt) x = Inl (writeJSON400 m))
          else keep_consistent w cid q (stored w cid ?lt) x = Inr (x, None))"
    using m assms(5) old(1) by (auto simp: keep_consistent_def left_for_def Let_def max_def in64_def)
qed

text \<open>What a limit request grants: with what is left of the host limit for the container (nothing
  less than zero, and everything when the server does not keep limits consistent or no host
  limit is set), "set" stores the value, or what is left with status 209 when it asks for more;
  "increase" adds and is refused with status 400, nothing changed, when that is more than is
  left; "decrease" subtracts down to zero. Other limits keep their values, and the spending
  budget of the proxy follows the spending limit.\<close>

theorem limit_request_grants:
  assumes "db_ok (w_store w)" and "wf_store (w_store w)" and "cid \<in> r_id ` set (t_containers (w_store w))"
    and "hr_Method r = ''PUT''" and "ae_limit ae (hr_Body r) = Inr q" and "lt = lr_Type q" and "v = lr_Value q"
    and "limits_sane (w_store w) lt" and "in64 v" and "in64 (old + v)" and "in64 (old - v)"
    and "old = stored w cid lt" and "g = or0 (GetScopeLimit (w_store w) ScopeHost lt)"
    and "left = (if s_keepLimitsConsistent w \<and> 0 < g then max 0 (g - (promised (w_store w) lt - old)) else 2 ^ 63 - 1)"
    and "w' = snd (handleLimits ae r cid w)" and "code = status_of (fst (handleLimits ae r cid w))"
  shows "(op_of q = ''set'' \<longrightarrow> stored w' cid lt = min v left \<and> code = (if v \<le> left then 200 else 209)) \<and>
         (op_of q = ''increase'' \<longrightarrow> (if old + v \<le> left then stored w' cid lt = old + v \<and> code = 200
                                    else w' = w \<and> code = 400)) \<and>
         (op_of q = ''decrease'' \<longrightarrow> stored w' cid lt = max 0 (old - v) \<and> code = 200) \<and>
         ((c, t) \<noteq> (cid, lt) \<longrightarrow> stored w' c t = stored w c t) \<and>
         (code \<in> {200, 209} \<and> lt = LimitSpending \<and> w_proxy w' = Some p \<longrightarrow>
            mget0 (p_budgets p) cid = wrap64 (stored w' cid lt * 1000))"
proof -
  have db: "db_rerr (w_store w) = None" using assms(1) by (simp add: db_ok_def)
  have left: "left = left_for w cid lt" by (simp add: left_for_def Let_def assms(12-14))
  have l64: "in64 left" using left_for_bounds(1,2) [OF assms(8,3)] by (simp add: left in64_def)
  note keep = keep_consistent_left [where q = q, folded assms(6), OF db assms(2,3,8), folded assms(12) left]
  note put = handleLimits_put [OF assms(4,5), of w cid, folded assms(6,7), folded assms(12)]
  show ?thesis
  proof (cases "limit_op (op_of q) old v")
    case (Inl e)
    then have "w' = w" "code = 400" "op_of q \<notin> {''set'', ''increase'', ''decrease''}"
      using assms(4,5,15,16) by (auto simp: handleLimits_def assms(6) [symmetric] assms(7) [symmetric]
          assms(12) [unfolded stored_def, symmetric] limit_op_def Let_def split: if_splits)
    then show ?thesis by simp
  next
    case (Inr x)
    then have x: "op_of q = ''set'' \<Longrightarrow> x = v" "op_of q = ''increase'' \<Longrightarrow> x = old + v"
      "op_of q = ''decrease'' \<Longrightarrow> x = max 0 (old - v)" and x64: "in64 x"
      using assms(9-11) in64_limit_op [OF Inr assms(9)] by (auto simp: limit_op_def Let_def wrap64_id split: if_splits)
    show ?thesis
    proof (cases "op_of q = ''increase'' \<and> left < x")
      case True
      then obtain m where "keep_consistent w cid q old x = Inl (writeJSON400 m)" using keep(2) [OF x64] by auto
      from put(1) [OF Inr this] have "w' = w" "code = 400" by (simp_all add: assms(15,16))
      with True show ?thesis using x by simp
    next
      case False
      define n where "n = (if op_of q \<noteq> ''decrease'' \<and> left < x then left else x)"
      have n64: "in64 n" using l64 x64 by (simp add: n_def)
      obtain why where nw: "keep_consistent w cid q old x = Inr (n, why)"
        "(why = None) = (op_of q = ''decrease'' \<or> x \<le> left)"
        using keep [OF x64] False
        by (cases "op_of q = ''increase''") (auto simp: n_def split: if_splits)
      note e = put(2) [OF Inr nw(1) assms(1) n64, folded assms(15,16)]
      then have "code = (if why = None then 200 else 209)" "stored w' cid lt = n"
        "(c, t) \<noteq> (cid, lt) \<longrightarrow> stored w' c t = stored w c t"
        "lt = LimitSpending \<Longrightarrow> w_proxy w' = Some p \<Longrightarrow> mget0 (p_budgets p) cid = wrap64 (n * 1000)"
        using budget_of_put [of w' lt cid n w p] by (auto split: option.splits)
      then show ?thesis using nw(2) x False by (auto simp: n_def)
    qed
  qed
qed

lemma demo_server_simps [simp]:
  "w_store demo_server = demo_store" "w_proxy demo_server = Some NewSpendingTracker" "s_keepLimitsConsistent demo_server"
  "w_docker demo_server = w_docker mock_world" "s_hasOllama demo_server" "w_queue demo_server = NewQueue demo_cfg"
  "w_bus demo_server = None" "w_frozen demo_server = [''0123456789ab'' \<mapsto> False]"
  "w_dockerIDs demo_server = [''0123456789ab'' \<mapsto> ''0123456789abcdef'']"
  "s_ipMap demo_server = [''172.17.0.2'' \<mapsto> ''0123456789ab'']"
  by (simp_all add: demo_server_def)

lemma demo_env_simps [simp]:
  "ae_dc (demo_env q obj) = MockDocker" "ae_limit (demo_env q obj) b = Inr q" "ae_object (demo_env q obj) b = Inr obj"
  "ae_bid (demo_env q obj) b = Inr (lr_Value q)"
  by (simp_all add: demo_env_def)

lemma api_request_simps [simp]:
  "hr_Method (api_request m p) = m" "hr_Path (api_request m p) = p" "hr_RemoteAddr (api_request m p) = ''172.17.0.2:4000''"
  by (simp_all add: api_request_def)

lemma demo_store_reads:
  "db_ok demo_store" "db_rerr demo_store = None" "promised demo_store LimitCPU = 1000"
  "or0 (GetScopeLimit demo_store ScopeHost LimitCPU) = 9000" "or0 (GetLimit demo_store ''0123456789ab'' LimitCPU) = 1000"
  "''0123456789ab'' \<in> r_id ` set (t_containers demo_store)"
  by (simp_all add: db_ok_def promised_def accum_of_def store_reads GetScopeUsageAccum_def query_rows_def
      demo_store_eval or0_def in64_def tbl_part_def mget0_def ScopeHost_def)

theorem limit_request_grants_witness:
  "stored (snd (handleLimits (demo_env \<lparr>lr_Type = LimitCPU, lr_Value = 100000, lr_Operation = ''set''\<rparr> [])
      (api_request ''PUT'' ''/containers/0123456789ab/limits'') ''0123456789ab'' demo_server)) ''0123456789ab'' LimitCPU = 9000 \<and>
   status_of (fst (handleLimits (demo_env \<lparr>lr_Type = LimitCPU, lr_Value = 100000, lr_Operation = ''set''\<rparr> [])
      (api_request ''PUT'' ''/containers/0123456789ab/limits'') ''0123456789ab'' demo_server)) = 209"
  by (rule limit_request_grants [where g = 9000 and v = 100000 and old = 1000 and left = 9000 and lt = LimitCPU
        and q = "\<lparr>lr_Type = LimitCPU, lr_Value = 100000, lr_Operation = ''set''\<rparr>",
        OF _ _ _ _ _ _ _ _ _ _ _ _ _ _ refl refl, THEN conjunct1, THEN mp, of demo_server "''0123456789ab''", simplified])
     (simp_all add: demo_store_reads demo_store_wf demo_limits_sane stored_def in64_def op_of_def)

text \<open>C36: keep-consistent mode has gaps: a "decrease" by a negative amount raises a container's limit
  above what is left of the host limit, and an "increase" of a host limit that is not set yet
  sets it below what containers are already promised; both are answered with status 200.\<close>

theorem consistency_bypassed:
  assumes "db_ok (w_store w)" and "wf_store (w_store w)" and "s_keepLimitsConsistent w"
    and "hr_Method r = ''PUT''" and "ae_limit ae (hr_Body r) = Inr q" and "lt = lr_Type q" and "v = lr_Value q"
    and "g = or0 (GetScopeLimit (w_store w) ScopeHost lt)" and "in64 v"
  shows "(op_of q = ''decrease'' \<and> v < 0 \<and> cid \<in> r_id ` set (t_containers (w_store w)) \<and>
            0 \<le> stored w cid lt \<and> in64 (stored w cid lt - v) \<and> 0 < g \<and> g < promised (w_store w) lt - v \<longrightarrow>
          status_of (fst (handleLimits ae r cid w)) = 200 \<and> \<not> consistent (w_store (snd (handleLimits ae r cid w))) lt) \<and>
         (op_of q = ''increase'' \<and> g = 0 \<and> 0 < v \<and> v < promised (w_store w) lt \<longrightarrow>
          status_of (fst (handleGlobalLimits ae r w)) = 200 \<and>
          \<not> consistent (w_store (snd (handleGlobalLimits ae r w))) lt)"
proof (intro conjI impI)
  have db: "db_rerr (w_store w) = None" using assms(1) by (simp add: db_ok_def)
  {
    assume a: "op_of q = ''decrease'' \<and> v < 0 \<and> cid \<in> r_id ` set (t_containers (w_store w)) \<and>
            0 \<le> stored w cid lt \<and> in64 (stored w cid lt - v) \<and> 0 < g \<and> g < promised (w_store w) lt - v"
    then have l: "limit_op (op_of q) (stored w cid (lr_Type q)) (lr_Value q) = Inr (stored w cid lt - v)"
      by (simp add: limit_op_def Let_def assms(6,7) wrap64_id)
    have k: "keep_consistent w cid q (stored w cid (lr_Type q)) (stored w cid lt - v) = Inr (stored w cid lt - v, None)"
      using a by (simp add: keep_consistent_def Let_def)
    have n: "in64 (stored w cid lt - v)" using a by simp
    note put = handleLimits_put(2) [OF assms(4,5) l k assms(1) n]
    have "promised (w_store (snd (handleLimits ae r cid w))) lt = promised (w_store w) lt - v"
      using put promised_put [OF assms(2) db n, of cid lt lt] a by (simp add: assms(6) [symmetric] stored_def)
    then show "\<not> consistent (w_store (snd (handleLimits ae r cid w))) lt" "status_of (fst (handleLimits ae r cid w)) = 200"
      using put a assms(8) by (simp_all add: consistent_def)
  }
  assume a: "op_of q = ''increase'' \<and> g = 0 \<and> 0 < v \<and> v < promised (w_store w) lt"
  then have l: "limit_op (op_of q) (or0 (GetScopeLimit (w_store w) ScopeHost (lr_Type q))) (lr_Value q) = Inr v"
    using assms(6-9) by (simp add: limit_op_def wrap64_id)
  have o: "on_store (SetScopeLimit ScopeHost (lr_Type q) v) w =
      (None, w\<lparr>w_store := snd (SetScopeLimit ScopeHost (lr_Type q) v (w_store w))\<rparr>)"
    using assms(1) by (simp add: on_store_def store_writes db_ok_def)
  have h: "handleGlobalLimits ae r w =
      (writeJSON (JMap (limit_fields q v (or0 (GetScopeLimit (w_store w) ScopeHost (lr_Type q))) ''full'')),
       limit_change_event q '''' (or0 (GetScopeLimit (w_store w) ScopeHost (lr_Type q))) v
         (w\<lparr>w_store := snd (SetScopeLimit ScopeHost (lr_Type q) v (w_store w))\<rparr>))"
    using a assms(4,5) l o by (simp add: handleGlobalLimits_def Let_def)
  show "status_of (fst (handleGlobalLimits ae r w)) = 200" by (simp add: h)
  have "promised (snd (SetScopeLimit ScopeHost (lr_Type q) v (w_store w))) lt = promised (w_store w) lt"
    using assms(1) by (simp add: store_writes db_ok_def promised_def GetLimit_def query_int_def accum_of_def
        GetScopeUsageAccum_def query_rows_def)
  moreover have "or0 (GetScopeLimit (snd (SetScopeLimit ScopeHost (lr_Type q) v (w_store w))) ScopeHost lt) = v"
    using slim.get_put [OF assms(1,9), of "(ScopeHost, lt)" "(ScopeHost, lt)"] by (simp add: assms(6) or0_def)
  ultimately show "\<not> consistent (w_store (snd (handleGlobalLimits ae r w))) lt"
    using a by (simp add: h consistent_def)
qed

theorem consistency_bypassed_witness:
  "\<not> consistent (w_store (snd (handleLimits (demo_env \<lparr>lr_Type = LimitCPU, lr_Value = - 9000, lr_Operation = ''decrease''\<rparr> [])
      (api_request ''PUT'' ''/containers/0123456789ab/limits'') ''0123456789ab'' demo_server))) LimitCPU"
  by (rule consistency_bypassed [where g = 9000 and v = "- 9000" and lt = LimitCPU and w = demo_server
        and q = "\<lparr>lr_Type = LimitCPU, lr_Value = - 9000, lr_Operation = ''decrease''\<rparr>", THEN conjunct1, THEN mp, THEN conjunct2])
     (simp_all add: demo_store_reads demo_store_wf stored_def in64_def op_of_def)

subsection \<open>The port for containers\<close>

lemma read_handlers [simp]:
  "snd (handleContainers ae r w) = w" "snd (handleContainersReadOnly ae r w) = w" "snd (handleSelfUsage r w) = w"
  "snd (handleSelfLimits r w) = w" "snd (handleSelfUsageByIP r w) = w" "snd (handleSelfLimitsByIP r w) = w"
  "snd (handleOllamaQueue r w) = w" "snd (handleOllamaModels r w) = w" "snd (handleDocs r w) = w"
  "snd (handleUsage r cid w) = w" "snd (handleActivity r cid w) = w" "snd (handleSegmentUsage r seg w) = w"
  "snd (handleSegmentContainers ae r seg w) = w" "snd (scoped_containers ae sc r w) = w"
  by (simp_all add: handleContainers_def handleContainersReadOnly_def handleSelfUsage_def handleSelfLimits_def
      handleSelfUsageByIP_def handleSelfLimitsByIP_def handleOllamaQueue_def handleOllamaModels_def handleDocs_def
      handleUsage_def handleActivity_def handleSegmentUsage_def handleSegmentContainers_def scoped_containers_def
      Let_def split: sum.split)

lemma emit_is_bus: "emit t c d w = w\<lparr>w_bus := w_bus (emit t c d w)\<rparr>"
  by (simp add: emit_def split: option.split)

lemma on_store_is_store: "snd (on_store f w) = w\<lparr>w_store := snd (f (w_store w))\<rparr>"
  by (simp add: on_store_def split: prod.split)

lemma handleEvents_bus: "snd (handleEvents ae r w) = w\<lparr>w_bus := w_bus (snd (handleEvents ae r w))\<rparr>"
  by (simp add: handleEvents_def split: option.split prod.split)

lemma handleEvents_frame [simp]:
  "w_store (snd (handleEvents ae r w)) = w_store w" "w_queue (snd (handleEvents ae r w)) = w_queue w"
  by (simp_all add: handleEvents_def split: option.split prod.split)

lemma SetBid_effect:
  fixes w :: "('d, 'c, 'z) server_scheme"
  shows "SetBid cid b w = w\<lparr>w_bus := w_bus (SetBid cid b w), w_store := snd (SetUsage cid ''ollama-bid'' b (w_store w)),
     w_queue := rebid cid b (w_queue w)\<rparr>"
  unfolding SetBid_def Let_def rebid_def [symmetric] on_store_is_store by (subst emit_is_bus) simp

lemma rebid_others:
  "c \<noteq> cid \<Longrightarrow> GetBid (rebid cid b q) c = GetBid q c" "set (q_entries (rebid cid b q)) = set (q_entries q)"
  "en_container (q_heap q i) \<noteq> cid \<Longrightarrow> q_heap (rebid cid b q) i = q_heap q i" "q_cfg (rebid cid b q) = q_cfg q"
  "q_active (rebid cid b q) = q_active q"
  by (simp_all add: rebid_def GetBid_def mget0_def)

lemma get_or_set_bid_cases:
  "snd (get_or_set_bid ae r cid w) = w \<or> hr_Method r = ''PUT'' \<and> (\<exists>b. snd (get_or_set_bid ae r cid w) = SetBid cid b w)"
  by (cases "ae_bid ae (hr_Body r)") (auto simp: get_or_set_bid_def)

lemma ReadOnlyHandler_cases:
  "snd (ReadOnlyHandler ae r w) = w \<or> snd (ReadOnlyHandler ae r w) = snd (handleEvents ae r w) \<or>
   hr_Path r = ''/ollama/bid'' \<and> snd (ReadOnlyHandler ae r w) = snd (handleOllamaBidByIP ae r w)"
  by (simp add: ReadOnlyHandler_def Let_def)

lemma handleOllamaBidByIP_cases:
  "snd (handleOllamaBidByIP ae r w) = w \<or>
   caller r w \<noteq> '''' \<and> hr_Method r = ''PUT'' \<and> (\<exists>b. snd (handleOllamaBidByIP ae r w) = SetBid (caller r w) b w)"
  using get_or_set_bid_cases [of ae r "caller r w" w] by (simp add: handleOllamaBidByIP_def)

text \<open>Whatever a container sends to the port it can reach, of the whole server it changes at most
  the event subscriptions and, when its address is a known container's, that container's bid:
  the bid's row in the store, the standing bid and the order of the queue, with every other
  container's bid and requests, all limits, usage, pauses and settings as they were. An
  unknown address changes no bid.\<close>

theorem readonly_changes_only_own_bid:
  fixes w :: "('d, 'c, 'z) server_scheme"
  assumes "w' = snd (ReadOnlyHandler ae r w)"
  shows "w' = w\<lparr>w_bus := w_bus w', w_store := w_store w', w_queue := w_queue w'\<rparr> \<and>
         (w_store w' = w_store w \<and> w_queue w' = w_queue w \<or>
          (\<exists>b. caller r w \<noteq> '''' \<and> hr_Method r = ''PUT'' \<and> hr_Path r = ''/ollama/bid'' \<and>
               w_store w' = snd (SetUsage (caller r w) ''ollama-bid'' b (w_store w)) \<and>
               GetBid (w_queue w') (caller r w) = b \<and>
               set (q_entries (w_queue w')) = set (q_entries (w_queue w)) \<and>
               (\<forall>c. c \<noteq> caller r w \<longrightarrow> GetBid (w_queue w') c = GetBid (w_queue w) c) \<and>
               (\<forall>i. en_container (q_heap (w_queue w) i) \<noteq> caller r w \<longrightarrow>
                    q_heap (w_queue w') i = q_heap (w_queue w) i)))"
proof -
  consider (same) "w' = w" | (events) "w' = snd (handleEvents ae r w)"
    | (bid) b where "caller r w \<noteq> ''''" "hr_Method r = ''PUT''" "hr_Path r = ''/ollama/bid''" "w' = SetBid (caller r w) b w"
    unfolding assms using ReadOnlyHandler_cases [of ae r w] handleOllamaBidByIP_cases [of ae r w] by metis
  then show ?thesis
  proof cases
    case same
    then show ?thesis by simp
  next
    case events
    then have e: "w_store w' = w_store w" "w_queue w' = w_queue w" "w' = w\<lparr>w_bus := w_bus w'\<rparr>"
      using handleEvents_bus [of ae r w] by simp_all
    then have "w' = w\<lparr>w_bus := w_bus w', w_store := w_store w', w_queue := w_queue w'\<rparr>" by simp
    then show ?thesis using e(1,2) by blast
  next
    case (bid b)
    have "w_store w' = snd (SetUsage (caller r w) ''ollama-bid'' b (w_store w))" "w_queue w' = rebid (caller r w) b (w_queue w)"
      unfolding bid(4) by (subst SetBid_effect, simp)+
    moreover have "w' = w\<lparr>w_bus := w_bus w', w_store := w_store w', w_queue := w_queue w'\<rparr>"
      using SetBid_effect [of "caller r w" b w] calculation by (simp add: bid(4))
    moreover have "GetBid (rebid (caller r w) b (w_queue w)) (caller r w) = b" by (simp add: rebid_def GetBid_def)
    ultimately show ?thesis using bid(1-3) by (auto simp: rebid_others)
  qed
qed

theorem readonly_changes_only_own_bid_witness:
  "w_store (snd (ReadOnlyHandler (demo_env \<lparr>lr_Type = '''', lr_Value = 3, lr_Operation = ''''\<rparr> [])
     (api_request ''PUT'' ''/containers/0123456789ab/limits'') demo_server)) = demo_store"
  using readonly_changes_only_own_bid [OF refl, of "demo_env \<lparr>lr_Type = '''', lr_Value = 3, lr_Operation = ''''\<rparr> []"
      "api_request ''PUT'' ''/containers/0123456789ab/limits''" demo_server] by auto

text \<open>A container can make its inference free: after it has set a negative bid through the port for
  containers, its next request is queued with that bid whatever the default bid is, and serving
  it adds nothing to its spending, however long it takes, while the answer is delivered.\<close>

theorem negative_bid_is_free:
  fixes w :: "('d, 'c, 'z) server_scheme" and w3 :: "('d, 'c, 'z) server_scheme"
  assumes "s_hasOllama w" and "cid = caller r w" and "cid \<noteq> ''''" and "hr_Method r = ''PUT''"
    and "hr_Path r = ''/ollama/bid''" and "ae_bid ae (hr_Body r) = Inr b" and "b < 0" and "- (2 ^ 53) < b"
    and "w1 = snd (ReadOnlyHandler ae r w)"
    and "enqueue js cid r2 m flds w1 = (Inr i, w2)"
    and "q_heap (w_queue w3) i = q_heap (w_queue w2) i" and "w_proxy w3 = Some p"
    and "ended - began = k * 1000000000" and "sleepDuring (q_sleepEvents (w_queue w3)) began ended = s * 1000000000"
    and "0 \<le> s" and "s \<le> k" and "k < 2 ^ 53" and "(k - s) * - b < 2 ^ 53"
  shows "en_bid (q_heap (w_queue w2) i) = b \<and>
         (\<exists>p'. w_proxy (processEntry i None began ended (Inr (status, h, Inr body)) w3) = Some p' \<and> p_spending p' = p_spending p) \<and>
         slot (w_queue (processEntry i None began ended (Inr (status, h, Inr body)) w3)) i = Some (ResultOk status h body)"
proof -
  have "w1 = SetBid cid b w"
    using assms(1-6) by (simp add: assms(9) ReadOnlyHandler_def handleOllamaBidByIP_def get_or_set_bid_def)
  then have "GetBid (w_queue w1) cid = b" by (simp add: rebid_def GetBid_def)
  then have bid: "en_bid (q_heap (w_queue w2) i) = b"
    using assms(7) by (rule_tac enqueue_cases [OF assms(10)]) simp
  have "(k - s) * b \<le> 0" using assms(7,16) by (simp add: mult_nonneg_nonpos)
  moreover have "\<bar>(k - s) * b\<bar> < 2 ^ 53" using assms(7,16,18) by (simp add: abs_mult)
  ultimately have "cost_of (wall_seconds (q_sleepEvents (w_queue w3)) began ended) b = (k - s) * b"
    using wall_seconds_whole [OF assms(13-17)] assms(7,8,15-17)
    by (simp add: cost_of_def fl_mul_of_int)
  with \<open>(k - s) * b \<le> 0\<close> have "charge c (cost_of (wall_seconds (q_sleepEvents (w_queue w3)) began ended) b) w3 = w3" for c
    by (simp add: charge_def assms(12))
  then show ?thesis
    using bid assms(11,12) by (simp add: processEntry_def Let_def on_queue_def)
qed

theorem negative_bid_is_free_witness:
  "\<exists>w2 :: (mock_docker, mock_cgroup) server.
     (\<exists>p'. w_proxy (processEntry 0 None 0 30000000000 (Inr (200, [], Inr ''ok'')) w2) = Some p' \<and>
           p_spending p' = p_spending NewSpendingTracker)"
proof -
  let ?env = "demo_env \<lparr>lr_Type = '''', lr_Value = - 1, lr_Operation = ''''\<rparr> []"
  let ?r = "api_request ''PUT'' ''/ollama/bid''"
  let ?w1 = "snd (ReadOnlyHandler ?env ?r demo_server)"
  let ?e = "enqueue OllamaProps.demo_json ''0123456789ab'' (chat ''x'') ''llama'' [(''model'', JStr ''llama'')] ?w1"
  have c: "caller ?r demo_server = ''0123456789ab''"
    by (simp add: caller_def extractIP_def resolveContainerByIP_def split_host_port_def last_colon_def mgets_def)
  have w1: "?w1 = SetBid ''0123456789ab'' (- 1) demo_server"
    by (simp add: ReadOnlyHandler_def handleOllamaBidByIP_def get_or_set_bid_def c)
  have q1: "q_entries (w_queue ?w1) = []" "q_next (w_queue ?w1) = 0" "oc_MaxQueueSize (q_cfg (w_queue ?w1)) = 2"
    "q_sleepEvents (w_queue ?w1) = []" "w_proxy ?w1 = Some NewSpendingTracker"
    unfolding w1 by (simp_all add: rebid_def sortEntries_def NewQueue_def demo_cfg_def) (simp add: SetBid_def Let_def)
  have e: "?e = (Inr 0, snd ?e)" "w_proxy (snd ?e) = Some NewSpendingTracker" "q_sleepEvents (w_queue (snd ?e)) = []"
    using q1 by (simp_all add: enqueue_def OllamaProps.demo_json_def Let_def sortEntries_def)
  from negative_bid_is_free [where w = demo_server and ae = ?env and r = ?r and b = "- 1" and k = 30 and s = 0
      and began = 0 and ended = 30000000000 and status = 200 and h = "[]" and body = "''ok''",
      OF _ c [symmetric] _ _ _ _ _ _ refl e(1) refl e(2)]
  show ?thesis using e(3) by (auto simp: sleepDuring_def)
qed

subsection \<open>Freezing and the queue\<close>

lemma pause_for_queue [simp]: "w_queue (snd (pause_for dc did w)) = w_queue w" "settings (snd (pause_for dc did w)) = settings w"
  by (simp_all add: pause_for_proj)

lemma Freeze_queue [simp]: "w_queue (snd (Freeze dc cid w)) = w_queue w" "settings (snd (Freeze dc cid w)) = settings w"
  by (simp_all add: Freeze_def Let_def case_prod_unfold split: option.split)

lemma Freeze_sets:
  assumes "fst (Freeze dc cid w) = None"
  shows "IsFrozen (snd (Freeze dc cid w)) cid"
  using assms
  by (simp add: Freeze_def Let_def case_prod_unfold IsFrozen_def split: if_splits option.splits)

lemma drop_pending_frame [simp]: "w_frozen (drop_pending cid msg reason w) = w_frozen w"
  "w_frozen (CancelAllPending cid w) = w_frozen w"
proof -
  show "w_frozen (drop_pending cid msg reason w) = w_frozen w" for msg reason
    unfolding drop_pending_def Let_def by (simp add: fold_frame [where g = w_frozen])
  then show "w_frozen (CancelAllPending cid w) = w_frozen w" by (simp add: CancelAllPending_def)
qed

lemma cancel_active_simps [simp]:
  "q_entries (cancel_active cid q) = q_entries q" "q_bids (cancel_active cid q) = q_bids q"
  "q_active (cancel_active cid q) = q_active q"
  "q_heap (cancel_active cid q) i =
     (if q_active q = Some i \<and> en_container (q_heap q i) = cid then end_context (q_heap q i) else q_heap q i)"
  by (auto simp: cancel_active_def split: option.splits)

lemma drop_mine_simps [simp]:
  "q_entries (drop_mine cid msg q) = filter (\<lambda>i. en_container (q_heap q i) \<noteq> cid) (q_entries q)"
  "q_active (drop_mine cid msg q) = q_active q"
  "q_heap (drop_mine cid msg q) i =
     (if i \<in> set (q_entries q) \<and> en_container (q_heap q i) = cid \<and> live q i
      then cancel_with (Some (ResultErr msg)) (q_heap q i) else q_heap q i)"
  by (auto simp: drop_mine_def cancel_all_heap mine_def)

lemma q_bids_cancel_live: "q_bids (fold (cancel_live r) is q) = q_bids q"
  by (rule fold_frame) (simp add: cancel_live_def)

lemma q_bids_drop_mine [simp]: "q_bids (drop_mine cid msg q) = q_bids q"
  by (simp add: drop_mine_def q_bids_cancel_live)

lemma handleSegmentFreezeAll_queue: "w_queue (snd (handleSegmentFreezeAll ae r seg w)) = w_queue w"
proof -
  have "w_queue (snd (fold (freeze_quietly ae) cs (d, w))) = w_queue w" for cs d
    using fold_frame [of cs "\<lambda>dw. w_queue (snd dw)" "freeze_quietly ae" "(d, w)"]
    by (simp add: freeze_quietly_def case_prod_unfold split: option.split)
  then show ?thesis
    by (simp add: handleSegmentFreezeAll_def case_prod_unfold split: sum.split)
qed

text \<open>C20: freezing a container through the API also stops its inference: every request it has waiting
  leaves the queue and is answered with an error, the request being served is cancelled, its
  standing bid is kept and nobody else's request is touched; freezing a whole segment at once,
  however, leaves the queue as it is, so its containers' requests are still served.\<close>

theorem freeze_stops_inference:
  assumes "s_hasOllama w" and "hr_Method r = ''POST''" and "fst (Freeze (ae_dc ae) cid w) = None"
    and "w' = snd (handleFreeze ae r cid w)" and "q = w_queue w" and "q' = w_queue w'"
  shows "status_of (fst (handleFreeze ae r cid w)) = 200 \<and> IsFrozen w' cid \<and>
         (\<forall>i \<in> set (q_entries q'). en_container (q_heap q' i) \<noteq> cid) \<and>
         (\<forall>i \<in> set (q_entries q). en_container (q_heap q i) = cid \<and> live q i \<longrightarrow>
             slot q' i = Some (ResultErr ''container frozen'')) \<and>
         (\<forall>i. q_active q = Some i \<and> en_container (q_heap q i) = cid \<longrightarrow> en_ctxDone (q_heap q' i)) \<and>
         (\<forall>i. en_container (q_heap q i) \<noteq> cid \<longrightarrow> q_heap q' i = q_heap q i \<and>
             (i \<in> set (q_entries q') \<longleftrightarrow> i \<in> set (q_entries q))) \<and>
         (\<forall>c. GetBid q' c = GetBid q c) \<and>
         w_queue (snd (handleSegmentFreezeAll ae r seg w)) = q"
proof -
  obtain w1 where f: "Freeze (ae_dc ae) cid w = (None, w1)" using assms(3) by (cases "Freeze (ae_dc ae) cid w") simp
  then have w1: "w_queue w1 = w_queue w" "settings w1 = settings w" "IsFrozen w1 cid"
    using Freeze_queue [of "ae_dc ae" cid w] Freeze_sets [OF assms(3)] by simp_all
  have h: "handleFreeze ae r cid w = (writeJSON (JMap [(''status'', JText ''frozen'')]), CancelAllPending cid w1)"
    using assms(1,2) settingsD(1) [OF w1(2)] by (simp add: handleFreeze_def f)
  have q': "q' = cancel_active cid (drop_mine cid ''container frozen'' q)" by (simp add: assms(4-6) h w1(1))
  have "IsFrozen w' cid" using w1(3) by (simp add: assms(4) h IsFrozen_def)
  then show ?thesis
    by (auto simp: h q' handleSegmentFreezeAll_queue assms(5) GetBid_def end_context_def cancel_with_def live_def)
qed

definition no_limit :: limit_req where
  "no_limit = \<lparr>lr_Type = '''', lr_Value = 0, lr_Operation = ''''\<rparr>"

lemma demo_freeze: "fst (Freeze MockDocker ''0123456789ab'' demo_server) = None"
proof -
  have "fst (pause_for MockDocker ''0123456789abcdef'' demo_server) = None"
    unfolding pause_for_proj
    by (simp add: mock_world_def NewManager_def mock_ops AddContainer_def new_mock_container_def)
  then show ?thesis
    by (subst Freeze_effect [where did = "''0123456789abcdef''"]) (simp_all add: IsFrozen_def demo_store_eval)
qed

theorem freeze_stops_inference_witness:
  "IsFrozen (snd (handleFreeze (demo_env no_limit []) (api_request ''POST'' ''/containers/0123456789ab/freeze'')
     ''0123456789ab'' demo_server)) ''0123456789ab''"
  using freeze_stops_inference [OF _ _ _ refl refl refl, of demo_server
      "api_request ''POST'' ''/containers/0123456789ab/freeze''" "demo_env no_limit []" "''0123456789ab''"] demo_freeze
  by simp

subsection \<open>Listeners of a segment\<close>

lemma container_path:
  assumes "CHR ''/'' \<notin> set cid"
  shows "split_n 2 (CHR ''/'') (trim_prefix (''/containers/'' @ cid @ CHR ''/'' # sub) ''/containers/'') = [cid, sub]"
  using assms by (simp add: trim_prefix_def numeral_2_eq_2 cut_at_append)

lemma limit_change_settings [simp]: "w_queue (limit_change_event req cid a b w) = w_queue w"
  by (simp add: limit_change_event_def)

lemma handleSegmentLimits_effect:
  fixes w :: "('d, 'c, 'z) server_scheme"
  assumes w'_def: "w' = snd (handleSegmentLimits ae r seg w)"
  shows "w' = w\<lparr>w_bus := w_bus w', w_store := w_store w'\<rparr> \<and>
         (w_store w' = w_store w \<or> (\<exists>lt n. w_store w' = snd (SetScopeLimit (SegmentScope seg) lt n (w_store w))))"
proof -
  consider "w' = w" | lt n where "w' = snd (on_store (SetScopeLimit (SegmentScope seg) lt n) w)"
    | req a b lt n where "w' = limit_change_event req '''' a b (snd (on_store (SetScopeLimit (SegmentScope seg) lt n) w))"
  proof (goal_cases)
    case 1
    note unchanged = 1(1) and effects = 1(2,3)
    have "w' = w" if "hr_Method r \<noteq> ''PUT''"
      using that by (simp add: w'_def handleSegmentLimits_def Let_def split: sum.split)
    moreover have "w' = w" if "GetSegment (w_store w) seg = Inl e \<or> ae_limit ae (hr_Body r) = Inl e'" for e e'
      using that by (cases "GetSegment (w_store w) seg") (auto simp: w'_def handleSegmentLimits_def Let_def split: sum.split)
    moreover have ?case if m: "hr_Method r = ''PUT''" and g: "GetSegment (w_store w) seg = Inr sg" "ae_limit ae (hr_Body r) = Inr q" for sg q
    proof (cases "limit_op (op_of q) (or0 (GetScopeLimit (w_store w) (SegmentScope seg) (lr_Type q))) (lr_Value q)")
      case (Inl e)
      then show ?thesis using unchanged m g by (simp add: w'_def handleSegmentLimits_def Let_def)
    next
      case (Inr n)
      then have "w' = (case fst (on_store (SetScopeLimit (SegmentScope seg) (lr_Type q) n) w) of
          Some e \<Rightarrow> snd (on_store (SetScopeLimit (SegmentScope seg) (lr_Type q) n) w)
        | None \<Rightarrow> limit_change_event q '''' (or0 (GetScopeLimit (w_store w) (SegmentScope seg) (lr_Type q))) n
                    (snd (on_store (SetScopeLimit (SegmentScope seg) (lr_Type q) n) w)))"
        using m g by (simp add: w'_def handleSegmentLimits_def Let_def case_prod_unfold split: option.split)
      then show ?thesis using effects by (auto split: option.splits)
    qed
    ultimately show ?case using unchanged by (cases "GetSegment (w_store w) seg"; cases "ae_limit ae (hr_Body r)") blast+
  qed
  then show ?thesis
  proof cases
    case (3 req a b lt n)
    have s: "w_store w' = snd (SetScopeLimit (SegmentScope seg) lt n (w_store w))" by (simp add: 3)
    have "w' = w\<lparr>w_bus := w_bus w', w_store := w_store w'\<rparr>"
      unfolding 3 limit_change_event_def by (subst emit_is_bus) (simp add: on_store_is_store)
    then show ?thesis using s by blast
  qed (auto simp: on_store_is_store)
qed

text \<open>C37: a listener of a segment can, outside the routes of single containers, change nothing but the
  event subscriptions and that segment's own limits; but its routes of single containers are not
  confined to the segment: a container that is not in the segment, and that the listener does not
  list, can be frozen through it like through the management socket.\<close>

theorem segment_listener_reach:
  fixes w :: "('d, 'c, 'z) server_scheme"
  assumes "w' = snd (ScopedHandler ae (SegmentScope seg) r w)"
  shows "(\<not> prefix ''/containers/'' (hr_Path r) \<longrightarrow>
            w' = w\<lparr>w_bus := w_bus w', w_store := w_store w'\<rparr> \<and>
            (w_store w' = w_store w \<or> (\<exists>lt n. w_store w' = snd (SetScopeLimit (SegmentScope seg) lt n (w_store w))))) \<and>
         (hr_Path r = ''/containers/'' @ cid @ ''/freeze'' \<and> CHR ''/'' \<notin> set cid \<and> hr_Method r = ''POST'' \<and>
            find_row cid (w_store w) = Some row \<and> r_segment_id row \<noteq> Some seg \<and> db_rerr (w_store w) = None \<and>
            fst (Freeze (ae_dc ae) cid w) = None \<longrightarrow>
          status_of (fst (ScopedHandler ae (SegmentScope seg) r w)) = 200 \<and> IsFrozen w' cid \<and>
          (\<forall>cs. ListContainersByScope (w_store w) (SegmentScope seg) = Inr cs \<longrightarrow>
                wf_store (w_store w) \<longrightarrow> cid \<notin> c_ID ` set cs))"
proof (intro conjI impI allI)
  assume n: "\<not> prefix ''/containers/'' (hr_Path r)"
  have "w' = w \<or> w' = snd (handleEvents ae r w) \<or> w' = snd (handleSegmentLimits ae r seg w)"
    unfolding assms using n by (simp add: ScopedHandler_def scoped_limits_def Let_def)
  then have "(w' = w\<lparr>w_bus := w_bus w', w_store := w_store w'\<rparr>) \<and>
      (w_store w' = w_store w \<or> (\<exists>lt n. w_store w' = snd (SetScopeLimit (SegmentScope seg) lt n (w_store w))))"
  proof (elim disjE)
    assume e: "w' = snd (handleEvents ae r w)"
    then have "w_store w' = w_store w" "w' = w\<lparr>w_bus := w_bus w'\<rparr>" using handleEvents_bus [of ae r w] by simp_all
    moreover from this have "w' = w\<lparr>w_bus := w_bus w', w_store := w_store w'\<rparr>" by simp
    ultimately show ?thesis by blast
  qed (simp, rule handleSegmentLimits_effect)
  then show "w' = w\<lparr>w_bus := w_bus w', w_store := w_store w'\<rparr>"
    "w_store w' = w_store w \<or> (\<exists>lt n. w_store w' = snd (SetScopeLimit (SegmentScope seg) lt n (w_store w)))" by simp_all
next
  assume a: "hr_Path r = ''/containers/'' @ cid @ ''/freeze'' \<and> CHR ''/'' \<notin> set cid \<and> hr_Method r = ''POST'' \<and>
            find_row cid (w_store w) = Some row \<and> r_segment_id row \<noteq> Some seg \<and> db_rerr (w_store w) = None \<and>
            fst (Freeze (ae_dc ae) cid w) = None"
  have "r_id row = cid" using a by (auto simp: find_row_def find_Some_iff)
  then have "ResolveContainerID (w_store w) cid = Inr cid" using a by (simp add: ResolveContainerID_def Let_def)
  then have h: "ScopedHandler ae (SegmentScope seg) r w = handleFreeze ae r cid w"
    using a container_path [of cid "''freeze''"]
    by (simp add: ScopedHandler_def handleContainer_def container_sub_def Let_def)
  obtain w1 where f: "Freeze (ae_dc ae) cid w = (None, w1)" using a by (cases "Freeze (ae_dc ae) cid w") simp
  have "IsFrozen w1 cid" using Freeze_sets [of "ae_dc ae" cid w] f by simp
  then show "status_of (fst (ScopedHandler ae (SegmentScope seg) r w)) = 200" "IsFrozen w' cid"
    using a by (simp_all add: assms h handleFreeze_def f IsFrozen_def)
  fix cs assume cs: "ListContainersByScope (w_store w) (SegmentScope seg) = Inr cs" "wf_store (w_store w)"
  show "cid \<notin> c_ID ` set cs"
  proof
    assume "cid \<in> c_ID ` set cs"
    then obtain row' where r': "row' \<in> set (t_containers (w_store w))" "r_id row' = cid" "r_segment_id row' = Some seg"
      using cs(1) a by (auto simp: ListContainersByScope_def row_to_container_def)
    have "row \<in> set (t_containers (w_store w))" using a by (auto simp: find_row_def find_Some_iff)
    then have "row' = row"
      using r' \<open>r_id row = cid\<close> wf_storeD(1) [OF cs(2)] by (metis distinct_map inj_on_def)
    then show False using r' a by simp
  qed
qed

theorem segment_listener_reach_witness:
  "IsFrozen (snd (ScopedHandler (demo_env no_limit []) (SegmentScope ''other'')
     (api_request ''POST'' ''/containers/0123456789ab/freeze'') demo_server)) ''0123456789ab''"
  using segment_listener_reach [OF refl, where ae = "demo_env no_limit []" and seg = "''other''"
      and r = "api_request ''POST'' ''/containers/0123456789ab/freeze''" and w = demo_server and cid = "''0123456789ab''"
      and row = "hd (t_containers demo_store)", THEN conjunct2, THEN mp]
    demo_freeze demo_store_reads(2)
  by (simp add: find_row_def) (simp add: demo_store_eval)

subsection \<open>The configuration file\<close>

text \<open>
  What the server relies on of the JSON encoder: reading back what it wrote gives the object.
\<close>

definition config_codec :: "'d api_env \<Rightarrow> bool" where
  "config_codec ae \<longleftrightarrow> (\<forall>obj data. ae_indent ae obj = Inr data \<longrightarrow> ae_file ae data = Inr obj)"

lemma fold_tbl_put_append:
  "tbl_wf kvs \<Longrightarrow> (\<And>k. k \<in> set (tbl_keys kvs) \<Longrightarrow> k \<notin> set (tbl_keys t)) \<Longrightarrow> fold (\<lambda>(k, v). tbl_put k v) kvs t = t @ kvs"
proof (induction kvs arbitrary: t)
  case (Cons kv kvs)
  obtain k v where kv: "kv = (k, v)" by (cases kv)
  have p: "tbl_put k v t = t @ [(k, v)]" if "k \<notin> set (tbl_keys t)" for t
    using that by (induction t) (auto simp: tbl_put_def)
  have "fold (\<lambda>(k, v). tbl_put k v) kvs (t @ [(k, v)]) = (t @ [(k, v)]) @ kvs"
    by (rule Cons.IH) (use Cons.prems kv in auto)
  then show ?case using Cons.prems p [of t] kv by simp
qed simp

lemma RestoreBids_settings [simp]:
  fixes w :: "('d, 'c, 'z) server_scheme"
  shows "settings (RestoreBids cids w) = settings w"
proof -
  have "settings (fold (\<lambda>cid w. case GetUsage (w_store w) cid ''ollama-bid'' of
            Inl _ \<Rightarrow> w
          | Inr bid \<Rightarrow> if bid > 0 then on_queue (\<lambda>q. q\<lparr>q_bids := (q_bids q)(cid \<mapsto> bid)\<rparr>) w else w) cids w) = settings w"
    by (rule fold_frame) (simp split: sum.split)
  then show ?thesis by (simp add: RestoreBids_def)
qed

text \<open>Where the file is and what it holds, which applying a setting leaves alone.\<close>

definition file_of :: "('d, 'c, 'z) server_scheme \<Rightarrow> string \<times> string option \<times> err option" where
  "file_of w = (s_configPath w, s_configFile w, s_fsErr w)"

lemma file_of_settings: "settings w' = settings w \<Longrightarrow> file_of w' = file_of w"
  by (simp add: file_of_def settings_def)

lemma apply_key_frame:
  fixes w :: "('d, 'c, 'z) server_scheme"
  shows "s_hasOllama (snd (apply_key ae kv w)) = s_hasOllama w \<and> file_of (snd (apply_key ae kv w)) = file_of w"
proof -
  have q: "settings (snd (set_queue ae k v w)) = settings w" for k v
    by (simp add: set_queue_def split: option.split json.split)
  have e: "settings (snd (set_enabled k h v w)) = settings w" "settings (snd (set_key k h v w)) = settings w" for k h v
    by (simp_all add: set_enabled_def set_key_def split: json.split)
  have c: "s_hasOllama (snd (set_consistent v w)) = s_hasOllama w" "file_of (snd (set_consistent v w)) = file_of w"
    "file_of (w\<lparr>s_errorWebhooks := urls\<rparr>) = file_of w" for v urls
    by (simp_all add: set_consistent_def file_of_def split: json.split option.split)
  show ?thesis
    by (cases kv) (simp add: apply_key_def settingsD [OF q] settingsD [OF e(1)] settingsD [OF e(2)] c
        file_of_settings [OF q] file_of_settings [OF e(1)] file_of_settings [OF e(2)] split: option.split)
qed

lemma apply_keys_frame:
  fixes w :: "('d, 'c, 'z) server_scheme"
  shows "s_hasOllama (snd (apply_keys ae kvs w)) = s_hasOllama w \<and> file_of (snd (apply_keys ae kvs w)) = file_of w"
proof (induction kvs arbitrary: w)
  case (Cons kv kvs)
  then show ?case using apply_key_frame [of ae kv w] by (simp split: prod.split option.split) (metis snd_conv)
qed simp

lemma applyConfig_file:
  fixes w :: "('d, 'c, 'z) server_scheme"
  shows "file_of (snd (applyConfig ae req w)) = file_of w"
    "fst (fst (applyConfig ae req w)) = None \<Longrightarrow> snd (fst (applyConfig ae req w)) = AList.delete ''ollama_url'' req"
proof -
  have i: "file_of (initOllama url w) = file_of w" for url
  proof -
    have "file_of (RestoreBids cids x) = file_of x" for cids and x :: "('d, 'c, 'z) server_scheme"
      by (rule file_of_settings) simp
    moreover have "file_of (on_proxy f x) = file_of x" for f and x :: "('d, 'c, 'z) server_scheme"
      by (rule file_of_settings) simp
    moreover have "file_of (w\<lparr>s_hasOllama := True, w_queue := q\<rparr>) = file_of w" for q by (simp add: file_of_def)
    ultimately show ?thesis by (simp add: initOllama_def Let_def split: option.split)
  qed
  have u: "file_of (SetOllamaURL url w) = file_of w" for url
    by (simp add: SetOllamaURL_def Let_def file_of_def on_queue_def)
  have d: "AList.delete ''ollama_url'' req = req" if "map_of req ''ollama_url'' = None"
    using that by (simp add: delete_notin_dom map_of_eq_None_iff)
  show "file_of (snd (applyConfig ae req w)) = file_of w"
    using i u by (simp add: applyConfig_def Let_def case_prod_unfold apply_keys_frame split: option.split json.split)
  show "fst (fst (applyConfig ae req w)) = None \<Longrightarrow> snd (fst (applyConfig ae req w)) = AList.delete ''ollama_url'' req"
    by (auto simp: applyConfig_def Let_def case_prod_unfold d split: option.splits json.splits)
qed

lemma apply_keys_stops:
  assumes "fst (apply_keys ae kvs w) = None" and "fst (apply_key ae kv (snd (apply_keys ae kvs w))) = Some e"
  shows "apply_keys ae (kvs @ kv # rest) w = (Some e, snd (apply_key ae kv (snd (apply_keys ae kvs w))))"
  using assms
proof (induction kvs arbitrary: w)
  case Nil
  then show ?case by (cases "apply_key ae kv w") simp
next
  case (Cons kv' kvs)
  then show ?case by (cases "apply_key ae kv' w") (auto split: option.splits)
qed

definition config_keys :: "string list" where
  "config_keys = [''anthropic_enabled'', ''openai_enabled'', ''ollama_enabled'', ''anthropic_key'', ''openai_key'',
     ''ollama_models'', ''ollama_queue_size'', ''ollama_timeout'', ''ollama_default_bid'', ''ollama_url'',
     ''error_webhooks'', ''keep_limits_consistent'']"

lemma unknown_key: "key \<notin> set config_keys \<Longrightarrow> apply_key ae (key, v) w = (Some (''unknown config key: '' @ key), w)"
  by (simp add: apply_key_def config_keys_def)


definition strict_env :: "(string \<times> json) list \<Rightarrow> mock_docker api_env" where
  "strict_env obj = (demo_env no_limit obj)\<lparr>ae_indent := (\<lambda>x. if x = obj then Inr ''json'' else Inl ''no'')\<rparr>"


end
