(* ===== verification/DaemonProps.thy ===== *)
theory DaemonProps
  imports Daemon ApiProps
begin

text \<open>
  A start of the daemon takes up everything the store holds about its containers, except their
  segments, which the proxy is not told.
\<close>

subsection \<open>The proxy's part\<close>

definition take_up :: "string \<Rightarrow> int \<Rightarrow> int \<Rightarrow> spending_tracker \<Rightarrow> spending_tracker" where
  "take_up cid budget spent p =
     p\<lparr>p_spending := (p_spending p)(cid \<mapsto> wrap64 (spent * 1000)), p_budgets := (p_budgets p)(cid \<mapsto> wrap64 (budget * 1000)),
       p_proxyAddrs := (p_proxyAddrs p)(cid \<mapsto> p_sharedAddr p)\<rparr>"

lemma register_proxy_shared:
  assumes "w_proxy w = Some p" and "p_sharedAddr p \<noteq> ''''"
  shows "snd (register_proxy listen cid w) =
    w\<lparr>w_proxy := Some (take_up cid (or0 (GetLimit (w_store w) cid LimitSpending))
                       (or0 (GetUsage (w_store w) cid LimitSpending)) p)\<rparr>"
  using assms
  by (simp add: register_proxy_def Proxy_RegisterContainer_def Let_def take_up_def set_spending_def)

lemma restore_fold:
  assumes "w_proxy w = Some p" and "p_sharedAddr p \<noteq> ''''"
  shows "fold (\<lambda>c w. snd (register_proxy listen (c_ID c) w)) cs w =
    w\<lparr>w_proxy := Some (fold (\<lambda>c. take_up (c_ID c) (or0 (GetLimit (w_store w) (c_ID c) LimitSpending))
                                (or0 (GetUsage (w_store w) (c_ID c) LimitSpending))) cs p)\<rparr>"
  using assms
proof (induction cs arbitrary: w p)
  case (Cons c cs)
  let ?p = "take_up (c_ID c) (or0 (GetLimit (w_store w) (c_ID c) LimitSpending))
              (or0 (GetUsage (w_store w) (c_ID c) LimitSpending)) p"
  have "p_sharedAddr ?p \<noteq> ''''" using Cons.prems by (simp add: take_up_def)
  from Cons.IH [OF _ this, of "w\<lparr>w_proxy := Some ?p\<rparr>"] show ?case
    by (simp add: register_proxy_shared [OF Cons.prems])
qed simp

lemma take_up_fold:
  defines "f \<equiv> \<lambda>b u cs. fold (\<lambda>c. take_up (c_ID c) (b (c_ID c)) (u (c_ID c))) (cs :: container list)"
  shows "c \<in> set cs \<Longrightarrow> mget0 (p_budgets (f b u cs p)) (c_ID c) = wrap64 (b (c_ID c) * 1000)"
    "c \<in> set cs \<Longrightarrow> mget0 (p_spending (f b u cs p)) (c_ID c) = wrap64 (u (c_ID c) * 1000)"
    "c \<in> set cs \<Longrightarrow> GetProxyAddr (f b u cs p) (c_ID c) = p_sharedAddr p"
    "p_containerScopes (f b u cs p) = p_containerScopes p" "p_scopeBlocked (f b u cs p) = p_scopeBlocked p"
    "p_sharedAddr (f b u cs p) = p_sharedAddr p"
proof -
  have last: "fold (\<lambda>c. take_up (c_ID c) (b (c_ID c)) (u (c_ID c))) (cs @ [d]) p =
      take_up (c_ID d) (b (c_ID d)) (u (c_ID d)) (fold (\<lambda>c. take_up (c_ID c) (b (c_ID c)) (u (c_ID c))) cs p)" for cs d p
    by simp
  show s: "p_sharedAddr (f b u cs p) = p_sharedAddr p" for cs
    unfolding f_def by (rule fold_frame) (simp add: take_up_def)
  show "p_containerScopes (f b u cs p) = p_containerScopes p" "p_scopeBlocked (f b u cs p) = p_scopeBlocked p"
    unfolding f_def by (rule fold_frame, simp add: take_up_def)+
  have "c \<in> set cs \<Longrightarrow> mget0 (p_budgets (f b u cs p)) (c_ID c) = wrap64 (b (c_ID c) * 1000) \<and>
      mget0 (p_spending (f b u cs p)) (c_ID c) = wrap64 (u (c_ID c) * 1000) \<and>
      GetProxyAddr (f b u cs p) (c_ID c) = p_sharedAddr p"
  proof (induction cs rule: rev_induct)
    case (snoc d cs)
    then show ?case
      using s [of cs] unfolding f_def by (cases "c_ID c = c_ID d") (auto simp: take_up_def GetProxyAddr_def mget0_def mgets_def)
  qed simp
  then show "c \<in> set cs \<Longrightarrow> mget0 (p_budgets (f b u cs p)) (c_ID c) = wrap64 (b (c_ID c) * 1000)"
    "c \<in> set cs \<Longrightarrow> mget0 (p_spending (f b u cs p)) (c_ID c) = wrap64 (u (c_ID c) * 1000)"
    "c \<in> set cs \<Longrightarrow> GetProxyAddr (f b u cs p) (c_ID c) = p_sharedAddr p" by simp_all
qed

subsection \<open>The manager's part\<close>

lemma StartContainer_keeps [simp]:
  "w_store (StartContainer cid did w) = w_store w" "w_proxy (StartContainer cid did w) = w_proxy w"
  "w_docker (StartContainer cid did w) = w_docker w"
  by (simp_all add: StartContainer_def)

lemma StartAll_fold:
  assumes "distinct (map c_ID cs)" and "set (map c_ID cs) \<inter> set (w_workers w) = {}"
  shows "w_workers (fold (\<lambda>c. StartContainer (c_ID c) (c_DockerID c)) cs w) = w_workers w @ map c_ID cs \<and>
    w_store (fold (\<lambda>c. StartContainer (c_ID c) (c_DockerID c)) cs w) = w_store w \<and>
    w_proxy (fold (\<lambda>c. StartContainer (c_ID c) (c_DockerID c)) cs w) = w_proxy w \<and>
    (\<forall>c \<in> set cs. w_dockerIDs (fold (\<lambda>c. StartContainer (c_ID c) (c_DockerID c)) cs w) (c_ID c) = Some (c_DockerID c) \<and>
       (\<forall>b. IsFrozenRow (w_store w) (c_ID c) = Inr b \<longrightarrow>
            w_frozen (fold (\<lambda>c. StartContainer (c_ID c) (c_DockerID c)) cs w) (c_ID c) = Some b))"
  using assms
proof (induction cs rule: rev_induct)
  case (snoc d cs)
  define v where "v = fold (\<lambda>c. StartContainer (c_ID c) (c_DockerID c)) cs w"
  have IH: "w_workers v = w_workers w @ map c_ID cs" "w_store v = w_store w" "w_proxy v = w_proxy w"
    "\<forall>c \<in> set cs. w_dockerIDs v (c_ID c) = Some (c_DockerID c) \<and>
       (\<forall>b. IsFrozenRow (w_store w) (c_ID c) = Inr b \<longrightarrow> w_frozen v (c_ID c) = Some b)"
    using snoc by (auto simp: v_def)
  have e: "fold (\<lambda>c. StartContainer (c_ID c) (c_DockerID c)) (cs @ [d]) w = StartContainer (c_ID d) (c_DockerID d) v"
    by (simp add: v_def)
  have "c_ID d \<notin> set (w_workers v)" using snoc.prems by (auto simp: IH(1))
  moreover have "c_ID d \<notin> c_ID ` set cs" using snoc.prems(1) by simp
  then have "\<forall>c \<in> set cs. c_ID c \<noteq> c_ID d" by (metis imageI)
  ultimately show ?case unfolding e using IH by (simp add: StartContainer_def split: sum.split)
qed simp

subsection \<open>A start\<close>

lemma migrate_keeps:
  assumes "migrate s = (None, s1)"
  shows "t_containers s1 = t_containers s" "t_limits s1 = t_limits s" "t_usage s1 = t_usage s"
    "db_rerr s1 = db_rerr s" "db_werr s1 = db_werr s" "db_werr s = None"
  using assms by (auto simp: migrate_def split: option.splits)

lemma RestoreBids_bid:
  fixes w :: "('d, 'c, 'z) oworld_scheme"
  shows "GetBid (w_queue (RestoreBids cids w)) cid =
    (case GetUsage (w_store w) cid ''ollama-bid'' of
       Inl _ \<Rightarrow> GetBid (w_queue w) cid
     | Inr b \<Rightarrow> if cid \<in> set cids \<and> 0 < b then b else GetBid (w_queue w) cid)"
    "w_proxy (RestoreBids cids w) = w_proxy w" "w_store (RestoreBids cids w) = w_store w"
    "w_workers (RestoreBids cids w) = w_workers w" "w_frozen (RestoreBids cids w) = w_frozen w"
    "w_dockerIDs (RestoreBids cids w) = w_dockerIDs w"
proof -
  let ?f = "\<lambda>cid w. case GetUsage (w_store w) cid ''ollama-bid'' of
                     Inl _ \<Rightarrow> w
                   | Inr bid \<Rightarrow> if bid > 0 then on_queue (\<lambda>q. q\<lparr>q_bids := (q_bids q)(cid \<mapsto> bid)\<rparr>) w else w"
  have fr: "w_store (fold ?f cids x) = w_store x" for cids and x :: "('d, 'c, 'z) oworld_scheme"
    by (rule fold_frame) (simp split: sum.split)
  show "w_proxy (RestoreBids cids w) = w_proxy w" "w_store (RestoreBids cids w) = w_store w"
    "w_workers (RestoreBids cids w) = w_workers w" "w_frozen (RestoreBids cids w) = w_frozen w"
    "w_dockerIDs (RestoreBids cids w) = w_dockerIDs w"
    unfolding RestoreBids_def by (rule fold_frame, simp split: sum.split)+
  have "GetBid (w_queue (fold ?f cids w)) cid =
    (case GetUsage (w_store w) cid ''ollama-bid'' of
       Inl _ \<Rightarrow> GetBid (w_queue w) cid
     | Inr b \<Rightarrow> if cid \<in> set cids \<and> 0 < b then b else GetBid (w_queue w) cid)"
  proof (induction cids rule: rev_induct)
    case (snoc d cids)
    then show ?case using fr [of cids w] by (auto simp: GetBid_def split: sum.split)
  qed (simp split: sum.split)
  then show "GetBid (w_queue (RestoreBids cids w)) cid =
    (case GetUsage (w_store w) cid ''ollama-bid'' of
       Inl _ \<Rightarrow> GetBid (w_queue w) cid
     | Inr b \<Rightarrow> if cid \<in> set cids \<and> 0 < b then b else GetBid (w_queue w) cid)"
    by (simp add: RestoreBids_def)
qed

lemma find_distinct:
  "row \<in> set rows \<Longrightarrow> distinct (map k rows) \<Longrightarrow> find (\<lambda>r. k r = k row) rows = Some row"
  by (induction rows) (auto simp: image_iff)

lemma start_tracker_simps:
  "p_containerScopes (start_tracker env) = Map.empty" "p_sharedAddr (start_tracker env) = env_shared_addr env"
  "p_scopeBlocked (start_tracker env) = Map.empty"
proof -
  have k: "p_containerScopes (SetAPIKeys keys p) = p_containerScopes p" "p_scopeBlocked (SetAPIKeys keys p) = p_scopeBlocked p"
    for keys p
    unfolding SetAPIKeys_def by (rule fold_frame, simp add: case_prod_unfold)+
  show "p_containerScopes (start_tracker env) = Map.empty" "p_sharedAddr (start_tracker env) = env_shared_addr env"
    "p_scopeBlocked (start_tracker env) = Map.empty"
    by (simp_all add: start_tracker_def Let_def k SetSharedProxyAddr_def SetEnabledHosts_def NewSpendingTracker_def)
qed

lemma env_shared_addr_nonempty: "env_shared_addr env \<noteq> ''''"
  by (simp add: env_shared_addr_def Let_def)

text \<open>Everything of a start but the queue, seen through the selectors that matter.\<close>

lemma daemon_start_effect:
  assumes start: "daemon_start ae env dbPath None s d c now = Some w" and db: "db_ok s" and wf: "wf_store s"
    and row: "row \<in> set (t_containers s)"
  obtains p where "w_proxy w = Some p" and "p_containerScopes p = Map.empty" and "p_scopeBlocked p = Map.empty"
    and "mget0 (p_budgets p) (r_id row) = wrap64 (or0 (GetLimit s (r_id row) LimitSpending) * 1000)"
    and "mget0 (p_spending p) (r_id row) = wrap64 (or0 (GetUsage s (r_id row) LimitSpending) * 1000)"
    and "GetProxyAddr p (r_id row) = env_shared_addr env"
    and "r_id row \<in> set (w_workers w)" and "w_dockerIDs w (r_id row) = Some (r_docker_id row)"
    and "w_frozen w (r_id row) = Some (r_frozen row \<noteq> 0)" and "s_hasOllama w = env_ollama env"
    and "GetBid (w_queue w) (r_id row) = (if env_ollama env then max 0 (or0 (GetUsage s (r_id row) ''ollama-bid'')) else 0)"
    and "t_containers (w_store w) = t_containers s"
proof -
  obtain s1 where s1: "migrate s = (None, s1)"
    using start by (auto simp: daemon_start_def split: prod.splits option.splits)
  note keeps = migrate_keeps [OF s1]
  define cs where "cs = map row_to_container (sort_key r_registered_at (t_containers s))"
  have rerr: "db_rerr s1 = None" using db keeps by (simp add: db_ok_def)
  then have ls: "ListContainers s1 = Inr cs" by (simp add: ListContainers_def cs_def keeps)
  define c0 where "c0 = row_to_container row"
  have c0: "c0 \<in> set cs" "c_ID c0 = r_id row" "c_DockerID c0 = r_docker_id row"
    using row by (simp_all add: cs_def c0_def row_to_container_def)
  have "distinct (map r_id (sort_key r_registered_at (t_containers s)))"
    using wf_storeD(1) [OF wf] by (simp add: distinct_map)
  then have dist: "distinct (map c_ID cs)" by (simp add: cs_def o_def row_to_container_def)
  have fr: "IsFrozenRow s1 (r_id row) = Inr (r_frozen row \<noteq> 0)"
  proof -
    have "find_row (r_id row) s1 = Some row"
      unfolding find_row_def keeps(1) using row wf_storeD(1) [OF wf] by (rule find_distinct)
    then show ?thesis by (simp add: IsFrozenRow_def rerr)
  qed
  have get: "GetLimit s1 x t = GetLimit s x t" "GetUsage s1 x t = GetUsage s x t" for x t
    by (simp_all add: GetLimit_def GetUsage_def query_int_def keeps)
  define w0 where "w0 = NewManager s1 d c (Some (start_tracker env)) (Some NewBus) now"
  have w0: "w_store w0 = s1" "w_proxy w0 = Some (start_tracker env)" "w_workers w0 = []"
    by (simp_all add: w0_def NewManager_def)
  define w1 where "w1 = restore_proxies (ae_proxy_listen ae) w0"
  let ?take = "\<lambda>c. take_up (c_ID c) (or0 (GetLimit s1 (c_ID c) LimitSpending)) (or0 (GetUsage s1 (c_ID c) LimitSpending))"
  have w1: "w1 = w0\<lparr>w_proxy := Some (fold ?take cs (start_tracker env))\<rparr>"
    using restore_fold [OF w0(2), of "ae_proxy_listen ae" cs] env_shared_addr_nonempty
    by (simp add: w1_def restore_proxies_def w0(1) ls start_tracker_simps)
  define w2 where "w2 = snd (StartAll w1)"
  have w2_fold: "w2 = fold (\<lambda>c. StartContainer (c_ID c) (c_DockerID c)) cs w1"
    by (simp add: w2_def StartAll_def w1 w0(1) ls)
  have w2: "w_workers w2 = map c_ID cs" "w_store w2 = s1" "w_proxy w2 = Some (fold ?take cs (start_tracker env))"
    "\<forall>c \<in> set cs. w_dockerIDs w2 (c_ID c) = Some (c_DockerID c) \<and>
       (\<forall>b. IsFrozenRow s1 (c_ID c) = Inr b \<longrightarrow> w_frozen w2 (c_ID c) = Some b)"
    using StartAll_fold [OF dist, of w1] by (simp_all add: w2_fold w1 w0)
  define w2' where "w2' = world.extend w2 (oworld.fields (NewQueue (env_ollama_config env)))"
  have w2': "w_workers w2' = w_workers w2" "w_store w2' = w_store w2" "w_proxy w2' = w_proxy w2"
    "w_dockerIDs w2' = w_dockerIDs w2" "w_frozen w2' = w_frozen w2" "w_queue w2' = NewQueue (env_ollama_config env)"
    by (simp_all add: w2'_def world.extend_def oworld.fields_def)
  define w4 where "w4 = StartScopeEnforcement (start_queue env w2')"
  have q0: "GetBid (NewQueue cfg) x = 0" for cfg x by (simp add: NewQueue_def GetBid_def Let_def)
  have ids: "all_container_ids s1 = Some (map c_ID cs)" by (simp add: all_container_ids_def ls)
  have rid: "r_id row \<in> c_ID ` set cs" using c0 by (metis imageI)
  have w4: "w_workers w4 = w_workers w2" "w_store w4 = s1" "w_dockerIDs w4 = w_dockerIDs w2" "w_frozen w4 = w_frozen w2"
    "\<exists>f. w_proxy w4 = map_option f (w_proxy w2) \<and> (\<forall>p. p_containerScopes (f p) = p_containerScopes p \<and>
       p_scopeBlocked (f p) = p_scopeBlocked p \<and> p_budgets (f p) = p_budgets p \<and> p_spending (f p) = p_spending p \<and>
       p_proxyAddrs (f p) = p_proxyAddrs p)"
    "GetBid (w_queue w4) (r_id row) = (if env_ollama env then max 0 (or0 (GetUsage s (r_id row) ''ollama-bid'')) else 0)"
  proof -
    let ?q = "SetActivityRecorder (NewQueue (env_ollama_config env))"
    let ?f = "EnableHost ''ollama'' True \<circ> SetOllamaHandler (OllamaHost ?q)"
    define v where "v = on_proxy ?f (w2'\<lparr>w_queue := ?q\<rparr>)"
    have v: "w_workers v = w_workers w2" "w_store v = s1" "w_dockerIDs v = w_dockerIDs w2" "w_frozen v = w_frozen w2"
      "w_proxy v = map_option ?f (w_proxy w2)" "w_queue v = ?q"
      by (simp_all add: v_def w2' w2(2))
    have "start_queue env w2' = (if env_ollama env then RestoreBids (map c_ID cs) v else w2')"
      by (simp add: start_queue_def Let_def w2' w2(2) ids) (simp add: v_def)
    then have w4': "w4 = (if env_ollama env then RestoreBids (map c_ID cs) v else w2')\<lparr>w_scopeRunning := True\<rparr>"
      by (simp add: w4_def StartScopeEnforcement_def)
    show "w_workers w4 = w_workers w2" "w_store w4 = s1" "w_dockerIDs w4 = w_dockerIDs w2" "w_frozen w4 = w_frozen w2"
      by (simp_all add: w4' RestoreBids_bid v w2' w2(2))
    have "\<forall>p. p_containerScopes (?f p) = p_containerScopes p \<and> p_scopeBlocked (?f p) = p_scopeBlocked p \<and>
        p_budgets (?f p) = p_budgets p \<and> p_spending (?f p) = p_spending p \<and> p_proxyAddrs (?f p) = p_proxyAddrs p"
      by (simp add: EnableHost_def SetOllamaHandler_def)
    moreover have "w_proxy w4 = map_option (if env_ollama env then ?f else id) (w_proxy w2)"
      by (simp add: w4' RestoreBids_bid v w2' option.map_id)
    ultimately show "\<exists>f. w_proxy w4 = map_option f (w_proxy w2) \<and> (\<forall>p. p_containerScopes (f p) = p_containerScopes p \<and>
       p_scopeBlocked (f p) = p_scopeBlocked p \<and> p_budgets (f p) = p_budgets p \<and> p_spending (f p) = p_spending p \<and>
       p_proxyAddrs (f p) = p_proxyAddrs p)"
      by (intro exI [of _ "if env_ollama env then ?f else id"]) simp
    have "GetBid ?q x = 0" for x by (simp add: SetActivityRecorder_def GetBid_def NewQueue_def Let_def)
    then show "GetBid (w_queue w4) (r_id row) = (if env_ollama env then max 0 (or0 (GetUsage s (r_id row) ''ollama-bid'')) else 0)"
      using rid by (simp add: w4' RestoreBids_bid v get w2' q0 or0_def split: sum.split)
  qed
  have start': "Some w = Some (LoadPersistedConfig ae (NewServer ae (env_ollama env) (config_path dbPath) None w4))"
    using start by (simp add: daemon_start_def s1 Let_def w0_def [symmetric] w1_def [symmetric] w2_def [symmetric]
        w2'_def [symmetric] w4_def [symmetric])
  note server = NewServer_def refreshIPs_def oworld.extend_def server.fields_def on_proxy_def
  have "s_configFile (NewServer ae (env_ollama env) (config_path dbPath) None w4) = None"
    by (simp add: server ls w4(2))
  then have w: "w = NewServer ae (env_ollama env) (config_path dbPath) None w4"
    using start' by (simp add: LoadPersistedConfig_def)
  obtain f where f: "w_proxy w4 = map_option f (w_proxy w2)" "\<forall>p. p_containerScopes (f p) = p_containerScopes p \<and>
       p_scopeBlocked (f p) = p_scopeBlocked p \<and> p_budgets (f p) = p_budgets p \<and> p_spending (f p) = p_spending p \<and>
       p_proxyAddrs (f p) = p_proxyAddrs p" using w4(5) by blast
  let ?p = "SetErrorCallback (f (fold ?take cs (start_tracker env)))"
  have sel: "w_proxy w = Some ?p" "w_workers w = map c_ID cs" "w_store w = s1" "w_dockerIDs w = w_dockerIDs w2"
    "w_frozen w = w_frozen w2" "s_hasOllama w = env_ollama env" "w_queue w = w_queue w4"
    unfolding w
    by (simp_all add: server f(1) w2 w4 ls)
  note t = take_up_fold(1-3) [OF c0(1), where b = "\<lambda>x. or0 (GetLimit s1 x LimitSpending)"
      and u = "\<lambda>x. or0 (GetUsage s1 x LimitSpending)" and p = "start_tracker env"]
    take_up_fold(4,5) [where b = "\<lambda>x. or0 (GetLimit s1 x LimitSpending)"
      and u = "\<lambda>x. or0 (GetUsage s1 x LimitSpending)" and p = "start_tracker env" and cs = cs]
  show thesis
  proof (rule that [of ?p])
    show "w_frozen w (r_id row) = Some (r_frozen row \<noteq> 0)" "w_dockerIDs w (r_id row) = Some (r_docker_id row)"
      using w2(4) c0 fr by (auto simp: sel)
  qed (use t c0 f(2) in \<open>simp_all add: sel SetErrorCallback_def start_tracker_simps get GetProxyAddr_def w4 rid keeps\<close>)
qed


definition no_env :: "string \<Rightarrow> string" where
  "no_env _ = ''''"

lemma daemon_starts:
  assumes "db_werr s = None"
  shows "\<exists>w. daemon_start ae env dbPath file s d c now = Some w"
proof -
  obtain s1 where "migrate s = (None, s1)" using assms by (simp add: migrate_def)
  then show ?thesis by (simp add: daemon_start_def Let_def)
qed


text \<open>C38: but it forgets the segments: after a container has been assigned to a segment, blocking
  the segment's spending blocks the container; after a restart on that database, whose row still
  says that the container is in the segment, it no longer does.\<close>

theorem restart_forgets_segments:
  fixes w :: "('d, 'c, 'z) server_scheme"
  assumes "hr_Method r = ''POST''" and "db_ok (w_store w)" and "wf_store (w_store w)" and "w_proxy w = Some p"
    and "GetSegment (w_store w) seg = Inr sg" and "GetContainer (w_store w) cid = Inr cc"
    and "c_SegmentID cc \<in> {'''', seg}"
    and "w1 = snd (handleSegmentAssign r seg cid w)"
    and "daemon_start ae env dbPath None (w_store w1) d c now = Some w2"
  shows "status_of (fst (handleSegmentAssign r seg cid w)) = 200 \<and>
         (\<exists>p1. w_proxy w1 = Some p1 \<and>
               isScopeSpendingBlocked (SetScopeSpendingBlocked (SegmentScope seg) True p1) cid) \<and>
         (\<exists>p2 row. w_proxy w2 = Some p2 \<and> row \<in> set (t_containers (w_store w2)) \<and> r_id row = cid \<and>
               r_segment_id row = Some seg \<and>
               \<not> isScopeSpendingBlocked (SetScopeSpendingBlocked (SegmentScope seg) True p2) cid)"
proof -
  let ?s1 = "snd (SetContainerSegment cid (Some seg) (w_store w))"
  have o: "on_store (SetContainerSegment cid (Some seg)) w = (None, w\<lparr>w_store := ?s1\<rparr>)"
    using assms(2) by (simp add: on_store_def SetContainerSegment_def db_ok_def)
  have h: "handleSegmentAssign r seg cid w =
      (writeJSON (JMap [(''assigned'', JText seg), (''container'', JText cid)]),
       emit ContainerAssign cid (ContainerAssignData seg)
         (on_proxy (SetContainerScope cid (SegmentScope seg)) (w\<lparr>w_store := ?s1\<rparr>)))"
    using assms(1,5,6,7) o by (auto simp: handleSegmentAssign_def)
  have s1: "w_store w1 = ?s1" "w_proxy w1 = Some (SetContainerScope cid (SegmentScope seg) p)"
    by (simp_all add: assms(8) h assms(4))
  obtain row0 where row0: "find_row cid (w_store w) = Some row0"
    using assms(2,6) by (auto simp: GetContainer_def db_ok_def split: option.splits)
  then have "row0 \<in> set (t_containers (w_store w))" "r_id row0 = cid" by (auto simp: find_row_def find_Some_iff)
  then have row: "row0\<lparr>r_segment_id := Some seg\<rparr> \<in> set (t_containers ?s1)"
    using assms(2) by (force simp: SetContainerSegment_def update_rows_def db_ok_def)
  have db: "db_ok ?s1" using assms(2) by (simp add: SetContainerSegment_def db_ok_def)
  have wf: "wf_store ?s1" using assms(3) by (intro wf_ops)
  from daemon_start_effect [OF assms(9) [unfolded s1(1)] db wf row] obtain p2 where
    p2: "w_proxy w2 = Some p2" "p_containerScopes p2 = Map.empty" "p_scopeBlocked p2 = Map.empty"
    "t_containers (w_store w2) = t_containers ?s1" .
  have "\<not> isScopeSpendingBlocked (SetScopeSpendingBlocked (SegmentScope seg) True p2) cid"
    by (simp add: isScopeSpendingBlocked_def SetScopeSpendingBlocked_def p2(2,3))
  moreover have "isScopeSpendingBlocked (SetScopeSpendingBlocked (SegmentScope seg) True
      (SetContainerScope cid (SegmentScope seg) p)) cid"
    by (simp add: isScopeSpendingBlocked_def SetScopeSpendingBlocked_def SetContainerScope_def)
  moreover have "r_id (row0\<lparr>r_segment_id := Some seg\<rparr>) = cid" "r_segment_id (row0\<lparr>r_segment_id := Some seg\<rparr>) = Some seg"
    using \<open>r_id row0 = cid\<close> by simp_all
  moreover have "status_of (fst (handleSegmentAssign r seg cid w)) = 200" by (simp add: h)
  ultimately show ?thesis
    using p2(1) row s1(2) unfolding p2(4) by blast
qed


theorem restart_forgets_segments_witness:
  "\<exists>w2 p2. daemon_start (demo_env no_limit []) no_env ''/var/lib/ddl/ddl.db'' None
      (w_store (snd (handleSegmentAssign (api_request ''POST'' ''/segments/team/containers/0123456789ab'') ''team''
         ''0123456789ab'' demo_server))) (w_docker mock_world) NewMockCgroup 7 = Some w2 \<and>
     w_proxy w2 = Some p2 \<and>
     \<not> isScopeSpendingBlocked (SetScopeSpendingBlocked (SegmentScope ''team'') True p2) ''0123456789ab''"
proof -
  let ?w1 = "snd (handleSegmentAssign (api_request ''POST'' ''/segments/team/containers/0123456789ab'') ''team''
         ''0123456789ab'' demo_server)"
  obtain sg where seg: "GetSegment demo_store ''team'' = Inr sg"
    by (simp add: GetSegment_def find_segment_def demo_store_eval)
  obtain cc where cc: "GetContainer demo_store ''0123456789ab'' = Inr cc" "c_SegmentID cc \<in> {'''', ''team''}"
    by (simp add: GetContainer_def find_row_def row_to_container_def demo_store_eval)
  have "db_werr (w_store ?w1) = None"
    using seg cc by (auto simp: handleSegmentAssign_def on_store_def SetContainerSegment_def demo_store_eval
        split: if_splits)
  from daemon_starts [OF this, of "demo_env no_limit []" no_env "''/var/lib/ddl/ddl.db''" None "w_docker mock_world"
      NewMockCgroup 7] obtain w2 where
    w2: "daemon_start (demo_env no_limit []) no_env ''/var/lib/ddl/ddl.db'' None (w_store ?w1) (w_docker mock_world)
          NewMockCgroup 7 = Some w2" by blast
  have "hr_Method (api_request ''POST'' ''/segments/team/containers/0123456789ab'') = ''POST''" "db_ok (w_store demo_server)"
    "wf_store (w_store demo_server)" "w_proxy demo_server = Some NewSpendingTracker"
    "GetSegment (w_store demo_server) ''team'' = Inr sg" "GetContainer (w_store demo_server) ''0123456789ab'' = Inr cc"
    using demo_store_reads(1) demo_store_wf seg cc by simp_all
  from restart_forgets_segments [OF this cc(2) refl w2] w2 show ?thesis by blast
qed

subsection \<open>What the containers' port can do\<close>

text \<open>What stays when only bids change: all but the bus, the queue and the recorded bids of reachable containers.\<close>

definition only_bids :: "('d, 'c, 'z) server_scheme \<Rightarrow> ('d, 'c, 'z) server_scheme \<Rightarrow> bool" where
  "only_bids w w' \<longleftrightarrow>
     w' = w\<lparr>w_bus := w_bus w', w_store := w_store w', w_queue := w_queue w'\<rparr> \<and>
     besides_usage (w_store w') = besides_usage (w_store w) \<and>
     (\<forall>cid lt. lt \<noteq> ''ollama-bid'' \<or> cid \<notin> ran (s_ipMap w) \<longrightarrow> GetUsage (w_store w') cid lt = GetUsage (w_store w) cid lt)"

lemma only_bids_refl: "only_bids w w"
  by (simp add: only_bids_def)

lemma only_bids_trans:
  assumes "only_bids u v" and "only_bids v w"
  shows "only_bids u w"
proof -
  have v: "v = u\<lparr>w_bus := w_bus v, w_store := w_store v, w_queue := w_queue v\<rparr>" using assms(1) by (simp add: only_bids_def)
  have "s_ipMap v = s_ipMap u" by (subst v) simp
  moreover have "w = u\<lparr>w_bus := w_bus w, w_store := w_store w, w_queue := w_queue w\<rparr>"
    using assms(2) unfolding only_bids_def by (subst (asm) v) simp
  ultimately show ?thesis using assms by (simp add: only_bids_def)
qed

lemma SetUsage_others:
  "(c, t) \<noteq> (cid, lt) \<Longrightarrow> GetUsage (snd (SetUsage cid lt v s)) c t = GetUsage s c t"
  by (auto simp: SetUsage_def exec_def GetUsage_def query_int_def split: option.split)

lemma readonly_only_bids: "only_bids w (snd (ReadOnlyHandler ae r w))"
proof -
  have "caller r w \<noteq> '''' \<Longrightarrow> caller r w \<in> ran (s_ipMap w)"
    by (auto simp: caller_def resolveContainerByIP_def mgets_def ran_def split: option.splits)
  then show ?thesis
    using readonly_changes_only_own_bid [OF refl, of ae r w] by (auto simp: only_bids_def intro!: SetUsage_others)
qed

lemma containers_requests: "only_bids w (fold (\<lambda>r w. snd (serve_api ae ForContainers r w)) rs w)"
proof (induction rs arbitrary: w)
  case (Cons r rs)
  have "only_bids w (snd (serve_api ae ForContainers r w))"
    by (simp add: serve_api_def tcp_handler_def readonly_only_bids)
  then show ?case using Cons only_bids_trans by (auto simp: comp_def)
qed (simp add: only_bids_refl)

text \<open>C16: after a start of the daemon, its TCP port serves the containers' interface exactly when the management
  socket was opened. Then no sequence of requests to it changes anything but the recorded bids of containers that
  an address belongs to, the queue and the event subscriptions: all limits, usage, totals, segments, frozen
  flags and registrations are as they were, and so are Docker, enforcement, the proxy and the settings.
  Otherwise the port serves the whole management interface.\<close>

theorem tcp_port_confined:
  assumes "daemon_main ae env dbPath sock addr oe de file s d c now = Inr (w0, net)"
    and "(''tcp'', addr, sf) \<in> set net" and "sf \<noteq> SharedProxy"
    and "w' = fold (\<lambda>r w. snd (serve_api ae sf r w)) rs w"
  shows "if socket_opened ae sock then
           w' = w\<lparr>w_bus := w_bus w', w_store := w_store w', w_queue := w_queue w'\<rparr> \<and>
           besides_usage (w_store w') = besides_usage (w_store w) \<and>
           (\<forall>cid lt. lt \<noteq> ''ollama-bid'' \<or> cid \<notin> ran (s_ipMap w) \<longrightarrow> GetUsage (w_store w') cid lt = GetUsage (w_store w) cid lt)
         else (\<forall>r. serve_api ae sf r w = Handler ae r w)"
proof -
  have "net = daemon_sockets ae env sock addr"
    using assms(1) by (auto simp: daemon_main_def split: option.splits)
  then have sf: "sf = (if socket_opened ae sock then ForContainers else Management)"
    using assms(2,3) by (auto simp: daemon_sockets_def Let_def split: if_splits)
  show ?thesis
  proof (cases "socket_opened ae sock")
    case True
    then show ?thesis using containers_requests [of w ae rs] sf assms(4) unfolding only_bids_def by simp
  next
    case False
    then show ?thesis using sf by (simp add: serve_api_def tcp_handler_def)
  qed
qed

theorem tcp_port_confined_witness:
  "besides_usage (w_store (fold (\<lambda>r w. snd (serve_api (demo_env \<lparr>lr_Type = '''', lr_Value = 3, lr_Operation = ''''\<rparr> []) ForContainers r w))
      [api_request ''PUT'' ''/ollama/bid'', api_request ''PUT'' ''/containers/0123456789ab/limits''] demo_server)) = besides_usage demo_store"
proof -
  let ?ae = "demo_env \<lparr>lr_Type = '''', lr_Value = 3, lr_Operation = ''''\<rparr> []"
  have "db_werr demo_store = None" using demo_store_reads(1) by (simp add: db_ok_def)
  from daemon_starts [OF this, of ?ae no_env "''/db/ddl.db''" None "w_docker mock_world" NewMockCgroup 0] obtain w0 where
    "daemon_start ?ae no_env ''/db/ddl.db'' None demo_store (w_docker mock_world) NewMockCgroup 0 = Some w0" by blast
  moreover have "fst (migrate demo_store) = None" by (simp add: migrate_def demo_store_eval)
  ultimately have m: "daemon_main ?ae no_env ''/db/ddl.db'' ''/run/ddl/ddl.sock'' '':7123'' None None None demo_store
      (w_docker mock_world) NewMockCgroup 0 = Inr (w0, daemon_sockets ?ae no_env ''/run/ddl/ddl.sock'' '':7123'')"
    by (simp add: daemon_main_def)
  have o: "socket_opened ?ae ''/run/ddl/ddl.sock''" by (simp add: socket_opened_def demo_env_def)
  moreover have "(''tcp'', '':7123'', ForContainers) \<in> set (daemon_sockets ?ae no_env ''/run/ddl/ddl.sock'' '':7123'')"
    using o by (simp add: daemon_sockets_def Let_def)
  moreover have "ForContainers \<noteq> SharedProxy" by simp
  ultimately show ?thesis
    using tcp_port_confined [where w = demo_server, OF m _ _ refl] unfolding demo_server_simps(1) [symmetric] by presburger
qed

end
