(* ===== verification/ProxyPort.thy ===== *)
theory ProxyPort
  imports DaemonProps
begin

text \<open>
  The shared proxy of the daemon at work: the proxy, the table of addresses of the API server and the store
  together, for a request of a container.
\<close>

subsection \<open>What the proxy changes for a request\<close>

text \<open>Only the spending of one container, and what is reported is its new total.\<close>

definition charges_only :: "string \<Rightarrow> spending_tracker \<Rightarrow> proxy_outcome \<times> spending_tracker \<Rightarrow> bool" where
  "charges_only cid st out \<longleftrightarrow>
     (\<forall>c. c \<noteq> cid \<longrightarrow> mget0 (p_spending (snd out)) c = mget0 (p_spending st) c) \<and>
     p_budgets (snd out) = p_budgets st \<and> p_scopeBlocked (snd out) = p_scopeBlocked st \<and>
     (po_Updates (fst out) = [] \<and> p_spending (snd out) = p_spending st \<or>
      po_Updates (fst out) = [(cid, GetSpending (snd out) cid)] \<and> in64 (mget0 (p_spending (snd out)) cid))"

lemma charges_only_same: "po_Updates out = [] \<Longrightarrow> charges_only cid st (out, st)"
  by (simp add: charges_only_def)

lemma refuse_charges: "charges_only cid st (refuse now c r code msg st)"
  by (simp add: charges_only_def) (simp add: refuse_def)

lemma forward_charges: "charges_only cid st (forward ne js now cid r st)"
proof -
  have "charges_only cid st (forward ne js now cid r st)"
    if "net_trip ne (outgoing_request st r) = Inr resp" "ur_Body resp = Inr body" "isTrackedAPI st (hr_Host r)"
      "net_new ne (or_Method (outgoing_request st r)) (or_URL (outgoing_request st r)) = None" for resp body
    using track_cases [of js now cid "hr_Host r" "hr_Path r" "hr_Method r" "hr_Body r" body "ur_Status resp"
        "net_duration ne" st]
  proof cases
    case (1 act ups)
    then show ?thesis using that by (simp add: forward_def Let_def charges_only_def case_prod_unfold)
  next
    case (2 act)
    then show ?thesis
      using that by (simp add: forward_def Let_def charges_only_def case_prod_unfold add_micro_eq GetSpending_def)
  qed
  then show ?thesis
    by (cases "isTrackedAPI st (hr_Host r)")
      (auto simp: forward_def Let_def intro!: charges_only_same split: option.split sum.split)
qed

lemma shared_charges:
  assumes "cid = f (remote_host r)"
  shows "if cid = '''' then SharedProxyHandler ne js now (Some f) r st = (fst (SharedProxyHandler ne js now (Some f) r st), st) \<and>
           answer_status (fst (SharedProxyHandler ne js now (Some f) r st)) = 407 \<and>
           \<not> let_through (fst (SharedProxyHandler ne js now (Some f) r st)) \<and>
           po_Updates (fst (SharedProxyHandler ne js now (Some f) r st)) = [] \<and>
           po_Error (fst (SharedProxyHandler ne js now (Some f) r st)) = None
         else charges_only cid st (SharedProxyHandler ne js now (Some f) r st)"
proof -
  have "po_Updates (handleConnect ne cid r st) = []"
    by (simp add: handleConnect_def Let_def split: option.split)
  moreover have "charges_only cid st (proxyHandler ne js now cid r st)"
    by (auto simp: proxyHandler_def Let_def forward_charges refuse_charges charges_only_same)
  moreover have "po_Error (answer x) = None" for x by (simp add: answer_def)
  ultimately show ?thesis
    using assms by (auto simp: SharedProxyHandler_def Let_def charges_only_same)
qed

subsection \<open>The request of a container\<close>

lemma persist_one:
  "persist_spending [] w = w"
  "persist_spending [(c, v)] w = w\<lparr>w_store := snd (SetUsage c LimitSpending v (w_store w))\<rparr>"
  by (simp_all add: persist_spending_def on_store_is_store)

lemma SetUsage_read:
  "db_ok s \<Longrightarrow> in64 v \<Longrightarrow> GetUsage (snd (SetUsage c lt v s)) c lt = Inr v"
  by (simp add: SetUsage_def exec_def db_ok_def store_reads)


text \<open>A container of the demonstration server asks a model for an answer of 7.5 milli-cents.\<close>

definition paid_server :: "(mock_docker, mock_cgroup) server" where
  "paid_server = demo_server\<lparr>w_proxy := Some demo_tracker\<rparr>"

lemma paid_outcome:
  "po_Updates (fst (SharedProxyHandler demo_net ProxyProps.demo_json now (Some (resolveContainerByIP paid_server)) demo_request demo_tracker)) =
     [(''0123456789ab'', 7)]"
proof -
  have norm: "normalizeModelName ''gpt-4o-2024-08-06'' = ''gpt-4o''" by code_simp
  have pr: "p_prices demo_tracker = map_of defaultPrices" "p_apiKeys demo_tracker = [''api.openai.com'' \<mapsto> ''key'']"
    "mget0 (p_spending demo_tracker) ''0123456789ab'' = 0" "mget0 (p_budgets demo_tracker) ''0123456789ab'' = 0"
    "p_scopeBlocked demo_tracker = Map.empty" "p_containerScopes demo_tracker = Map.empty"
    by (simp_all add: demo_tracker_def SetAPIKey_def UpdateBudget_def SetSpending_def NewSpendingTracker_def mget0_def)
  have cid: "resolveContainerByIP paid_server (remote_host demo_request) = ''0123456789ab''"
    by (simp add: resolveContainerByIP_def paid_server_def remote_host_def demo_request_def mgets_def split_host_port_def
        last_colon_def)
  have open_gate: "proxyHandler demo_net ProxyProps.demo_json now ''0123456789ab'' demo_request demo_tracker =
      forward demo_net ProxyProps.demo_json now ''0123456789ab'' demo_request demo_tracker"
    using tracked_not_disabled [OF demo_host] by (simp add: proxyHandler_def Let_def pr isScopeSpendingBlocked_iff mgetb_def mgets_def)
  have "po_Updates (fst (forward demo_net ProxyProps.demo_json now ''0123456789ab'' demo_request demo_tracker)) = [(''0123456789ab'', 7)]"
    using demo_host(1)
    by (simp add: forward_def Let_def demo_net_def trackSpendingWithActivity_def ProxyProps.demo_json_def norm pr defaultPrices_def
        CalculateSpendingMicroCents_def price_def wrap64_def case_prod_unfold add_micro_eq go_div_def)
  then show ?thesis using cid open_gate by (simp add: SharedProxyHandler_def Let_def demo_request_def)
qed


end
