(* ===== verification/Cli.thy ===== *)
theory Cli
  imports ApiServer
begin

text \<open>
  The command line \<^verbatim>\<open>ddl\<close> (\<^verbatim>\<open>cmd/ddl/format.go\<close>, \<^verbatim>\<open>main.go\<close>, \<^verbatim>\<open>segments.go\<close>) and what \<^verbatim>\<open>cmd/ddl-guest\<close>
  prints. A command is an interaction: a request to the daemon and what is done with the
  outcome, up to the output or an error. The tab stops that \<^verbatim>\<open>tabwriter\<close> turns into spaces, flag
  parsing and the choice of the transport are not modelled.
\<close>

subsection \<open>Values as text\<close>

definition num_error :: "string \<Rightarrow> string \<Rightarrow> num_err \<Rightarrow> err" where
  "num_error f s e =
     ''strconv.'' @ f @ '': parsing '' @ go_quote s @
     (case e of ErrSyntax \<Rightarrow> '': invalid syntax'' | ErrRange \<Rightarrow> '': value out of range'')"

definition go_ParseInt :: "string \<Rightarrow> err + int" where
  "go_ParseInt s = (case parse_int s of Inl e \<Rightarrow> Inl (num_error ''ParseInt'' s e) | Inr n \<Rightarrow> Inr n)"

definition scaled_int :: "int \<Rightarrow> string \<Rightarrow> err + int" where
  "scaled_int k s = (case go_ParseInt s of Inl e \<Rightarrow> Inl e | Inr n \<Rightarrow> Inr (wrap64 (n * k)))"

definition parseDuration :: "string \<Rightarrow> err + int" where
  "parseDuration s =
     (if s = '''' then Inl ''empty value''
      else if last s = CHR ''s'' then scaled_int 1 (butlast s)
      else if last s = CHR ''m'' then scaled_int 60 (butlast s)
      else if last s = CHR ''h'' then scaled_int 3600 (butlast s)
      else go_ParseInt s)"

definition byte_multiplier :: "char \<Rightarrow> int option" where
  "byte_multiplier c =
     (let l = to_lower_char c in
      if l = CHR ''k'' then Some 1024
      else if l = CHR ''m'' then Some (1024 * 1024)
      else if l = CHR ''g'' then Some (1024 * 1024 * 1024)
      else if l = CHR ''t'' then Some (1024 * 1024 * 1024 * 1024)
      else None)"

definition parseBytes :: "string \<Rightarrow> err + int" where
  "parseBytes s =
     (if s = '''' then Inl ''empty value''
      else
        let (numStr, multiplier) =
              (case byte_multiplier (last s) of None \<Rightarrow> (s, 1) | Some k \<Rightarrow> (butlast s, k))
        in case parse_int numStr of
             Inr n \<Rightarrow> Inr (wrap64 (n * multiplier))
           | Inl _ \<Rightarrow>
               (case ParseFloat numStr of
                  Inl e \<Rightarrow> Inl (num_error ''ParseFloat'' numStr e)
                | Inr f \<Rightarrow> Inr (fl_to_int64 (fl_mul f (fl_of_int multiplier)))))"

definition parseMilliCents :: "string \<Rightarrow> err + int" where
  "parseMilliCents s =
     (case ParseFloat s of
        Inl e \<Rightarrow> Inl (num_error ''ParseFloat'' s e)
      | Inr f \<Rightarrow> Inr (fl_to_int64 (fl_mul f (fl_of_int 100000))))"

definition byte_types :: "limit_type list" where
  "byte_types = [LimitRAM, LimitDisk, LimitNetwork, LimitDiskIOByte]"

definition byte_second_types :: "limit_type list" where
  "byte_second_types = [LimitRAMUsageBSec, LimitDiskUsageBSec, LimitRAMRequestBSec, LimitDiskRequestBSec]"

definition parseValue :: "limit_type \<Rightarrow> string \<Rightarrow> err + int" where
  "parseValue lt s0 =
     (let s = trim_space s0 in
      if lt = LimitCPU then parseDuration s
      else if lt \<in> set byte_types \<or> lt \<in> set byte_second_types then parseBytes s
      else if lt = LimitDiskIOOps then go_ParseInt s
      else if lt = LimitSpending then parseMilliCents s
      else go_ParseInt s)"

text \<open>A number of bytes in the largest unit it fills, with the text that follows the unit.\<close>

definition in_unit :: "string \<Rightarrow> string \<Rightarrow> int \<Rightarrow> int \<Rightarrow> string" where
  "in_unit u unit_end k b = show_fixed 1 (fl_div_int (fl_of_int b) k) @ u @ unit_end"

definition human_bytes :: "string \<Rightarrow> int \<Rightarrow> string" where
  "human_bytes unit_end b =
     (if b \<ge> 2 ^ 40 then in_unit ''T'' unit_end (2 ^ 40) b
      else if b \<ge> 2 ^ 30 then in_unit ''G'' unit_end (2 ^ 30) b
      else if b \<ge> 2 ^ 20 then in_unit ''M'' unit_end (2 ^ 20) b
      else if b \<ge> 2 ^ 10 then in_unit ''K'' unit_end (2 ^ 10) b
      else show_int b @ ''B'' @ unit_end)"

definition formatBytesHuman :: "int \<Rightarrow> string" where
  "formatBytesHuman = human_bytes ''''"

definition formatByteSeconds :: "int \<Rightarrow> string" where
  "formatByteSeconds = human_bytes [CHR 0xC2, CHR 0xB7, CHR ''s'']"

definition format_seconds :: "int \<Rightarrow> string" where
  "format_seconds v =
     (if v \<ge> 3600 then show_int (v div 3600) @ ''h'' @ show_int (v mod 3600 div 60) @ ''m'' @ show_int (v mod 60) @ ''s''
      else if v \<ge> 60 then show_int (v div 60) @ ''m'' @ show_int (v mod 60) @ ''s''
      else show_int v @ ''s'')"

definition dollars :: "int \<Rightarrow> int \<Rightarrow> string" where
  "dollars per v = CHR 0x24 # show_fixed 2 (fl_div_int (fl_of_int v) per)"

definition formatValue :: "limit_type \<Rightarrow> int \<Rightarrow> string" where
  "formatValue lt v =
     (if v = 0 then ''-''
      else if lt = LimitCPU then format_seconds v
      else if lt \<in> set byte_types then formatBytesHuman v
      else if lt \<in> set byte_second_types then formatByteSeconds v
      else if lt = LimitSpending then dollars 100000 v
      else show_int v)"

text \<open>The same function of \<^verbatim>\<open>cmd/ddl-guest\<close>: it has no byte-seconds and takes spending for cents.\<close>

definition guest_formatValue :: "limit_type \<Rightarrow> int \<Rightarrow> string" where
  "guest_formatValue lt v =
     (if v = 0 then ''-''
      else if lt = LimitCPU then format_seconds v
      else if lt \<in> set byte_types then formatBytesHuman v
      else if lt = LimitSpending then dollars 100 v
      else show_int v)"

text \<open>Tab stops and line ends of the printed tables.\<close>

definition tab :: string where "tab = [CHR 0x09]"
definition nl :: string where "nl = [CHR 0x0A]"

end
