(* ===== verification/CliCommands.thy ===== *)
theory CliCommands
  imports Cli
begin

text \<open>
  The commands of \<^verbatim>\<open>ddl\<close> (\<^verbatim>\<open>cmd/ddl/main.go\<close>, \<^verbatim>\<open>segments.go\<close>, \<^verbatim>\<open>scope.go\<close>, \<^verbatim>\<open>config.go\<close>) as
  interactions with the daemon: a request, and what follows its outcome. Names that go into a
  URL are taken as they are.
\<close>

subsection \<open>Interactions\<close>

record cli_request =
  cr_Method :: string
  cr_URL :: string
  cr_Body :: "jval option"

text \<open>Printed text, a value printed as JSON, or the JSON of the usage of a container.\<close>

datatype cli_out =
    Print string
  | PrintJSON jval
  | PrintUsage "(string \<times> jval) list" "(string \<times> jval) list option" "(string \<times> gofloat option \<times> bool) list"

datatype cli =
    Done "err + cli_out list"
  | Crashed
  | Ask cli_request "err + api_reply \<Rightarrow> cli"

primrec run_cli :: "(cli_request \<Rightarrow> 's \<Rightarrow> (err + api_reply) \<times> 's) \<Rightarrow> cli \<Rightarrow> 's \<Rightarrow> (err + cli_out list) option \<times> 's" where
  "run_cli send (Done r) s = (Some r, s)"
| "run_cli send Crashed s = (None, s)"
| "run_cli send (Ask req k) s = (case send req s of (rep, s1) \<Rightarrow> run_cli send (k rep) s1)"

text \<open>
  \<open>cx_json\<close> is the flag \<^verbatim>\<open>--json\<close>, \<open>cx_scope\<close> the segment in force, \<open>cx_text\<close> the body of a reply as
  text and \<open>cx_decode_err\<close> the error of decoding it.
\<close>

record cli_env =
  cx_json :: bool
  cx_scope :: string
  cx_text :: "api_reply \<Rightarrow> string"
  cx_decode_err :: "api_reply \<Rightarrow> err"

definition fail :: "err \<Rightarrow> cli" where
  "fail e = Done (Inl e)"

definition say :: "string \<Rightarrow> cli" where
  "say s = Done (Inr [Print (s @ [CHR 0x0A])])"

definition printJSON :: "jval \<Rightarrow> cli" where
  "printJSON v = Done (Inr [PrintJSON v])"

definition wrapConnErr :: "err \<Rightarrow> err" where
  "wrapConnErr e =
     ''connect to ddld: '' @ e @
     (if contains e ''connection refused'' \<or> contains e ''connection reset''
      then CHR 0x0A # ''Hint: run '' @ go_quote ''ddl daemon start'' @ '' to start the daemon''
      else '''')"

text \<open>The error text of a reply, if its body is a map whose values are all strings (or null).\<close>

definition error_text :: "api_reply \<Rightarrow> string option" where
  "error_text rep =
     (case rep of
        Json _ (JMap kvs) \<Rightarrow>
          if list_all (\<lambda>(k, v). case v of JText _ \<Rightarrow> True | JNil \<Rightarrow> True | _ \<Rightarrow> False) kvs
          then map_option (\<lambda>v. case v of JText s \<Rightarrow> s | _ \<Rightarrow> '''') (map_of kvs ''error'')
          else None
      | _ \<Rightarrow> None)"

definition readAPIError :: "cli_env \<Rightarrow> api_reply \<Rightarrow> err" where
  "readAPIError cx rep =
     (case error_text rep of
        Some msg \<Rightarrow> ''API error: '' @ msg
      | None \<Rightarrow> ''API error ('' @ show_int (status_of rep) @ ''): '' @ cx_text cx rep)"

definition decode_map :: "cli_env \<Rightarrow> api_reply \<Rightarrow> err + (string \<times> jval) list" where
  "decode_map cx rep =
     (case rep of
        Json _ (JMap kvs) \<Rightarrow> Inr kvs
      | Json _ JNil \<Rightarrow> Inr []
      | _ \<Rightarrow> Inl (cx_decode_err cx rep))"

definition reply_map :: "cli_env \<Rightarrow> err + api_reply \<Rightarrow> err + (string \<times> jval) list" where
  "reply_map cx r =
     (case r of
        Inl e \<Rightarrow> Inl (wrapConnErr e)
      | Inr rep \<Rightarrow> if status_of rep \<noteq> 200 then Inl (readAPIError cx rep) else decode_map cx rep)"

definition apiGet :: "cli_env \<Rightarrow> string \<Rightarrow> (err + (string \<times> jval) list \<Rightarrow> cli) \<Rightarrow> cli" where
  "apiGet cx path k = Ask \<lparr>cr_Method = ''GET'', cr_URL = path, cr_Body = None\<rparr> (\<lambda>r. k (reply_map cx r))"

definition apiPostPath :: "cli_env \<Rightarrow> string \<Rightarrow> jval \<Rightarrow> (err + (string \<times> jval) list \<Rightarrow> cli) \<Rightarrow> cli" where
  "apiPostPath cx path body k =
     Ask \<lparr>cr_Method = ''POST'', cr_URL = path, cr_Body = Some body\<rparr> (\<lambda>r. k (reply_map cx r))"

definition apiPost :: "cli_env \<Rightarrow> string \<Rightarrow> jval \<Rightarrow> (err + (string \<times> jval) list \<Rightarrow> cli) \<Rightarrow> cli" where
  "apiPost = apiPostPath"

text \<open>A request of its own, which must be answered with a given status; errors of decoding are ignored.\<close>

definition ask_for :: "cli_env \<Rightarrow> int \<Rightarrow> cli_request \<Rightarrow> ((string \<times> jval) list \<Rightarrow> cli) \<Rightarrow> cli" where
  "ask_for cx code req k =
     Ask req (\<lambda>r. case r of
                    Inl e \<Rightarrow> fail (wrapConnErr e)
                  | Inr rep \<Rightarrow>
                      if status_of rep \<noteq> code then fail (readAPIError cx rep)
                      else k (case decode_map cx rep of Inl _ \<Rightarrow> [] | Inr m \<Rightarrow> m))"

text \<open>On success the reply as JSON, or else what is printed of it. A null body is shown as an empty map.\<close>

definition shown :: "cli_env \<Rightarrow> ((string \<times> jval) list \<Rightarrow> cli) \<Rightarrow> err + (string \<times> jval) list \<Rightarrow> cli" where
  "shown cx k r =
     (case r of Inl e \<Rightarrow> fail e | Inr m \<Rightarrow> if cx_json cx then printJSON (JMap m) else k m)"

subsection \<open>Reading a reply\<close>

definition getJSONFloat :: "(string \<times> jval) list \<Rightarrow> string \<Rightarrow> gofloat" where
  "getJSONFloat m key = (case map_of m key of Some (JInt n) \<Rightarrow> fl_of_int n | _ \<Rightarrow> fl_of_int 0)"

definition sub_map :: "(string \<times> jval) list \<Rightarrow> string \<Rightarrow> (string \<times> jval) list" where
  "sub_map m key = (case map_of m key of Some (JMap kvs) \<Rightarrow> kvs | _ \<Rightarrow> [])"

definition text_at :: "(string \<times> jval) list \<Rightarrow> string \<Rightarrow> string option" where
  "text_at m key = (case map_of m key of Some (JText s) \<Rightarrow> Some s | _ \<Rightarrow> None)"

text \<open>The verb \<^verbatim>\<open>%s\<close> of a decoded value that is a string; anything else is the formatter's business.\<close>

definition verb_s :: "(string \<times> jval) list \<Rightarrow> string \<Rightarrow> string" where
  "verb_s m key =
     (case map_of m key of
        Some (JText s) \<Rightarrow> s
      | _ \<Rightarrow> ''%!s(<nil>)'')"

subsection \<open>Tables\<close>

definition all_types :: "limit_type list" where
  "all_types = [LimitCPU, LimitRAM, LimitNetwork, LimitDisk, LimitDiskIOByte, LimitDiskIOOps, LimitSpending,
     LimitRAMUsageBSec, LimitDiskUsageBSec, LimitRAMRequestBSec, LimitDiskRequestBSec]"

fun fl_pos :: "gofloat \<Rightarrow> bool" where
  "fl_pos (Fin a x) \<longleftrightarrow> 0 < a"
| "fl_pos (Infinite s) \<longleftrightarrow> \<not> s"
| "fl_pos NaN \<longleftrightarrow> False"

fun fl_le :: "gofloat \<Rightarrow> gofloat \<Rightarrow> bool" where
  "fl_le (Fin a x) (Fin b y) \<longleftrightarrow> (let e = min x y in a * 2 ^ nat (x - e) \<le> b * 2 ^ nat (y - e))"
| "fl_le (Infinite s) (Fin b y) \<longleftrightarrow> s"
| "fl_le (Fin a x) (Infinite s) \<longleftrightarrow> \<not> s"
| "fl_le (Infinite s) (Infinite u) \<longleftrightarrow> s \<or> \<not> u"
| "fl_le NaN y \<longleftrightarrow> False"
| "fl_le x NaN \<longleftrightarrow> False"

text \<open>Division of a finite number by a positive one.\<close>

fun fl_div :: "gofloat \<Rightarrow> gofloat \<Rightarrow> gofloat" where
  "fl_div (Fin a x) (Fin b y) =
     (if y \<le> x then fl_of_ratio (a * 2 ^ nat (x - y)) b else fl_of_ratio a (b * 2 ^ nat (y - x)))"
| "fl_div u v = NaN"

definition percentage :: "gofloat \<Rightarrow> gofloat \<Rightarrow> gofloat" where
  "percentage u l = fl_mul (fl_div u l) (fl_of_int 100)"

definition usage_status :: "gofloat \<Rightarrow> gofloat \<Rightarrow> string" where
  "usage_status u l =
     (if fl_pos l then show_fixed 1 (percentage u l) @ ''%'' @ (if fl_le l u then '' ENFORCED'' else '''')
      else ''-'')"

definition usage_row :: "(string \<times> jval) list \<Rightarrow> (string \<times> jval) list \<Rightarrow> limit_type \<Rightarrow> string" where
  "usage_row usage limits t =
     (let u = getJSONFloat usage t; l = getJSONFloat limits t in
      t @ tab @ formatValue t (fl_to_int64 u) @ tab @ formatValue t (fl_to_int64 l) @ tab @ usage_status u l @ nl)"

definition usage_table :: "string \<Rightarrow> (string \<times> jval) list \<Rightarrow> (string \<times> jval) list \<Rightarrow> string" where
  "usage_table head usage limits =
     ''TYPE'' @ tab @ ''USAGE'' @ tab @ head @ tab @ ''STATUS'' @ nl @ concat (map (usage_row usage limits) all_types)"

definition to_upper :: "string \<Rightarrow> string" where
  "to_upper s = map (\<lambda>c. if (97 :: nat) \<le> of_char c \<and> of_char c \<le> (122 :: nat) then char_of (of_char c - 32 :: nat) else c) s"

definition printLimitsOrUsage :: "(string \<times> jval) list \<Rightarrow> string \<Rightarrow> cli" where
  "printLimitsOrUsage m label =
     Done (Inr [Print (''TYPE'' @ tab @ to_upper label @ nl @
       concat (map (\<lambda>t. t @ tab @ formatValue t (fl_to_int64 (getJSONFloat m t)) @ nl) all_types))])"

subsection \<open>Limits\<close>

definition limit_body :: "limit_type \<Rightarrow> int \<Rightarrow> string \<Rightarrow> jval" where
  "limit_body lt value operation =
     JMap [(''type'', JText lt), (''value'', JInt value), (''operation'', JText operation)]"

text \<open>The three operations of the callers; the functions would show any other one differently.\<close>

definition limit_verb :: "string \<Rightarrow> string" where
  "limit_verb operation =
     (if operation = ''increase'' then ''increased'' else if operation = ''decrease'' then ''decreased'' else operation)"

definition put_limit :: "cli_env \<Rightarrow> string \<Rightarrow> string \<Rightarrow> limit_type \<Rightarrow> string \<Rightarrow> string \<Rightarrow> cli" where
  "put_limit cx url subject lt valueStr operation =
     (case parseValue lt valueStr of
        Inl e \<Rightarrow> fail (''invalid value '' @ go_quote valueStr @ '' for '' @ lt @ '': '' @ e)
      | Inr value \<Rightarrow>
          ask_for cx 200 \<lparr>cr_Method = ''PUT'', cr_URL = url, cr_Body = Some (limit_body lt value operation)\<rparr>
            (\<lambda>result.
               if cx_json cx then printJSON (JMap result)
               else case map_of result ''value'' of
                      Some (JInt n) \<Rightarrow>
                        say (subject @ '' '' @ lt @ '' limit '' @ limit_verb operation @ '' to '' @
                             formatValue lt (fl_to_int64 (fl_of_int n)))
                    | _ \<Rightarrow> Crashed))"

definition setLimit :: "cli_env \<Rightarrow> string \<Rightarrow> limit_type \<Rightarrow> string \<Rightarrow> string \<Rightarrow> cli" where
  "setLimit cx c = put_limit cx (''/containers/'' @ c @ ''/limits'') c"

definition setGlobalLimit :: "cli_env \<Rightarrow> limit_type \<Rightarrow> string \<Rightarrow> string \<Rightarrow> cli" where
  "setGlobalLimit cx = put_limit cx ''/global-limits'' ''host''"

definition setSegmentLimit :: "cli_env \<Rightarrow> string \<Rightarrow> limit_type \<Rightarrow> string \<Rightarrow> string \<Rightarrow> cli" where
  "setSegmentLimit cx seg = put_limit cx (''/segments/'' @ seg @ ''/limits'') (''segment '' @ seg)"

definition setScopeLimit :: "cli_env \<Rightarrow> limit_type \<Rightarrow> string \<Rightarrow> string \<Rightarrow> cli" where
  "setScopeLimit cx lt valueStr operation =
     (if cx_scope cx \<noteq> '''' then setSegmentLimit cx (cx_scope cx) lt valueStr operation
      else setGlobalLimit cx lt valueStr operation)"

text \<open>
  The subcommands of \<^verbatim>\<open>ddl limits\<close>: set, increase and decrease (an operation with a type and a
  value) and get, on a container, the host, a segment and the scope of the command line.
\<close>

datatype limits_op = PutLimit string limit_type string | GetLimits

definition get_limits :: "cli_env \<Rightarrow> string \<Rightarrow> string \<Rightarrow> cli" where
  "get_limits cx path label = apiGet cx path (shown cx (\<lambda>m. printLimitsOrUsage m label))"

definition limits_container :: "cli_env \<Rightarrow> string \<Rightarrow> limits_op \<Rightarrow> cli" where
  "limits_container cx c cmd =
     (case cmd of
        PutLimit operation lt v \<Rightarrow> setLimit cx c lt v operation
      | GetLimits \<Rightarrow> get_limits cx (''/containers/'' @ c @ ''/limits'') ''Limit'')"

definition limits_host :: "cli_env \<Rightarrow> limits_op \<Rightarrow> cli" where
  "limits_host cx cmd =
     (case cmd of
        PutLimit operation lt v \<Rightarrow> setGlobalLimit cx lt v operation
      | GetLimits \<Rightarrow> get_limits cx ''/host-limits'' ''Host Limit'')"

definition limits_segment :: "cli_env \<Rightarrow> string \<Rightarrow> limits_op \<Rightarrow> cli" where
  "limits_segment cx seg cmd =
     (case cmd of
        PutLimit operation lt v \<Rightarrow> setSegmentLimit cx seg lt v operation
      | GetLimits \<Rightarrow> get_limits cx (''/segments/'' @ seg @ ''/limits'') ''Segment Limit'')"

definition limits_all :: "cli_env \<Rightarrow> limits_op \<Rightarrow> cli" where
  "limits_all cx cmd =
     (case cmd of
        PutLimit operation lt v \<Rightarrow> setScopeLimit cx lt v operation
      | GetLimits \<Rightarrow>
          if cx_scope cx \<noteq> '''' then get_limits cx (''/segments/'' @ cx_scope cx @ ''/limits'') ''Segment Limit''
          else get_limits cx ''/host-limits'' ''Host Limit'')"

subsection \<open>Usage\<close>

definition status_entry :: "(string \<times> jval) list \<Rightarrow> (string \<times> jval) list \<Rightarrow> limit_type \<Rightarrow> string \<times> gofloat option \<times> bool" where
  "status_entry usage limits t =
     (let u = getJSONFloat usage t; l = getJSONFloat limits t in
      if fl_pos l then (t, Some (percentage u l), fl_le l u) else (t, None, False))"

definition usageCmd :: "cli_env \<Rightarrow> string \<Rightarrow> cli" where
  "usageCmd cx c =
     apiGet cx (''/containers/'' @ c @ ''/usage'') (\<lambda>ru.
       case ru of
         Inl e \<Rightarrow> fail e
       | Inr usage \<Rightarrow>
           apiGet cx (''/containers/'' @ c @ ''/limits'') (\<lambda>rl.
             let limits = (case rl of Inl _ \<Rightarrow> [] | Inr m \<Rightarrow> m) in
             if cx_json cx
             then Done (Inr [PrintUsage usage (case rl of Inl _ \<Rightarrow> None | Inr m \<Rightarrow> Some m)
                               (map (status_entry usage limits) all_types)])
             else Done (Inr [Print (usage_table ''LIMIT'' usage limits)])))"

text \<open>The reply on the containers, decoded into a struct: a missing or null field is a nil map or slice.\<close>

record containersResponse =
  cs_Containers :: "(string \<times> jval) list list option"
  cs_HostLimits :: "(string \<times> jval) list option"
  cs_HostUsage :: "(string \<times> jval) list option"
  cs_HostEnforced :: "(string \<times> jval) list option"
  cs_GlobalLimits :: "(string \<times> jval) list option"
  cs_GlobalUsage :: "(string \<times> jval) list option"
  cs_GlobalEnforced :: "(string \<times> jval) list option"

fun all_some :: "'a option list \<Rightarrow> 'a list option" where
  "all_some [] = Some []"
| "all_some (x # xs) = (case x of None \<Rightarrow> None | Some y \<Rightarrow> map_option (Cons y) (all_some xs))"

definition as_map :: "jval option \<Rightarrow> (string \<times> jval) list option option" where
  "as_map v =
     (case v of
        None \<Rightarrow> Some None
      | Some JNil \<Rightarrow> Some None
      | Some (JMap kvs) \<Rightarrow> Some (Some kvs)
      | Some _ \<Rightarrow> None)"

definition as_map_list :: "jval option \<Rightarrow> (string \<times> jval) list list option option" where
  "as_map_list v =
     (case v of
        None \<Rightarrow> Some None
      | Some JNil \<Rightarrow> Some None
      | Some (JList vs) \<Rightarrow>
          map_option Some (all_some (map (\<lambda>x. case x of JMap kvs \<Rightarrow> Some kvs | JNil \<Rightarrow> Some [] | _ \<Rightarrow> None) vs))
      | Some _ \<Rightarrow> None)"

definition decode_containers :: "(string \<times> jval) list \<Rightarrow> containersResponse option" where
  "decode_containers m =
     (case (as_map_list (map_of m ''containers''),
            all_some (map (\<lambda>k. as_map (map_of m k))
              [''host_limits'', ''host_usage'', ''host_enforced'', ''global_limits'', ''global_usage'', ''global_enforced''])) of
        (Some cs, Some [hl, hu, he, gl, gu, ge]) \<Rightarrow>
          Some \<lparr>cs_Containers = cs, cs_HostLimits = hl, cs_HostUsage = hu, cs_HostEnforced = he,
                cs_GlobalLimits = gl, cs_GlobalUsage = gu, cs_GlobalEnforced = ge\<rparr>
      | _ \<Rightarrow> None)"

definition fetchContainersResponse :: "cli_env \<Rightarrow> (err + containersResponse \<Rightarrow> cli) \<Rightarrow> cli" where
  "fetchContainersResponse cx k =
     apiGet cx (if cx_scope cx \<noteq> '''' then ''/segments/'' @ cx_scope cx @ ''/containers'' else ''/containers'')
       (\<lambda>r. k (case r of
                 Inl e \<Rightarrow> Inl e
               | Inr m \<Rightarrow>
                   (case decode_containers m of
                      None \<Rightarrow> Inl (cx_decode_err cx (Json 200 (JMap m))) | Some res \<Rightarrow> Inr res)))"

definition fetchContainers :: "cli_env \<Rightarrow> (err + (string \<times> jval) list list option \<Rightarrow> cli) \<Rightarrow> cli" where
  "fetchContainers cx k =
     fetchContainersResponse cx (\<lambda>r. k (case r of Inl e \<Rightarrow> Inl e | Inr res \<Rightarrow> Inr (cs_Containers res)))"

text \<open>What \<^verbatim>\<open>ls\<close> and \<^verbatim>\<open>usage-all\<close> do with the containers before they print them.\<close>

definition listing :: "cli_env \<Rightarrow> ((string \<times> jval) list list \<Rightarrow> cli) \<Rightarrow> cli" where
  "listing cx k =
     fetchContainers cx (\<lambda>r.
       case r of
         Inl e \<Rightarrow> fail e
       | Inr cs \<Rightarrow>
           if cx_json cx then printJSON (case cs of None \<Rightarrow> JNil | Some xs \<Rightarrow> JList (map JMap xs))
           else k (case cs of None \<Rightarrow> [] | Some xs \<Rightarrow> xs))"

text \<open>The name and the ID of a listed container; \<open>None\<close> is a failed type assertion.\<close>

definition listed_container :: "(string \<times> jval) list \<Rightarrow> (string \<times> string) option" where
  "listed_container c =
     (case map_of c ''container'' of
        Some (JMap ctr) \<Rightarrow>
          (case (text_at ctr ''id'', text_at ctr ''name'') of
             (Some i, Some n) \<Rightarrow> Some (i, n) | _ \<Rightarrow> None)
      | _ \<Rightarrow> None)"

definition ls_row :: "(string \<times> jval) list \<Rightarrow> string option" where
  "ls_row c =
     (case (listed_container c, map_of c ''limits'', map_of c ''enforced'') of
        (Some (i, n), Some (JMap limits), Some (JMap enforced)) \<Rightarrow>
          if list_all (\<lambda>(k, v). case v of JFlag _ \<Rightarrow> True | _ \<Rightarrow> False) enforced
          then Some (i @ tab @ n @ tab @ show_nat (length limits) @ tab @
                     show_nat (length (filter (\<lambda>(k, v). v = JFlag True) enforced)) @ nl)
          else None
      | _ \<Rightarrow> None)"

text \<open>A failed type assertion ends the command; what it printed before is not kept.\<close>

definition print_all :: "string \<Rightarrow> string option list \<Rightarrow> cli" where
  "print_all head rows = (case all_some rows of None \<Rightarrow> Crashed | Some rs \<Rightarrow> Done (Inr [Print (head @ concat rs)]))"

definition lsCmd :: "cli_env \<Rightarrow> cli" where
  "lsCmd cx =
     listing cx (\<lambda>cs.
       print_all (''ID'' @ tab @ ''NAME'' @ tab @ ''LIMITS'' @ tab @ ''ENFORCED'' @ nl) (map ls_row cs))"

definition usage_section :: "nat \<Rightarrow> (string \<times> jval) list \<Rightarrow> string option" where
  "usage_section i c =
     map_option (\<lambda>(cid, name).
         (if 0 < i then nl else []) @ ''=== '' @ name @ '' ('' @ cid @ '') ==='' @ nl @
         usage_table ''LIMIT'' (sub_map c ''usage'') (sub_map c ''limits''))
       (listed_container c)"

definition usageAllCmd :: "cli_env \<Rightarrow> cli" where
  "usageAllCmd cx =
     listing cx (\<lambda>cs. print_all [] (map (\<lambda>(i, c). usage_section i c) (enumerate 0 cs)))"

definition map_json :: "(string \<times> jval) list option \<Rightarrow> jval" where
  "map_json v = (case v of None \<Rightarrow> JNil | Some kvs \<Rightarrow> JMap kvs)"

definition usageHostRunE :: "cli_env \<Rightarrow> cli" where
  "usageHostRunE cx =
     fetchContainersResponse cx (\<lambda>r.
       case r of
         Inl e \<Rightarrow> fail e
       | Inr result \<Rightarrow>
           if cx_json cx
           then printJSON (JMap [(''host_limits'', map_json (cs_HostLimits result)),
                  (''host_usage'', map_json (cs_HostUsage result)),
                  (''host_enforced'', map_json (cs_HostEnforced result)),
                  (''global_limits'', map_json (cs_GlobalLimits result)),
                  (''global_usage'', map_json (cs_GlobalUsage result)),
                  (''global_enforced'', map_json (cs_GlobalEnforced result))])
           else
             let m = (\<lambda>v. case v of None \<Rightarrow> [] | Some kvs \<Rightarrow> kvs)
             in Done (Inr [Print (usage_table ''HOST LIMIT'' (m (cs_HostUsage result)) (m (cs_HostLimits result)))]))"

definition usageSegmentCmd :: "cli_env \<Rightarrow> string \<Rightarrow> cli" where
  "usageSegmentCmd cx seg =
     apiGet cx (''/segments/'' @ seg @ ''/usage'') (shown cx (\<lambda>m.
       Done (Inr [Print (usage_table ''SEGMENT LIMIT'' (sub_map m ''usage'') (sub_map m ''limits''))])))"

subsection \<open>Containers\<close>

definition named :: "string \<Rightarrow> (string \<times> jval) list \<Rightarrow> cli" where
  "named what m =
     Done (Inr (Print (what @ '' container: '' @ verb_s m ''id'' @ nl) #
                (if map_of m ''name'' = None then [] else [Print (''Name: '' @ verb_s m ''name'' @ nl)])))"

definition registerCmd :: "cli_env \<Rightarrow> string \<Rightarrow> cli" where
  "registerCmd cx c = apiPost cx ''/register'' (JMap [(''container_id'', JText c)]) (shown cx (named ''Registered''))"

definition cloneCmd :: "cli_env \<Rightarrow> string \<Rightarrow> string option \<Rightarrow> cli" where
  "cloneCmd cx c newName =
     apiPostPath cx (''/containers/'' @ c @ ''/clone'')
       (JMap (case newName of None \<Rightarrow> [] | Some n \<Rightarrow> [(''name'', JText n)])) (shown cx (named ''Cloned''))"

definition removeCmd :: "cli_env \<Rightarrow> string \<Rightarrow> cli" where
  "removeCmd cx c =
     ask_for cx 200 \<lparr>cr_Method = ''DELETE'', cr_URL = ''/containers/'' @ c, cr_Body = None\<rparr>
       (\<lambda>_. if cx_json cx then printJSON (JMap [(''status'', JText ''removed'')])
            else say ''Container removed from management'')"

definition freezeCmd :: "cli_env \<Rightarrow> string \<Rightarrow> cli" where
  "freezeCmd cx c =
     apiPost cx (''/containers/'' @ c @ ''/freeze'') JNil (shown cx (\<lambda>_. say (''Container '' @ c @ '' frozen'')))"

definition unfreezeCmd :: "cli_env \<Rightarrow> string \<Rightarrow> cli" where
  "unfreezeCmd cx c =
     apiPost cx (''/containers/'' @ c @ ''/unfreeze'') JNil (shown cx (\<lambda>m.
       Done (Inr (Print (''Container '' @ c @ '' unfrozen'' @ nl) #
         (if map_of m ''enforcement_active'' = Some (JFlag True)
          then [Print (''Warning: enforcement is still active '' @ [CHR 0xE2, CHR 0x80, CHR 0x94] @
                       '' container remains Docker-paused'' @ nl)] else [])))))"

text \<open>One line for every entry of the results that is an object; a result without results prints nothing.\<close>

definition result_name :: "(string \<times> jval) list \<Rightarrow> string" where
  "result_name m =
     (if map_of m ''name'' \<in> {None, Some JNil, Some (JText '''')} then verb_s m ''id'' else verb_s m ''name'')"

definition result_lines :: "((string \<times> jval) list \<Rightarrow> string) \<Rightarrow> (string \<times> jval) list \<Rightarrow> cli" where
  "result_lines status m =
     Done (Inr (case map_of m ''results'' of
        Some (JList rs) \<Rightarrow>
          List.map_filter (\<lambda>r. case r of JMap e \<Rightarrow> Some (Print (result_name e @ '': '' @ status e @ nl)) | _ \<Rightarrow> None) rs
      | _ \<Rightarrow> []))"

definition freezeAllCmd :: "cli_env \<Rightarrow> cli" where
  "freezeAllCmd cx =
     apiPost cx (if cx_scope cx \<noteq> '''' then ''/segments/'' @ cx_scope cx @ ''/freeze-all'' else ''/freeze-all'') JNil
       (shown cx (result_lines (\<lambda>e. verb_s e ''status'')))"

definition unfreezeAllCmd :: "cli_env \<Rightarrow> cli" where
  "unfreezeAllCmd cx =
     apiPost cx (if cx_scope cx \<noteq> '''' then ''/segments/'' @ cx_scope cx @ ''/unfreeze-all'' else ''/unfreeze-all'') JNil
       (shown cx (result_lines (\<lambda>e. verb_s e ''status'' @
          (if map_of e ''enforcement_active'' = Some (JFlag True) then '' (enforcement still active)'' else ''''))))"

text \<open>The verb \<^verbatim>\<open>%v\<close> of the count of a segment operation, a small number.\<close>

definition verb_count :: "(string \<times> jval) list \<Rightarrow> string" where
  "verb_count m = (case map_of m ''count'' of Some (JInt n) \<Rightarrow> show_int n | _ \<Rightarrow> ''<nil>'')"

definition freezeSegmentCmd :: "cli_env \<Rightarrow> string \<Rightarrow> cli" where
  "freezeSegmentCmd cx seg =
     apiPost cx (''/segments/'' @ seg @ ''/freeze-all'') JNil (shown cx (\<lambda>m.
       say (''frozen '' @ verb_count m @ '' containers in segment '' @ go_quote seg)))"

definition unfreezeSegmentCmd :: "cli_env \<Rightarrow> string \<Rightarrow> cli" where
  "unfreezeSegmentCmd cx seg =
     apiPost cx (''/segments/'' @ seg @ ''/unfreeze-all'') JNil (shown cx (\<lambda>m.
       say (''unfrozen '' @ verb_count m @ '' containers in segment '' @ go_quote seg)))"

subsection \<open>Segments\<close>

definition segmentCreateCmd :: "cli_env \<Rightarrow> string \<Rightarrow> string \<Rightarrow> cli" where
  "segmentCreateCmd cx seg name =
     ask_for cx 201 \<lparr>cr_Method = ''POST'', cr_URL = ''/segments'',
         cr_Body = Some (JMap [(''id'', JText seg), (''name'', JText (if name = '''' then seg else name))])\<rparr>
       (\<lambda>m. if cx_json cx then printJSON (JMap m) else say (''segment '' @ go_quote seg @ '' created''))"

text \<open>A creation time is printed in the form of the server's JSON, which is a parameter.\<close>

definition segmentListCmd :: "(int \<Rightarrow> string) \<Rightarrow> cli_env \<Rightarrow> cli" where
  "segmentListCmd rfc3339 cx =
     apiGet cx ''/segments'' (shown cx (\<lambda>m.
       case map_of m ''segments'' of
         Some (JList (s # ss)) \<Rightarrow>
           print_all (''ID'' @ tab @ ''NAME'' @ tab @ ''CREATED'' @ nl)
             (map (\<lambda>v. case v of
                         JMap seg \<Rightarrow> Some (verb_s seg ''id'' @ tab @ verb_s seg ''name'' @ tab @
                           (case map_of seg ''created_at'' of Some (JTime t) \<Rightarrow> rfc3339 t | _ \<Rightarrow> verb_s seg ''created_at'') @ nl)
                       | _ \<Rightarrow> None) (s # ss))
       | _ \<Rightarrow> say ''No segments.''))"

definition segmentDeleteCmd :: "cli_env \<Rightarrow> string \<Rightarrow> cli" where
  "segmentDeleteCmd cx seg =
     ask_for cx 200 \<lparr>cr_Method = ''DELETE'', cr_URL = ''/segments/'' @ seg, cr_Body = None\<rparr>
       (\<lambda>_. say (''segment '' @ go_quote seg @ '' deleted''))"

definition detail_lines :: "string \<Rightarrow> (string \<times> jval) list \<Rightarrow> string option" where
  "detail_lines title m =
     (if m = [] then Some []
      else map_option (\<lambda>rows. title @ '':'' @ nl @ concat rows)
        (all_some (map (\<lambda>(k, v). case v of
                          JInt n \<Rightarrow> Some (''  '' @ k @ '': '' @ formatValue k (fl_to_int64 (fl_of_int n)) @ nl)
                        | _ \<Rightarrow> None) m)))"

definition segmentShowCmd :: "cli_env \<Rightarrow> string \<Rightarrow> cli" where
  "segmentShowCmd cx seg =
     apiGet cx (''/segments/'' @ seg) (shown cx (\<lambda>m.
       case map_of m ''segment'' of
         Some (JMap sg) \<Rightarrow>
           print_all
             (''Segment: '' @ verb_s sg ''id'' @ '' ('' @ verb_s sg ''name'' @ '')'' @ nl @ ''Containers: '' @
              (case map_of m ''containers'' of Some (JInt n) \<Rightarrow> show_int n | _ \<Rightarrow> ''<nil>'') @ nl @ nl)
             [detail_lines ''Limits'' (sub_map m ''limits''), detail_lines ''Usage'' (sub_map m ''usage'')]
       | _ \<Rightarrow> Crashed))"

definition segmentAssignCmd :: "cli_env \<Rightarrow> string \<Rightarrow> string option \<Rightarrow> cli" where
  "segmentAssignCmd cx c segArg =
     (let seg = (case segArg of None \<Rightarrow> cx_scope cx | Some s \<Rightarrow> s) in
      if seg = '''' then fail (''segment required (provide as argument or set with '' @ [CHR 0x27] @ ''ddl scope set'' @ [CHR 0x27] @ '')'')
      else ask_for cx 200 \<lparr>cr_Method = ''POST'', cr_URL = ''/segments/'' @ seg @ ''/containers/'' @ c @ ''/assign'', cr_Body = None\<rparr>
             (\<lambda>_. say (''container '' @ c @ '' assigned to segment '' @ go_quote seg)))"

definition segmentUnassignCmd :: "cli_env \<Rightarrow> string \<Rightarrow> cli" where
  "segmentUnassignCmd cx c =
     apiGet cx (''/containers/'' @ c) (\<lambda>r.
       case r of
         Inl e \<Rightarrow> fail e
       | Inr m \<Rightarrow>
           (case map_of m ''container'' of
              Some (JMap ctr) \<Rightarrow>
                let seg = (case text_at ctr ''segment_id'' of None \<Rightarrow> '''' | Some s \<Rightarrow> s) in
                if seg = '''' then say (''container '' @ c @ '' is not in any segment'')
                else ask_for cx 200
                       \<lparr>cr_Method = ''POST'', cr_URL = ''/segments/'' @ seg @ ''/containers/'' @ c @ ''/unassign'', cr_Body = None\<rparr>
                       (\<lambda>_. say (''container '' @ c @ '' removed from segment '' @ go_quote seg))
            | _ \<Rightarrow> fail ''unexpected response''))"

subsection \<open>The scope of the command line\<close>

text \<open>The file that keeps the scope, \<^verbatim>\<open>readPersistedScope\<close> with its error as \<open>None\<close>.\<close>

definition readPersistedScope :: "string option \<Rightarrow> string option" where
  "readPersistedScope file = map_option trim_space file"

definition initScope :: "string \<Rightarrow> string \<Rightarrow> string option \<Rightarrow> string" where
  "initScope segFlag env file =
     (if segFlag \<noteq> '''' then segFlag
      else if env \<noteq> '''' then env
      else case readPersistedScope file of Some s \<Rightarrow> s | None \<Rightarrow> '''')"

definition scopeCmd :: "string \<Rightarrow> string \<Rightarrow> string option \<Rightarrow> string \<Rightarrow> string" where
  "scopeCmd scope env file path =
     (if scope \<noteq> '''' then ''scope: segment '' @ go_quote scope @ nl else ''scope: host (default)'' @ nl) @
     (if env \<noteq> '''' then ''  (from DDL_SEGMENT env)'' @ nl
      else if (case readPersistedScope file of Some s \<Rightarrow> s \<noteq> '''' | None \<Rightarrow> False) then ''  (from '' @ path @ '')'' @ nl
      else [])"

text \<open>\<open>io\<close> is the error of writing or removing the file, if any; a missing file is no error.\<close>

definition scopeClear :: "err option \<Rightarrow> string \<Rightarrow> string option \<Rightarrow> (err + string) \<times> string option" where
  "scopeClear io msg file =
     (case file of
        None \<Rightarrow> (Inr msg, None)
      | Some _ \<Rightarrow> (case io of Some e \<Rightarrow> (Inl e, file) | None \<Rightarrow> (Inr msg, None)))"

definition scopeSet :: "err option \<Rightarrow> string \<Rightarrow> string option \<Rightarrow> (err + string) \<times> string option" where
  "scopeSet io scope file =
     (if scope = ''host'' \<or> scope = '''' then scopeClear io (''scope set to: host'' @ nl) file
      else case io of
             Some e \<Rightarrow> (Inl e, file)
           | None \<Rightarrow> (Inr (''scope set to: segment '' @ go_quote scope @ nl), Some (scope @ nl)))"

definition scopeListenCmd :: "cli_env \<Rightarrow> string \<Rightarrow> int \<Rightarrow> cli" where
  "scopeListenCmd cx seg port =
     (let scope = ''segment:'' @ seg in
      ask_for cx 201
        \<lparr>cr_Method = ''POST'', cr_URL = ''/scoped-listeners'',
         cr_Body = Some (JMap [(''scope'', JText scope), (''listen'', JText ('':'' @ show_int port))])\<rparr>
        (\<lambda>m. if cx_json cx then printJSON (JMap m)
             else Done (Inr
               [Print (''scoped listener started on http://localhost:'' @ show_int port @ '' (scope='' @ scope @ '')'' @ nl),
                Print (''  id: '' @ verb_s m ''id'' @ nl),
                Print (''  note: port must be in 7200-7220 range (pre-mapped on daemon start)'' @ nl)])))"

definition scopeListenersCmd :: "cli_env \<Rightarrow> cli" where
  "scopeListenersCmd cx =
     apiGet cx ''/scoped-listeners'' (shown cx (\<lambda>m.
       case map_of m ''listeners'' of
         Some (JList (l # ls)) \<Rightarrow>
           print_all []
             (map (\<lambda>v. case v of
                         JMap sl \<Rightarrow> Some (''  '' @ verb_s sl ''id'' @ ''  '' @ verb_s sl ''scope'' @
                                          ''  http://localhost'' @ verb_s sl ''listen'' @ nl)
                       | _ \<Rightarrow> None) (l # ls))
       | _ \<Rightarrow> say ''No scoped listeners.''))"

definition scopeUnlistenCmd :: "cli_env \<Rightarrow> string \<Rightarrow> cli" where
  "scopeUnlistenCmd cx lid =
     ask_for cx 200 \<lparr>cr_Method = ''DELETE'', cr_URL = ''/scoped-listeners/'' @ lid, cr_Body = None\<rparr>
       (\<lambda>_. say (''scoped listener '' @ lid @ '' stopped''))"

subsection \<open>Configuration\<close>

datatype key_type = KBool | KString | KInt | KDuration | KStringList

definition configKeys :: "(string \<times> string \<times> key_type) list" where
  "configKeys =
     [(''anthropic-enabled'', ''anthropic_enabled'', KBool), (''openai-enabled'', ''openai_enabled'', KBool),
      (''ollama-enabled'', ''ollama_enabled'', KBool), (''anthropic-key'', ''anthropic_key'', KString),
      (''openai-key'', ''openai_key'', KString), (''ollama-url'', ''ollama_url'', KString),
      (''ollama-models'', ''ollama_models'', KStringList), (''ollama-queue-size'', ''ollama_queue_size'', KInt),
      (''ollama-timeout'', ''ollama_timeout'', KDuration), (''ollama-default-bid'', ''ollama_default_bid'', KInt),
      (''error-webhooks'', ''error_webhooks'', KStringList),
      (''keep-limits-consistent'', ''keep_limits_consistent'', KBool)]"

text \<open>\<open>dur_err\<close> is the error of \<^verbatim>\<open>time.ParseDuration\<close>. A list without elements is a nil slice.\<close>

definition parseConfigValue :: "(string \<Rightarrow> err) \<Rightarrow> key_type \<Rightarrow> string \<Rightarrow> err + jval" where
  "parseConfigValue dur_err t s =
     (case t of
        KBool \<Rightarrow>
          if to_lower s \<in> {''true'', ''1'', ''yes''} then Inr (JFlag True)
          else if to_lower s \<in> {''false'', ''0'', ''no''} then Inr (JFlag False)
          else Inl ''expected bool (true/false)''
      | KString \<Rightarrow> Inr (JText s)
      | KInt \<Rightarrow> (case parse_int s of Inl e \<Rightarrow> Inl (num_error ''Atoi'' s e) | Inr n \<Rightarrow> Inr (JInt n))
      | KDuration \<Rightarrow> (case ParseDuration s of None \<Rightarrow> Inl (dur_err s) | Some d \<Rightarrow> Inr (JText (duration_string d)))
      | KStringList \<Rightarrow>
          let parts = filter (\<lambda>p. p \<noteq> '''') (map trim_space (split_on (CHR '','') s))
          in Inr (if parts = [] then JNil else jstrs parts))"

definition join_comma :: "string list \<Rightarrow> string" where
  "join_comma ws = (case ws of [] \<Rightarrow> '''' | w # ws \<Rightarrow> w @ concat (map (\<lambda>v. '', '' @ v) ws))"

definition formatConfigValue :: "string \<Rightarrow> string \<Rightarrow> (string \<times> jval) list \<Rightarrow> string" where
  "formatConfigValue key jsonKey resp =
     (if key = ''anthropic-key'' then (if map_of resp ''anthropic_key_set'' = Some (JFlag True) then ''****'' else ''(not set)'')
      else if key = ''openai-key'' then (if map_of resp ''openai_key_set'' = Some (JFlag True) then ''****'' else ''(not set)'')
      else case map_of resp jsonKey of
             Some (JFlag b) \<Rightarrow> (if b then ''true'' else ''false'')
           | Some (JInt n) \<Rightarrow> show_int (fl_to_int64 (fl_of_int n))
           | Some (JText s) \<Rightarrow> s
           | Some (JList vs) \<Rightarrow>
               let parts = List.map_filter (\<lambda>v. case v of JText s \<Rightarrow> Some s | _ \<Rightarrow> None) vs
               in if parts = [] then ''(none)'' else join_comma parts
           | _ \<Rightarrow> ''(not configured)'')"

definition configGetCmd :: "cli_env \<Rightarrow> cli" where
  "configGetCmd cx =
     apiGet cx ''/config'' (shown cx (\<lambda>resp.
       Done (Inr [Print (''KEY'' @ tab @ ''VALUE'' @ nl @
         concat (map (\<lambda>(key, jsonKey, t). key @ tab @ formatConfigValue key jsonKey resp @ nl) configKeys))])))"

definition configSetCmd :: "(string \<Rightarrow> err) \<Rightarrow> cli_env \<Rightarrow> string \<Rightarrow> string \<Rightarrow> cli" where
  "configSetCmd dur_err cx key valueStr =
     (case map_of configKeys key of
        None \<Rightarrow> fail (''unknown config key: '' @ key)
      | Some (jsonKey, t) \<Rightarrow>
          (case parseConfigValue dur_err t valueStr of
             Inl e \<Rightarrow> fail (''invalid value for '' @ key @ '': '' @ e)
           | Inr val \<Rightarrow>
               ask_for cx 200 \<lparr>cr_Method = ''PUT'', cr_URL = ''/config'', cr_Body = Some (JMap [(jsonKey, val)])\<rparr>
                 (\<lambda>result. if cx_json cx then printJSON (JMap result) else say (key @ '' updated''))))"

subsection \<open>The guest program\<close>

text \<open>\<^verbatim>\<open>cmd/ddl-guest\<close>: integers of the reply are kept as they are; \<open>reachable\<close> tells which candidates answer.\<close>

definition resolveAPIURL :: "string \<Rightarrow> (string \<Rightarrow> bool) \<Rightarrow> string list \<Rightarrow> err + string" where
  "resolveAPIURL env reachable candidates =
     (if env \<noteq> '''' then Inr env
      else case find reachable candidates of
             Some c \<Rightarrow> Inr c
           | None \<Rightarrow> Inl ''cannot reach ddld API; set DDL_API_URL or ensure ddld is running'')"

definition fetchStatus :: "cli_env \<Rightarrow> err + api_reply \<Rightarrow> err + (string \<times> jval) list" where
  "fetchStatus cx r =
     (case r of
        Inl e \<Rightarrow> Inl (''API request failed: '' @ e)
      | Inr rep \<Rightarrow>
          if status_of rep \<noteq> 200 then Inl (''API returned '' @ show_int (status_of rep) @ '': '' @ cx_text cx rep)
          else case decode_map cx rep of
                 Inl e \<Rightarrow> Inl (''failed to parse API response: '' @ e) | Inr m \<Rightarrow> Inr m)"

definition getJSONInt64 :: "(string \<times> jval) list \<Rightarrow> string \<Rightarrow> int" where
  "getJSONInt64 m key = (case map_of m key of Some (JInt n) \<Rightarrow> n | _ \<Rightarrow> 0)"

definition guest_types :: "limit_type list" where
  "guest_types = [LimitCPU, LimitRAM, LimitDisk, LimitNetwork, LimitDiskIOByte, LimitDiskIOOps, LimitSpending]"

definition guest_row :: "(string \<times> jval) list \<Rightarrow> (string \<times> jval) list \<Rightarrow> limit_type \<Rightarrow> string" where
  "guest_row usage limits t =
     (let u = getJSONInt64 usage t; l = getJSONInt64 limits t in
      t @ tab @ guest_formatValue t u @ tab @ guest_formatValue t l @ tab @
      (if l > 0 then show_fixed 1 (percentage (fl_of_int u) (fl_of_int l)) @ ''%'' else ''-'') @ nl)"

definition printStatus :: "string \<Rightarrow> (string \<times> jval) list \<Rightarrow> string" where
  "printStatus containerID body =
     ''Container: '' @ containerID @ nl @ nl @ ''TYPE'' @ tab @ ''USAGE'' @ tab @ ''LIMIT'' @ tab @ ''STATUS'' @ nl @
     concat (map (guest_row (sub_map body ''usage'') (sub_map body ''limits'')) guest_types)"

end
