(* ===== verification/Durations.thy ===== *)
theory Durations
  imports Http
begin

text \<open>
  Durations are printed and parsed without loss: \<^verbatim>\<open>time.ParseDuration\<close> reads back exactly what
  \<^verbatim>\<open>Duration.String\<close> prints, for every 64-bit number of nanoseconds. The timeout of the Ollama
  queue travels between the command line, the daemon and its configuration file in this form.
\<close>

subsection \<open>Digits\<close>

definition digits_from :: "int \<Rightarrow> string \<Rightarrow> int" where
  "digits_from x s = foldl (\<lambda>x c. x * 10 + int (digit_val c)) x s"

lemma digits_from_simps [simp]:
  "digits_from x [] = x" "digits_from x (c # s) = digits_from (x * 10 + int (digit_val c)) s"
  "digits_from x (a @ b) = digits_from (digits_from x a) b"
  by (simp_all add: digits_from_def)

lemma digits_from_ge: "0 \<le> x \<Longrightarrow> x \<le> digits_from x s"
proof (induction s arbitrary: x)
  case (Cons c s)
  have "x \<le> x * 10 + int (digit_val c)" using Cons.prems by simp
  also have "\<dots> \<le> digits_from (x * 10 + int (digit_val c)) s" using Cons.prems by (intro Cons.IH) simp
  finally show ?case by simp
qed simp

lemma digits_from_zeros [simp]: "digits_from x (replicate j (CHR ''0'')) = x * 10 ^ j"
  by (induction j arbitrary: x) (simp_all add: digit_val_def)

lemma digits_show_nat [simp]: "digits_from 0 (show_nat n) = int n"
proof (induction n rule: show_nat.induct)
  case (1 n)
  show ?case
  proof (cases "n < 10")
    case True
    then show ?thesis by (simp add: show_nat.simps [of n])
  next
    case False
    have "int (n div 10) * 10 + int (n mod 10) = int n"
      by (metis div_mult_mod_eq of_nat_add of_nat_mult of_nat_numeral)
    then show ?thesis using 1 False by (simp add: show_nat.simps [of n])
  qed
qed

lemma length_show_nat: "0 < p \<Longrightarrow> n < 10 ^ p \<Longrightarrow> length (show_nat n) \<le> p"
proof (induction p arbitrary: n)
  case (Suc p)
  show ?case
  proof (cases "n < 10")
    case False
    then have "p \<noteq> 0" using Suc.prems(2) by (cases p) auto
    then have "length (show_nat (n div 10)) \<le> p" using Suc.prems by (intro Suc.IH) auto
    with False show ?thesis by (simp add: show_nat.simps [of n])
  qed (simp add: show_nat.simps [of n])
qed simp

lemma leading_int_digits:
  assumes "\<forall>c \<in> set ds. is_digit c" and "rest = [] \<or> \<not> is_digit (hd rest)"
    and "0 \<le> x" and "digits_from x ds \<le> 2 ^ 63"
  shows "leading_int x (ds @ rest) = Some (digits_from x ds, rest)"
  using assms
proof (induction ds arbitrary: x)
  case Nil
  then show ?case by (cases rest) auto
next
  case (Cons d ds)
  let ?y = "x * 10 + int (digit_val d)"
  have "?y \<le> digits_from ?y ds" using Cons.prems(3) by (intro digits_from_ge) simp
  then have "?y \<le> 2 ^ 63" using Cons.prems(4) by simp
  moreover from this have "\<not> x > 2 ^ 63 div 10" by simp
  ultimately show ?case using Cons.prems Cons.IH [of ?y] by (simp add: Let_def)
qed

lemma leading_fraction_digits:
  assumes "\<forall>c \<in> set ds. is_digit c" and "rest = [] \<or> \<not> is_digit (hd rest)"
    and "0 \<le> x" and "digits_from x ds < 10 ^ 18"
  shows "leading_fraction x k False (ds @ rest) = (digits_from x ds, k + length ds, rest)"
  using assms
proof (induction ds arbitrary: x k)
  case Nil
  then show ?case by (cases rest) auto
next
  case (Cons d ds)
  let ?y = "x * 10 + int (digit_val d)"
  have "?y \<le> digits_from ?y ds" using Cons.prems(3) by (intro digits_from_ge) simp
  then have y: "?y < 10 ^ 18" using Cons.prems(4) by simp
  then have "\<not> x > (2 ^ 63 - 1) div 10" "\<not> ?y > 2 ^ 63" by simp_all
  then show ?case using Cons.prems Cons.IH [of ?y "k + 1"] by (simp add: Let_def)
qed

subsection \<open>The fraction\<close>

lemma strip_zeros:
  obtains j where "s = rev (dropWhile (\<lambda>c. c = z) (rev s)) @ replicate j z"
proof -
  define t where "t = takeWhile (\<lambda>c. c = z) (rev s)"
  have "replicate (length t) z = t"
    by (rule replicate_length_same) (auto simp: t_def dest: set_takeWhileD)
  then have t: "rev t = replicate (length t) z" by (metis rev_replicate)
  have "rev s = t @ dropWhile (\<lambda>c. c = z) (rev s)" by (simp add: t_def)
  from arg_cong [OF this, of rev] have "s = rev (dropWhile (\<lambda>c. c = z) (rev s)) @ rev t" by simp
  then show thesis unfolding t by (rule that)
qed

lemma dur_frac_digits:
  assumes "0 < p"
  obtains (none) "dur_frac p v = []" and "v mod 10 ^ p = 0"
    | (some) ds where "dur_frac p v = CHR ''.'' # ds" and "ds \<noteq> []" and "\<forall>c \<in> set ds. is_digit c"
        and "length ds \<le> p" and "int (v mod 10 ^ p) = digits_from 0 ds * 10 ^ (p - length ds)"
proof -
  define m where "m = v mod 10 ^ p"
  define full where "full = pad_left p (show_nat m)"
  define ds where "ds = rev (dropWhile (\<lambda>c. c = CHR ''0'') (rev full))"
  have frac: "dur_frac p v = (if ds = [] then [] else CHR ''.'' # ds)"
    by (simp add: dur_frac_def ds_def full_def m_def Let_def)
  obtain j where j: "full = ds @ replicate j (CHR ''0'')" unfolding ds_def by (rule strip_zeros)
  have len: "length (show_nat m) \<le> p" using assms by (intro length_show_nat) (simp_all add: m_def)
  then have "length full = p" by (simp add: full_def pad_left_def)
  then have lj: "length ds + j = p" by (simp add: j)
  have "digits_from 0 full = int m" by (simp add: full_def pad_left_def)
  then have val: "int m = digits_from 0 ds * 10 ^ j" by (simp add: j)
  have "\<forall>c \<in> set full. is_digit c"
    using show_nat_digits by (auto simp: full_def pad_left_def is_digit_def)
  then have dig: "\<forall>c \<in> set ds. is_digit c" by (simp add: j)
  show thesis
  proof (cases "ds = []")
    case True
    then show thesis using val by (intro none) (simp_all add: frac m_def)
  next
    case False
    moreover have "j = p - length ds" using lj by simp
    ultimately show thesis
      using dig lj val by (intro some [of ds]) (simp_all add: frac m_def)
  qed
qed

subsection \<open>One number with its unit\<close>

lemma fl_power_ratio:
  assumes "p \<in> {3, 6, 9}" and "k \<le> p"
  shows "fl_div_int (fl_of_int (10 ^ p)) (10 ^ k) = fl_of_int (10 ^ (p - k))"
proof -
  have "k \<in> {0, 1, 2, 3, 4, 5, 6, 7, 8, 9}" using assms by auto
  with assms show ?thesis by (auto simp: fl_div_of_int) (simp_all add: fl_eval Let_def)
qed

lemma fl_fraction:
  assumes "p \<in> {3, 6, 9}" and "k \<le> p" and "0 \<le> f" and "f * 10 ^ (p - k) < 10 ^ 9"
  shows "(if f > 0 then (case fl_mul (fl_of_int f) (fl_div_int (fl_of_int (10 ^ p)) (10 ^ k)) of
                           Fin m e \<Rightarrow> trunc_scaled m e | _ \<Rightarrow> 0) else 0) = f * 10 ^ (p - k)"
proof (cases "f = 0")
  case False
  have pos: "(1 :: int) \<le> 10 ^ (p - k)" by simp
  have "f * 1 \<le> f * 10 ^ (p - k)" using assms(3) pos by (intro mult_left_mono) simp_all
  then have f: "\<bar>f\<bar> < 2 ^ 53" using assms(3,4) by simp
  have "(10 :: int) ^ (p - k) \<le> 10 ^ 9" using assms(1) by (intro power_increasing) auto
  then have q: "\<bar>(10 :: int) ^ (p - k)\<bar> < 2 ^ 53" by simp
  have small: "\<bar>f * 10 ^ (p - k)\<bar> < 2 ^ 53" using assms(3,4) by simp
  obtain j where "fl_of_int (f * 10 ^ (p - k)) = Fin (f * 10 ^ (p - k) * 2 ^ j) (- int j)"
    using fl_of_int_exact [OF small] by blast
  moreover have "trunc_scaled (v * 2 ^ j) (- int j) = v" if "0 \<le> v" for v
    using that by (simp add: trunc_scaled_def go_div_nonneg)
  ultimately show ?thesis
    using False assms(3) fl_power_ratio [OF assms(1,2)] fl_mul_of_int [OF f q] by simp
qed simp

definition unit_text :: "string \<Rightarrow> bool" where
  "unit_text u \<longleftrightarrow> u \<noteq> [] \<and> (\<forall>c \<in> set u. c \<noteq> CHR ''.'' \<and> \<not> is_digit c)"

lemma unit_text_take:
  assumes "unit_text u" and "rest = [] \<or> is_digit (hd rest)"
  shows "takeWhile (\<lambda>c. c \<noteq> CHR ''.'' \<and> \<not> is_digit c) (u @ rest) = u"
  using assms by (subst takeWhile_append2) (auto simp: unit_text_def takeWhile_eq_Nil_iff)

lemma show_nat_lead:
  assumes "int n \<le> 2 ^ 63" and "rest = [] \<or> \<not> is_digit (hd rest)"
  shows "leading_int 0 (show_nat n @ rest) = Some (int n, rest)"
  using leading_int_digits [of "show_nat n" rest 0] show_nat_digits assms by auto

lemma duration_part_whole:
  assumes "map_of duration_units u = Some k" and "unit_text u" and "rest = [] \<or> is_digit (hd rest)"
    and "0 < k" and "int n * k \<le> 2 ^ 63"
  shows "duration_part (show_nat n @ u @ rest) = Some (int n * k, rest)"
proof -
  have n: "int n \<le> 2 ^ 63 div k" using assms(4,5) by (metis nonzero_mult_div_cancel_right less_irrefl zdiv_mono1)
  have "int n * 1 \<le> int n * k" using assms(4) by (intro mult_left_mono) simp_all
  then have n63: "int n \<le> 2 ^ 63" using assms(5) by simp
  have u: "hd (u @ rest) \<noteq> CHR ''.''" "\<not> is_digit (hd (u @ rest))" using assms(2) by (cases u; simp add: unit_text_def)+
  show ?thesis
    using show_nat_lead [OF n63, of "u @ rest"] u n assms(1,5) unit_text_take [OF assms(2,3)]
    by (simp add: duration_part_def Let_def)
qed

lemma duration_part_frac:
  assumes "map_of duration_units u = Some (10 ^ p)" and "unit_text u" and "rest = [] \<or> is_digit (hd rest)"
    and "p \<in> {3, 6, 9}" and "w = int n * 10 ^ p + int (v mod 10 ^ p)" and "w \<le> 2 ^ 63"
  shows "duration_part (show_nat n @ dur_frac p v @ u @ rest) = Some (w, rest)"
proof -
  have p: "0 < p" using assms(4) by auto
  show ?thesis
  proof (cases rule: dur_frac_digits [OF p, of v, case_names none some])
    case none
    have "int n * 10 ^ p \<le> 2 ^ 63" using assms(5,6) none(2) by simp
    then show ?thesis using duration_part_whole [OF assms(1-3)] none assms(5) by simp
  next
    case (some ds)
    have u0: "\<not> is_digit (hd (u @ rest))" using assms(2) by (cases u) (simp_all add: unit_text_def)
    let ?f = "digits_from 0 ds"
    have f0: "0 \<le> ?f" by (rule digits_from_ge) simp
    have m: "v mod 10 ^ p < 10 ^ p" by simp
    have "(10 :: nat) ^ p \<le> 10 ^ 9" using assms(4) by (intro power_increasing) auto
    with m have "v mod 10 ^ p < 10 ^ 9" by linarith
    then have fb: "?f * 10 ^ (p - length ds) < 10 ^ 9" using some(5) by (metis of_nat_less_iff of_nat_numeral of_nat_power)
    have "?f * 1 \<le> ?f * 10 ^ (p - length ds)" using f0 by (intro mult_left_mono) simp_all
    then have f18: "?f < 10 ^ 18" using fb by simp
    have n: "int n \<le> 2 ^ 63 div 10 ^ p"
    proof -
      have "int n * 10 ^ p \<le> 2 ^ 63" using assms(5,6) by linarith
      then have "int n * 10 ^ p div 10 ^ p \<le> 2 ^ 63 div 10 ^ p" by (rule zdiv_mono1) simp
      then show ?thesis by simp
    qed
    have "int n * 1 \<le> int n * 10 ^ p" by (intro mult_left_mono) simp_all
    then have n63: "int n \<le> 2 ^ 63" using assms(5,6) by linarith
    have lead: "leading_int 0 (show_nat n @ CHR ''.'' # ds @ u @ rest) = Some (int n, CHR ''.'' # ds @ u @ rest)"
      using show_nat_lead [OF n63, of "CHR ''.'' # ds @ u @ rest"] by (simp add: is_digit_def)
    have frac: "leading_fraction 0 0 False (ds @ u @ rest) = (?f, length ds, u @ rest)"
      using leading_fraction_digits [of ds "u @ rest" 0 0] some(3) u0 f18 by simp
    show ?thesis
      using lead frac n assms(1,5,6) some unit_text_take [OF assms(2,3)] fl_fraction [OF assms(4) some(4) f0 fb]
      by (simp add: duration_part_def Let_def)
  qed
qed

subsection \<open>The whole text\<close>

lemma duration_sum_step:
  assumes "duration_part s = Some (v, rest)" and "s \<noteq> []" and "is_digit (hd s)" and "length rest < length s"
    and "d + v \<le> 2 ^ 63"
  shows "duration_sum d s = duration_sum (d + v) rest"
  using assms by (subst duration_sum.simps) simp

lemma duration_sum_Nil [simp]: "duration_sum d [] = Some d"
  by (subst duration_sum.simps) simp

lemma hd_show_nat: "is_digit (hd (show_nat n @ rest))" "show_nat n @ rest \<noteq> []"
  using show_nat_digits [of "hd (show_nat n)" n] by (simp_all add: hd_in_set)

lemma unit_texts:
  "unit_text ''s''" "unit_text ''m''" "unit_text ''h''" "unit_text ''ns''" "unit_text ''ms''"
  "unit_text [CHR 0xC2, CHR 0xB5, CHR ''s'']"
  by (simp_all add: unit_text_def is_digit_def)

lemma unit_values:
  "map_of duration_units ''s'' = Some (10 ^ 9)" "map_of duration_units ''m'' = Some 60000000000"
  "map_of duration_units ''h'' = Some 3600000000000" "map_of duration_units ''ns'' = Some 1"
  "map_of duration_units ''ms'' = Some (10 ^ 6)" "map_of duration_units [CHR 0xC2, CHR 0xB5, CHR ''s''] = Some (10 ^ 3)"
  by (simp_all add: duration_units_def)

lemma sum_whole:
  assumes "map_of duration_units u = Some k" and "unit_text u" and "rest = [] \<or> is_digit (hd rest)"
    and "0 < k" and "0 \<le> d" and "d + int n * k \<le> 2 ^ 63"
  shows "duration_sum d (show_nat n @ u @ rest) = duration_sum (d + int n * k) rest"
proof (rule duration_sum_step)
  show "duration_part (show_nat n @ u @ rest) = Some (int n * k, rest)"
    using assms by (intro duration_part_whole) simp_all
qed (use assms hd_show_nat [of n "u @ rest"] in \<open>simp_all add: unit_text_def\<close>)

lemma sum_frac:
  assumes "map_of duration_units u = Some (10 ^ p)" and "unit_text u" and "p \<in> {3, 6, 9}"
    and "0 \<le> d" and "d + (int n * 10 ^ p + int (v mod 10 ^ p)) \<le> 2 ^ 63"
  shows "duration_sum d (show_nat n @ dur_frac p v @ u) = Some (d + (int n * 10 ^ p + int (v mod 10 ^ p)))"
proof -
  have "duration_part (show_nat n @ dur_frac p v @ u @ []) = Some (int n * 10 ^ p + int (v mod 10 ^ p), [])"
    using assms by (intro duration_part_frac) auto
  then have "duration_sum d (show_nat n @ dur_frac p v @ u) = duration_sum (d + (int n * 10 ^ p + int (v mod 10 ^ p))) []"
    using assms(5) hd_show_nat [of n "dur_frac p v @ u"] by (intro duration_sum_step) simp_all
  then show ?thesis by simp
qed

lemma int_div_mod: "int (u div 10 ^ p) * 10 ^ p + int (u mod 10 ^ p) = int u"
proof -
  have "u div 10 ^ p * 10 ^ p + u mod 10 ^ p = u" by (rule div_mult_mod_eq)
  from arg_cong [OF this, of int] show ?thesis unfolding of_nat_add of_nat_mult of_nat_power of_nat_numeral .
qed

lemma duration_sum_dur_abs:
  assumes "int u \<le> 2 ^ 63"
  shows "duration_sum 0 (dur_abs u) = Some (int u)"
proof -
  consider "u = 0" | "0 < u" "u < 1000" | "1000 \<le> u" "u < 1000000" | "1000000 \<le> u" "u < 1000000000" | "1000000000 \<le> u"
    by linarith
  then show ?thesis
  proof cases
    case 1
    have "duration_sum 0 (show_nat 0 @ ''s'' @ []) = duration_sum (0 + int 0 * 10 ^ 9) []"
      by (intro sum_whole unit_values unit_texts) simp_all
    then show ?thesis using 1 by (simp add: dur_abs_def show_nat.simps)
  next
    case 2
    have "duration_sum 0 (show_nat u @ ''ns'' @ []) = duration_sum (0 + int u * 1) []"
      using assms by (intro sum_whole unit_values unit_texts) simp_all
    then show ?thesis using 2 by (simp add: dur_abs_def)
  next
    case 3
    with sum_frac [OF unit_values(6) unit_texts(6), of 0 "u div 10 ^ 3" u] int_div_mod [of u 3] show ?thesis
      using 3 assms by (simp add: dur_abs_def)
  next
    case 4
    with sum_frac [OF unit_values(5) unit_texts(5), of 0 "u div 10 ^ 6" u] int_div_mod [of u 6] show ?thesis
      using 4 assms by (simp add: dur_abs_def)
  next
    case 5
    define secs where "secs = u div 10 ^ 9"
    define mins where "mins = secs div 60"
    define hours where "hours = mins div 60"
    define last where "last = show_nat (secs mod 60) @ dur_frac 9 u @ ''s''"
    have printed: "dur_abs u = (if hours > 0 then show_nat hours @ ''h'' else []) @
        (if mins > 0 then show_nat (mins mod 60) @ ''m'' else []) @ last"
      using 5 by (simp add: dur_abs_def Let_def secs_def mins_def hours_def last_def)
    have split: "int u = int hours * 3600000000000 + (int (mins mod 60) * 60000000000 +
        (int (secs mod 60) * 10 ^ 9 + int (u mod 10 ^ 9)))"
    proof -
      have "int u = int secs * 10 ^ 9 + int (u mod 10 ^ 9)" using int_div_mod [of u 9] by (simp add: secs_def)
      moreover have "int secs = int mins * 60 + int (secs mod 60)" unfolding mins_def by presburger
      moreover have "int mins = int hours * 60 + int (mins mod 60)" unfolding hours_def by presburger
      ultimately show ?thesis by simp
    qed
    have hd_last: "is_digit (hd last)" unfolding last_def by (rule hd_show_nat)
    have tail: "duration_sum d last = Some (d + (int (secs mod 60) * 10 ^ 9 + int (u mod 10 ^ 9)))"
      if "0 \<le> d" "d + (int (secs mod 60) * 10 ^ 9 + int (u mod 10 ^ 9)) \<le> 2 ^ 63" for d
      using sum_frac [OF unit_values(1) unit_texts(1), of d "secs mod 60" u] that by (simp add: last_def)
    have mid: "duration_sum d ((if mins > 0 then show_nat (mins mod 60) @ ''m'' else []) @ last) =
        Some (d + (int (mins mod 60) * 60000000000 + (int (secs mod 60) * 10 ^ 9 + int (u mod 10 ^ 9))))"
      if d: "0 \<le> d" "d + (int (mins mod 60) * 60000000000 + (int (secs mod 60) * 10 ^ 9 + int (u mod 10 ^ 9))) \<le> 2 ^ 63" for d
    proof (cases "mins > 0")
      case True
      have "duration_sum d (show_nat (mins mod 60) @ ''m'' @ last) = duration_sum (d + int (mins mod 60) * 60000000000) last"
        using d hd_last by (intro sum_whole unit_values unit_texts) simp_all
      with True show ?thesis using tail [of "d + int (mins mod 60) * 60000000000"] d by simp
    next
      case False
      then show ?thesis using tail [of d] d by simp
    qed
    show ?thesis
    proof (cases "hours > 0")
      case True
      then have m: "mins > 0" by (simp add: hours_def)
      have "is_digit (hd (show_nat (mins mod 60) @ ''m'' @ last))" by (rule hd_show_nat)
      then have "duration_sum 0 (show_nat hours @ ''h'' @ show_nat (mins mod 60) @ ''m'' @ last) =
          duration_sum (0 + int hours * 3600000000000) (show_nat (mins mod 60) @ ''m'' @ last)"
        using assms split by (intro sum_whole unit_values unit_texts) simp_all
      with True m show ?thesis
        using mid [of "int hours * 3600000000000"] assms split by (simp add: printed)
    next
      case False
      then show ?thesis using mid [of 0] assms split by (simp add: printed)
    qed
  qed
qed

lemma dur_abs_lead: "is_digit (hd (dur_abs u))" "dur_abs u \<noteq> []" "dur_abs u \<noteq> ''0''"
proof -
  have e: "show_nat n @ c # x \<noteq> ''0''" for n c x
    by (metis append_eq_Cons_conv list.distinct(1) append_is_Nil_conv show_nat_nonempty)
  show "is_digit (hd (dur_abs u))"
    using hd_show_nat(1) [of _ "[]"] by (auto simp: dur_abs_def Let_def hd_show_nat is_digit_def [of "CHR ''0''"])
  show "dur_abs u \<noteq> []" "dur_abs u \<noteq> ''0''" using e by (auto simp: dur_abs_def Let_def)
qed

lemma parse_duration_string: "in64 d \<Longrightarrow> ParseDuration (duration_string d) = Some d"
proof -
  assume d: "in64 d"
  obtain c cs where a: "dur_abs (nat \<bar>d\<bar>) = c # cs" using dur_abs_lead(2) by (cases "dur_abs (nat \<bar>d\<bar>)") auto
  with dur_abs_lead(1) [of "nat \<bar>d\<bar>"] have "c \<noteq> CHR ''-''" "c \<noteq> CHR ''+''" using is_digit_not_sign by auto
  then have s: "strip_sign (duration_string d) = (d < 0, c # cs)"
    by (simp add: strip_sign_def duration_string_def a)
  have "int (nat \<bar>d\<bar>) \<le> 2 ^ 63" using d by (auto simp: in64_def)
  from duration_sum_dur_abs [OF this] have "duration_sum 0 (c # cs) = Some \<bar>d\<bar>"
    by (simp add: a [symmetric])
  moreover have "c # cs \<noteq> ''0''" using dur_abs_lead(3) a by metis
  ultimately show ?thesis using d by (auto simp: ParseDuration_def s in64_def)
qed

text \<open>What is parsed fits: no duration that overflows is accepted.\<close>

lemma round_half_even_nonneg: "0 \<le> n \<Longrightarrow> 0 < d \<Longrightarrow> 0 \<le> round_half_even n d"
  by (simp add: round_half_even_def Let_def pos_imp_zdiv_nonneg_iff)

lemma fl_of_ratio_nonneg: "fl_of_ratio n d = Fin m e \<Longrightarrow> 0 \<le> n \<Longrightarrow> 0 < d \<Longrightarrow> 0 \<le> m"
  by (auto simp: fl_of_ratio_def scale_ratio_def Let_def split: if_splits intro!: round_half_even_nonneg)

lemma fl_div_int_nonneg: "fl_div_int x k = Fin m e \<Longrightarrow> (\<And>a y. x = Fin a y \<Longrightarrow> 0 \<le> a) \<Longrightarrow> 0 < k \<Longrightarrow> 0 \<le> m"
  by (cases x) (auto dest: fl_of_ratio_nonneg split: if_splits)

lemma fl_mul_nonneg:
  "fl_mul x y = Fin m e \<Longrightarrow> (\<And>a z. x = Fin a z \<Longrightarrow> 0 \<le> a) \<Longrightarrow> (\<And>a z. y = Fin a z \<Longrightarrow> 0 \<le> a) \<Longrightarrow> 0 \<le> m"
  by (cases x; cases y) (auto simp: fl_scaled_def dest: fl_of_ratio_nonneg split: if_splits)

lemma trunc_scaled_nonneg: "0 \<le> m \<Longrightarrow> 0 \<le> trunc_scaled m e"
  by (simp add: trunc_scaled_def go_div_nonneg pos_imp_zdiv_nonneg_iff)

lemma leading_int_nonneg: "leading_int x s = Some (y, r) \<Longrightarrow> 0 \<le> x \<Longrightarrow> 0 \<le> y"
  by (induction x s rule: leading_int.induct) (auto simp: Let_def split: if_splits)

lemma duration_part_nonneg:
  assumes "duration_part s = Some (w, r)"
  shows "0 \<le> w"
proof -
  have u: "map_of duration_units u = Some unit \<Longrightarrow> 0 < unit" for u unit
    by (drule map_of_SomeD) (auto simp: duration_units_def)
  have f: "fl_mul (fl_of_int f) (fl_div_int (fl_of_int unit) (10 ^ k)) = Fin m e \<Longrightarrow> 0 < f \<Longrightarrow> 0 < unit \<Longrightarrow> 0 \<le> trunc_scaled m e"
    for f unit k m e
    by (intro trunc_scaled_nonneg, erule fl_mul_nonneg)
      (auto simp: fl_of_int_def dest!: fl_of_ratio_nonneg fl_div_int_nonneg)
  show ?thesis
    using assms
    by (auto simp: duration_part_def Let_def split: option.splits prod.splits if_splits gofloat.splits
        dest!: leading_int_nonneg u intro!: add_nonneg_nonneg f)
qed

lemma duration_sum_bounds: "duration_sum d s = Some e \<Longrightarrow> 0 \<le> d \<Longrightarrow> d \<le> 2 ^ 63 \<Longrightarrow> 0 \<le> e \<and> e \<le> 2 ^ 63"
proof (induction d s rule: duration_sum.induct)
  case (1 d s)
  show ?case
    using 1 by (auto simp: duration_sum.simps [of d s] split: if_splits option.splits dest!: duration_part_nonneg)
qed

lemma ParseDuration_in64: "ParseDuration s = Some d \<Longrightarrow> in64 d"
  by (auto simp: ParseDuration_def in64_def split: prod.splits if_splits option.splits dest!: duration_sum_bounds)

end
