(* ===== verification/CliProps.thy ===== *)
theory CliProps
  imports CliCommands Durations ApiProps
begin

text \<open>
  The command line against the daemon: what the values it parses are, what becomes of a
  command when the daemon serves it, and what the tables it prints show.
\<close>

subsection \<open>Values\<close>

lemma is_digit_not_letter: "is_digit c \<Longrightarrow> c \<noteq> CHR ''s'' \<and> c \<noteq> CHR ''m'' \<and> c \<noteq> CHR ''h'' \<and> byte_multiplier c = None"
  by (auto simp: is_digit_def byte_multiplier_def to_lower_char_def Let_def)

lemma show_int_last: "is_digit (last (show_int n))" "show_int n \<noteq> []"
proof -
  have "is_digit (last (show_nat k))" for k using show_nat_digits [of "last (show_nat k)" k] by simp
  then show "is_digit (last (show_int n))" "show_int n \<noteq> []" by (auto simp: show_int_def)
qed

lemma show_int_lead: "\<not> is_space (hd (show_int n))"
proof -
  have "is_digit (hd (show_nat k))" for k using show_nat_digits [of "hd (show_nat k)" k] by (simp add: hd_in_set)
  then show ?thesis using is_digit_not_sign by (auto simp: show_int_def is_space_def)
qed

lemma trim_space_id: "s \<noteq> [] \<Longrightarrow> \<not> is_space (hd s) \<Longrightarrow> \<not> is_space (last s) \<Longrightarrow> trim_space s = s"
  by (cases s rule: rev_cases) (auto simp: trim_space_def dropWhile_append neq_Nil_conv hd_append split: if_splits)

lemma trim_show_int: "trim_space (show_int n) = show_int n"
  "\<not> is_space c \<Longrightarrow> trim_space (show_int n @ [c]) = show_int n @ [c]"
  using show_int_last [of n] show_int_lead [of n] is_digit_not_sign
  by (auto intro!: trim_space_id)

lemma byte_multiplier_not_space: "byte_multiplier c = Some k \<Longrightarrow> \<not> is_space c"
  by (auto simp: byte_multiplier_def Let_def to_lower_char_def is_space_def split: if_splits)

lemma parseValue_in64: "parseValue lt s = Inr v \<Longrightarrow> in64 v"
proof -
  have i: "go_ParseInt x = Inr v \<Longrightarrow> in64 v" for x v
    by (auto simp: go_ParseInt_def split: sum.splits dest: parse_int_in64)
  have sc: "scaled_int k x = Inr v \<Longrightarrow> in64 v" for k x v by (auto simp: scaled_int_def split: sum.splits)
  have f: "in64 (fl_to_int64 x)" for x by (cases x) (auto simp: in64_def)
  show "parseValue lt s = Inr v \<Longrightarrow> in64 v"
    by (auto simp: parseValue_def Let_def parseDuration_def parseBytes_def parseMilliCents_def f case_prod_unfold
        dest: i sc split: if_splits sum.splits)
qed

lemma parse_printed:
  assumes "in64 n"
  shows "parseValue LimitCPU (show_int n) = Inr n" "parseValue LimitCPU (show_int n @ ''s'') = Inr n"
    "parseValue LimitCPU (show_int n @ ''m'') = Inr (wrap64 (n * 60))"
    "parseValue LimitCPU (show_int n @ ''h'') = Inr (wrap64 (n * 3600))"
    "lt \<in> set byte_types \<union> set byte_second_types \<Longrightarrow> parseValue lt (show_int n) = Inr n"
    "lt \<in> set byte_types \<union> set byte_second_types \<Longrightarrow> byte_multiplier c = Some k \<Longrightarrow>
     parseValue lt (show_int n @ [c]) = Inr (wrap64 (n * k))"
proof -
  have p: "parse_int (show_int n) = Inr n" using assms by (rule parse_show_int)
  have l: "last (show_int n) \<noteq> CHR ''s''" "last (show_int n) \<noteq> CHR ''m''" "last (show_int n) \<noteq> CHR ''h''"
    "byte_multiplier (last (show_int n)) = None" using is_digit_not_letter [OF show_int_last(1)] by auto
  have w: "wrap64 (n * 1) = n" using assms by (simp add: wrap64_id)
  have t: "trim_space (show_int n @ [c]) = show_int n @ [c]" if "c \<in> {CHR ''s'', CHR ''m'', CHR ''h''}" for c
    using that by (intro trim_show_int(2)) (auto simp: is_space_def)
  show "parseValue LimitCPU (show_int n) = Inr n" "parseValue LimitCPU (show_int n @ ''s'') = Inr n"
    "parseValue LimitCPU (show_int n @ ''m'') = Inr (wrap64 (n * 60))"
    "parseValue LimitCPU (show_int n @ ''h'') = Inr (wrap64 (n * 3600))"
    using p l w t show_int_last(2) [of n]
    by (simp_all add: parseValue_def trim_show_int parseDuration_def scaled_int_def go_ParseInt_def)
  have b: "parseValue lt s = parseBytes (trim_space s)" if "lt \<in> set byte_types \<union> set byte_second_types" for lt s
    using that by (auto simp: parseValue_def byte_types_def byte_second_types_def Let_def)
  show "lt \<in> set byte_types \<union> set byte_second_types \<Longrightarrow> parseValue lt (show_int n) = Inr n"
    using p l w show_int_last(2) [of n] by (simp add: b trim_show_int parseBytes_def)
  have bk: "parseValue lt (show_int m @ [c]) = Inr (wrap64 (m * k))"
    if "lt \<in> set byte_types \<union> set byte_second_types" "byte_multiplier c = Some k" "in64 m" for lt c k m
    using that byte_multiplier_not_space [OF that(2)] parse_show_int [OF that(3)]
    by (simp add: b trim_show_int parseBytes_def)
  then show "lt \<in> set byte_types \<union> set byte_second_types \<Longrightarrow> byte_multiplier c = Some k \<Longrightarrow>
     parseValue lt (show_int n @ [c]) = Inr (wrap64 (n * k))"
    using assms by simp
qed



subsection \<open>A command served by the daemon\<close>

text \<open>
  The daemon answers a request of the command line: \<open>marshal\<close> is the JSON text of a body. A
  handler that panics closes the connection, which the client sees as an end of file.
\<close>

definition http_of :: "(jval \<Rightarrow> string) \<Rightarrow> cli_request \<Rightarrow> http_request" where
  "http_of marshal cr =
     \<lparr>hr_Method = cr_Method cr, hr_Host = ''localhost'', hr_Path = cr_URL cr, hr_RawQuery = '''', hr_URL = cr_URL cr,
      hr_RemoteAddr = '''', hr_Header = [], hr_Body = (case cr_Body cr of None \<Rightarrow> '''' | Some v \<Rightarrow> marshal v)\<rparr>"

definition serve ::
  "(http_request \<Rightarrow> 's \<Rightarrow> api_reply \<times> 's) \<Rightarrow> (jval \<Rightarrow> string) \<Rightarrow> cli_request \<Rightarrow> 's \<Rightarrow> (err + api_reply) \<times> 's" where
  "serve h marshal cr s =
     (case h (http_of marshal cr) s of
        (rep, s1) \<Rightarrow> (if rep = Panicked then Inl ''EOF'' else Inr rep, s1))"

lemma http_of_simps [simp]:
  "hr_Method (http_of m cr) = cr_Method cr" "hr_Path (http_of m cr) = cr_URL cr"
  "cr_Body cr = Some v \<Longrightarrow> hr_Body (http_of m cr) = m v"
  by (simp_all add: http_of_def)

lemma Handler_container:
  assumes "hr_Path r = ''/containers/'' @ c @ CHR ''/'' # sub" and "CHR ''/'' \<notin> set c"
    and "ResolveContainerID (w_store w) c = Inr cid"
  shows "Handler ae r w = container_sub ae sub r cid w"
  using assms container_path [OF assms(2), of sub] by (simp add: Handler_def handleContainer_def Let_def)

lemma handleLimits_reply:
  assumes "hr_Method r = ''PUT''" and "ae_limit ae (hr_Body r) = Inr q"
    and "limit_op (op_of q) (stored w cid (lr_Type q)) (lr_Value q) = Inr v"
    and "keep_consistent w cid q (stored w cid (lr_Type q)) v = Inr (n, why)" and "db_ok (w_store w)"
  shows "fst (handleLimits ae r cid w) =
    (case why of
       None \<Rightarrow> writeJSON (JMap (limit_fields q n (stored w cid (lr_Type q)) ''full''))
     | Some reason \<Rightarrow> Json 209 (JMap (limit_fields q n (stored w cid (lr_Type q)) ''partial'' @
                         [(''requested_value'', JInt v), (''reason'', JText reason)])))"
proof -
  have "fst (on_store (SetLimit cid (lr_Type q) n) w) = None"
    using assms(5) by (simp add: on_store_def store_writes db_ok_def)
  then obtain w1 where "on_store (SetLimit cid (lr_Type q) n) w = (None, w1)"
    by (cases "on_store (SetLimit cid (lr_Type q) n) w") simp
  then show ?thesis using assms(1-4) by (simp add: handleLimits_def stored_def Let_def split: option.split)
qed

text \<open>C25: "ddl limits set" on a container, served by the daemon, in keep-consistent mode or not: the
  container gets the smaller of the value and what is left of the host limit. When the value
  fits, the command prints it. When it does not, the limit has been changed all the same, to
  what is left, but the command reports an API error, because it takes the status 209 of a capped
  request for a failure.\<close>

theorem cli_limit_set:
  fixes w :: "('d, 'c, 'z) server_scheme"
  assumes "ResolveContainerID (w_store w) c = Inr cid" and "CHR ''/'' \<notin> set c"
    and "db_ok (w_store w)" and "wf_store (w_store w)" and "cid \<in> r_id ` set (t_containers (w_store w))"
    and "limits_sane (w_store w) lt" and "parseValue lt s = Inr v" and "\<not> cx_json cx"
    and "ae_limit ae (marshal (limit_body lt v ''set'')) = Inr \<lparr>lr_Type = lt, lr_Value = v, lr_Operation = ''set''\<rparr>"
    and "g = or0 (GetScopeLimit (w_store w) ScopeHost lt)"
    and "left = (if s_keepLimitsConsistent w \<and> 0 < g
                 then max 0 (g - (promised (w_store w) lt - stored w cid lt)) else 2 ^ 63 - 1)"
    and "(out, w') = run_cli (serve (Handler ae) marshal) (setLimit cx c lt s ''set'') w"
  shows "stored w' cid lt = min v left \<and>
         (v \<le> left \<longrightarrow> out = Some (Inr [Print (c @ '' '' @ lt @ '' limit set to '' @
                              formatValue lt (fl_to_int64 (fl_of_int v)) @ nl)])) \<and>
         (left < v \<longrightarrow> (\<exists>body. out = Some (Inl (''API error (209): '' @ body))))"
proof -
  let ?q = "\<lparr>lr_Type = lt, lr_Value = v, lr_Operation = ''set''\<rparr>"
  define cr where "cr = \<lparr>cr_Method = ''PUT'', cr_URL = ''/containers/'' @ c @ ''/limits'', cr_Body = Some (limit_body lt v ''set'')\<rparr>"
  define r where "r = http_of marshal cr"
  have r: "hr_Method r = ''PUT''" "ae_limit ae (hr_Body r) = Inr ?q" "hr_Path r = ''/containers/'' @ c @ CHR ''/'' # ''limits''"
    using assms(9) by (simp_all add: r_def cr_def)
  have h: "Handler ae r w = handleLimits ae r cid w"
    using Handler_container [OF r(3) assms(2,1)] by (simp add: container_sub_def)
  have v64: "in64 v" using assms(7) by (rule parseValue_in64)
  have op: "op_of ?q = ''set''" by (simp add: op_of_def)
  have lo: "limit_op (op_of ?q) (stored w cid (lr_Type ?q)) (lr_Value ?q) = Inr v" by (simp add: op limit_op_def)
  have left: "left = left_for w cid lt" by (simp add: assms(10,11) left_for_def Let_def)
  have db: "db_rerr (w_store w) = None" using assms(3) by (simp add: db_ok_def)
  have l64: "in64 left" using left_for_bounds(1,2) [OF assms(6,5)] by (simp add: left in64_def)
  have keep: "keep_consistent w cid ?q (stored w cid (lr_Type ?q)) v =
      (if left < v then Inr (left, Some (''capped to stay within global limit ('' @ show_int left @ '' available)''))
       else Inr (v, None))"
    using keep_consistent_left(1) [of w cid ?q v, OF db assms(4,5)] assms(6) v64 by (simp add: op left)
  have e: "(out, w') = run_cli (serve (Handler ae) marshal)
      (ask_for cx 200 cr (\<lambda>result. if cx_json cx then printJSON (JMap result)
               else case map_of result ''value'' of
                      Some (JInt n) \<Rightarrow> say (c @ '' '' @ lt @ '' limit '' @ limit_verb ''set'' @ '' to '' @
                                            formatValue lt (fl_to_int64 (fl_of_int n)))
                    | _ \<Rightarrow> Crashed)) w"
    using assms(7,12) by (simp add: setLimit_def put_limit_def cr_def)
  note put = handleLimits_put(2) [OF r(1,2) lo _ assms(3)] and reply = handleLimits_reply [OF r(1,2) lo _ assms(3)]
  obtain rep w1 where hl: "handleLimits ae r cid w = (rep, w1)" by (cases "handleLimits ae r cid w")
  show ?thesis
  proof (cases "left < v")
    case True
    then have k: "keep_consistent w cid ?q (stored w cid (lr_Type ?q)) v =
        Inr (left, Some (''capped to stay within global limit ('' @ show_int left @ '' available)''))"
      unfolding keep by simp
    have rep: "rep = Json 209 (JMap (limit_fields ?q left (stored w cid lt) ''partial'' @
        [(''requested_value'', JInt v),
         (''reason'', JText (''capped to stay within global limit ('' @ show_int left @ '' available)''))]))"
      using reply [OF k] hl by simp
    have "error_text rep = None" unfolding rep by (simp add: error_text_def limit_fields_def)
    then have "readAPIError cx rep = ''API error (209): '' @ cx_text cx rep"
      by (simp add: readAPIError_def rep show_eval)
    moreover have "stored w1 cid lt = left" using put [OF k l64, of cid lt] hl by simp
    ultimately show ?thesis
      using True e hl h rep by (simp add: ask_for_def serve_def fail_def r_def)
  next
    case False
    then have k: "keep_consistent w cid ?q (stored w cid (lr_Type ?q)) v = Inr (v, None)" unfolding keep by simp
    have rep: "rep = Json 200 (JMap (limit_fields ?q v (stored w cid lt) ''full''))"
      using reply [OF k] hl by (simp add: writeJSON_def)
    moreover have "stored w1 cid lt = v" using put [OF k v64, of cid lt] hl by simp
    ultimately show ?thesis
      using False e hl h assms(8)
      by (simp add: ask_for_def serve_def r_def decode_map_def limit_fields_def say_def limit_verb_def nl_def)
  qed
qed

definition demo_cli :: cli_env where
  "demo_cli = \<lparr>cx_json = False, cx_scope = '''', cx_text = (\<lambda>rep. ''...''), cx_decode_err = (\<lambda>rep. ''invalid character'')\<rparr>"

theorem cli_limit_set_witness:
  "\<exists>body. fst (run_cli (serve (Handler (demo_env \<lparr>lr_Type = LimitCPU, lr_Value = 100000, lr_Operation = ''set''\<rparr> []))
       (\<lambda>_. ''{}'')) (setLimit demo_cli ''0123456789ab'' LimitCPU ''100000'' ''set'') demo_server) =
     Some (Inl (''API error (209): '' @ body))"
proof -
  let ?ae = "demo_env \<lparr>lr_Type = LimitCPU, lr_Value = 100000, lr_Operation = ''set''\<rparr> []"
  let ?run = "run_cli (serve (Handler ?ae) (\<lambda>_. ''{}'')) (setLimit demo_cli ''0123456789ab'' LimitCPU ''100000'' ''set'') demo_server"
  have p: "parseValue LimitCPU ''100000'' = Inr 100000"
    using parse_printed(1) [of 100000] by (simp add: in64_def show_eval)
  have r: "ResolveContainerID demo_store ''0123456789ab'' = Inr ''0123456789ab''"
    by (rule Resolve_exact) (simp_all add: demo_store_eval find_row_def)
  show ?thesis
    using cli_limit_set [of demo_server "''0123456789ab''" "''0123456789ab''" LimitCPU "''100000''" 100000 demo_cli ?ae
        "\<lambda>_. ''{}''" 9000 9000 "fst ?run" "snd ?run"]
    by (simp add: r p demo_store_reads demo_store_wf demo_limits_sane stored_def demo_cli_def)
qed

subsection \<open>Listing the containers\<close>

text \<open>The containers of a scope of the command line, and the line of one of them.\<close>

definition containers_in :: "string \<Rightarrow> ('d, 'c, 'z) server_scheme \<Rightarrow> err + container list" where
  "containers_in sc w =
     (if sc = '''' then ListContainers (w_store w) else ListContainersByScope (w_store w) (SegmentScope sc))"

definition ls_line :: "('d, 'c, 'z) server_scheme \<Rightarrow> container \<Rightarrow> string" where
  "ls_line w c =
     c_ID c @ tab @ c_Name c @ tab @
     show_nat (length (case GetAllLimits (w_store w) (c_ID c) of Inl _ \<Rightarrow> [] | Inr m \<Rightarrow> m)) @ tab @
     show_nat (length (filter snd (GetEnforced w (c_ID c)))) @ nl"

lemma segment_path:
  assumes "CHR ''/'' \<notin> set seg"
  shows "split_n 3 (CHR ''/'') (trim_prefix (''/segments/'' @ seg @ CHR ''/'' # sub) ''/segments/'') =
         seg # split_n 2 (CHR ''/'') sub"
  using assms by (simp add: trim_prefix_def numeral_2_eq_2 numeral_3_eq_3 cut_at_append)

lemma Handler_segment:
  assumes "hr_Path r = ''/segments/'' @ seg @ CHR ''/'' # sub" and "CHR ''/'' \<notin> set seg"
  shows "Handler ae r w = handleSegmentRoutes ae r w"
    and "split_n 3 (CHR ''/'') (trim_prefix (hr_Path r) ''/segments/'') = seg # split_n 2 (CHR ''/'') sub"
  using assms segment_path [OF assms(2), of sub] by (simp_all add: Handler_def Let_def)

lemma count_flags: "filter ((\<lambda>(k, v). v = JFlag True) \<circ> (\<lambda>(k, b). (k, JFlag b))) m = filter snd m"
  by (induction m) auto

lemma flags_ok: "list_all (\<lambda>(k, v). case v of JFlag _ \<Rightarrow> True | _ \<Rightarrow> False) (map (\<lambda>(k, b). (k, JFlag b)) m)"
  by (auto simp: list_all_iff)

lemma ls_row_of:
  assumes "map_of e ''container'' = Some (container_json c)" "map_of e ''limits'' = Some (jmap_int l)"
    "map_of e ''enforced'' = Some (jmap_bool b)"
  shows "ls_row e = Some (c_ID c @ tab @ c_Name c @ tab @ show_nat (length l) @ tab @ show_nat (length (filter snd b)) @ nl)"
  using assms
  by (simp add: ls_row_def listed_container_def container_json_def text_at_def jmap_int_def jmap_bool_def flags_ok count_flags)

lemma all_some_map: "(\<And>x. x \<in> set xs \<Longrightarrow> f x = Some (g x)) \<Longrightarrow> all_some (map f xs) = Some (map g xs)"
  by (induction xs) auto

lemma limits_read:
  assumes "db_rerr s = None" and "list_all (\<lambda>r. in64 (snd r)) (t_limits s)"
  obtains m where "GetAllLimits s cid = Inr m"
proof -
  have "list_all (\<lambda>r. in64 (snd r)) (tbl_part cid (t_limits s))" using assms(2) by (auto simp: tbl_part_def list_all_iff)
  then show ?thesis using that assms(1) by (simp add: GetAllLimits_def query_rows_def)
qed

lemma ls_row_status:
  assumes "db_rerr (w_store w) = None" and "list_all (\<lambda>r. in64 (snd r)) (t_limits (w_store w))"
  shows "\<exists>e. status_json (buildStatus dc c w) = JMap e \<and> ls_row e = Some (ls_line w c)"
    and "\<exists>e. brief_status dc c w = JMap e \<and> ls_row e = Some (ls_line w c)"
proof -
  obtain l where l: "GetAllLimits (w_store w) (c_ID c) = Inr l" using limits_read [OF assms] .
  show "\<exists>e. status_json (buildStatus dc c w) = JMap e \<and> ls_row e = Some (ls_line w c)"
    unfolding status_json_def
    by (intro exI conjI, rule refl, subst ls_row_of) (auto simp: buildStatus_def jmap_nil_def l ls_line_def)
  show "\<exists>e. brief_status dc c w = JMap e \<and> ls_row e = Some (ls_line w c)"
    unfolding brief_status_def
    by (intro exI conjI, rule refl, subst ls_row_of) (auto simp: l ls_line_def jmap_of_def)
qed

lemma entries_decode:
  assumes "\<And>c. \<exists>e. f c = JMap e \<and> ls_row e = Some (ls_line w c)"
  shows "as_map_list (Some (if cs = [] then JNil else JList (map f cs))) = Some (if cs = [] then None else Some (map (\<lambda>c. case f c of JMap e \<Rightarrow> e) cs))"
    and "all_some (map ls_row (map (\<lambda>c. case f c of JMap e \<Rightarrow> e) cs)) = Some (map (ls_line w) cs)"
proof -
  have f: "f c = JMap (case f c of JMap e \<Rightarrow> e)" "ls_row (case f c of JMap e \<Rightarrow> e) = Some (ls_line w c)" for c
    using assms [of c] by auto
  have "all_some (map ((\<lambda>x. case x of JMap kvs \<Rightarrow> Some kvs | JNil \<Rightarrow> Some [] | _ \<Rightarrow> None) \<circ> f) cs) =
        Some (map (\<lambda>c. case f c of JMap e \<Rightarrow> e) cs)"
  proof (rule all_some_map)
    fix x
    obtain e where "f x = JMap e" using assms by blast
    then show "((\<lambda>x. case x of JMap kvs \<Rightarrow> Some kvs | JNil \<Rightarrow> Some [] | _ \<Rightarrow> None) \<circ> f) x = Some (case f x of JMap e \<Rightarrow> e)"
      by simp
  qed
  then show "as_map_list (Some (if cs = [] then JNil else JList (map f cs))) = Some (if cs = [] then None else Some (map (\<lambda>c. case f c of JMap e \<Rightarrow> e) cs))"
    by (simp add: as_map_list_def)
  show "all_some (map ls_row (map (\<lambda>c. case f c of JMap e \<Rightarrow> e) cs)) = Some (map (ls_line w) cs)"
    unfolding map_map by (rule all_some_map) (simp add: f(2))
qed

lemma as_map_json [simp]:
  "\<exists>y. as_map (Some (jmap_of r)) = Some y" "\<exists>y. as_map (Some (jmap_int m)) = Some y" "\<exists>y. as_map (Some (jmap_bool b)) = Some y"
  by (simp_all add: as_map_def jmap_of_def jmap_int_def jmap_bool_def split: sum.split)

lemma decode_listing:
  assumes "map_of m ''containers'' = Some v" and "as_map_list (Some v) = Some cs"
    and "\<forall>k \<in> set [''host_limits'', ''host_usage'', ''host_enforced'', ''global_limits'', ''global_usage'', ''global_enforced''].
           as_map (map_of m k) \<noteq> None"
  shows "\<exists>res. decode_containers m = Some res \<and> cs_Containers res = cs"
  using assms by (auto simp: decode_containers_def)

abbreviation list_keys :: "string list" where
  "list_keys \<equiv> [''host_limits'', ''host_usage'', ''host_enforced'', ''global_limits'', ''global_usage'', ''global_enforced'']"

lemma ls_reply:
  fixes w :: "('d, 'c, 'z) server_scheme"
  assumes "list_all (\<lambda>r. in64 (snd r)) (t_limits (w_store w))" and "CHR ''/'' \<notin> set sc" and "hr_Method r = ''GET''"
    and "hr_Path r = (if sc \<noteq> '''' then ''/segments/'' @ sc @ ''/containers'' else ''/containers'')"
  shows "case containers_in sc w of
      Inl e \<Rightarrow> Handler ae r w = (writeError 500 e, w)
    | Inr cs \<Rightarrow> \<exists>m f. Handler ae r w = (writeJSON (JMap m), w) \<and>
        map_of m ''containers'' = Some (if cs = [] then JNil else JList (map f cs)) \<and>
        (\<forall>c. \<exists>e. f c = JMap e \<and> ls_row e = Some (ls_line w c)) \<and> (\<forall>k \<in> set list_keys. as_map (map_of m k) \<noteq> None)"
proof (cases "sc = ''''")
  case True
  then have h: "Handler ae r w = handleContainers ae r w" using assms(4) by (simp add: Handler_def Let_def)
  show ?thesis
  proof (cases "ListContainers (w_store w)")
    case (Inl e)
    then show ?thesis using True h assms(3) by (simp add: containers_in_def handleContainers_def)
  next
    case (Inr cs)
    then have "db_rerr (w_store w) = None" by (simp add: ListContainers_def split: option.splits)
    note f = ls_row_status(1) [OF this assms(1), of "ae_dc ae"]
    let ?f = "\<lambda>c. status_json (buildStatus (ae_dc ae) c w)"
    obtain u b where "Handler ae r w = (writeJSON (JMap
        (let l = jmap_of (GetAllScopeLimits (w_store w) ScopeHost) in
         [(''containers'', if cs = [] then JNil else JList (map ?f cs)),
          (''global_limits'', l), (''global_usage'', jmap_int u), (''global_enforced'', jmap_bool b),
          (''host_limits'', l), (''host_usage'', jmap_int u), (''host_enforced'', jmap_bool b)])), w)"
      unfolding h handleContainers_def Let_def map_map comp_def using Inr assms(3) by simp
    moreover have "containers_in sc w = Inr cs" using True Inr by (simp add: containers_in_def)
    ultimately show ?thesis unfolding Let_def using f
      by (simp only: sum.case) (rule exI, rule exI [of _ ?f], intro conjI, rule refl, simp_all)
  qed
next
  case False
  then have p: "hr_Path r = ''/segments/'' @ sc @ CHR ''/'' # ''containers''" using assms(4) by simp
  have h: "Handler ae r w = handleSegmentContainers ae r sc w"
    using Handler_segment(1) [OF p assms(2), of ae w] Handler_segment(2) [OF p assms(2)] False by (simp add: handleSegmentRoutes_def Let_def numeral_2_eq_2)
  show ?thesis
  proof (cases "ListContainersByScope (w_store w) (SegmentScope sc)")
    case (Inl e)
    then show ?thesis using False h assms(3) by (simp add: containers_in_def handleSegmentContainers_def)
  next
    case (Inr cs)
    then have "db_rerr (w_store w) = None" by (simp add: ListContainersByScope_def split: option.splits)
    note f = ls_row_status(2) [OF this assms(1), of "ae_dc ae"]
    let ?f = "\<lambda>c. brief_status (ae_dc ae) c w"
    obtain u b where "Handler ae r w = (writeJSON (JMap
        (let l = jmap_of (GetAllScopeLimits (w_store w) (SegmentScope sc)) in
         [(''containers'', if cs = [] then JNil else JList (map ?f cs)),
          (''host_limits'', l), (''host_usage'', jmap_int u), (''host_enforced'', jmap_bool b),
          (''global_limits'', l), (''global_usage'', jmap_int u), (''global_enforced'', jmap_bool b),
          (''scope'', JText (SegmentScope sc))])), w)"
      unfolding h using Inr assms(3) by (simp add: handleSegmentContainers_def Let_def brief_list_def)
    moreover have "containers_in sc w = Inr cs" using False Inr by (simp add: containers_in_def)
    ultimately show ?thesis unfolding Let_def using f
      by (simp only: sum.case) (rule exI, rule exI [of _ ?f], intro conjI, rule refl, simp_all)
  qed
qed



subsection \<open>The configuration\<close>

text \<open>What the daemon decodes of a value the command line sends.\<close>

fun to_json :: "jval \<Rightarrow> json" where
  "to_json (JFlag b) = JBool b"
| "to_json (JInt n) = JNum (fl_of_int n)"
| "to_json (JText s) = JStr s"
| "to_json (JList vs) = JArr (map to_json vs)"
| "to_json _ = JNull"

text \<open>How a value that was set is shown afterwards: a key only as being there or not.\<close>

definition config_shown :: "string \<Rightarrow> jval \<Rightarrow> string" where
  "config_shown key v =
     (case v of
        JFlag b \<Rightarrow> (if b then ''true'' else ''false'')
      | JInt n \<Rightarrow> show_int n
      | JText s \<Rightarrow>
          if key = ''anthropic-key'' \<or> key = ''openai-key'' then (if s = '''' then ''(not set)'' else ''****'') else s
      | JList vs \<Rightarrow> join_comma (List.map_filter (\<lambda>v. case v of JText s \<Rightarrow> Some s | _ \<Rightarrow> None) vs)
      | _ \<Rightarrow> ''(none)'')"

lemma build_persist [simp]: "buildConfigResponse (persistConfig ae u w) = buildConfigResponse w"
  by (simp add: buildConfigResponse_def persistConfig_def Let_def split: sum.split)

lemma json_strings_texts: "json_strings (map (to_json \<circ> JText) ss) = Some ss"
  by (induction ss) auto

lemma filter_texts: "List.map_filter (\<lambda>v. case v of JText s \<Rightarrow> Some s | _ \<Rightarrow> None) (map JText ss) = ss"
  by (induction ss) (auto simp: List.map_filter_simps)

lemma parseConfigValue_shape:
  assumes "parseConfigValue dur_err t s = Inr v"
  shows "t = KBool \<Longrightarrow> \<exists>b. v = JFlag b" "t = KString \<Longrightarrow> v = JText s" "t = KInt \<Longrightarrow> \<exists>n. v = JInt n"
    "t = KDuration \<Longrightarrow> \<exists>d. in64 d \<and> v = JText (duration_string d)"
    "t = KStringList \<Longrightarrow> v = JNil \<or> (\<exists>ps. ps \<noteq> [] \<and> v = jstrs ps)"
  using assms
  by (auto simp: parseConfigValue_def Let_def split: if_splits sum.splits option.splits dest: ParseDuration_in64)

text \<open>When the daemon refuses a value: without the proxy that keeps the keys, for an empty list, for a
  setting of a queue that it does not have, and for a consistency that does not hold.\<close>

definition config_refused :: "string \<Rightarrow> jval \<Rightarrow> ('d, 'c, 'z) server_scheme \<Rightarrow> bool" where
  "config_refused k v w \<longleftrightarrow>
     w_proxy w = None \<or> v = JNil \<or>
     (k \<in> {''ollama_models'', ''ollama_queue_size'', ''ollama_timeout'', ''ollama_default_bid''} \<and> \<not> s_hasOllama w) \<or>
     (k = ''keep_limits_consistent'' \<and> v = JFlag True \<and> validateCurrentLimitsConsistent (w_store w) \<noteq> None)"

definition config_result :: "'d api_env \<Rightarrow> string \<Rightarrow> string \<Rightarrow> jval \<Rightarrow> ('d, 'c, 'z) server_scheme \<Rightarrow> bool" where
  "config_result ae key k v w \<longleftrightarrow>
     (if config_refused k v w then \<exists>e req. applyConfig ae [(k, to_json v)] w = ((Some e, req), w)
      else \<exists>req w1. applyConfig ae [(k, to_json v)] w = ((None, req), w1) \<and>
             formatConfigValue key k (buildConfigResponse w1) = config_shown key v)"

lemmas config_eval = config_result_def config_refused_def applyConfig_def apply_key_def formatConfigValue_def config_shown_def
  buildConfigResponse_def Let_def

lemma on_proxy_simps [simp]:
  "w_proxy (on_proxy f w) = map_option f (w_proxy w)" "w_queue (on_proxy f w) = w_queue w" "s_hasOllama (on_proxy f w) = s_hasOllama w"
  by (simp_all add: on_proxy_def)

lemma on_queue_simps [simp]:
  "w_proxy (on_queue f w) = w_proxy w" "w_queue (on_queue f w) = f (w_queue w)" "s_hasOllama (on_queue f w) = s_hasOllama w"
  by (simp_all add: on_queue_def)

lemma config_bool:
  assumes "w_proxy w = Some p"
  shows "config_result ae ''anthropic-enabled'' ''anthropic_enabled'' (JFlag b) w"
    "config_result ae ''openai-enabled'' ''openai_enabled'' (JFlag b) w"
    "config_result ae ''ollama-enabled'' ''ollama_enabled'' (JFlag b) w"
  using assms by (simp_all add: config_eval set_enabled_def host_enabled_def EnableHost_def mgetb_def)

lemma config_keys:
  assumes "w_proxy w = Some p"
  shows "config_result ae ''anthropic-key'' ''anthropic_key'' (JText s) w"
    "config_result ae ''openai-key'' ''openai_key'' (JText s) w"
  using assms by (simp_all add: config_eval set_key_def SetAPIKey_def HasAPIKey_def mgets_def)

lemma config_consistent: "w_proxy w = Some p \<Longrightarrow>
  config_result ae ''keep-limits-consistent'' ''keep_limits_consistent'' (JFlag b) w"
  by (cases "validateCurrentLimitsConsistent (w_store w)") (simp_all add: config_eval set_consistent_def)

lemma config_number:
  assumes "w_proxy w = Some p" and "\<bar>n\<bar> < 2 ^ 53"
  shows "config_result ae ''ollama-queue-size'' ''ollama_queue_size'' (JInt n) w"
    "config_result ae ''ollama-default-bid'' ''ollama_default_bid'' (JInt n) w"
  using assms fl_to_int64_of_int [OF assms(2)]
  by (simp_all add: config_eval set_queue_def SetMaxQueueSize_def SetDefaultBid_def GetConfig_def)

lemma config_timeout: "w_proxy w = Some p \<Longrightarrow> in64 d \<Longrightarrow>
  config_result ae ''ollama-timeout'' ''ollama_timeout'' (JText (duration_string d)) w"
  by (simp add: config_eval set_queue_def SetRequestTimeout_def GetConfig_def parse_duration_string)

lemma config_lists:
  assumes "w_proxy w = Some p"
  shows "config_result ae ''ollama-models'' ''ollama_models'' JNil w"
    "config_result ae ''error-webhooks'' ''error_webhooks'' JNil w"
    "ps \<noteq> [] \<Longrightarrow> config_result ae ''ollama-models'' ''ollama_models'' (jstrs ps) w"
    "ps \<noteq> [] \<Longrightarrow> config_result ae ''error-webhooks'' ''error_webhooks'' (jstrs ps) w"
  using assms
  by (simp_all add: config_eval set_queue_def SetAllowedModels_def GetConfig_def jstrs_def json_strings_texts filter_texts)

lemma RestoreBids_config [simp]:
  fixes w :: "('d, 'c, 'z) server_scheme"
  shows "q_cfg (w_queue (RestoreBids cids w)) = q_cfg (w_queue w)" "s_hasOllama (RestoreBids cids w) = s_hasOllama w"
proof -
  have "q_cfg (w_queue (RestoreBids cids w)) = q_cfg (w_queue w) \<and> s_hasOllama (RestoreBids cids w) = s_hasOllama w"
    unfolding RestoreBids_def by (induction cids arbitrary: w) (auto split: sum.split)
  then show "q_cfg (w_queue (RestoreBids cids w)) = q_cfg (w_queue w)" "s_hasOllama (RestoreBids cids w) = s_hasOllama w"
    by simp_all
qed

lemma config_url:
  assumes "w_proxy w = Some p"
  shows "config_result ae ''ollama-url'' ''ollama_url'' (JText s) w"
proof -
  define u where "u = (if s_hasOllama w then SetOllamaURL s w else initOllama s w)"
  have "s_hasOllama u" "oc_OllamaURL (GetConfig (w_queue u)) = s"
    by (simp_all add: u_def SetOllamaURL_def initOllama_def Let_def GetConfig_def SetActivityRecorder_def NewQueue_def split: option.split)
  then have "map_of (buildConfigResponse u) ''ollama_url'' = Some (JText s)"
    by (simp add: buildConfigResponse_def Let_def map_add_def split: option.split)
  moreover have "applyConfig ae [(''ollama_url'', JStr s)] w = ((None, []), u)"
    by (simp add: applyConfig_def Let_def u_def)
  ultimately show ?thesis
    using assms by (simp add: config_result_def config_refused_def formatConfigValue_def config_shown_def)
qed

lemma config_result:
  assumes "map_of configKeys key = Some (k, t)" and "parseConfigValue dur_err t s = Inr v"
    and "\<forall>n. v = JInt n \<longrightarrow> \<bar>n\<bar> < 2 ^ 53" and "w_proxy w = Some p"
  shows "config_result ae key k v w"
proof -
  have b: "parseConfigValue dur_err KBool s = Inr v \<Longrightarrow> \<exists>b. v = JFlag b"
    and st: "parseConfigValue dur_err KString s = Inr v \<Longrightarrow> v = JText s"
    and n: "parseConfigValue dur_err KInt s = Inr v \<Longrightarrow> \<exists>n. v = JInt n"
    and d: "parseConfigValue dur_err KDuration s = Inr v \<Longrightarrow> \<exists>d. in64 d \<and> v = JText (duration_string d)"
    and l: "parseConfigValue dur_err KStringList s = Inr v \<Longrightarrow> v = JNil \<or> (\<exists>ps. ps \<noteq> [] \<and> v = jstrs ps)" for v
    using parseConfigValue_shape [of dur_err _ s v] by blast+
  have "\<forall>x \<in> set configKeys. \<forall>v. parseConfigValue dur_err (snd (snd x)) s = Inr v \<longrightarrow> (\<forall>n. v = JInt n \<longrightarrow> \<bar>n\<bar> < 2 ^ 53) \<longrightarrow>
      config_result ae (fst x) (fst (snd x)) v w"
    unfolding configKeys_def list.set ball_simps fst_conv snd_conv
    by (intro conjI allI impI TrueI; (drule b | drule st | drule n | drule d | drule l);
        blast intro: config_bool [OF assms(4)] config_consistent [OF assms(4)] config_keys [OF assms(4)] config_url [OF assms(4)]
          config_number [OF assms(4)] config_timeout [OF assms(4)] config_lists [OF assms(4)])
  then show ?thesis using map_of_SomeD [OF assms(1)] assms(2,3) by fastforce
qed

text \<open>C28: "ddl config set", served by the daemon, for every key and every value that it parses: the value
  is refused exactly when the daemon has no provider management, when it is an empty list,
  when it is for a queue that is not configured, or when it is a consistency that the limits do
  not have; then an error is reported and nothing has changed. Otherwise the command succeeds and
  "ddl config get" shows from then on what was set: booleans, texts, durations in canonical form,
  integers below 2^53, lists, and of an API key only whether there is one.\<close>

theorem config_round_trip:
  fixes w :: "('d, 'c, 'z) server_scheme"
  assumes "map_of configKeys key = Some (k, t)" and "parseConfigValue dur_err t s = Inr v"
    and "\<forall>n. v = JInt n \<longrightarrow> \<bar>n\<bar> < 2 ^ 53" and "\<not> cx_json cx"
    and "ae_object ae (marshal (JMap [(k, v)])) = Inr [(k, to_json v)]"
    and "(out, w') = run_cli (serve (Handler ae) marshal) (configSetCmd dur_err cx key s) w"
  shows "if config_refused k v w then (\<exists>e. out = Some (Inl e)) \<and> w' = w
         else out = Some (Inr [Print (key @ '' updated'' @ nl)]) \<and>
              formatConfigValue key k (buildConfigResponse w') = config_shown key v"
proof -
  define cr where "cr = \<lparr>cr_Method = ''PUT'', cr_URL = ''/config'', cr_Body = Some (JMap [(k, v)])\<rparr>"
  have run: "(out, w') = run_cli (serve (Handler ae) marshal)
      (ask_for cx 200 cr (\<lambda>result. say (key @ '' updated''))) w"
    using assms(1,2,4,6) by (simp add: configSetCmd_def cr_def)
  have h: "Handler ae (http_of marshal cr) w = handleConfig ae (http_of marshal cr) w" "cr_Method cr = ''PUT''"
    "ae_object ae (hr_Body (http_of marshal cr)) = Inr [(k, to_json v)]"
    using assms(5) by (simp_all add: Handler_def Let_def cr_def prefix_def)
  show ?thesis
  proof (cases "w_proxy w")
    case None
    then show ?thesis
      using run by (simp add: ask_for_def serve_def h handleConfig_def config_refused_def writeError_def fail_def)
  next
    case (Some p)
    note res = config_result [OF assms(1,2,3) Some, of ae]
    have c: "handleConfig ae (http_of marshal cr) w =
        (case applyConfig ae [(k, to_json v)] w of
           ((Some e, _), w1) \<Rightarrow> (writeError 400 e, w1)
         | ((None, req), w1) \<Rightarrow> (writeJSON (JMap (buildConfigResponse (persistConfig ae req w1))), persistConfig ae req w1))"
      unfolding handleConfig_def Let_def using Some by (simp add: h)
    show ?thesis
      using res run
      by (cases "config_refused k v w")
        (auto simp: config_result_def ask_for_def serve_def h c writeError_def writeJSON_def fail_def say_def nl_def)
  qed
qed

theorem config_round_trip_witness:
  "let ae = demo_env \<lparr>lr_Type = LimitCPU, lr_Value = 0, lr_Operation = ''set''\<rparr> [(''ollama_models'', JArr [JStr ''a'', JStr ''b''])];
       res = run_cli (serve (Handler ae) (\<lambda>_. ''{}'')) (configSetCmd (\<lambda>_. ''bad duration'') demo_cli ''ollama-models'' ''a, b'') demo_server
   in fst res = Some (Inr [Print (''ollama-models'' @ '' updated'' @ nl)]) \<and>
      formatConfigValue ''ollama-models'' ''ollama_models'' (buildConfigResponse (snd res)) = ''a, b''"
proof -
  let ?ae = "demo_env \<lparr>lr_Type = LimitCPU, lr_Value = 0, lr_Operation = ''set''\<rparr> [(''ollama_models'', JArr [JStr ''a'', JStr ''b''])]"
  have p: "parseConfigValue (\<lambda>_. ''bad duration'') KStringList ''a, b'' = Inr (jstrs [''a'', ''b''])"
    by (simp add: parseConfigValue_def trim_space_def is_space_def Let_def)
  have "config_shown ''ollama-models'' (jstrs [''a'', ''b'']) = ''a, b''"
    by (simp add: config_shown_def jstrs_def join_comma_def List.map_filter_simps)
  moreover have "\<not> config_refused ''ollama_models'' (jstrs [''a'', ''b'']) demo_server"
    by (simp add: config_refused_def jstrs_def)
  ultimately show ?thesis
    using config_round_trip [where key = "''ollama-models''" and k = "''ollama_models''" and t = KStringList and v = "jstrs [''a'', ''b'']"
        and s = "''a, b''" and ae = ?ae and marshal = "\<lambda>_. ''{}''" and cx = demo_cli and w = demo_server,
        OF _ p _ _ _ prod.collapse]
    by (simp add: configKeys_def demo_cli_def jstrs_def Let_def)
qed

end
