(* ===== verification/EndToEnd.thy ===== *)
theory EndToEnd
  imports CliProps
begin

text \<open>
  Facts that join the command line, the server and the enforcement of limits: what a check leaves of
  the store, comparisons of small integers as floats, and the replies the usage commands read.
\<close>

subsection \<open>What a check leaves of the store\<close>

lemma check_besides:
  fixes w :: "('d, 'c, 'z) world_scheme"
  shows "besides_usage (w_store (checkAndEnforce dc cg cid did slept w)) = besides_usage (w_store w)"
proof -
  have m: "besides_usage (w_store (snd (measure dc cg cid did slept path lt v))) = besides_usage (w_store v)"
    for path lt and v :: "('d, 'c, 'z) world_scheme"
    by (simp add: measure_def Let_def on_store_def case_prod_unfold split: sum.split)
  have c: "besides_usage (w_store (check_type dc cg cid did slept path limits lt v)) = besides_usage (w_store v)"
    for path limits lt and v :: "('d, 'c, 'z) world_scheme"
    using m [of path lt v] by (simp add: check_type_def Let_def case_prod_unfold split: option.split)
  have f: "besides_usage (w_store (fold (check_type dc cg cid did slept path limits) lts v)) = besides_usage (w_store v)"
    for path limits lts and v :: "('d, 'c, 'z) world_scheme"
    by (rule fold_frame [where g = "\<lambda>w. besides_usage (w_store w)"]) (rule c)
  show ?thesis
    by (simp add: checkAndEnforce_def Let_def emit_usage_def sync_spending_def on_store_def case_prod_unfold f
        split: sum.split bool.split option.split)
qed

lemma besides_reads:
  assumes "besides_usage s' = besides_usage s"
  shows "GetAllLimits s' c = GetAllLimits s c" and "ResolveContainerID s' q = ResolveContainerID s q"
    and "GetContainer s' c = GetContainer s c"
proof -
  have "t_limits s' = t_limits s" "t_containers s' = t_containers s" "db_rerr s' = db_rerr s"
    using assms by (cases s; cases s'; simp add: besides_usage_def)+
  note eqs = this
  have f: "find_row q s' = find_row q s" for q by (simp add: find_row_def eqs)
  show "GetAllLimits s' c = GetAllLimits s c" "ResolveContainerID s' q = ResolveContainerID s q"
    "GetContainer s' c = GetContainer s c"
    unfolding GetAllLimits_def query_rows_def ResolveContainerID_def GetContainer_def eqs f by (rule refl)+
qed

subsection \<open>Small integers as floats\<close>

lemma fl_of_int_order:
  assumes "\<bar>m\<bar> < 2 ^ 53" and "\<bar>n\<bar> < 2 ^ 53"
  shows "fl_le (fl_of_int m) (fl_of_int n) \<longleftrightarrow> m \<le> n" and "fl_pos (fl_of_int n) \<longleftrightarrow> 0 < n"
proof -
  obtain j where j: "fl_of_int m = Fin (m * 2 ^ j) (- int j)" using fl_of_int_exact [OF assms(1)] .
  obtain k where k: "fl_of_int n = Fin (n * 2 ^ k) (- int k)" using fl_of_int_exact [OF assms(2)] .
  define e where "e = max j k"
  have "j \<le> e" "k \<le> e" by (simp_all add: e_def)
  then have "(2 :: int) ^ j * 2 ^ (e - j) = 2 ^ e" "(2 :: int) ^ k * 2 ^ (e - k) = 2 ^ e"
    by (simp_all add: power_add [symmetric])
  then have "m * 2 ^ j * 2 ^ (e - j) = m * 2 ^ e" "n * 2 ^ k * 2 ^ (e - k) = n * 2 ^ e"
    by (simp_all only: mult.assoc)
  moreover have "nat (- int j - min (- int j) (- int k)) = e - j" "nat (- int k - min (- int j) (- int k)) = e - k"
    by (auto simp: e_def)
  ultimately show "fl_le (fl_of_int m) (fl_of_int n) \<longleftrightarrow> m \<le> n"
    unfolding j k fl_le.simps Let_def by (simp only: mult_le_cancel_right) simp
  show "fl_pos (fl_of_int n) \<longleftrightarrow> 0 < n" by (simp add: k zero_less_mult_iff)
qed

lemma getJSONFloat_ints: "getJSONFloat (map (\<lambda>(k, v). (k, JInt v)) m) lt = fl_of_int (mget0 (map_of m) lt)"
  by (induction m) (auto simp: getJSONFloat_def mget0_def)

lemma usage_row_small:
  assumes "\<bar>u\<bar> < 2 ^ 53" and "0 < l" and "l < 2 ^ 53"
    and "getJSONFloat usage lt = fl_of_int u" and "getJSONFloat limits lt = fl_of_int l"
  shows "usage_row usage limits lt =
    lt @ tab @ formatValue lt u @ tab @ formatValue lt l @ tab @ show_fixed 1 (percentage (fl_of_int u) (fl_of_int l)) @ ''%'' @
    (if l \<le> u then '' ENFORCED'' else '''') @ nl"
  using assms fl_of_int_order(1) [of l u] fl_of_int_order(2) [of u l]
  by (simp add: usage_row_def Let_def usage_status_def)

subsection \<open>The usage of a container\<close>

text \<open>A request that is answered with an object goes on with its members.\<close>

lemma run_apiGet:
  assumes "Handler ae (http_of marshal \<lparr>cr_Method = ''GET'', cr_URL = path, cr_Body = None\<rparr>) w = (writeJSON (JMap m), w')"
  shows "run_cli (serve (Handler ae) marshal) (apiGet cx path k) w = run_cli (serve (Handler ae) marshal) (k (Inr m)) w'"
  unfolding apiGet_def run_cli.simps serve_def assms by (simp add: writeJSON_def reply_map_def decode_map_def)

lemma usage_replies:
  fixes w :: "('d, 'c, 'z) server_scheme"
  assumes "ResolveContainerID (w_store w) c = Inr cid" and "CHR ''/'' \<notin> set c" and "\<not> cx_json cx"
    and "GetAllUsage (w_store w) cid = Inr u" and "GetAllLimits (w_store w) cid = Inr l"
  shows "run_cli (serve (Handler ae) marshal) (usageCmd cx c) w =
    (Some (Inr [Print (usage_table ''LIMIT'' (map (\<lambda>(k, v). (k, JInt v)) u) (map (\<lambda>(k, v). (k, JInt v)) l))]), w)"
proof -
  define ru where "ru = http_of marshal \<lparr>cr_Method = ''GET'', cr_URL = ''/containers/'' @ c @ ''/usage'', cr_Body = None\<rparr>"
  define rl where "rl = http_of marshal \<lparr>cr_Method = ''GET'', cr_URL = ''/containers/'' @ c @ ''/limits'', cr_Body = None\<rparr>"
  have "Handler ae ru w = container_sub ae ''usage'' ru cid w"
    by (rule Handler_container [OF _ assms(2,1)]) (simp add: ru_def)
  then have "Handler ae ru w = (writeJSON (JMap (map (\<lambda>(k, v). (k, JInt v)) u)), w)"
    using assms(4) by (simp add: container_sub_def handleUsage_def ru_def jmap_int_def)
  note ru = run_apiGet [OF this [unfolded ru_def]]
  have "Handler ae rl w = container_sub ae ''limits'' rl cid w"
    by (rule Handler_container [OF _ assms(2,1)]) (simp add: rl_def)
  then have "Handler ae rl w = (writeJSON (JMap (map (\<lambda>(k, v). (k, JInt v)) l)), w)"
    using assms(5) by (simp add: container_sub_def handleLimits_def rl_def jmap_int_def)
  note rl = run_apiGet [OF this [unfolded rl_def]]
  show ?thesis unfolding usageCmd_def ru sum.case rl Let_def using assms(3) by simp
qed

lemma usage_cell:
  assumes "GetAllUsage s cid = Inr u"
  shows "or0 (GetUsage s cid lt) = mget0 (map_of u) lt"
proof -
  have u: "u = tbl_part cid (t_usage s)" "list_all (\<lambda>r. in64 (snd r)) u" "db_rerr s = None"
    using assms by (auto simp: GetAllUsage_def query_rows_def split: option.splits if_splits)
  have "map_of u lt = Some v \<Longrightarrow> in64 v" for v using u(2) by (auto dest!: map_of_SomeD simp: list_all_iff)
  then show ?thesis using u by (auto simp: GetUsage_def query_int_def scan_int_def or0_def mget0_def split: option.split)
qed

lemma all_types_eq: "set all_types = set AllLimitTypes"
  by (auto simp: all_types_def AllLimitTypes_def)

text \<open>The demonstration server with the readings of a busy container.\<close>

definition busy_server :: "(mock_docker, mock_cgroup) server" where
  "busy_server = demo_server\<lparr>w_cgroup := busy_cgroup\<rparr>"

lemma busy_server_facts:
  "host_ok mock_known mock_ready ''0123456789ab'' ''0123456789abcdef'' ''/cg'' busy_server"
  "g_find MockCgroup (w_cgroup busy_server) ''0123456789abcdef'' = Inr ''/cg''"
  "d_running MockDocker (w_docker busy_server) ''0123456789abcdef'' = Inr True"
  "\<not> IsFrozen busy_server ''0123456789ab''"
  "GetAllLimits (w_store busy_server) ''0123456789ab'' = Inr [(LimitCPU, 1000)]"
  "ResolveContainerID (w_store busy_server) ''0123456789ab'' = Inr ''0123456789ab''"
proof -
  show "ResolveContainerID (w_store busy_server) ''0123456789ab'' = Inr ''0123456789ab''"
    by (rule Resolve_exact) (simp_all add: busy_server_def demo_store_eval find_row_def)
qed (simp_all add: busy_server_def host_ok_def demo_store_reads mock_world_def NewManager_def mock_known_def AddContainer_def
      new_mock_container_def mock_ready_def busy_cgroup_def NewMockCgroup_def in64_def MockCgroup_def mock_ops
      IsFrozen_def GetAllLimits_def query_rows_def demo_store_eval tbl_part_def GetSpending_def NewSpendingTracker_def mget0_def
      mgetb_def db_ok_def go_div_nonneg)

abbreviation checked_server :: "(mock_docker, mock_cgroup) server" where
  "checked_server \<equiv> checkAndEnforce MockDocker MockCgroup ''0123456789ab'' ''0123456789abcdef'' False busy_server"

lemma busy_check_usage:
  "GetAllUsage (w_store checked_server) ''0123456789ab'' = Inr [(LimitCPU, 2000), (LimitRAM, 300)]"
proof -
  let ?check = "check_type MockDocker MockCgroup ''0123456789ab'' ''0123456789abcdef'' False (Inr ''/cg'') [(LimitCPU, 1000)]"
  have s: "w_store busy_server = demo_store" "w_proxy busy_server = Some NewSpendingTracker" by (simp_all add: busy_server_def)
  have "getCurrentUsage MockDocker MockCgroup ''0123456789ab'' ''0123456789abcdef'' LimitCPU (Inr ''/cg'') busy_server = Inr 2000"
    by (simp add: getCurrentUsage_def busy_server_def busy_cgroup_def NewMockCgroup_def MockCgroup_def mget0_def go_div_nonneg)
  then have "measure MockDocker MockCgroup ''0123456789ab'' ''0123456789abcdef'' False (Inr ''/cg'') LimitCPU busy_server =
      (Some 2000, snd (on_store (SetUsage ''0123456789ab'' LimitCPU 2000) busy_server))"
    by (simp add: measure_def isByteSecondType_def)
  then have c: "w_store (?check LimitCPU busy_server) = snd (SetUsage ''0123456789ab'' LimitCPU 2000 demo_store)"
    "w_proxy (?check LimitCPU busy_server) = Some NewSpendingTracker"
    by (simp_all add: check_type_def Let_def on_store_def case_prod_unfold s)
  have rest: "?check lt w = w" if "lt \<noteq> LimitCPU" for lt and w :: "(mock_docker, mock_cgroup) server"
    using that by (simp add: check_type_def)
  have "fold ?check AllLimitTypes busy_server = ?check LimitCPU busy_server"
    by (simp add: AllLimitTypes_def rest)
  then have "w_store checked_server = snd (SetUsage ''0123456789ab'' LimitCPU 2000 demo_store)"
    using busy_server_facts(2-5) c
    by (simp add: checkAndEnforce_def IsFrozen_def sync_spending_def emit_usage_def Let_def NewSpendingTracker_def GetSpending_def mget0_def go_div_nonneg)
  then show ?thesis
    by (simp add: GetAllUsage_def query_rows_def SetUsage_def exec_def demo_store_eval tbl_put_def tbl_part_def in64_def)
qed

end
