(* ===== verification/ErrorProps.thy ===== *)
theory ErrorProps
  imports ApiProps
begin

text \<open>
  What a failed request leaves behind: the replies of every handler of \<^verbatim>\<open>internal/api/api.go\<close> that
  report an error, against the state of the server before and after.
\<close>

subsection \<open>Replies that report an error\<close>

definition error_reply :: "api_reply \<Rightarrow> bool" where
  "error_reply rep \<longleftrightarrow> rep = Panicked \<or> 400 \<le> status_of rep"

lemma error_reply_simps [simp]:
  "\<not> error_reply (writeJSON v)" "error_reply (writeError c e) \<longleftrightarrow> 400 \<le> c" "error_reply (Json c v) \<longleftrightarrow> 400 \<le> c"
  "error_reply Panicked" "\<not> error_reply (Stream h)"
  by (auto simp: error_reply_def writeError_def status_of_def writeJSON_def)

text \<open>An outcome that, when it reports an error, has left the state as it was.\<close>

definition error_keeps :: "'s \<Rightarrow> api_reply \<times> 's \<Rightarrow> bool" where
  "error_keeps w out \<longleftrightarrow> (error_reply (fst out) \<longrightarrow> snd out = w)"

lemma error_keeps_simps [simp]:
  "error_keeps w (rep, w)" "error_keeps w (writeJSON v, w')" "error_keeps w (Json c v, w') \<longleftrightarrow> (400 \<le> c \<longrightarrow> w' = w)"
  "error_keeps w (writeError c e, w') \<longleftrightarrow> (400 \<le> c \<longrightarrow> w' = w)" "error_keeps w (Panicked, w') \<longleftrightarrow> w' = w"
  by (simp_all add: error_keeps_def)

text \<open>A statement that fails has left the store alone.\<close>

lemma on_store_same:
  assumes "on_store f w = (x, w1)" and "\<And>s. fst (f s) = x \<Longrightarrow> snd (f s) = s"
  shows "w1 = w"
  using assms(1) assms(2) [of "w_store w"] by (cases "f (w_store w)") (auto simp: on_store_def)

lemma failed_statement [dest!]:
  fixes w :: "('d, 'c, 'z) world_scheme"
  shows "on_store (SetLimit c lt v) w = (Some e, w1) \<Longrightarrow> w1 = w"
    and "on_store (SetScopeLimit sc lt v) w = (Some e, w1) \<Longrightarrow> w1 = w"
    and "on_store (SetContainerSegment c g) w = (Some e, w1) \<Longrightarrow> w1 = w"
    and "on_store (DeleteSegment seg) w = (Some e, w1) \<Longrightarrow> w1 = w"
    and "on_store (RemoveContainer c) w = (Some e, w1) \<Longrightarrow> w1 = w"
    and "on_store (SetSegmentConfig seg key val) w = (Some e, w1) \<Longrightarrow> w1 = w"
    and "on_store (SetFrozen c b) w = (Some e, w1) \<Longrightarrow> w1 = w"
    and "on_store (CopyLimits c d) w = (Some e, w1) \<Longrightarrow> w1 = w"
    and "on_store (RegisterContainer did name now) w = (Inl e, w1) \<Longrightarrow> w1 = w"
    and "on_store (CreateSegment seg name now) w = (Inl e, w1) \<Longrightarrow> w1 = w"
  by (erule on_store_same, (erule DeleteSegment_error |
      (auto simp: store_write_defs store_action_defs Let_def exec_def split: option.splits if_splits) [1]))+

text \<open>The store accepts writes, or no statement that writes succeeds.\<close>

lemma register_then_copy:
  assumes "on_store (RegisterContainer did name now) w = (Inr c, w1)"
  obtains w2 where "on_store (CopyLimits a b) w1 = (None, w2)"
  using assms by (auto simp: on_store_def RegisterContainer_def CopyLimits_def exec_def Let_def
      split: option.splits if_splits prod.splits)

subsection \<open>The handlers, one by one\<close>

lemma limits_errors:
  "error_keeps w (handleGlobalLimits ae r w)" "error_keeps w (handleScopeLimits ae r w)"
  "error_keeps w (handleLimits ae r cid w)" "error_keeps w (handleSegmentLimits ae r segID w)"
  "error_keeps w (scoped_limits ae sc r w)"
proof -
  show g: "error_keeps w (handleGlobalLimits ae r w)"
    by (auto simp: handleGlobalLimits_def Let_def writeJSON400_def split: sum.split option.split prod.split)
  show "error_keeps w (handleScopeLimits ae r w)" by (simp add: handleScopeLimits_def Let_def g)
  have "error_keeps w (rep, w)" for rep by simp
  then show "error_keeps w (handleLimits ae r cid w)"
    by (auto simp: handleLimits_def Let_def split: sum.split option.split prod.split)
  show s: "error_keeps w (handleSegmentLimits ae r segID w)" for segID
    by (auto simp: handleSegmentLimits_def Let_def split: sum.split option.split prod.split)
  show "error_keeps w (scoped_limits ae sc r w)" by (simp add: scoped_limits_def g s)
qed

lemma container_errors:
  "error_keeps w (handleContainers ae r w)" "error_keeps w (handleRegister ae r w)" "error_keeps w (handleUsage r cid w)"
  "error_keeps w (handleActivity r cid w)" "error_keeps w (handleFreezeAll ae r w)" "error_keeps w (handleUnfreezeAll ae r w)"
  "hr_Method r \<noteq> ''DELETE'' \<Longrightarrow> error_keeps w (handleContainerInfo ae r cid w)"
  by (auto simp: handleContainers_def handleRegister_def register_found_def handleUsage_def handleActivity_def
      handleFreezeAll_def handleUnfreezeAll_def on_all_containers_def handleContainerInfo_def Let_def
      split: sum.split option.split prod.split)

lemma self_errors:
  "error_keeps w (handleSelfUsage r w)" "error_keeps w (handleSelfLimits r w)" "error_keeps w (handleSelfUsageByIP r w)"
  "error_keeps w (handleSelfLimitsByIP r w)" "error_keeps w (handleOllamaQueue r w)" "error_keeps w (handleOllamaModels r w)"
  "error_keeps w (handleOllamaBidForContainer ae r cid w)" "error_keeps w (handleOllamaCancelForContainer r cid w)"
  "error_keeps w (handleOllamaBidByIP ae r w)" "error_keeps w (handleEvents ae r w)" "error_keeps w (handleProviders ae r w)"
  "error_keeps w (handleDocs r w)" "error_keeps w (handleContainersReadOnly ae r w)"
  by (auto simp: handleSelfUsage_def handleSelfLimits_def handleSelfUsageByIP_def handleSelfLimitsByIP_def
      handleOllamaQueue_def handleOllamaModels_def handleOllamaBidForContainer_def handleOllamaCancelForContainer_def
      handleOllamaBidByIP_def get_or_set_bid_def handleEvents_def handleProviders_def handleDocs_def
      handleContainersReadOnly_def container_errors error_keeps_def Let_def
      split: sum.split option.split prod.split)

lemma segment_errors:
  "error_keeps w (handleSegments ae r w)" "error_keeps w (handleSegmentDetail r segID w)" "error_keeps w (handleSegmentUsage r segID w)"
  "error_keeps w (handleSegmentContainers ae r segID w)" "error_keeps w (handleSegmentAssign r segID cid w)"
  "error_keeps w (handleSegmentUnassign r segID cid w)" "error_keeps w (handleSegmentFreezeAll ae r segID w)"
  "error_keeps w (handleSegmentUnfreezeAll ae r segID w)" "error_keeps w (handleScopedListeners ae r w)"
  "error_keeps w (handleScopedListenerByID r w)" "error_keeps w (scoped_containers ae sc r w)"
  by (auto simp: handleSegments_def handleSegmentDetail_def handleSegmentUsage_def handleSegmentContainers_def
      handleSegmentAssign_def handleSegmentUnassign_def handleSegmentFreezeAll_def handleSegmentUnfreezeAll_def
      handleScopedListeners_def handleScopedListenerByID_def scoped_containers_def open_listener_def Let_def
      split: sum.split option.split prod.split)

text \<open>A segment's settings are written one by one, but the first of them fails if one does.\<close>

lemma set_segment_keys_error:
  fixes w :: "('d, 'c, 'z) world_scheme"
  shows "set_segment_keys ae seg kvs w = (Some e, w1) \<Longrightarrow> w1 = w"
proof (induction kvs arbitrary: w)
  case (Cons kv kvs)
  obtain key val where kv: "kv = (key, val)" by fastforce
  show ?case
  proof (cases "db_werr (w_store w)")
    case None
    have "fst (set_segment_keys ae seg kvs v) = None" if "db_werr (w_store v) = None"
      for v :: "('d, 'c, 'z) world_scheme"
      using that by (induction kvs arbitrary: v) (auto simp: on_store_def SetSegmentConfig_def exec_def split: prod.split)
    moreover define v where "v = snd (on_store (SetSegmentConfig seg key (ae_text ae val)) w)"
    ultimately have "fst (set_segment_keys ae seg kvs v) = None" "on_store (SetSegmentConfig seg key (ae_text ae val)) w = (None, v)"
      using None by (simp_all add: v_def on_store_def SetSegmentConfig_def exec_def)
    then have False using Cons.prems by (simp add: kv)
    then show ?thesis ..
  next
    case (Some x)
    then show ?thesis using Cons.prems by (simp add: kv on_store_def SetSegmentConfig_def exec_def)
  qed
qed simp

lemma segment_config_errors: "error_keeps w (handleSegmentConfig ae r segID w)"
  by (auto simp: handleSegmentConfig_def Let_def dest: set_segment_keys_error split: sum.split option.split prod.split)

subsection \<open>Requests that can fail halfway\<close>

text \<open>Cloning, freezing and unfreezing, changing the configuration and removing a container.\<close>

definition fails_halfway :: "http_request \<Rightarrow> bool" where
  "fails_halfway r \<longleftrightarrow>
     (let path = hr_Path r in
      hr_Method r = ''PUT'' \<and> path = ''/config'' \<or>
      hr_Method r = ''POST'' \<and> list_ex (\<lambda>act. suffix act path) [''/clone'', ''/freeze'', ''/unfreeze''] \<or>
      hr_Method r = ''DELETE'' \<and>
        (prefix ''/containers/'' path \<or> length (split_n 3 (CHR ''/'') (trim_prefix path ''/segments/'')) = 3))"

text \<open>
  What a request may have changed when it reports an error: the store only by the frozen flag of an
  unfreezing, Docker only by a clone, a pause or an unpause, and nothing at all unless it is one of
  those requests.
\<close>

definition confined :: "http_request \<Rightarrow> ('d, 'c, 'z) server_scheme \<Rightarrow> api_reply \<times> ('d, 'c, 'z) server_scheme \<Rightarrow> bool" where
  "confined r w out \<longleftrightarrow>
     (error_reply (fst out) \<longrightarrow>
        (w_store (snd out) = w_store w \<or>
           hr_Method r = ''POST'' \<and> suffix ''/unfreeze'' (hr_Path r) \<and>
           (\<exists>cid. w_store (snd out) = snd (SetFrozen cid False (w_store w)))) \<and>
        (w_docker (snd out) = w_docker w \<or>
           hr_Method r = ''POST'' \<and> list_ex (\<lambda>act. suffix act (hr_Path r)) [''/clone'', ''/freeze'', ''/unfreeze'']) \<and>
        (fails_halfway r \<or> snd out = w))"

lemma confinedI: "error_keeps w out \<Longrightarrow> confined r w out"
  by (simp add: confined_def error_keeps_def)

lemma store_keeps_docker: "on_store f w = (x, w1) \<Longrightarrow> w_docker w1 = w_docker w"
  by (auto simp: on_store_def split: prod.splits)

lemma docker_keeps_store: "on_docker f w = (x, w1) \<Longrightarrow> w_store w1 = w_store w"
  by (auto simp: on_docker_def split: prod.splits)

definition error_keeps_store :: "store \<Rightarrow> api_reply \<times> ('d, 'c, 'z) server_scheme \<Rightarrow> bool" where
  "error_keeps_store s out \<longleftrightarrow> (error_reply (fst out) \<longrightarrow> w_store (snd out) = s)"

lemma error_keeps_store_simps [simp]:
  "error_keeps_store s (writeJSON v, w')" "error_keeps_store s (Json c v, w') \<longleftrightarrow> (400 \<le> c \<longrightarrow> w_store w' = s)"
  "error_keeps_store s (writeError c e, w') \<longleftrightarrow> (400 \<le> c \<longrightarrow> w_store w' = s)"
  "error_keeps_store s (Panicked, w') \<longleftrightarrow> w_store w' = s"
  by (simp_all add: error_keeps_store_def)

lemma clone_confined:
  fixes w :: "('d, 'c, 'z) server_scheme"
  assumes "suffix ''/clone'' (hr_Path r)"
  shows "confined r w (handleClone ae r cid w)"
proof (cases "hr_Method r = ''POST''")
  case True
  have c: "error_keeps_store (w_store v) (clone_found cid info v)" for info and v :: "('d, 'c, 'z) server_scheme"
  proof (cases "on_store (RegisterContainer (di_ID info) (trim_prefix (di_Name info) ''/'') (w_now v)) v")
    case (Pair x v1)
    show ?thesis
    proof (cases x)
      case (Inl e)
      then show ?thesis using Pair by (auto simp: clone_found_def)
    next
      case (Inr c)
      with Pair obtain v2 where "on_store (CopyLimits cid (c_ID c)) v1 = (None, v2)" by (auto elim: register_then_copy)
      then show ?thesis using Pair Inr by (simp add: clone_found_def)
    qed
  qed
  have "error_keeps_store (w_store w) (handleClone ae r cid w)"
    unfolding handleClone_def using True c by (auto dest!: docker_keeps_store split: sum.split prod.split) (metis c)
  then show ?thesis using True assms by (auto simp: confined_def fails_halfway_def Let_def error_keeps_store_def)
qed (simp add: handleClone_def method_not_allowed_def confinedI)

lemma freeze_confined:
  assumes "suffix ''/freeze'' (hr_Path r)"
  shows "confined r w (handleFreeze ae r cid w)"
proof (cases "hr_Method r = ''POST''")
  case True
  have p: "pause_for (ae_dc ae) did v = (x, v1) \<Longrightarrow> w_store v1 = w_store v" for did v x v1
    by (auto simp: pause_for_def dest!: docker_keeps_store split: prod.splits option.splits)
  have "error_keeps_store (w_store w) (handleFreeze ae r cid w)"
    using True by (auto simp: handleFreeze_def Freeze_def Let_def dest!: p split: option.split prod.split)
  then show ?thesis using True assms by (auto simp: confined_def fails_halfway_def Let_def error_keeps_store_def)
qed (simp add: handleFreeze_def method_not_allowed_def confinedI)

lemma unfreeze_confined:
  assumes "suffix ''/unfreeze'' (hr_Path r)"
  shows "confined r w (handleUnfreeze ae r cid w)"
proof (cases "hr_Method r = ''POST''")
  case True
  have s: "on_store (SetFrozen c False) v = (None, v1) \<Longrightarrow> w_store v1 = snd (SetFrozen c False (w_store v))" for c v v1
    by (auto simp: on_store_def split: prod.splits)
  have "w_store (snd (handleUnfreeze ae r cid w)) = w_store w \<or>
      w_store (snd (handleUnfreeze ae r cid w)) = snd (SetFrozen cid False (w_store w))"
    using True
    by (auto simp: handleUnfreeze_def Unfreeze_def Let_def dest!: s docker_keeps_store split: sum.splits option.splits prod.splits if_splits)
  then show ?thesis using True assms by (auto simp: confined_def fails_halfway_def Let_def)
qed (simp add: handleUnfreeze_def method_not_allowed_def confinedI)

lemma drop_pending_world [simp]:
  "w_store (drop_pending cid msg reason w) = w_store w" "w_docker (drop_pending cid msg reason w) = w_docker w"
  unfolding drop_pending_def Let_def by (simp_all add: fold_frame [where g = w_store] fold_frame [where g = w_docker])

lemma remove_confined:
  fixes w :: "('d, 'c, 'z) server_scheme"
  assumes "prefix ''/containers/'' (hr_Path r) \<or> length (split_n 3 (CHR ''/'') (trim_prefix (hr_Path r) ''/segments/'')) = 3"
  shows "confined r w (handleContainerInfo ae r cid w)"
proof (cases "hr_Method r = ''DELETE''")
  case True
  have "w_store (StopContainer cid w) = w_store w" "w_docker (StopContainer cid w) = w_docker w"
    by (simp_all add: StopContainer_def)
  moreover have "w_store (Queue_RemoveContainer cid v) = w_store v" "w_docker (Queue_RemoveContainer cid v) = w_docker v"
    for v :: "('d, 'c, 'z) server_scheme"
    by (simp_all add: Queue_RemoveContainer_def)
  ultimately have "error_keeps_store (w_store w) (handleContainerInfo ae r cid w)"
    "w_docker (snd (handleContainerInfo ae r cid w)) = w_docker w"
    using True by (auto simp: handleContainerInfo_def Let_def dest: store_keeps_docker split: option.split prod.split)
  then show ?thesis using True assms by (auto simp: confined_def fails_halfway_def Let_def error_keeps_store_def)
qed (intro confinedI container_errors)

lemma if_frame: "g x = v \<Longrightarrow> g y = v \<Longrightarrow> g (if b then x else y) = v"
  by simp

lemma apply_keys_world:
  fixes w :: "('d, 'c, 'z) server_scheme"
  shows "apply_keys ae kvs w = (x, w') \<Longrightarrow> w_store w' = w_store w \<and> w_docker w' = w_docker w"
proof (induction kvs arbitrary: w)
  case (Cons kv kvs)
  have "w_store (snd (set_enabled k h v w)) = w_store w" "w_docker (snd (set_enabled k h v w)) = w_docker w"
    "w_store (snd (set_key k h v w)) = w_store w" "w_docker (snd (set_key k h v w)) = w_docker w"
    "w_store (snd (set_queue ae k v w)) = w_store w" "w_docker (snd (set_queue ae k v w)) = w_docker w"
    "w_store (snd (set_consistent v w)) = w_store w" "w_docker (snd (set_consistent v w)) = w_docker w" for k h v
    by (simp_all add: set_enabled_def set_key_def set_queue_def set_consistent_def split: json.split option.split)
  note keys = this
  obtain key val where kv: "kv = (key, val)" by fastforce
  have q: "w_store (snd (apply_key ae kv w)) = w_store w" "w_docker (snd (apply_key ae kv w)) = w_docker w"
    unfolding kv apply_key_def prod.case
    by ((intro if_frame [where g = "\<lambda>out. w_store (snd out)"])?, (intro if_frame [where g = "\<lambda>out. w_docker (snd out)"])?,
        simp_all only: keys, simp_all split: option.split)+
  from q show ?case
    using Cons.IH [of "snd (apply_key ae kv w)"] Cons.prems by (cases "apply_key ae kv w") (auto split: option.splits)
qed simp

lemma applyConfig_world:
  fixes w :: "('d, 'c, 'z) server_scheme"
  assumes "applyConfig ae req w = (x, w')"
  shows "w_store w' = w_store w \<and> w_docker w' = w_docker w"
proof -
  have r: "w_store (RestoreBids cids v) = w_store v" "w_docker (RestoreBids cids v) = w_docker v"
    for cids and v :: "('d, 'c, 'z) server_scheme"
    unfolding RestoreBids_def
    by (simp_all add: fold_frame [where g = w_store] fold_frame [where g = w_docker] split: sum.split)
  have "w_store (initOllama url v) = w_store v" "w_docker (initOllama url v) = w_docker v"
    "w_store (SetOllamaURL url v) = w_store v" "w_docker (SetOllamaURL url v) = w_docker v"
    for url and v :: "('d, 'c, 'z) server_scheme"
    by (simp_all add: initOllama_def SetOllamaURL_def Let_def r split: option.split)
  then show ?thesis
    using assms by (auto simp: applyConfig_def Let_def dest!: apply_keys_world split: option.splits json.splits prod.splits if_splits)
qed

lemma config_confined: "hr_Path r = ''/config'' \<Longrightarrow> confined r w (handleConfig ae r w)"
  by (auto simp: handleConfig_def confined_def fails_halfway_def Let_def dest!: applyConfig_world
      split: sum.split option.split prod.split)

subsection \<open>The routes\<close>

lemma split_suffix:
  assumes "split_n 2 c s = parts" and "length parts \<noteq> 1"
  shows "suffix (c # parts ! 1) s"
  using assms by (auto simp: numeral_2_eq_2 suffix_def split: option.splits dest!: cut_at_Some)

lemmas confined_rules = limits_errors [THEN confinedI] container_errors(1-6) [THEN confinedI] self_errors [THEN confinedI]
  segment_errors [THEN confinedI] segment_config_errors [THEN confinedI]

lemma confined_same [simp]: "confined r w (rep, w)"
  by (simp add: confinedI)

lemma container_sub_confined:
  assumes "suffix (CHR ''/'' # sub) (hr_Path r)"
  shows "confined r w (container_sub ae sub r cid w)"
proof -
  consider "sub = ''clone''" | "sub = ''freeze''" | "sub = ''unfreeze''" | "sub \<notin> {''clone'', ''freeze'', ''unfreeze''}"
    by blast
  then show ?thesis
    using assms by cases (simp_all add: container_sub_def clone_confined freeze_confined unfreeze_confined confined_rules)
qed

lemma container_confined:
  assumes "prefix ''/containers/'' (hr_Path r)"
  shows "confined r w (handleContainer ae r w)"
proof -
  define parts where "parts = split_n 2 (CHR ''/'') (trim_prefix (hr_Path r) ''/containers/'')"
  have "suffix (CHR ''/'' # parts ! 1) (hr_Path r)" if "length parts \<noteq> 1"
    using split_suffix [OF parts_def [symmetric] that] suffix_order.trans
    by (fastforce simp: trim_prefix_def suffix_drop split: if_splits)
  then show ?thesis
    using assms unfolding handleContainer_def Let_def parts_def [symmetric]
    by (simp add: remove_confined container_sub_confined split: sum.split)
qed

lemma segment_routes_confined: "confined r w (handleSegmentRoutes ae r w)"
proof -
  define rest where "rest = trim_prefix (hr_Path r) ''/segments/''"
  define parts where "parts = split_n 3 (CHR ''/'') rest"
  have len: "length parts \<le> 3" by (auto simp: parts_def numeral_3_eq_3 split: option.splits)
  have inner: "confined r w (segment_container ae r (parts ! 0) (parts ! 2) w)" if "length parts > 2"
  proof -
    have l: "length (split_n 3 (CHR ''/'') (trim_prefix (hr_Path r) ''/segments/'')) = 3"
      using that len by (simp add: parts_def rest_def)
    have "suffix (parts ! 2) rest"
      using that unfolding parts_def
      by (auto simp: numeral_3_eq_3 suffix_def split: option.splits dest!: cut_at_Some)
    then have tail: "suffix (parts ! 2) (hr_Path r)"
      using suffix_order.trans by (fastforce simp: rest_def trim_prefix_def suffix_drop split: if_splits)
    define cparts where "cparts = split_n 2 (CHR ''/'') (parts ! 2)"
    have "suffix (CHR ''/'' # cparts ! 1) (hr_Path r)" if "1 < length cparts"
      using split_suffix [OF cparts_def [symmetric]] that tail suffix_order.trans by fastforce
    then show ?thesis
      unfolding segment_container_def Let_def cparts_def [symmetric]
      using remove_confined [of r w] l
      by (auto simp: container_sub_confined confined_rules split: sum.split)
  qed
  show ?thesis
    unfolding handleSegmentRoutes_def Let_def rest_def [symmetric] parts_def [symmetric]
    using inner by (auto simp: confined_rules not_found_def)
qed

lemma Handler_confined: "confined r w (Handler ae r w)"
  by (simp add: Handler_def Let_def confined_rules container_confined segment_routes_confined config_confined)

lemma other_handlers_confined: "confined r w (ReadOnlyHandler ae r w)" "confined r w (ScopedHandler ae sc r w)"
  by (simp_all add: ReadOnlyHandler_def ScopedHandler_def Let_def confined_rules container_confined)

text \<open>A removal that the store refuses: the container stays registered, but its loop has ended.\<close>

lemma failed_removal_stops_enforcement:
  fixes w :: "('d, 'c, 'z) server_scheme"
  assumes "hr_Method r = ''DELETE''" and "fst (RemoveContainer cid (w_store w)) = Some e" and "cid \<in> set (w_workers w)"
    and "handleContainerInfo ae r cid w = (rep, w')" and "\<not> s_hasOllama w"
  shows "rep = writeError 500 e \<and> w_store w' = w_store w \<and> cid \<notin> set (w_workers w') \<and>
    w_enforced w' cid = None \<and> w_frozen w' cid = None \<and> w_dockerIDs w' cid = None"
proof -
  define w1 where "w1 = StopContainer cid w"
  have w1: "w_store w1 = w_store w" "\<not> s_hasOllama w1" "cid \<notin> set (w_workers w1)" "w_enforced w1 cid = None"
    "w_frozen w1 cid = None" "w_dockerIDs w1 cid = None"
    using assms(3,5) by (simp_all add: w1_def StopContainer_def)
  obtain w2 where w2: "on_store (RemoveContainer cid) w1 = (Some e, w2)"
    using assms(2) w1(1) by (cases "RemoveContainer cid (w_store w1)") (auto simp: on_store_def)
  then have "w2 = w1" by blast
  then show ?thesis using assms(1,4) w1 w2 by (simp add: handleContainerInfo_def w1_def [symmetric])
qed



end
