(* ===== verification/CliHost.thy ===== *)
theory CliHost
  imports Cli
begin

text \<open>
  The commands of \<^verbatim>\<open>ddl\<close> that work on the host (\<^verbatim>\<open>cmd/ddl/daemon.go\<close>, \<^verbatim>\<open>hooks.go\<close>,
  \<^verbatim>\<open>docker_transport.go\<close>, parts of \<^verbatim>\<open>main.go\<close>): interactions with the program
  \<^verbatim>\<open>docker\<close>, the shell, the hooks file and the daemon's port. What those do is a parameter.
\<close>

subsection \<open>Interactions\<close>

text \<open>
  The hooks file as it is found: missing, not readable, or read, with the outcome of decoding it.
\<close>

datatype hooks_file = NoFile | Unreadable err | Contents "err + string list"

datatype host =
    HDone "err option"
  | HPrint string host
  | HWarn string host
  | DockerOutput "string list" "err + string \<Rightarrow> host"
  | DockerExec "string list" "err option \<Rightarrow> host"
  | Shell string "err option \<Rightarrow> host"
  | ReadHooks "hooks_file \<Rightarrow> host"
  | WriteHooks "string list" "err option \<Rightarrow> host"
  | Sleep nat host
  | Probe string "bool \<Rightarrow> host"

text \<open>
  The host: running \<^verbatim>\<open>docker\<close> for its output (with the error text \<^verbatim>\<open>dockerOutput\<close> makes of a failure)
  or attached to the terminal, running a shell command, the hooks file, waiting, and whether a GET of an
  address is answered.
\<close>

record 's host_env =
  he_output :: "string list \<Rightarrow> 's \<Rightarrow> (err + string) \<times> 's"
  he_exec :: "string list \<Rightarrow> 's \<Rightarrow> err option \<times> 's"
  he_shell :: "string \<Rightarrow> 's \<Rightarrow> err option \<times> 's"
  he_read :: "'s \<Rightarrow> hooks_file"
  he_write :: "string list \<Rightarrow> 's \<Rightarrow> err option \<times> 's"
  he_sleep :: "nat \<Rightarrow> 's \<Rightarrow> 's"
  he_probe :: "string \<Rightarrow> 's \<Rightarrow> bool \<times> 's"

text \<open>A run yields the error of the command, what it printed, and the state of the host.\<close>

primrec run_host :: "'s host_env \<Rightarrow> host \<Rightarrow> 's \<Rightarrow> (err option \<times> string list) \<times> 's" where
  "run_host he (HDone r) s = ((r, []), s)"
| "run_host he (HPrint t k) s = (case run_host he k s of ((r, ps), s1) \<Rightarrow> ((r, t # ps), s1))"
| "run_host he (HWarn t k) s = run_host he k s"
| "run_host he (DockerOutput args k) s = (case he_output he args s of (x, s1) \<Rightarrow> run_host he (k x) s1)"
| "run_host he (DockerExec args k) s = (case he_exec he args s of (x, s1) \<Rightarrow> run_host he (k x) s1)"
| "run_host he (Shell cmd k) s = (case he_shell he cmd s of (x, s1) \<Rightarrow> run_host he (k x) s1)"
| "run_host he (ReadHooks k) s = run_host he (k (he_read he s)) s"
| "run_host he (WriteHooks hs k) s = (case he_write he hs s of (x, s1) \<Rightarrow> run_host he (k x) s1)"
| "run_host he (Sleep ms k) s = run_host he k (he_sleep he ms s)"
| "run_host he (Probe url k) s = (case he_probe he url s of (x, s1) \<Rightarrow> run_host he (k x) s1)"

subsection \<open>Hooks\<close>

definition loadHooks :: "(err + string list \<Rightarrow> host) \<Rightarrow> host" where
  "loadHooks k =
     ReadHooks (\<lambda>f. k (case f of
        NoFile \<Rightarrow> Inr []
      | Unreadable e \<Rightarrow> Inl e
      | Contents (Inl e) \<Rightarrow> Inl (''parse hooks file: '' @ e)
      | Contents (Inr hs) \<Rightarrow> Inr hs))"

definition saveHooks :: "string list \<Rightarrow> (err option \<Rightarrow> host) \<Rightarrow> host" where
  "saveHooks = WriteHooks"

fun run_hooks :: "nat \<Rightarrow> string list \<Rightarrow> host \<Rightarrow> host" where
  "run_hooks i [] k = k"
| "run_hooks i (cmd # cmds) k =
     HPrint (''  ['' @ show_nat (i + 1) @ ''] '' @ cmd @ nl)
       (Shell cmd (\<lambda>r.
          case r of
            None \<Rightarrow> run_hooks (Suc i) cmds k
          | Some e \<Rightarrow> HWarn (''  ['' @ show_nat (i + 1) @ ''] FAILED: '' @ e @ nl) (run_hooks (Suc i) cmds k)))"

definition runOnRestartHooks :: "host \<Rightarrow> host" where
  "runOnRestartHooks k =
     loadHooks (\<lambda>r.
       case r of
         Inl e \<Rightarrow> HWarn (''Warning: failed to load hooks: '' @ e @ nl) k
       | Inr hs \<Rightarrow>
           if length hs = 0 then k
           else HPrint (''Running '' @ show_nat (length hs) @ '' on-restart hook(s)...'' @ nl) (run_hooks 0 hs k))"

definition hooksAddCmd :: "string \<Rightarrow> host" where
  "hooksAddCmd cmd =
     loadHooks (\<lambda>r.
       case r of
         Inl e \<Rightarrow> HDone (Some e)
       | Inr hs \<Rightarrow>
           let hs' = hs @ [cmd] in
           saveHooks hs' (\<lambda>w.
             case w of
               Some e \<Rightarrow> HDone (Some e)
             | None \<Rightarrow> HPrint (''Hook added (#'' @ show_nat (length hs') @ ''): '' @ cmd @ nl) (HDone None)))"

fun hook_lines :: "nat \<Rightarrow> string list \<Rightarrow> host \<Rightarrow> host" where
  "hook_lines i [] k = k"
| "hook_lines i (c # cs) k = HPrint (''  '' @ show_nat (i + 1) @ ''. '' @ c @ nl) (hook_lines (Suc i) cs k)"

definition hooksListCmd :: host where
  "hooksListCmd =
     loadHooks (\<lambda>r.
       case r of
         Inl e \<Rightarrow> HDone (Some e)
       | Inr hs \<Rightarrow>
           if length hs = 0
           then HPrint (''No hooks configured.'' @ nl)
                  (HPrint (''Add one with: ddl hooks add '' @ go_quote ''<command>'' @ nl) (HDone None))
           else HPrint (''On-restart hooks:'' @ nl) (hook_lines 0 hs (HDone None)))"

definition hooksRemoveCmd :: "string \<Rightarrow> host" where
  "hooksRemoveCmd arg =
     (case parse_int arg of
        Inl _ \<Rightarrow> HDone (Some (''invalid index: '' @ arg))
      | Inr idx \<Rightarrow>
          loadHooks (\<lambda>r.
            case r of
              Inl e \<Rightarrow> HDone (Some e)
            | Inr hs \<Rightarrow>
                if idx < 1 \<or> int (length hs) < idx
                then HDone (Some (''index '' @ show_int idx @ '' out of range (1-'' @ show_nat (length hs) @ '')''))
                else
                  let removed = hs ! nat (idx - 1) in
                  saveHooks (take (nat (idx - 1)) hs @ drop (nat idx) hs) (\<lambda>w.
                    case w of
                      Some e \<Rightarrow> HDone (Some e)
                    | None \<Rightarrow> HPrint (''Removed hook #'' @ show_int idx @ '': '' @ removed @ nl) (HDone None))))"

subsection \<open>The daemon's container\<close>

definition daemonContainerName :: string where "daemonContainerName = ''ddl-daemon''"
definition daemonImageName :: string where "daemonImageName = ''ddld:latest''"

text \<open>The state as \<^verbatim>\<open>docker inspect\<close> prints it; its callers ignore the error.\<close>

definition inspectContainerState :: "string \<Rightarrow> (string \<Rightarrow> host) \<Rightarrow> host" where
  "inspectContainerState name k =
     DockerOutput [''inspect'', ''--format'', ''{{.State.Status}}'', name]
       (\<lambda>r. k (case r of Inl e \<Rightarrow> '''' | Inr out \<Rightarrow> trim_space out))"

definition imageExists :: "string \<Rightarrow> (bool \<Rightarrow> host) \<Rightarrow> host" where
  "imageExists name k = DockerOutput [''image'', ''inspect'', name] (\<lambda>r. k (case r of Inl e \<Rightarrow> False | Inr out \<Rightarrow> True))"

definition logsCmd :: "bool \<Rightarrow> string \<Rightarrow> host" where
  "logsCmd follow lines =
     inspectContainerState daemonContainerName (\<lambda>state.
       if state = '''' then HDone (Some ''ddl-daemon is not running'')
       else DockerExec ([''logs''] @ (if follow then [''-f''] else []) @
                        (if lines \<noteq> '''' then [''--tail'', lines] else []) @ [daemonContainerName]) HDone)"

definition buildImage :: "(err option \<Rightarrow> host) \<Rightarrow> host" where
  "buildImage k =
     HPrint (''Building ddld image...'' @ nl)
       (DockerExec [''build'', ''-t'', daemonImageName, ''.'']
          (\<lambda>r. k (map_option (\<lambda>e. ''docker build failed: '' @ e) r)))"

definition forwarded_vars :: "string list" where
  "forwarded_vars =
     [''DDL_ANTHROPIC_API_KEY'', ''DDL_OPENAI_API_KEY'', ''DDL_OLLAMA_URL'', ''DDL_OLLAMA_MODELS'', ''DDL_OLLAMA_MAX_QUEUE'',
      ''DDL_OLLAMA_TIMEOUT'', ''DDL_OLLAMA_DEFAULT_BID'', ''DDL_ENABLE_OPENAI'', ''DDL_ENABLE_ANTHROPIC'', ''DDL_ENABLE_OLLAMA'']"

definition run_args :: "(string \<Rightarrow> string) \<Rightarrow> int \<Rightarrow> string list" where
  "run_args getenv port =
     [''run'', ''-d'', ''--name'', daemonContainerName, ''--pid=host'',
      ''-v'', ''ddl-data:/data'', ''-v'', ''/sys/fs/cgroup:/sys/fs/cgroup:ro'',
      ''-v'', ''/var/run/docker.sock:/var/run/docker.sock'', ''-v'', ''/var/run/ddl:/run/ddl'',
      ''-p'', show_int port @ '':7123'', ''-p'', ''7180:7180'', ''-p'', ''7200-7220:7200-7220''] @
     concat (map (\<lambda>v. if getenv v \<noteq> '''' then [''-e'', v @ ''='' @ getenv v] else []) forwarded_vars) @
     [daemonImageName, ''-db'', ''/data/ddl.db'', ''-sock'', ''/run/ddl/ddl.sock'']"

text \<open>
  The wait for the daemon: half a second and a request, \<open>n\<close> times at most. Whether the socket
  file is there makes no difference to the code.
\<close>

fun wait_ready :: "nat \<Rightarrow> string \<Rightarrow> (bool \<Rightarrow> host) \<Rightarrow> host" where
  "wait_ready 0 url k = k False"
| "wait_ready (Suc n) url k = Sleep 500 (Probe url (\<lambda>ok. if ok then k True else wait_ready n url k))"

definition startDaemonContainer :: "(string \<Rightarrow> string) \<Rightarrow> int \<Rightarrow> host" where
  "startDaemonContainer getenv port =
     HPrint (''Starting ddl-daemon...'' @ nl)
       (DockerOutput (run_args getenv port) (\<lambda>r.
          case r of
            Inl e \<Rightarrow> HDone (Some (''docker run failed: '' @ e))
          | Inr out \<Rightarrow>
              let containerID = take 12 (trim_space out) in
              wait_ready 6 (''http://localhost:'' @ show_int port @ ''/containers'') (\<lambda>ready.
                if ready
                then HPrint (''ddl-daemon started (container '' @ containerID @ '')'' @ nl) (runOnRestartHooks (HDone None))
                else HPrint (''ddl-daemon started (container '' @ containerID @ '') but not yet responding on port '' @
                             show_int port @ nl) (HDone None))))"

definition daemonStartCmd :: "(string \<Rightarrow> string) \<Rightarrow> bool \<Rightarrow> int \<Rightarrow> host" where
  "daemonStartCmd getenv forceBuild port =
     inspectContainerState daemonContainerName (\<lambda>state.
       if state = ''running'' then HPrint (''ddl-daemon is already running'' @ nl) (HDone None)
       else
         let start = startDaemonContainer getenv port;
             build = buildImage (\<lambda>r. case r of Some e \<Rightarrow> HDone (Some e) | None \<Rightarrow> start);
             go = (if forceBuild then build
                   else imageExists daemonImageName (\<lambda>there. if \<not> there then build else start))
         in if state \<noteq> '''' then DockerExec [''rm'', ''-f'', daemonContainerName] (\<lambda>_. go) else go)"

definition stopDaemon :: host where
  "stopDaemon =
     inspectContainerState daemonContainerName (\<lambda>state.
       if state = '''' then HPrint (''ddl-daemon is not running'' @ nl) (HDone None)
       else
         let rm = DockerOutput [''rm'', daemonContainerName] (\<lambda>r.
                    case r of
                      Inl e \<Rightarrow> HDone (Some (''docker rm failed: '' @ e))
                    | Inr _ \<Rightarrow> HPrint (''ddl-daemon stopped'' @ nl) (HDone None))
         in if state = ''running''
            then DockerOutput [''stop'', daemonContainerName] (\<lambda>r.
                   case r of Inl e \<Rightarrow> HDone (Some (''docker stop failed: '' @ e)) | Inr _ \<Rightarrow> rm)
            else rm)"

definition daemonRestartCmd :: "(string \<Rightarrow> string) \<Rightarrow> bool \<Rightarrow> int \<Rightarrow> host" where
  "daemonRestartCmd getenv forceBuild port =
     (let start = startDaemonContainer getenv port;
          swap = inspectContainerState daemonContainerName (\<lambda>state.
            if state = '''' then start
            else
              let rm = DockerOutput [''rm'', ''-f'', daemonContainerName] (\<lambda>_. start)
              in if state = ''running''
                 then DockerOutput [''stop'', daemonContainerName] (\<lambda>r.
                        case r of Inl e \<Rightarrow> HDone (Some (''docker stop failed: '' @ e)) | Inr _ \<Rightarrow> rm)
                 else rm)
      in if forceBuild then buildImage (\<lambda>r. case r of Some e \<Rightarrow> HDone (Some e) | None \<Rightarrow> swap) else swap)"

text \<open>
  \<^verbatim>\<open>Duration.Round\<close> to a positive unit, halves away from zero; \<open>since\<close> parses a start time and gives
  the time since, in nanoseconds.
\<close>

definition go_round :: "int \<Rightarrow> int \<Rightarrow> int" where
  "go_round unit d =
     (let r = go_mod d unit in
      if d < 0 then (if - r + - r < unit then d - r else d - (unit + r))
      else if r + r < unit then d - r else d + (unit - r))"

definition daemonStatusCmd :: "(string \<Rightarrow> int option) \<Rightarrow> host" where
  "daemonStatusCmd since =
     DockerOutput [''inspect'', ''--format'', ''{{.State.Status}} {{.State.StartedAt}} {{.Id}}'', daemonContainerName] (\<lambda>r.
       let absent = HPrint (''ddl-daemon is not running'' @ nl) (HDone None) in
       case r of
         Inl e \<Rightarrow> absent
       | Inr out \<Rightarrow>
           (case go_fields (trim_space out) of
              status # startedAt # cid # _ \<Rightarrow>
                let containerID = take 12 cid in
                if status = ''running''
                then HPrint (''ddl-daemon is running (container '' @ containerID @ '', uptime '' @
                       (case since startedAt of None \<Rightarrow> ''unknown'' | Some d \<Rightarrow> duration_string (go_round 1000000000 d)) @
                       '')'' @ nl) (HDone None)
                else HPrint (''ddl-daemon is '' @ status @ '' (container '' @ containerID @ '')'' @ nl) (HDone None)
            | _ \<Rightarrow> absent))"


subsection \<open>How the daemon is reached\<close>

text \<open>The address and the socket path of the environment, before the flags.\<close>

definition api_defaults :: "(string \<Rightarrow> string) \<Rightarrow> string \<times> string" where
  "api_defaults getenv =
     (if getenv ''DDL_API_URL'' \<noteq> '''' then getenv ''DDL_API_URL'' else ''http://localhost:7123'',
      if getenv ''DDL_SOCK'' \<noteq> '''' then getenv ''DDL_SOCK'' else '''')"

datatype transport = UnixSocket string | DockerExecCurl string string | DefaultTransport

definition defaultSock :: string where "defaultSock = ''/var/run/ddl/ddl.sock''"

text \<open>
  \<open>sockThere\<close> is the outcome of the stat of the default socket, \<open>apiExplicit\<close> whether \<^verbatim>\<open>--api\<close> was
  given, \<open>state\<close> that of the daemon's container. The result is the transport and the API address.
\<close>

definition select_transport :: "string \<Rightarrow> bool \<Rightarrow> bool \<Rightarrow> string \<Rightarrow> string \<Rightarrow> transport \<times> string" where
  "select_transport sockPath sockThere apiExplicit state apiURL =
     (if sockPath \<noteq> '''' then (UnixSocket sockPath, ''http://localhost'')
      else if sockThere then (UnixSocket defaultSock, ''http://localhost'')
      else if \<not> apiExplicit \<and> state = ''running''
      then (DockerExecCurl daemonContainerName ''/run/ddl/ddl.sock'', ''http://localhost'')
      else (DefaultTransport, apiURL))"

text \<open>
  A request through \<^verbatim>\<open>docker exec\<close>; \<open>run\<close> runs \<^verbatim>\<open>docker\<close> for its output, \<open>parse\<close> reads an HTTP response.
\<close>

record exec_request =
  er_Method :: string
  er_Header :: "(string \<times> string list) list"
  er_Body :: "string option"
  er_Path :: string
  er_RawQuery :: string

definition curl_args :: "string \<Rightarrow> string \<Rightarrow> exec_request \<Rightarrow> string list" where
  "curl_args containerName socketPath r =
     [''exec'', containerName, ''curl'', ''-si'', ''--raw'', ''--unix-socket'', socketPath, ''-X'', er_Method r] @
     concat (map (\<lambda>(key, vals). concat (map (\<lambda>v. [''-H'', key @ '': '' @ v]) vals)) (er_Header r)) @
     (case er_Body r of None \<Rightarrow> [] | Some b \<Rightarrow> if 0 < length b then [''--data-raw'', b] else []) @
     [''http://localhost'' @ er_Path r @ (if er_RawQuery r \<noteq> '''' then ''?'' @ er_RawQuery r else '''')]"

definition RoundTrip ::
  "(string list \<Rightarrow> err + string) \<Rightarrow> (string \<Rightarrow> err + 'r) \<Rightarrow> string \<Rightarrow> string \<Rightarrow> exec_request \<Rightarrow> err + 'r" where
  "RoundTrip run parse containerName socketPath r =
     (case run (curl_args containerName socketPath r) of
        Inl e \<Rightarrow> Inl (''docker exec curl: '' @ e)
      | Inr out \<Rightarrow>
          (case parse out of
             Inl e \<Rightarrow> Inl (''parse curl response: '' @ e @ nl @ ''raw: '' @ out) | Inr resp \<Rightarrow> Inr resp))"

end
