(* ===== verification/Dashboard.thy ===== *)
theory Dashboard
  imports CliHost CliProps
begin

text \<open>
  \<^verbatim>\<open>cmd/ddl/dashboard.go\<close>: the web dashboard, which serves its pages and passes every request below
  \<^verbatim>\<open>/api/\<close> on to the daemon, and its life as a process with a PID file. The pages, what the reverse proxy
  makes of the headers, the parsing of the daemon's address, listening and signals are parameters;
  of \<^verbatim>\<open>net/http\<close>'s router and \<^verbatim>\<open>httputil\<close>'s reverse proxy the rules that decide on the path and the query are
  written out, for paths without escapes.
\<close>

subsection \<open>Routing\<close>

text \<open>A rooted path without empty, \<^verbatim>\<open>.\<close> and \<^verbatim>\<open>..\<close> elements; a slash at the end is kept.\<close>

fun clean_elements :: "string list \<Rightarrow> string list \<Rightarrow> string list" where
  "clean_elements acc [] = rev acc"
| "clean_elements acc (e # es) =
     (if e = '''' \<or> e = ''.'' then clean_elements acc es
      else if e = ''..'' then clean_elements (tl acc) es
      else clean_elements (e # acc) es)"

definition clean_path :: "string \<Rightarrow> string" where
  "clean_path p =
     (if p = '''' then ''/''
      else
        let np = CHR ''/'' # join_with (CHR ''/'') (clean_elements [] (split_on (CHR ''/'') p))
        in if last p = CHR ''/'' \<and> np \<noteq> ''/'' then np @ ''/'' else np)"

text \<open>
  The router with the patterns \<^verbatim>\<open>/api/\<close> and \<^verbatim>\<open>/\<close>: \<^verbatim>\<open>/api\<close> and a path that is not clean are redirected.
\<close>

definition dashboard_mux ::
  "(http_request \<Rightarrow> 's \<Rightarrow> api_reply \<times> 's) \<Rightarrow> (http_request \<Rightarrow> api_reply) \<Rightarrow> http_request \<Rightarrow> 's \<Rightarrow> api_reply \<times> 's" where
  "dashboard_mux api files r s =
     (let path = (if hr_Method r = ''CONNECT'' then hr_Path r else clean_path (hr_Path r)) in
      if path = ''/api'' then (Plain 301 ''/api/'', s)
      else if path \<noteq> hr_Path r then (Plain 301 path, s)
      else if prefix ''/api/'' path then api r s
      else (files r, s))"

subsection \<open>Passing on\<close>

text \<open>
  The daemon's address in parts, the address the dashboard connects from, and the headers of the
  request that is passed on.
\<close>

record dash_target =
  dt_Host :: string
  dt_Path :: string
  dt_RawQuery :: string
  dt_From :: string
  dt_Headers :: "(string \<times> string list) list \<Rightarrow> (string \<times> string list) list"

definition joined_path :: "string \<Rightarrow> string \<Rightarrow> string" where
  "joined_path a b =
     (if a \<noteq> '''' \<and> last a = CHR ''/'' \<and> prefix ''/'' b then a @ tl b
      else if \<not> (a \<noteq> '''' \<and> last a = CHR ''/'') \<and> \<not> prefix ''/'' b then a @ ''/'' @ b
      else a @ b)"

definition joined_query :: "string \<Rightarrow> string \<Rightarrow> string" where
  "joined_query a b = (if a = '''' \<or> b = '''' then a @ b else a @ ''&'' @ b)"

definition passed_on :: "dash_target \<Rightarrow> http_request \<Rightarrow> http_request" where
  "passed_on tgt r =
     (let path = joined_path (dt_Path tgt) (hr_Path r); query = joined_query (dt_RawQuery tgt) (hr_RawQuery r)
      in r\<lparr>hr_Path := path, hr_RawQuery := query, hr_URL := path @ (if query = '''' then '''' else ''?'' @ query),
           hr_RemoteAddr := dt_From tgt, hr_Header := dt_Headers tgt (hr_Header r)\<rparr>)"

text \<open>A daemon that cannot be reached, or that breaks off, is a bad gateway.\<close>

definition reverse_proxy ::
  "dash_target \<Rightarrow> (http_request \<Rightarrow> 's \<Rightarrow> (err + api_reply) \<times> 's) \<Rightarrow> http_request \<Rightarrow> 's \<Rightarrow> api_reply \<times> 's" where
  "reverse_proxy tgt send r s =
     (case send (passed_on tgt r) s of
        (Inl e, s1) \<Rightarrow> (Plain 502 '''', s1)
      | (Inr rep, s1) \<Rightarrow> (rep, s1))"

definition api_path :: "string \<Rightarrow> string" where
  "api_path path = (let p = trim_prefix path ''/api'' in if p = '''' then ''/'' else p)"

definition dashboard_api ::
  "dash_target \<Rightarrow> (http_request \<Rightarrow> 's \<Rightarrow> (err + api_reply) \<times> 's) \<Rightarrow> http_request \<Rightarrow> 's \<Rightarrow> api_reply \<times> 's" where
  "dashboard_api tgt send r = reverse_proxy tgt send (r\<lparr>hr_Path := api_path (hr_Path r), hr_Host := dt_Host tgt\<rparr>)"

text \<open>The handler, for the outcome of parsing the daemon's address and of opening the embedded pages.\<close>

definition buildDashboardHandler ::
  "err + dash_target \<Rightarrow> err + (http_request \<Rightarrow> api_reply) \<Rightarrow> (http_request \<Rightarrow> 's \<Rightarrow> (err + api_reply) \<times> 's) \<Rightarrow>
   err + (http_request \<Rightarrow> 's \<Rightarrow> api_reply \<times> 's)" where
  "buildDashboardHandler target pages send =
     (case target of
        Inl e \<Rightarrow> Inl (''invalid backend URL: '' @ e)
      | Inr tgt \<Rightarrow>
          (case pages of
             Inl e \<Rightarrow> Inl (''embedded filesystem: '' @ e)
           | Inr files \<Rightarrow> Inr (dashboard_mux (dashboard_api tgt send) files)))"

text \<open>A handler behind a connection: one that panics closes it.\<close>

definition connected :: "(http_request \<Rightarrow> 's \<Rightarrow> api_reply \<times> 's) \<Rightarrow> http_request \<Rightarrow> 's \<Rightarrow> (err + api_reply) \<times> 's" where
  "connected h r s = (case h r s of (rep, s1) \<Rightarrow> (if rep = Panicked then Inl ''EOF'' else Inr rep, s1))"

subsection \<open>The process\<close>

text \<open>What the dashboard leaves on the host: the PID file, its output and the programs it started.\<close>

record dash_state =
  ds_PidFile :: "string option"
  ds_Out :: string
  ds_Opened :: "(string \<times> string) list"

definition browser_command :: "string \<Rightarrow> string \<Rightarrow> (string \<times> string) option" where
  "browser_command goos url =
     (if goos = ''darwin'' then Some (''open'', url)
      else if goos = ''linux'' then Some (''xdg-open'', url)
      else if goos = ''windows'' then Some (''rundll32'', ''url.dll,FileProtocolHandler '' @ url)
      else None)"

definition openBrowser :: "string \<Rightarrow> string \<Rightarrow> dash_state \<Rightarrow> dash_state" where
  "openBrowser goos url st =
     (case browser_command goos url of None \<Rightarrow> st | Some c \<Rightarrow> st\<lparr>ds_Opened := ds_Opened st @ [c]\<rparr>)"

definition writePidFile :: "bool \<Rightarrow> int \<Rightarrow> dash_state \<Rightarrow> dash_state" where
  "writePidFile writable pid st = (if writable then st\<lparr>ds_PidFile := Some (show_int pid)\<rparr> else st)"

definition removePidFile :: "dash_state \<Rightarrow> dash_state" where
  "removePidFile st = st\<lparr>ds_PidFile := None\<rparr>"

definition dashboard_url :: "int \<Rightarrow> string \<Rightarrow> string" where
  "dashboard_url port scope = ''http://localhost:'' @ show_int port @ (if scope \<noteq> '''' then ''?segment='' @ scope else '''')"

definition dashboard_lines :: "string \<Rightarrow> int \<Rightarrow> string \<Rightarrow> string \<Rightarrow> string" where
  "dashboard_lines addr port apiURL scope =
     ''Dashboard: '' @ dashboard_url port scope @ nl @
     ''API proxy: '' @ addr @ '' -> '' @ apiURL @ nl @
     (if scope \<noteq> '''' then ''Scope: segment '' @ go_quote scope @ nl else '''')"

text \<open>
  Up to serving: the address that was listened on and its port, or an error; \<open>writable\<close> tells whether
  the PID file can be written. Then, with what happened meanwhile, the end.
\<close>

definition dashboard_up ::
  "err + 'h \<Rightarrow> err + string \<times> int \<Rightarrow> string \<Rightarrow> string \<Rightarrow> string \<Rightarrow> bool \<Rightarrow> int \<Rightarrow> string \<Rightarrow> bool \<Rightarrow> dash_state \<Rightarrow> err option \<times> dash_state" where
  "dashboard_up handler listened apiURL scope goos writable pid listen opens st =
     (case handler of
        Inl e \<Rightarrow> (Some e, st)
      | Inr _ \<Rightarrow>
          (case listened of
             Inl e \<Rightarrow> (Some (''listen '' @ listen @ '': '' @ e), st)
           | Inr (addr, port) \<Rightarrow>
               let st1 = writePidFile writable pid (st\<lparr>ds_Out := ds_Out st @ dashboard_lines addr port apiURL scope\<rparr>)
               in (None, if opens then openBrowser goos (dashboard_url port scope) st1 else st1)))"

datatype serve_end = ServerClosed | ServeFailed err

definition dashboard_down :: "serve_end \<Rightarrow> dash_state \<Rightarrow> err option \<times> dash_state" where
  "dashboard_down how st = (case how of ServerClosed \<Rightarrow> None | ServeFailed e \<Rightarrow> Some e, removePidFile st)"

definition runDashboard ::
  "err + 'h \<Rightarrow> err + string \<times> int \<Rightarrow> string \<Rightarrow> string \<Rightarrow> string \<Rightarrow> bool \<Rightarrow> int \<Rightarrow> string \<Rightarrow> bool \<Rightarrow>
   (dash_state \<Rightarrow> dash_state) \<Rightarrow> serve_end \<Rightarrow> dash_state \<Rightarrow> err option \<times> dash_state" where
  "runDashboard handler listened apiURL scope goos writable pid listen opens meanwhile how st =
     (case dashboard_up handler listened apiURL scope goos writable pid listen opens st of
        (Some e, st1) \<Rightarrow> (Some e, st1)
      | (None, st1) \<Rightarrow> dashboard_down how (meanwhile st1))"

text \<open>
  Stopping it: \<open>signal\<close> tells whether the process with a PID could be signalled. A PID file that cannot be read
  is left, any other one is removed.
\<close>

definition dashboardStopCmd :: "(int \<Rightarrow> bool) \<Rightarrow> dash_state \<Rightarrow> dash_state" where
  "dashboardStopCmd signal st =
     (let say = (\<lambda>t st. st\<lparr>ds_Out := ds_Out st @ t @ nl\<rparr>) in
      case ds_PidFile st of
        None \<Rightarrow> say ''Dashboard is not running (no PID file)'' st
      | Some data \<Rightarrow>
          (case parse_int (trim_space data) of
             Inl e \<Rightarrow> say ''Dashboard is not running (invalid PID file)'' (removePidFile st)
           | Inr pid \<Rightarrow>
               if \<not> signal pid then say ''Dashboard is not running'' (removePidFile st)
               else say ''Dashboard stopped'' (removePidFile st)))"

subsection \<open>The process and its PID file\<close>

lemma dashboard_up_errors:
  "fst (dashboard_up handler listened apiURL scope goos writable pid listen opens st) = None \<longleftrightarrow>
     (\<exists>h a. handler = Inr h \<and> listened = Inr a)"
  "fst (dashboard_up handler listened apiURL scope goos writable pid listen opens st) \<noteq> None \<Longrightarrow>
     snd (dashboard_up handler listened apiURL scope goos writable pid listen opens st) = st"
  by (auto simp: dashboard_up_def Let_def split: sum.splits)

lemma browser_keeps_pid [simp]: "ds_PidFile (openBrowser goos url st) = ds_PidFile st"
  by (simp add: openBrowser_def split: option.split)

text \<open>The PID file of a dashboard that serves names its process, which \<^verbatim>\<open>ddl dashboard stop\<close> then signals.\<close>

lemma dashboard_stops_itself:
  assumes "dashboard_up handler listened apiURL scope goos True pid listen opens st = (None, st1)" and "in64 pid"
  shows "dashboardStopCmd (\<lambda>p. p = pid) st1 = (removePidFile st1)\<lparr>ds_Out := ds_Out st1 @ ''Dashboard stopped'' @ nl\<rparr>"
proof -
  have "ds_PidFile st1 = Some (show_int pid)"
    using assms(1) by (auto simp: dashboard_up_def Let_def writePidFile_def split: sum.splits if_splits)
  then show ?thesis
    using assms(2) by (simp add: dashboardStopCmd_def Let_def trim_show_int parse_show_int removePidFile_def)
qed

text \<open>Two dashboards share the file: after the second has ended, the first is not found.\<close>

lemma second_dashboard_hides_first:
  assumes "dashboard_up handler listened apiURL scope goos writable pid listen opens st = (None, st1)"
  shows "dashboardStopCmd signal (snd (dashboard_down how st1)) =
    (removePidFile st1)\<lparr>ds_Out := ds_Out st1 @ ''Dashboard is not running (no PID file)'' @ nl\<rparr>"
  by (simp add: dashboard_down_def dashboardStopCmd_def Let_def removePidFile_def)

lemma runDashboard_result:
  "fst (runDashboard handler listened apiURL scope goos writable pid listen opens meanwhile how st) =
     (case handler of Inl e \<Rightarrow> Some e
      | Inr _ \<Rightarrow> (case listened of Inl e \<Rightarrow> Some (''listen '' @ listen @ '': '' @ e)
                   | Inr _ \<Rightarrow> (case how of ServerClosed \<Rightarrow> None | ServeFailed e \<Rightarrow> Some e)))"
  by (auto simp: runDashboard_def dashboard_up_def dashboard_down_def Let_def split: sum.split serve_end.split)

subsection \<open>The dashboard in front of the daemon\<close>

lemma api_path_below [simp]: "api_path (''/api/'' @ p) = CHR ''/'' # p"
  by (simp add: api_path_def Let_def trim_prefix_def)

lemma dashboard_files: "\<not> prefix ''/api/'' (hr_Path r) \<Longrightarrow> snd (dashboard_mux api files r s) = s"
  by (simp add: dashboard_mux_def Let_def)

text \<open>The request the daemon gets for a path below \<^verbatim>\<open>/api/\<close>, if its address has no path and query of its own.\<close>

definition daemon_request :: "dash_target \<Rightarrow> string \<Rightarrow> http_request \<Rightarrow> http_request" where
  "daemon_request tgt p r =
     r\<lparr>hr_Path := CHR ''/'' # p, hr_Host := dt_Host tgt,
       hr_URL := CHR ''/'' # p @ (if hr_RawQuery r = '''' then '''' else ''?'' @ hr_RawQuery r),
       hr_RemoteAddr := dt_From tgt, hr_Header := dt_Headers tgt (hr_Header r)\<rparr>"

lemma passed_on_request:
  assumes "dt_Path tgt = ''''" and "dt_RawQuery tgt = ''''"
  shows "passed_on tgt (r\<lparr>hr_Path := CHR ''/'' # p, hr_Host := dt_Host tgt\<rparr>) = daemon_request tgt p r"
  using assms by (simp add: passed_on_def daemon_request_def joined_path_def joined_query_def Let_def)

lemma containers_closed: "prefix ''/containers/'' (hr_Path r) \<Longrightarrow> ReadOnlyHandler ae r w = (not_found, w)"
  by (auto simp: ReadOnlyHandler_def Let_def prefix_def)

text \<open>C27: whoever reaches the port of the dashboard has the management interface of the daemon: a request to
  \<^verbatim>\<open>/api/...\<close> is answered, and changes the daemon, as the same request on the management socket would be (a
  handler that breaks off is a bad gateway). On the daemon's own port for containers the paths of single
  containers do not exist. Requests to other paths of the dashboard do not reach the daemon.\<close>

theorem dashboard_manages:
  assumes "buildDashboardHandler (Inr tgt) (Inr files) (connected (Handler ae)) = Inr h"
    and "dt_Path tgt = ''''" and "dt_RawQuery tgt = ''''"
    and "hr_Method r \<noteq> ''CONNECT''" and "clean_path (hr_Path r) = hr_Path r"
  shows "if prefix ''/api/'' (hr_Path r) then
           (\<exists>p rep w'. hr_Path r = ''/api/'' @ p \<and> Handler ae (daemon_request tgt p r) w = (rep, w') \<and>
              h r w = (if rep = Panicked then Plain 502 '''' else rep, w') \<and>
              (prefix ''containers/'' p \<longrightarrow> ReadOnlyHandler ae (daemon_request tgt p r) w = (not_found, w)))
         else snd (h r w) = w"
proof (cases "prefix ''/api/'' (hr_Path r)")
  case True
  then obtain p where p: "hr_Path r = ''/api/'' @ p" by (auto simp: prefix_def)
  obtain rep w' where H: "Handler ae (daemon_request tgt p r) w = (rep, w')" by fastforce
  have "h r w = dashboard_api tgt (connected (Handler ae)) r w"
    using assms(1,4,5) True by (auto simp: buildDashboardHandler_def dashboard_mux_def Let_def p)
  also have "\<dots> = (if rep = Panicked then Plain 502 '''' else rep, w')"
    unfolding dashboard_api_def reverse_proxy_def p api_path_below passed_on_request [OF assms(2,3)]
    by (simp add: connected_def H)
  moreover have "ReadOnlyHandler ae (daemon_request tgt p r) w = (not_found, w)" if "prefix ''containers/'' p"
    using that by (intro containers_closed) (simp add: daemon_request_def)
  ultimately show ?thesis using True p H by auto
next
  case False
  then show ?thesis using assms(1) dashboard_files [OF False] by (auto simp: buildDashboardHandler_def)
qed

text \<open>A dashboard over the demonstration server, and a container that raises its own limit through it.\<close>

definition demo_target :: dash_target where
  "demo_target = \<lparr>dt_Host = ''localhost'', dt_Path = '''', dt_RawQuery = '''', dt_From = ''@'', dt_Headers = (\<lambda>h. h)\<rparr>"

theorem dashboard_manages_witness:
  "\<exists>h. buildDashboardHandler (Inr demo_target) (Inr (\<lambda>_. Plain 200 ''page''))
         (connected (Handler (demo_env \<lparr>lr_Type = LimitCPU, lr_Value = 5000, lr_Operation = ''set''\<rparr> []))) = Inr h \<and>
       stored demo_server ''0123456789ab'' LimitCPU = 1000 \<and>
       stored (snd (h (api_request ''PUT'' ''/api/containers/0123456789ab/limits'') demo_server)) ''0123456789ab'' LimitCPU = 5000"
proof -
  let ?ae = "demo_env \<lparr>lr_Type = LimitCPU, lr_Value = 5000, lr_Operation = ''set''\<rparr> []"
  let ?r = "api_request ''PUT'' ''/api/containers/0123456789ab/limits''"
  obtain h :: "http_request \<Rightarrow> (mock_docker, mock_cgroup) server \<Rightarrow> api_reply \<times> (mock_docker, mock_cgroup) server"
    where h: "buildDashboardHandler (Inr demo_target) (Inr (\<lambda>_. Plain 200 ''page'')) (connected (Handler ?ae)) = Inr h"
    by (simp add: buildDashboardHandler_def)
  have c: "clean_path (hr_Path ?r) = hr_Path ?r" by (simp add: api_request_def clean_path_def)
  obtain p rep w' where p: "hr_Path ?r = ''/api/'' @ p" "Handler ?ae (daemon_request demo_target p ?r) demo_server = (rep, w')"
    "h ?r demo_server = (if rep = Panicked then Plain 502 '''' else rep, w')"
    using dashboard_manages [OF h _ _ _ c, of demo_server] by (auto simp: demo_target_def api_request_def)
  let ?d = "daemon_request demo_target p ?r"
  have d: "hr_Path ?d = ''/containers/'' @ ''0123456789ab'' @ CHR ''/'' # ''limits''" "hr_Method ?d = ''PUT''"
    using p(1) by (simp_all add: daemon_request_def api_request_def)
  have "Handler ?ae ?d demo_server = container_sub ?ae ''limits'' ?d ''0123456789ab'' demo_server"
    by (rule Handler_container [OF d(1)]) (simp_all add: Resolve_exact find_row_def demo_store_eval)
  then have "(rep, w') = handleLimits ?ae ?d ''0123456789ab'' demo_server" using p(2) by (simp add: container_sub_def)
  then have "w' = snd (handleLimits ?ae ?d ''0123456789ab'' demo_server)" by (metis snd_conv)
  moreover have "stored (snd (handleLimits ?ae ?d ''0123456789ab'' demo_server)) ''0123456789ab'' LimitCPU = 5000"
    by (rule limit_request_grants [where g = 9000 and v = 5000 and old = 1000 and left = 9000 and lt = LimitCPU
        and q = "\<lparr>lr_Type = LimitCPU, lr_Value = 5000, lr_Operation = ''set''\<rparr>",
        OF _ _ _ _ _ _ _ _ _ _ _ _ _ _ refl refl, THEN conjunct1, THEN mp, of demo_server "''0123456789ab''", THEN conjunct1, simplified])
      (simp_all add: d(2) demo_store_reads demo_store_wf demo_limits_sane stored_def in64_def op_of_def)
  ultimately show ?thesis using h p(3) by (auto simp: stored_def demo_store_reads)
qed

end
