(* ===== verification/CliHostProps.thy ===== *)
theory CliHostProps
  imports CliHost
begin

text \<open>
  What the host commands do to the daemon's container, given what the manual of \<^verbatim>\<open>docker\<close> says of the
  subcommands they use, and to the list of hooks.
\<close>

subsection \<open>Docker as documented\<close>

text \<open>
  The state of the daemon's container, empty when there is none: \<^verbatim>\<open>inspect\<close> prints it and changes
  nothing, \<^verbatim>\<open>image inspect\<close> and \<^verbatim>\<open>build\<close> do not touch containers, a \<^verbatim>\<open>stop\<close> that succeeds leaves the
  container exited, one that fails leaves it, an \<^verbatim>\<open>rm\<close> removes it or leaves it, and \<^verbatim>\<open>run --name\<close> fails
  when the name is taken and otherwise starts the container, or fails and may leave it created.
\<close>

definition stop_rm_documented :: "'s host_env \<Rightarrow> ('s \<Rightarrow> string) \<Rightarrow> bool" where
  "stop_rm_documented he daemon \<longleftrightarrow>
     (\<forall>s. case he_output he [''stop'', daemonContainerName] s of
            (Inl e, s') \<Rightarrow> daemon s' = daemon s | (Inr out, s') \<Rightarrow> daemon s' = ''exited'') \<and>
     (\<forall>s. case he_output he [''rm'', daemonContainerName] s of
            (Inl e, s') \<Rightarrow> daemon s' = daemon s | (Inr out, s') \<Rightarrow> daemon s' = '''') \<and>
     (\<forall>s. case he_output he [''rm'', ''-f'', daemonContainerName] s of
            (Inl e, s') \<Rightarrow> daemon s' = daemon s | (Inr out, s') \<Rightarrow> daemon s' = '''') \<and>
     (\<forall>s. case he_exec he [''rm'', ''-f'', daemonContainerName] s of
            (Some e, s') \<Rightarrow> daemon s' = daemon s | (None, s') \<Rightarrow> daemon s' = '''')"

definition run_documented :: "'s host_env \<Rightarrow> ('s \<Rightarrow> string) \<Rightarrow> bool" where
  "run_documented he daemon \<longleftrightarrow>
     (\<forall>getenv port s. case he_output he (run_args getenv port) s of
        (Inl e, s') \<Rightarrow> daemon s' = daemon s \<or> daemon s = '''' \<and> daemon s' = ''created''
      | (Inr out, s') \<Rightarrow> daemon s = '''' \<and> daemon s' = ''running'')"

definition inspect_documented :: "'s host_env \<Rightarrow> ('s \<Rightarrow> string) \<Rightarrow> bool" where
  "inspect_documented he daemon \<longleftrightarrow>
     (\<forall>s. case he_output he [''inspect'', ''--format'', ''{{.State.Status}}'', daemonContainerName] s of
            (Inl e, s') \<Rightarrow> daemon s = '''' \<and> s' = s
          | (Inr out, s') \<Rightarrow> daemon s \<noteq> '''' \<and> out = daemon s @ nl \<and> s' = s) \<and>
     (\<forall>s. trim_space (daemon s @ nl) = daemon s)"

text \<open>Images, waiting, requests to the API and hooks leave the container alone.\<close>

definition undisturbed :: "'s host_env \<Rightarrow> ('s \<Rightarrow> string) \<Rightarrow> bool" where
  "undisturbed he daemon \<longleftrightarrow>
     (\<forall>s. daemon (snd (he_output he [''image'', ''inspect'', daemonImageName] s)) = daemon s) \<and>
     (\<forall>s. daemon (snd (he_exec he [''build'', ''-t'', daemonImageName, ''.''] s)) = daemon s) \<and>
     (\<forall>s ms. daemon (he_sleep he ms s) = daemon s) \<and> (\<forall>s url. daemon (snd (he_probe he url s)) = daemon s) \<and>
     (\<forall>s cmd. daemon (snd (he_shell he cmd s)) = daemon s)"

lemma undisturbedD:
  assumes "undisturbed he daemon"
  shows "he_output he [''image'', ''inspect'', daemonImageName] s = (x, s') \<Longrightarrow> daemon s' = daemon s"
    and "he_exec he [''build'', ''-t'', daemonImageName, ''.''] s = (y, s') \<Longrightarrow> daemon s' = daemon s"
    and "daemon (he_sleep he ms s) = daemon s" and "he_probe he url s = (b, s') \<Longrightarrow> daemon s' = daemon s"
    and "he_shell he cmd s = (y, s') \<Longrightarrow> daemon s' = daemon s"
  using assms unfolding undisturbed_def by (metis snd_conv)+

lemma run_inspect:
  assumes "inspect_documented he daemon"
  shows "run_host he (inspectContainerState daemonContainerName k) s = run_host he (k (daemon s)) s"
proof -
  obtain r s' where r: "he_output he [''inspect'', ''--format'', ''{{.State.Status}}'', daemonContainerName] s = (r, s')" by force
  have "case r of Inl e \<Rightarrow> daemon s = '''' \<and> s' = s | Inr out \<Rightarrow> daemon s \<noteq> '''' \<and> out = daemon s @ nl \<and> s' = s"
    using assms r unfolding inspect_documented_def by (auto split: sum.splits prod.splits)
  moreover have "trim_space (daemon s @ nl) = daemon s" using assms by (simp add: inspect_documented_def)
  ultimately show ?thesis using r by (auto simp: inspectContainerState_def split: sum.splits)
qed

subsection \<open>What a command keeps and reaches\<close>

text \<open>\<open>ends he P k s\<close>: running \<open>k\<close> from \<open>s\<close> ends in an error and a state that satisfy \<open>P\<close>.\<close>

definition ends :: "'s host_env \<Rightarrow> (err option \<Rightarrow> 's \<Rightarrow> bool) \<Rightarrow> host \<Rightarrow> 's \<Rightarrow> bool" where
  "ends he P k s \<longleftrightarrow> (case run_host he k s of ((r, out), s') \<Rightarrow> P r s')"

lemma ends_simps [simp]:
  "ends he P (HDone r) s = P r s"
  "ends he P (HPrint t k) s = ends he P k s"
  "ends he P (HWarn t k) s = ends he P k s"
  "ends he P (DockerOutput args f) s = (case he_output he args s of (x, s1) \<Rightarrow> ends he P (f x) s1)"
  "ends he P (DockerExec args g) s = (case he_exec he args s of (x, s1) \<Rightarrow> ends he P (g x) s1)"
  "ends he P (Shell cmd g) s = (case he_shell he cmd s of (x, s1) \<Rightarrow> ends he P (g x) s1)"
  "ends he P (ReadHooks h) s = ends he P (h (he_read he s)) s"
  "ends he P (Sleep ms k) s = ends he P k (he_sleep he ms s)"
  "ends he P (Probe url p) s = (case he_probe he url s of (x, s1) \<Rightarrow> ends he P (p x) s1)"
  by (simp_all add: ends_def split: prod.split)

lemma ends_run_hooks:
  assumes "undisturbed he daemon" and "\<And>s'. daemon s' = daemon s \<Longrightarrow> ends he P k s'"
  shows "ends he P (run_hooks i hs k) s"
  using assms(2)
  by (induction hs arbitrary: i s) (auto split: prod.split option.split dest: undisturbedD(5) [OF assms(1)])

lemma ends_onRestart:
  assumes "undisturbed he daemon" and "\<And>s'. daemon s' = daemon s \<Longrightarrow> ends he P k s'"
  shows "ends he P (runOnRestartHooks k) s"
  using assms
  by (auto simp: runOnRestartHooks_def loadHooks_def split: hooks_file.split sum.split intro: ends_run_hooks)

lemma ends_wait:
  assumes "undisturbed he daemon" and "\<And>b s'. daemon s' = daemon s \<Longrightarrow> ends he P (k b) s'"
  shows "ends he P (wait_ready n url k) s"
  using assms(2)
  by (induction n arbitrary: s) (auto simp: undisturbedD(3) [OF assms(1)] split: prod.split dest: undisturbedD(4) [OF assms(1)])

text \<open>Starting: an error leaves no running container that was not there before, no error leaves a running one.\<close>

definition started :: "string \<Rightarrow> err option \<Rightarrow> string \<Rightarrow> bool" where
  "started before r after \<longleftrightarrow>
     (if r = None then before = '''' \<and> after = ''running''
      else after = before \<or> before = '''' \<and> after = ''created'')"

lemma ends_weaken: "ends he P k s \<Longrightarrow> (\<And>r s'. P r s' \<Longrightarrow> Q r s') \<Longrightarrow> ends he Q k s"
  by (simp add: ends_def split: prod.splits)

lemma ends_build:
  assumes "undisturbed he daemon" and "\<And>s'. daemon s' = daemon s \<Longrightarrow> ends he P (k None) s'"
    and "\<And>e s'. he_exec he [''build'', ''-t'', daemonImageName, ''.''] s = (Some e, s') \<Longrightarrow>
           ends he P (k (Some (''docker build failed: '' @ e))) s'"
  shows "ends he P (buildImage k) s"
proof -
  obtain x s1 where x: "he_exec he [''build'', ''-t'', daemonImageName, ''.''] s = (x, s1)" by force
  have "ends he P (k (map_option (\<lambda>e. ''docker build failed: '' @ e) x)) s1"
    using assms(2) [OF undisturbedD(2) [OF assms(1) x]] assms(3) x by (cases x) auto
  then show ?thesis by (simp add: buildImage_def x)
qed

lemma ends_inspect:
  assumes "inspect_documented he daemon"
  shows "ends he P (inspectContainerState daemonContainerName k) s = ends he P (k (daemon s)) s"
  by (simp add: ends_def run_inspect [OF assms])

text \<open>The program \<^verbatim>\<open>docker\<close> as the commands rely on it.\<close>

locale docker_program =
  fixes he :: "'s host_env" and daemon :: "'s \<Rightarrow> string"
  assumes inspect: "inspect_documented he daemon" and stop_rm: "stop_rm_documented he daemon"
    and run: "run_documented he daemon" and undisturbed: "undisturbed he daemon"
begin

lemma ends_start:
  shows "ends he (\<lambda>r s'. started (daemon s) r (daemon s')) (startDaemonContainer getenv port) s"
proof -
  obtain x s1 where o: "he_output he (run_args getenv port) s = (x, s1)" by force
  have "case he_output he (run_args getenv port) s of
        (Inl e, s') \<Rightarrow> daemon s' = daemon s \<or> daemon s = '''' \<and> daemon s' = ''created''
      | (Inr out, s') \<Rightarrow> daemon s = '''' \<and> daemon s' = ''running''"
    by (rule run [unfolded run_documented_def, THEN spec, THEN spec, THEN spec])
  then have c: "case x of Inl e \<Rightarrow> daemon s1 = daemon s \<or> daemon s = '''' \<and> daemon s1 = ''created''
      | Inr out \<Rightarrow> daemon s = '''' \<and> daemon s1 = ''running''" by (simp add: o)
  show ?thesis
  proof (cases x)
    case (Inl e)
    then show ?thesis using o c by (simp add: startDaemonContainer_def started_def)
  next
    case (Inr out)
    then show ?thesis
      using o c by (auto simp: startDaemonContainer_def Let_def started_def intro!: ends_wait [OF undisturbed] ends_onRestart [OF undisturbed])
  qed
qed

text \<open>What every start of a stopped daemon reaches, with or without a build.\<close>

lemma ends_go:
  shows "ends he (\<lambda>r s'. started (daemon s) r (daemon s')) (buildImage (\<lambda>r. case r of Some e \<Rightarrow> HDone (Some e) | None \<Rightarrow> startDaemonContainer getenv port)) s"
proof -
  show ?thesis
  proof (rule ends_build [OF undisturbed])
    fix s' assume "daemon s' = daemon s"
    then show "ends he (\<lambda>r s'. started (daemon s) r (daemon s'))
        (case None of None \<Rightarrow> startDaemonContainer getenv port | Some e \<Rightarrow> HDone (Some e)) s'"
      using ends_start [of s' getenv port] by simp
  next
    fix e s' assume "he_exec he [''build'', ''-t'', daemonImageName, ''.''] s = (Some e, s')"
    then have "daemon s' = daemon s" by (rule undisturbedD(2) [OF undisturbed])
    then show "ends he (\<lambda>r s'. started (daemon s) r (daemon s'))
        (case Some (''docker build failed: '' @ e) of None \<Rightarrow> startDaemonContainer getenv port | Some e \<Rightarrow> HDone (Some e)) s'"
      by (simp add: started_def)
  qed
qed

lemma ends_daemonStart:
  shows "ends he (\<lambda>r s'. (r = None \<longrightarrow> daemon s' = ''running'') \<and> (daemon s = ''running'' \<longrightarrow> r = None \<and> s' = s))
           (daemonStartCmd getenv force port) s"
proof (cases "daemon s = ''running''")
  case True
  show ?thesis using True by (simp add: daemonStartCmd_def ends_def run_inspect [OF inspect])
next
  case False
  let ?P = "\<lambda>r s'. r = None \<longrightarrow> daemon s' = ''running''"
  let ?b = "buildImage (\<lambda>r. case r of Some e \<Rightarrow> HDone (Some e) | None \<Rightarrow> startDaemonContainer getenv port)"
  have b: "ends he ?P ?b t" "ends he ?P (startDaemonContainer getenv port) t" for t
    using ends_go [of t getenv port] ends_start [of t getenv port]
    by (auto simp: started_def elim!: ends_weaken)
  have go: "ends he ?P (if force then ?b else imageExists daemonImageName
      (\<lambda>there. if \<not> there then ?b else startDaemonContainer getenv port)) t" for t
    using b by (simp add: imageExists_def split: prod.split)
  have "ends he ?P (daemonStartCmd getenv force port) s"
    using go False unfolding daemonStartCmd_def ends_inspect [OF inspect] by (simp add: Let_def split: prod.split)
  then show ?thesis using False by simp
qed

lemma ends_stopDaemon:
  shows "ends he (\<lambda>r s'. r = None \<longrightarrow> daemon s' = '''') stopDaemon s"
proof -
  have rm: "daemon t' = ''''" if "he_output he [''rm'', daemonContainerName] t = (Inr out, t')" for t out t'
    using stop_rm [unfolded stop_rm_documented_def, THEN conjunct2, THEN conjunct1, THEN spec, of t] that by simp
  show ?thesis
    by (auto simp: stopDaemon_def ends_inspect [OF inspect] Let_def split: prod.splits sum.splits dest: rm)
qed

lemma ends_swap:
  shows "ends he (\<lambda>r s'. r = None \<longrightarrow> daemon s' = ''running'') (daemonRestartCmd getenv False port) s"
proof -
  have "ends he (\<lambda>r s'. r = None \<longrightarrow> daemon s' = ''running'') (startDaemonContainer getenv port) t" for t
    using ends_start [of t getenv port] by (auto simp: started_def elim!: ends_weaken)
  then show ?thesis
    by (auto simp: daemonRestartCmd_def ends_inspect [OF inspect] Let_def split: prod.splits sum.splits)
qed

lemma ends_daemonRestart:
  shows "ends he (\<lambda>r s'. (r = None \<longrightarrow> daemon s' = ''running'') \<and>
           (\<forall>e t. force \<and> he_exec he [''build'', ''-t'', daemonImageName, ''.''] s = (Some e, t) \<longrightarrow>
              r = Some (''docker build failed: '' @ e) \<and> daemon s' = daemon s))
           (daemonRestartCmd getenv force port) s"
proof (cases force)
  case False
  then show ?thesis using ends_swap [of getenv port s] by simp
next
  case True
  obtain x t where x: "he_exec he [''build'', ''-t'', daemonImageName, ''.''] s = (x, t)" by force
  show ?thesis
  proof (cases x)
    case None
    then show ?thesis
      using True x ends_swap [of getenv port t]
      by (auto simp: daemonRestartCmd_def buildImage_def Let_def elim!: ends_weaken)
  next
    case (Some e)
    then show ?thesis
      using True x undisturbedD(2) [OF undisturbed x] by (simp add: daemonRestartCmd_def buildImage_def Let_def)
  qed
qed

end


text \<open>
  The program over the \<^verbatim>\<open>MockDocker\<close> of the repository, with the daemon's container under its name;
  \<open>builds\<close> tells whether images can be built.
\<close>

definition mock_status :: "mock_docker \<Rightarrow> string \<Rightarrow> string" where
  "mock_status d i =
     (case Mock_InspectContainer d i of
        Inl e \<Rightarrow> ''''
      | Inr info \<Rightarrow> if \<not> di_Running info then ''exited'' else if di_Paused info then ''paused'' else ''running'')"

definition mock_rm :: "string \<Rightarrow> mock_docker \<Rightarrow> mock_docker" where
  "mock_rm i d = d\<lparr>md_Containers := (md_Containers d)(i := None)\<rparr>"

definition docker_output :: "string list \<Rightarrow> mock_docker \<Rightarrow> (err + string) \<times> mock_docker" where
  "docker_output args d =
     (let i = last args in
      if hd args = ''inspect'' then
        (case Mock_InspectContainer d i of Inl e \<Rightarrow> (Inl e, d) | Inr _ \<Rightarrow> (Inr (mock_status d i @ nl), d))
      else if hd args = ''stop'' then
        (case Mock_StopContainer i d of (Some e, d1) \<Rightarrow> (Inl e, d1) | (None, d1) \<Rightarrow> (Inr (i @ nl), d1))
      else if hd args = ''rm'' then
        (if args ! 1 \<noteq> ''-f'' \<and> mock_status d i = ''running'' then (Inl ''container is running'', d)
         else (Inr (i @ nl), mock_rm i d))
      else if hd args = ''run'' then
        (if mock_status d daemonContainerName \<noteq> '''' then (Inl ''name in use'', d)
         else (Inr ''0123456789abcdef'', AddContainer daemonContainerName daemonContainerName True d))
      else (Inr '''', d))"

definition docker_exec :: "bool \<Rightarrow> string list \<Rightarrow> mock_docker \<Rightarrow> err option \<times> mock_docker" where
  "docker_exec builds args d =
     (if hd args = ''rm'' then (None, mock_rm (last args) d)
      else if hd args = ''build'' \<and> \<not> builds then (Some ''exit status 1'', d)
      else (None, d))"

definition docker_host :: "bool \<Rightarrow> mock_docker host_env" where
  "docker_host builds =
     \<lparr>he_output = docker_output, he_exec = docker_exec builds, he_shell = (\<lambda>cmd d. (None, d)), he_read = (\<lambda>d. NoFile),
      he_write = (\<lambda>hs d. (None, d)), he_sleep = (\<lambda>ms d. d), he_probe = (\<lambda>url d. (True, d))\<rparr>"

abbreviation daemon_status :: "mock_docker \<Rightarrow> string" where
  "daemon_status d \<equiv> mock_status d daemonContainerName"

lemma docker_host_simps [simp]:
  "he_output (docker_host b) = docker_output" "he_exec (docker_host b) = docker_exec b" "he_sleep (docker_host b) ms d = d"
  "he_probe (docker_host b) url d = (True, d)" "he_shell (docker_host b) cmd d = (None, d)"
  by (simp_all add: docker_host_def)

lemma mock_status_cases: "mock_status d i \<in> {'''', ''exited'', ''paused'', ''running''}"
  by (simp add: mock_status_def split: sum.split)

lemma mock_status_eval:
  "mock_status d i = (case md_Containers d i of None \<Rightarrow> '''' | Some c \<Rightarrow>
     if \<not> mc_Running c then ''exited'' else if mc_Paused c then ''paused'' else ''running'')"
  by (simp add: mock_status_def Mock_InspectContainer_def mock_get_def split: option.split)

interpretation mockcli: docker_program "docker_host builds" daemon_status for builds
proof
  have "trim_space (daemon_status d @ nl) = daemon_status d" for d
    using mock_status_cases [of d daemonContainerName] by (auto simp: trim_space_def nl_def is_space_def)
  then show "inspect_documented (docker_host builds) daemon_status"
    by (simp add: inspect_documented_def docker_output_def Let_def mock_status_eval Mock_InspectContainer_def mock_get_def
        split: option.split)
  show "stop_rm_documented (docker_host builds) daemon_status"
    by (simp add: stop_rm_documented_def docker_output_def docker_exec_def Let_def mock_rm_def mock_status_eval
        Mock_StopContainer_def mock_cmd_def mock_set_def split: option.split)
  have "hd (run_args getenv port) = ''run''" for getenv port by (simp add: run_args_def)
  then show "run_documented (docker_host builds) daemon_status"
    by (simp add: run_documented_def docker_output_def Let_def mock_status_eval AddContainer_def new_mock_container_def mock_set_def
        split: option.split)
  show "undisturbed (docker_host builds) daemon_status"
    by (simp add: undisturbed_def docker_output_def docker_exec_def Let_def)
qed

definition running_daemon :: mock_docker where
  "running_daemon = AddContainer daemonContainerName daemonContainerName True NewMockDocker"


subsection \<open>The wait for the daemon\<close>

text \<open>How long a command sleeps, in milliseconds.\<close>

primrec host_wait :: "'s host_env \<Rightarrow> host \<Rightarrow> 's \<Rightarrow> nat" where
  "host_wait he (HDone r) s = 0"
| "host_wait he (HPrint t k) s = host_wait he k s"
| "host_wait he (HWarn t k) s = host_wait he k s"
| "host_wait he (DockerOutput args k) s = (case he_output he args s of (x, s1) \<Rightarrow> host_wait he (k x) s1)"
| "host_wait he (DockerExec args k) s = (case he_exec he args s of (x, s1) \<Rightarrow> host_wait he (k x) s1)"
| "host_wait he (Shell cmd k) s = (case he_shell he cmd s of (x, s1) \<Rightarrow> host_wait he (k x) s1)"
| "host_wait he (ReadHooks k) s = host_wait he (k (he_read he s)) s"
| "host_wait he (WriteHooks hs k) s = (case he_write he hs s of (x, s1) \<Rightarrow> host_wait he (k x) s1)"
| "host_wait he (Sleep ms k) s = ms + host_wait he k (he_sleep he ms s)"
| "host_wait he (Probe url k) s = (case he_probe he url s of (x, s1) \<Rightarrow> host_wait he (k x) s1)"

lemma wait_hooks: "(\<And>s. host_wait he k s = 0) \<Longrightarrow> host_wait he (run_hooks i hs k) s = 0"
  by (induction hs arbitrary: i s) (auto split: prod.split option.split)

lemma wait_onRestart: "(\<And>s. host_wait he k s = 0) \<Longrightarrow> host_wait he (runOnRestartHooks k) s = 0"
  by (auto simp: runOnRestartHooks_def loadHooks_def wait_hooks split: hooks_file.split sum.split)

lemma wait_bound:
  assumes "\<And>b s. host_wait he (k b) s = 0"
  shows "host_wait he (wait_ready n url k) s \<le> 500 * n"
proof (induction n arbitrary: s)
  case (Suc n)
  then show ?case using assms by (auto split: prod.split)
qed (simp add: assms)

lemma wait_start: "host_wait he (startDaemonContainer getenv port) s \<le> 3000"
proof -
  have "host_wait he (wait_ready 6 url (\<lambda>ready. if ready then HPrint a (runOnRestartHooks (HDone None)) else HPrint b (HDone None))) t
      \<le> 500 * 6" for url a b t
    by (rule wait_bound) (simp add: wait_onRestart)
  then show ?thesis by (auto simp: startDaemonContainer_def Let_def split: prod.split sum.split)
qed

lemma wait_build: "(\<And>r t. host_wait he (k r) t \<le> n) \<Longrightarrow> host_wait he (buildImage k) s \<le> n"
  by (simp add: buildImage_def split: prod.split)

lemma wait_inspect: "(\<And>st t. host_wait he (k st) t \<le> n) \<Longrightarrow> host_wait he (inspectContainerState name k) s \<le> n"
  by (simp add: inspectContainerState_def split: prod.split)

lemma run_wait_never:
  assumes "\<And>s. \<not> fst (he_probe he url s)"
  shows "\<exists>t. run_host he (wait_ready n url k) s = run_host he (k False) t \<and>
             host_wait he (wait_ready n url k) s = 500 * n + host_wait he (k False) t"
proof (induction n arbitrary: s)
  case (Suc n)
  obtain t where "he_probe he url (he_sleep he 500 s) = (False, t)"
    using assms by (metis prod.collapse)
  then show ?case using Suc [of t] by auto
qed auto



subsection \<open>Hooks\<close>

text \<open>C33: a hook that is added is the last of the list, under the number that is printed, and removing that
  number gives the list that was there before; a number that is not in the list is refused and
  leaves the file alone.\<close>

theorem hooks_add_remove:
  assumes "\<And>hs s. fst (he_write he hs s) = None \<and> he_read he (snd (he_write he hs s)) = Contents (Inr hs)"
    and "he_read he s = (if hs = [] then NoFile else Contents (Inr hs))" and "in64 (int (length hs) + 1)"
    and "run_host he (hooksAddCmd cmd) s = ((r1, out1), s1)"
    and "run_host he (hooksRemoveCmd (show_int (int (length hs) + 1))) s1 = ((r2, out2), s2)"
    and "parse_int arg = Inr n" and "n < 1 \<or> int (length hs) < n"
  shows "r1 = None \<and> out1 = [''Hook added (#'' @ show_nat (length hs + 1) @ ''): '' @ cmd @ nl] \<and>
         he_read he s1 = Contents (Inr (hs @ [cmd])) \<and>
         r2 = None \<and> out2 = [''Removed hook #'' @ show_int (int (length hs) + 1) @ '': '' @ cmd @ nl] \<and>
         he_read he s2 = Contents (Inr hs) \<and>
         run_host he (hooksRemoveCmd arg) s =
           ((Some (''index '' @ show_int n @ '' out of range (1-'' @ show_nat (length hs) @ '')''), []), s)"
proof -
  have load: "run_host he (loadHooks k) s = run_host he (k (Inr hs)) s" for k
    using assms(2) by (simp add: loadHooks_def)
  have read: "he_read he (snd (he_write he x t)) = Contents (Inr x)" for x t using assms(1) by blast
  have w: "run_host he (saveHooks x k) t = run_host he (k None) (snd (he_write he x t))" for x k t
    using assms(1) [of x t] by (cases "he_write he x t") (simp add: saveHooks_def)
  have a: "run_host he (hooksAddCmd cmd) s =
      ((None, [''Hook added (#'' @ show_nat (length hs + 1) @ ''): '' @ cmd @ nl]), snd (he_write he (hs @ [cmd]) s))"
    unfolding hooksAddCmd_def load by (simp add: Let_def w)
  then have s1: "s1 = snd (he_write he (hs @ [cmd]) s)" using assms(4) by simp
  then have load1: "run_host he (loadHooks k) s1 = run_host he (k (Inr (hs @ [cmd]))) s1" for k
    by (simp add: loadHooks_def read)
  have n: "nat (int (length hs) + 1) = Suc (length hs)" by simp
  have b: "run_host he (hooksRemoveCmd (show_int (int (length hs) + 1))) s1 =
      ((None, [''Removed hook #'' @ show_int (int (length hs) + 1) @ '': '' @ cmd @ nl]), snd (he_write he hs s1))"
    unfolding hooksRemoveCmd_def parse_show_int [OF assms(3)] sum.case load1
    by (simp add: Let_def w n nth_append)
  have c: "run_host he (hooksRemoveCmd arg) s =
      ((Some (''index '' @ show_int n @ '' out of range (1-'' @ show_nat (length hs) @ '')''), []), s)"
    unfolding hooksRemoveCmd_def assms(6) sum.case load using assms(7) by simp
  have "r1 = None" "out1 = [''Hook added (#'' @ show_nat (length hs + 1) @ ''): '' @ cmd @ nl]"
    using a assms(4) by simp_all
  moreover have "r2 = None" "out2 = [''Removed hook #'' @ show_int (int (length hs) + 1) @ '': '' @ cmd @ nl]"
    "he_read he s2 = Contents (Inr hs)"
    using b assms(5) read by simp_all
  ultimately show ?thesis using c s1 read by simp
qed

text \<open>A host of which only the hooks file is of interest.\<close>

definition hooks_host :: "hooks_file host_env" where
  "hooks_host =
     \<lparr>he_output = (\<lambda>args s. (Inr '''', s)), he_exec = (\<lambda>args s. (None, s)), he_shell = (\<lambda>cmd s. (None, s)),
      he_read = (\<lambda>s. s), he_write = (\<lambda>hs s. (None, Contents (Inr hs))), he_sleep = (\<lambda>ms s. s),
      he_probe = (\<lambda>url s. (True, s))\<rparr>"

theorem hooks_add_remove_witness:
  "snd (run_host hooks_host (hooksRemoveCmd ''2'')
          (snd (run_host hooks_host (hooksAddCmd ''b'') (Contents (Inr [''a'']))))) = Contents (Inr [''a'']) \<and>
   run_host hooks_host (hooksRemoveCmd ''9'') (Contents (Inr [''a''])) =
     ((Some ''index 9 out of range (1-1)'', []), Contents (Inr [''a'']))"
proof -
  let ?s = "Contents (Inr [''a''])"
  obtain r1 o1 s1 where x: "run_host hooks_host (hooksAddCmd ''b'') ?s = ((r1, o1), s1)" by (metis prod.collapse)
  obtain r2 o2 s2 where y: "run_host hooks_host (hooksRemoveCmd (show_int (int (length [''a'']) + 1))) s1 = ((r2, o2), s2)"
    by (metis prod.collapse)
  have pair: "show_int (int (length [''a'']) + 1) = ''2''" and nine: "show_int 9 = ''9''" and single: "show_nat (length [''a'']) = ''1''"
    by (simp_all add: show_eval)
  have "parse_int ''9'' = Inr 9" using parse_show_int [of 9] nine by (simp add: in64_def)
  then show ?thesis
    using hooks_add_remove [of hooks_host ?s "[''a'']" "''b''" r1 o1 s1 r2 o2 s2 "''9''" 9] x y
    unfolding pair nine single by (simp add: hooks_host_def in64_def)
qed

end
