(* ===== verification/EventWire.thy ===== *)
theory EventWire
  imports Cli
begin

text \<open>
  The event stream from the payloads of \<^verbatim>\<open>internal/events/events.go\<close> to what \<^verbatim>\<open>ddl events\<close> prints
  (\<^verbatim>\<open>cmd/ddl/events.go\<close>): the JSON objects the payloads are marshalled to, decoding them into the
  structs of the client, the lines of each event and the loop over the messages. JSON text, the
  connection and the local time of a timestamp are parameters.
\<close>

subsection \<open>Payloads as JSON values\<close>

datatype wire =
    WNull
  | WBool bool
  | WInt int
  | WFloat gofloat
  | WStr string
  | WObj "(string \<times> wire) list"

definition omit_empty :: "string \<Rightarrow> string \<Rightarrow> (string \<times> wire) list" where
  "omit_empty k s = (if s = '''' then [] else [(k, WStr s)])"

definition wire_ints :: "(limit_type \<times> int) list \<Rightarrow> wire" where
  "wire_ints m = WObj (map (\<lambda>(k, v). (k, WInt v)) m)"

fun event_payload :: "event_data \<Rightarrow> wire" where
  "event_payload (UsageUpdateData u l e) =
     WObj [(''usage'', wire_ints u), (''limits'', wire_ints l), (''enforced'', WObj (map (\<lambda>(k, b). (k, WBool b)) e))]"
| "event_payload (LimitChangeData lt old new oper) =
     WObj [(''limit_type'', WStr lt), (''old_value'', WInt old), (''new_value'', WInt new), (''operation'', WStr oper)]"
| "event_payload (EnforcementChangeData lt b) = WObj [(''limit_type'', WStr lt), (''enforced'', WBool b)]"
| "event_payload (ContainerRegisterData did name) = WObj [(''docker_id'', WStr did), (''name'', WStr name)]"
| "event_payload ContainerRemoveData = WObj []"
| "event_payload (OllamaEnqueueData model bid) = WObj [(''model'', WStr model), (''bid'', WInt bid)]"
| "event_payload (OllamaDequeueData model wall cost) =
     WObj [(''model'', WStr model), (''wall_seconds'', WFloat wall), (''cost'', WInt cost)]"
| "event_payload (OllamaCancelData reason) = WObj [(''reason'', WStr reason)]"
| "event_payload (OllamaBidChangeData bid) = WObj [(''bid'', WInt bid)]"
| "event_payload (SystemSleepData d) = WObj [(''duration_seconds'', WFloat d)]"
| "event_payload (GlobalEnforcementChangeData lt b) = WObj [(''limit_type'', WStr lt), (''enforced'', WBool b)]"
| "event_payload (ScopeEnforcementChangeData sc lt b) =
     WObj [(''scope'', WStr sc), (''limit_type'', WStr lt), (''enforced'', WBool b)]"
| "event_payload (SegmentEventData sid name) = WObj ((''segment_id'', WStr sid) # omit_empty ''name'' name)"
| "event_payload (ContainerAssignData sid) = WObj [(''segment_id'', WStr sid)]"
| "event_payload (ProxyUpstreamErrorData host code typ msg rid) =
     WObj ([(''host'', WStr host), (''status_code'', WInt code)] @ omit_empty ''error_type'' typ @
           omit_empty ''error_message'' msg @ omit_empty ''request_id'' rid)"
| "event_payload (ContainerKilledData lt u l) =
     WObj [(''limit_type'', WStr lt), (''usage_at_kill'', WInt u), (''limit_at_kill'', WInt l)]"
| "event_payload ContainerFrozenData = WObj []"
| "event_payload (ContainerUnfrozenData b) = WObj [(''enforcement_active'', WBool b)]"

subsection \<open>Decoding into a struct\<close>

text \<open>
  A missing or null member leaves the zero value, one of another type is an error of the whole
  struct; a payload that is null leaves all fields, one that is not an object is an error.
\<close>

definition fields_of :: "wire \<Rightarrow> (string \<times> wire) list option" where
  "fields_of d = (case d of WObj kvs \<Rightarrow> Some kvs | WNull \<Rightarrow> Some [] | _ \<Rightarrow> None)"

definition text_field :: "(string \<times> wire) list \<Rightarrow> string \<Rightarrow> string option" where
  "text_field kvs k =
     (case map_of kvs k of None \<Rightarrow> Some '''' | Some WNull \<Rightarrow> Some '''' | Some (WStr s) \<Rightarrow> Some s | _ \<Rightarrow> None)"

definition int_field :: "(string \<times> wire) list \<Rightarrow> string \<Rightarrow> int option" where
  "int_field kvs k =
     (case map_of kvs k of None \<Rightarrow> Some 0 | Some WNull \<Rightarrow> Some 0 | Some (WInt n) \<Rightarrow> Some n | _ \<Rightarrow> None)"

definition bool_field :: "(string \<times> wire) list \<Rightarrow> string \<Rightarrow> bool option" where
  "bool_field kvs k =
     (case map_of kvs k of None \<Rightarrow> Some False | Some WNull \<Rightarrow> Some False | Some (WBool b) \<Rightarrow> Some b | _ \<Rightarrow> None)"

definition float_field :: "(string \<times> wire) list \<Rightarrow> string \<Rightarrow> gofloat option" where
  "float_field kvs k =
     (case map_of kvs k of
        None \<Rightarrow> Some (fl_of_int 0) | Some WNull \<Rightarrow> Some (fl_of_int 0)
      | Some (WFloat f) \<Rightarrow> Some f | Some (WInt n) \<Rightarrow> Some (fl_of_int n) | _ \<Rightarrow> None)"

definition map_field :: "(wire \<Rightarrow> 'v option) \<Rightarrow> (string \<times> wire) list \<Rightarrow> string \<Rightarrow> (string \<rightharpoonup> 'v) option" where
  "map_field dec kvs k =
     (case map_of kvs k of
        None \<Rightarrow> Some Map.empty
      | Some WNull \<Rightarrow> Some Map.empty
      | Some (WObj es) \<Rightarrow>
          if list_all (\<lambda>(_, v). dec v \<noteq> None) es then Some (\<lambda>x. Option.bind (map_of es x) dec) else None
      | _ \<Rightarrow> None)"

fun as_int :: "wire \<Rightarrow> int option" where
  "as_int (WInt n) = Some n"
| "as_int WNull = Some 0"
| "as_int _ = None"

fun as_bool :: "wire \<Rightarrow> bool option" where
  "as_bool (WBool b) = Some b"
| "as_bool WNull = Some False"
| "as_bool _ = None"

subsection \<open>The lines of an event\<close>

definition event_types_shown :: "limit_type list" where
  "event_types_shown = [LimitCPU, LimitRAM, LimitNetwork, LimitDisk, LimitDiskIOByte, LimitDiskIOOps, LimitSpending,
     LimitRAMUsageBSec, LimitDiskUsageBSec, LimitRAMRequestBSec, LimitDiskRequestBSec]"

definition usage_line :: "(string \<rightharpoonup> int) \<Rightarrow> (string \<rightharpoonup> int) \<Rightarrow> (string \<rightharpoonup> bool) \<Rightarrow> limit_type \<Rightarrow> string" where
  "usage_line usage limits enforced lt =
     (let u = mget0 usage lt; l = mget0 limits lt in
      if (usage lt \<noteq> None \<and> u \<noteq> 0) \<or> (limits lt \<noteq> None \<and> l \<noteq> 0)
      then ''  '' @ lt @ '': '' @ formatValue lt u @ '' / '' @ formatValue lt l @
           (if mgetb enforced lt then '' ENFORCED'' else '''') @ nl
      else '''')"

text \<open>The indented line of an event by its type; nothing when the payload does not decode.\<close>

definition event_body :: "string \<Rightarrow> wire \<Rightarrow> string" where
  "event_body typ data =
     (let kvs = (case fields_of data of None \<Rightarrow> [] | Some m \<Rightarrow> m);
          str = text_field kvs; num = int_field kvs; flag = bool_field kvs; flt = float_field kvs;
          line = (\<lambda>ok s. if fields_of data \<noteq> None \<and> ok then s @ nl else '''')
      in if typ = ''usage_update'' then
           (case (map_field as_int kvs ''usage'', map_field as_int kvs ''limits'', map_field as_bool kvs ''enforced'') of
              (Some u, Some l, Some e) \<Rightarrow>
                if fields_of data \<noteq> None then concat (map (usage_line u l e) event_types_shown) else ''''
            | _ \<Rightarrow> '''')
         else if typ = ''limit_change'' then
           (case (str ''limit_type'', num ''old_value'', num ''new_value'', str ''operation'') of
              (Some lt, Some old, Some new, Some oper) \<Rightarrow>
                line True (''  '' @ lt @ '': '' @ formatValue lt old @ '' -> '' @ formatValue lt new @ '' ('' @ oper @ '')'')
            | _ \<Rightarrow> '''')
         else if typ = ''enforcement_change'' then
           (case (str ''limit_type'', flag ''enforced'') of
              (Some lt, Some b) \<Rightarrow> line True (''  '' @ lt @ '': '' @ (if b then ''ENFORCED'' else ''RELEASED''))
            | _ \<Rightarrow> '''')
         else if typ = ''container_register'' then
           (case (str ''docker_id'', str ''name'') of
              (Some did, Some name) \<Rightarrow> line True (''  name='' @ name @ '' docker_id='' @ did)
            | _ \<Rightarrow> '''')
         else if typ = ''container_remove'' then ''  removed'' @ nl
         else if typ = ''ollama_enqueue'' then
           (case (str ''model'', num ''bid'') of
              (Some model, Some bid) \<Rightarrow> line True (''  model='' @ model @ '' bid='' @ show_int bid @ '' milli-cents/wall-sec'')
            | _ \<Rightarrow> '''')
         else if typ = ''ollama_dequeue'' then
           (case (str ''model'', flt ''wall_seconds'', num ''cost'') of
              (Some model, Some wall, Some cost) \<Rightarrow>
                line True (''  model='' @ model @ '' wall='' @ show_fixed 1 wall @ ''s cost='' @ show_int cost @ '' milli-cents'')
            | _ \<Rightarrow> '''')
         else if typ = ''ollama_cancel'' then
           (case str ''reason'' of Some reason \<Rightarrow> line True (''  reason='' @ reason) | None \<Rightarrow> '''')
         else if typ = ''ollama_bid_change'' then
           (case num ''bid'' of Some bid \<Rightarrow> line True (''  bid='' @ show_int bid @ '' milli-cents/wall-sec'') | None \<Rightarrow> '''')
         else if typ = ''system_sleep'' then
           (case flt ''duration_seconds'' of Some d \<Rightarrow> line True (''  duration='' @ show_fixed 1 d @ ''s'') | None \<Rightarrow> '''')
         else if typ = ''container_frozen'' then ''  frozen (byte-sec accumulators suspended)'' @ nl
         else if typ = ''container_unfrozen'' then
           (case flag ''enforcement_active'' of
              Some b \<Rightarrow> line True (if b then ''  unfrozen (enforcement still active)'' else ''  unfrozen'')
            | None \<Rightarrow> '''')
         else if typ = ''container_killed'' then
           (case (str ''limit_type'', num ''usage_at_kill'', num ''limit_at_kill'') of
              (Some lt, Some u, Some l) \<Rightarrow>
                line True (''  killed: '' @ lt @ '' (usage='' @ formatValue lt u @ '', limit='' @ formatValue lt l @ '')'')
            | _ \<Rightarrow> '''')
         else if typ = ''proxy_upstream_error'' then
           (case (str ''host'', num ''status_code'', str ''error_type'', str ''error_message'') of
              (Some host, Some code, Some etype, Some msg) \<Rightarrow>
                line True (''  upstream error from '' @ host @ '' (HTTP '' @ show_int code @ ''): '' @ etype @ '' '' @
                      [CHR 0xE2, CHR 0x80, CHR 0x94] @ '' '' @ msg)
            | _ \<Rightarrow> '''')
         else '''')"

text \<open>
  A message is its text and, when that is the JSON of an event, the decoded event with its time of
  day as text.
\<close>

record cli_event =
  ce_Type :: string
  ce_ContainerID :: string
  ce_Time :: string
  ce_Data :: wire

definition show_event :: "cli_event \<Rightarrow> string" where
  "show_event e =
     ''['' @ ce_Time e @ ''] '' @ ce_Type e @ ''  container='' @ ce_ContainerID e @ nl @
     event_body (ce_Type e) (ce_Data e) @ nl"

definition show_message :: "bool \<Rightarrow> string \<times> cli_event option \<Rightarrow> string" where
  "show_message useJSON m =
     (case m of (msg, e) \<Rightarrow>
        if useJSON then msg @ nl else case e of None \<Rightarrow> msg @ nl | Some ev \<Rightarrow> show_event ev)"

text \<open>
  How the stream ends: no connection, a close frame, an interrupt by the user, or an error of
  reading; no message is read without a connection.
\<close>

datatype ws_end = NotConnected err | NormalClosure | GoingAway | Interrupted | ReadFailed err

definition events_stream :: "bool \<Rightarrow> (string \<times> cli_event option) list \<Rightarrow> ws_end \<Rightarrow> string \<times> err option" where
  "events_stream useJSON msgs how =
     (case how of
        NotConnected e \<Rightarrow>
          ('''', Some (''connect to event stream: '' @ e @ nl @ ''Hint: ensure ddld is running and accessible''))
      | ReadFailed e \<Rightarrow> (concat (map (show_message useJSON) msgs), Some (''read: '' @ e))
      | _ \<Rightarrow> (concat (map (show_message useJSON) msgs), None))"

subsection \<open>The address of the stream\<close>

fun replace_first :: "string \<Rightarrow> string \<Rightarrow> string \<Rightarrow> string" where
  "replace_first old new [] = (if old = [] then new else [])"
| "replace_first old new (c # s) =
     (if prefix old (c # s) then new @ drop (length old) (c # s) else c # replace_first old new s)"

definition escape_char :: "char \<Rightarrow> string" where
  "escape_char c =
     (let n = (of_char c :: nat) in
      if is_digit c \<or> (65 \<le> n \<and> n \<le> 90) \<or> (97 \<le> n \<and> n \<le> 122) \<or> c \<in> set ''-_.~'' then [c]
      else if c = CHR '' '' then ''+''
      else [CHR ''%'', ''0123456789ABCDEF'' ! (n div 16), ''0123456789ABCDEF'' ! (n mod 16)])"

definition query_escape :: "string \<Rightarrow> string" where
  "query_escape s = concat (map escape_char s)"

text \<open>For a base without a query or a fragment; \<open>parses\<close> tells whether \<^verbatim>\<open>url.Parse\<close> accepts the address.\<close>

definition buildWSURLFrom :: "(string \<Rightarrow> bool) \<Rightarrow> string \<Rightarrow> string \<Rightarrow> string \<Rightarrow> string" where
  "buildWSURLFrom parses base containerFilter typesFilter =
     (let wsBase = replace_first ''http://'' ''ws://'' (replace_first ''https://'' ''wss://'' base);
          u = wsBase @ ''/events'';
          q1 = (if containerFilter \<noteq> '''' then [''container_id='' @ query_escape containerFilter] else []);
          q2 = (if typesFilter \<noteq> '''' then [''types='' @ query_escape typesFilter] else []);
          q = join_with (CHR ''&'') (q1 @ q2)
      in if \<not> parses u then u else if q = '''' then u else u @ ''?'' @ q)"

text \<open>Where the stream is read from: a socket path, if one is used, and the address.\<close>

definition stream_address ::
  "(string \<Rightarrow> bool) \<Rightarrow> string \<Rightarrow> bool \<Rightarrow> string \<Rightarrow> string \<Rightarrow> string \<Rightarrow> string option \<times> string" where
  "stream_address parses sockPath defaultSock apiURL containerFilter typesFilter =
     (let url = buildWSURLFrom parses apiURL containerFilter typesFilter in
      if sockPath \<noteq> '''' then (Some sockPath, url)
      else if defaultSock
      then (Some ''/var/run/ddl/ddl.sock'', buildWSURLFrom parses ''ws://localhost'' containerFilter typesFilter)
      else if apiURL = ''http://localhost''
      then (None, buildWSURLFrom parses ''ws://localhost:7123'' containerFilter typesFilter)
      else (None, url))"

end
