(* ===== verification/EventProps.thy ===== *)
theory EventProps
  imports EventWire
begin

text \<open>
  The two ends of the event stream agree: every payload of the daemon, published under its type, is
  decoded by \<^verbatim>\<open>ddl events\<close> and shown with the values it carries.
\<close>

text \<open>The payload that each type of event is published with.\<close>

fun carries :: "event_type \<Rightarrow> event_data \<Rightarrow> bool" where
  "carries typ (UsageUpdateData u l e) = (typ = UsageUpdate)"
| "carries typ (LimitChangeData lt old new oper) = (typ = LimitChange)"
| "carries typ (EnforcementChangeData lt b) = (typ = EnforcementChange)"
| "carries typ (ContainerRegisterData did name) = (typ = ContainerRegister)"
| "carries typ ContainerRemoveData = (typ = ContainerRemove)"
| "carries typ (OllamaEnqueueData model bid) = (typ = OllamaEnqueue)"
| "carries typ (OllamaDequeueData model wall cost) = (typ = OllamaDequeue)"
| "carries typ (OllamaCancelData reason) = (typ = OllamaCancel)"
| "carries typ (OllamaBidChangeData bid) = (typ = OllamaBidChange)"
| "carries typ (SystemSleepData d) = (typ = SystemSleep)"
| "carries typ (GlobalEnforcementChangeData lt b) = (typ = GlobalEnforcementChange)"
| "carries typ (ScopeEnforcementChangeData sc lt b) = (typ = ScopeEnforcementChange)"
| "carries typ (SegmentEventData sid name) = (typ \<in> {SegmentCreate, SegmentDelete})"
| "carries typ (ContainerAssignData sid) = (typ \<in> {ContainerAssign, ContainerUnassign})"
| "carries typ (ProxyUpstreamErrorData host code etype msg rid) = (typ = ProxyUpstreamError)"
| "carries typ (ContainerKilledData lt u l) = (typ = ContainerKilled)"
| "carries typ ContainerFrozenData = (typ = ContainerFrozen)"
| "carries typ (ContainerUnfrozenData b) = (typ = ContainerUnfrozen)"

text \<open>The line a reader expects for the values of a payload.\<close>

fun event_line :: "event_data \<Rightarrow> string" where
  "event_line (UsageUpdateData u l e) = concat (map (usage_line (map_of u) (map_of l) (map_of e)) event_types_shown)"
| "event_line (LimitChangeData lt old new oper) =
     ''  '' @ lt @ '': '' @ formatValue lt old @ '' -> '' @ formatValue lt new @ '' ('' @ oper @ '')'' @ nl"
| "event_line (EnforcementChangeData lt b) = ''  '' @ lt @ '': '' @ (if b then ''ENFORCED'' else ''RELEASED'') @ nl"
| "event_line (ContainerRegisterData did name) = ''  name='' @ name @ '' docker_id='' @ did @ nl"
| "event_line ContainerRemoveData = ''  removed'' @ nl"
| "event_line (OllamaEnqueueData model bid) = ''  model='' @ model @ '' bid='' @ show_int bid @ '' milli-cents/wall-sec'' @ nl"
| "event_line (OllamaDequeueData model wall cost) =
     ''  model='' @ model @ '' wall='' @ show_fixed 1 wall @ ''s cost='' @ show_int cost @ '' milli-cents'' @ nl"
| "event_line (OllamaCancelData reason) = ''  reason='' @ reason @ nl"
| "event_line (OllamaBidChangeData bid) = ''  bid='' @ show_int bid @ '' milli-cents/wall-sec'' @ nl"
| "event_line (SystemSleepData d) = ''  duration='' @ show_fixed 1 d @ ''s'' @ nl"
| "event_line ContainerFrozenData = ''  frozen (byte-sec accumulators suspended)'' @ nl"
| "event_line (ContainerUnfrozenData b) = (if b then ''  unfrozen (enforcement still active)'' else ''  unfrozen'') @ nl"
| "event_line (ProxyUpstreamErrorData host code typ msg rid) =
     ''  upstream error from '' @ host @ '' (HTTP '' @ show_int code @ ''): '' @ typ @ '' '' @
       [CHR 0xE2, CHR 0x80, CHR 0x94] @ '' '' @ msg @ nl"
| "event_line (ContainerKilledData lt u l) =
     ''  killed: '' @ lt @ '' (usage='' @ formatValue lt u @ '', limit='' @ formatValue lt l @ '')'' @ nl"
| "event_line _ = ''''"

lemma fields_WObj [simp]: "fields_of (WObj m) = Some m"
  by (simp add: fields_of_def)

lemma map_of_omit: "map_of (omit_empty k s) x = (if x = k \<and> s \<noteq> '''' then Some (WStr s) else None)"
  by (simp add: omit_empty_def)

lemma map_field_map:
  assumes "map_of kvs k = Some (WObj (map (\<lambda>(x, v). (x, f v)) m))" and "\<And>v. dec (f v) = Some v"
  shows "map_field dec kvs k = Some (map_of m)"
proof -
  have "list_all (\<lambda>(x, v). dec v \<noteq> None) (map (\<lambda>(x, v). (x, f v)) m)" by (auto simp: list_all_iff assms(2))
  moreover have "Option.bind (map_of (map (\<lambda>(x, v). (x, f v)) m) x) dec = map_of m x" for x
    by (induction m) (auto simp: assms(2))
  ultimately show ?thesis by (simp add: map_field_def assms(1))
qed

lemmas field_simps' = text_field_def int_field_def bool_field_def float_field_def Let_def map_of_omit map_add_def

lemma body_usage: "event_body ''usage_update'' (event_payload (UsageUpdateData u l e)) = event_line (UsageUpdateData u l e)"
proof -
  let ?kvs = "[(''usage'', wire_ints u), (''limits'', wire_ints l), (''enforced'', WObj (map (\<lambda>(k, b). (k, WBool b)) e))]"
  have "map_field as_int ?kvs ''usage'' = Some (map_of u)" "map_field as_int ?kvs ''limits'' = Some (map_of l)"
    "map_field as_bool ?kvs ''enforced'' = Some (map_of e)"
    by (simp_all add: map_field_map [where f = WInt] map_field_map [where f = WBool] wire_ints_def)
  then show ?thesis by (simp add: event_body_def Let_def)
qed

lemma bodies:
  "event_body ''limit_change'' (event_payload (LimitChangeData lt old new oper)) = event_line (LimitChangeData lt old new oper)"
  "event_body ''enforcement_change'' (event_payload (EnforcementChangeData lt b)) = event_line (EnforcementChangeData lt b)"
  "event_body ''container_register'' (event_payload (ContainerRegisterData did name)) = event_line (ContainerRegisterData did name)"
  "event_body ''container_remove'' (event_payload ContainerRemoveData) = event_line ContainerRemoveData"
  "event_body ''ollama_enqueue'' (event_payload (OllamaEnqueueData model bid)) = event_line (OllamaEnqueueData model bid)"
  "event_body ''ollama_dequeue'' (event_payload (OllamaDequeueData model wall cost)) = event_line (OllamaDequeueData model wall cost)"
  "event_body ''ollama_cancel'' (event_payload (OllamaCancelData reason)) = event_line (OllamaCancelData reason)"
  "event_body ''ollama_bid_change'' (event_payload (OllamaBidChangeData bid)) = event_line (OllamaBidChangeData bid)"
  "event_body ''system_sleep'' (event_payload (SystemSleepData d)) = event_line (SystemSleepData d)"
  "event_body ''global_enforcement_change'' (event_payload (GlobalEnforcementChangeData lt b)) = event_line (GlobalEnforcementChangeData lt b)"
  "event_body ''scope_enforcement_change'' (event_payload (ScopeEnforcementChangeData sc lt b)) = event_line (ScopeEnforcementChangeData sc lt b)"
  "event_body ''segment_create'' (event_payload (SegmentEventData sid name)) = event_line (SegmentEventData sid name)"
  "event_body ''segment_delete'' (event_payload (SegmentEventData sid name)) = event_line (SegmentEventData sid name)"
  "event_body ''container_assign'' (event_payload (ContainerAssignData sid)) = event_line (ContainerAssignData sid)"
  "event_body ''container_unassign'' (event_payload (ContainerAssignData sid)) = event_line (ContainerAssignData sid)"
  "event_body ''proxy_upstream_error'' (event_payload (ProxyUpstreamErrorData host code etype msg rid)) = event_line (ProxyUpstreamErrorData host code etype msg rid)"
  "event_body ''container_killed'' (event_payload (ContainerKilledData lt u l)) = event_line (ContainerKilledData lt u l)"
  "event_body ''container_frozen'' (event_payload ContainerFrozenData) = event_line ContainerFrozenData"
  "event_body ''container_unfrozen'' (event_payload (ContainerUnfrozenData b)) = event_line (ContainerUnfrozenData b)"
  by (simp_all add: event_body_def field_simps')



end
