(* ===== verification/MockStore.thy ===== *)
theory MockStore
  imports Store Contracts
begin

text \<open>
  The in-memory \<^verbatim>\<open>MockStore\<close> of \<^verbatim>\<open>internal/testutil/mocks.go\<close>, against which the enforcement
  and API tests of the repository run. A nested Go map is a map of maps, a nil inner map a
  missing key. The maps of containers and segments, which the code iterates, are association
  lists; Go visits a map in any order, the list's order stands for one. Sums wrap at 64 bits.
\<close>

record mock_store =
  ms_Containers :: "(string \<times> container) list"
  ms_Limits :: "string \<rightharpoonup> (limit_type \<rightharpoonup> int)"
  ms_Usages :: "string \<rightharpoonup> (limit_type \<rightharpoonup> int)"
  ms_ScopeLimits :: "scope \<rightharpoonup> (limit_type \<rightharpoonup> int)"
  ms_ScopeUsageAccum :: "scope \<rightharpoonup> (limit_type \<rightharpoonup> int)"
  ms_Segments :: "(string \<times> segment) list"
  ms_SegmentConfigs :: "string \<rightharpoonup> (string \<rightharpoonup> string)"
  ms_Frozen :: "string \<rightharpoonup> bool"

definition NewMockStore :: mock_store where
  "NewMockStore =
     \<lparr>ms_Containers = [], ms_Limits = Map.empty, ms_Usages = Map.empty, ms_ScopeLimits = Map.empty,
      ms_ScopeUsageAccum = Map.empty, ms_Segments = [], ms_SegmentConfigs = Map.empty, ms_Frozen = Map.empty\<rparr>"

subsection \<open>Nested maps\<close>

definition inner :: "('a \<rightharpoonup> ('b \<rightharpoonup> 'v)) \<Rightarrow> 'a \<Rightarrow> 'b \<rightharpoonup> 'v" where
  "inner m a = (case m a of None \<Rightarrow> Map.empty | Some i \<Rightarrow> i)"

definition nput :: "'a \<Rightarrow> 'b \<Rightarrow> 'v \<Rightarrow> ('a \<rightharpoonup> ('b \<rightharpoonup> 'v)) \<Rightarrow> ('a \<rightharpoonup> ('b \<rightharpoonup> 'v))" where
  "nput a b v m = m(a \<mapsto> (inner m a)(b \<mapsto> v))"

definition nadd :: "'a \<Rightarrow> 'b \<Rightarrow> int \<Rightarrow> ('a \<rightharpoonup> ('b \<rightharpoonup> int)) \<Rightarrow> ('a \<rightharpoonup> ('b \<rightharpoonup> int))" where
  "nadd a b d m = nput a b (wrap64 (mget0 (inner m a) b + d)) m"

lemma inner_nput [simp]: "inner (nput a b v m) a' = (if a' = a then (inner m a)(b \<mapsto> v) else inner m a')"
  by (simp add: inner_def nput_def)

lemma inner_nadd [simp]:
  "inner (nadd a b d m) a' = (if a' = a then (inner m a)(b \<mapsto> wrap64 (mget0 (inner m a) b + d)) else inner m a')"
  by (simp add: nadd_def)

lemma inner_empty [simp]: "inner Map.empty a = Map.empty"
  by (simp add: inner_def)

lemma inner_upd [simp]: "inner (m(a := x)) a' = (if a' = a then (case x of None \<Rightarrow> Map.empty | Some i \<Rightarrow> i) else inner m a')"
  by (simp add: inner_def)

subsection \<open>Containers\<close>

text \<open>A map entry that is set anew takes the place of the old one.\<close>

definition Mock_RegisterContainer :: "string \<Rightarrow> string \<Rightarrow> mock_store \<Rightarrow> (err + container) \<times> mock_store" where
  "Mock_RegisterContainer dockerID name s =
     (let cid = (if 12 \<le> length dockerID then take 12 dockerID else dockerID);
          c = \<lparr>c_ID = cid, c_DockerID = dockerID, c_Name = name, c_RegisteredAt = 0, c_SegmentID = ''''\<rparr>
      in (Inr c, s\<lparr>ms_Containers := AList.update cid c (ms_Containers s)\<rparr>))"

definition Mock_GetContainer :: "mock_store \<Rightarrow> string \<Rightarrow> err + container" where
  "Mock_GetContainer s cid =
     (case map_of (ms_Containers s) cid of
        None \<Rightarrow> Inl (''container '' @ cid @ '' not found'') | Some c \<Rightarrow> Inr c)"

definition Mock_ListContainers :: "mock_store \<Rightarrow> err + container list" where
  "Mock_ListContainers s = Inr (map snd (ms_Containers s))"

definition mock_accumulate ::
  "(limit_type \<rightharpoonup> int) \<Rightarrow> container \<Rightarrow> limit_type \<Rightarrow> (scope \<rightharpoonup> (limit_type \<rightharpoonup> int)) \<Rightarrow> (scope \<rightharpoonup> (limit_type \<rightharpoonup> int))" where
  "mock_accumulate usages c lt acc =
     (case usages lt of
        None \<Rightarrow> acc
      | Some val \<Rightarrow>
          if 0 < val then
            let acc1 = nadd ScopeHost lt val acc
            in if c_SegmentID c \<noteq> '''' then nadd (SegmentScope (c_SegmentID c)) lt val acc1 else acc1
          else acc)"

definition Mock_RemoveContainer :: "string \<Rightarrow> mock_store \<Rightarrow> err option \<times> mock_store" where
  "Mock_RemoveContainer cid s =
     (let drop = (\<lambda>s. s\<lparr>ms_Limits := (ms_Limits s)(cid := None), ms_Usages := (ms_Usages s)(cid := None)\<rparr>)
      in case map_of (ms_Containers s) cid of
           None \<Rightarrow> (None, drop s)
         | Some c \<Rightarrow>
             let acc = (case ms_Usages s cid of
                          None \<Rightarrow> ms_ScopeUsageAccum s
                        | Some usages \<Rightarrow> fold (mock_accumulate usages c) CumulativeLimitTypes (ms_ScopeUsageAccum s))
             in (None, drop (s\<lparr>ms_ScopeUsageAccum := acc, ms_Containers := AList.delete cid (ms_Containers s)\<rparr>)))"

subsection \<open>Limits and usage\<close>

definition Mock_SetLimit :: "string \<Rightarrow> limit_type \<Rightarrow> int \<Rightarrow> mock_store \<Rightarrow> err option \<times> mock_store" where
  "Mock_SetLimit cid lt v s = (None, s\<lparr>ms_Limits := nput cid lt v (ms_Limits s)\<rparr>)"

definition Mock_GetLimit :: "mock_store \<Rightarrow> string \<Rightarrow> limit_type \<Rightarrow> err + int" where
  "Mock_GetLimit s cid lt = (case ms_Limits s cid of None \<Rightarrow> Inr 0 | Some m \<Rightarrow> Inr (mget0 m lt))"

definition Mock_GetAllLimits :: "mock_store \<Rightarrow> string \<Rightarrow> err + (limit_type \<rightharpoonup> int)" where
  "Mock_GetAllLimits s cid = Inr (case ms_Limits s cid of None \<Rightarrow> Map.empty | Some m \<Rightarrow> m)"

definition Mock_SetUsage :: "string \<Rightarrow> limit_type \<Rightarrow> int \<Rightarrow> mock_store \<Rightarrow> err option \<times> mock_store" where
  "Mock_SetUsage cid lt v s = (None, s\<lparr>ms_Usages := nput cid lt v (ms_Usages s)\<rparr>)"

definition Mock_GetUsage :: "mock_store \<Rightarrow> string \<Rightarrow> limit_type \<Rightarrow> err + int" where
  "Mock_GetUsage s cid lt = (case ms_Usages s cid of None \<Rightarrow> Inr 0 | Some m \<Rightarrow> Inr (mget0 m lt))"

definition Mock_GetAllUsage :: "mock_store \<Rightarrow> string \<Rightarrow> err + (limit_type \<rightharpoonup> int)" where
  "Mock_GetAllUsage s cid = Inr (case ms_Usages s cid of None \<Rightarrow> Map.empty | Some m \<Rightarrow> m)"

definition Mock_AddUsage :: "string \<Rightarrow> limit_type \<Rightarrow> int \<Rightarrow> mock_store \<Rightarrow> err option \<times> mock_store" where
  "Mock_AddUsage cid lt d s = (None, s\<lparr>ms_Usages := nadd cid lt d (ms_Usages s)\<rparr>)"

definition Mock_CopyLimits :: "string \<Rightarrow> string \<Rightarrow> mock_store \<Rightarrow> err option \<times> mock_store" where
  "Mock_CopyLimits fromID toID s =
     (case ms_Limits s fromID of
        None \<Rightarrow> (None, s)
      | Some src \<Rightarrow> (None, s\<lparr>ms_Limits := (ms_Limits s)(toID \<mapsto> src)\<rparr>))"

definition Mock_ResolveContainerID :: "mock_store \<Rightarrow> string \<Rightarrow> err + string" where
  "Mock_ResolveContainerID s query =
     (if map_of (ms_Containers s) query \<noteq> None then Inr query
      else case find (\<lambda>(cid, c). c_Name c = query) (ms_Containers s) of
             Some (cid, c) \<Rightarrow> Inr cid
           | None \<Rightarrow> Inl (''container '' @ go_quote query @ '' not found''))"

subsection \<open>Scopes and segments\<close>

definition Mock_SetScopeLimit :: "scope \<Rightarrow> limit_type \<Rightarrow> int \<Rightarrow> mock_store \<Rightarrow> err option \<times> mock_store" where
  "Mock_SetScopeLimit scope lt v s = (None, s\<lparr>ms_ScopeLimits := nput scope lt v (ms_ScopeLimits s)\<rparr>)"

definition Mock_GetScopeLimit :: "mock_store \<Rightarrow> scope \<Rightarrow> limit_type \<Rightarrow> err + int" where
  "Mock_GetScopeLimit s scope lt = (case ms_ScopeLimits s scope of None \<Rightarrow> Inr 0 | Some m \<Rightarrow> Inr (mget0 m lt))"

definition Mock_GetAllScopeLimits :: "mock_store \<Rightarrow> scope \<Rightarrow> err + (limit_type \<rightharpoonup> int)" where
  "Mock_GetAllScopeLimits s scope = Inr (case ms_ScopeLimits s scope of None \<Rightarrow> Map.empty | Some m \<Rightarrow> m)"

definition Mock_GetScopeUsageAccum :: "mock_store \<Rightarrow> scope \<Rightarrow> err + (limit_type \<rightharpoonup> int)" where
  "Mock_GetScopeUsageAccum s scope = Inr (case ms_ScopeUsageAccum s scope of None \<Rightarrow> Map.empty | Some m \<Rightarrow> m)"

definition Mock_CreateSegment :: "string \<Rightarrow> string \<Rightarrow> int \<Rightarrow> mock_store \<Rightarrow> (err + segment) \<times> mock_store" where
  "Mock_CreateSegment sid name now s =
     (if map_of (ms_Segments s) sid \<noteq> None then (Inl (''segment '' @ sid @ '' already exists''), s)
      else
        let seg = \<lparr>seg_ID = sid, seg_Name = name, seg_CreatedAt = now\<rparr>
        in (Inr seg, s\<lparr>ms_Segments := AList.update sid seg (ms_Segments s)\<rparr>))"

definition Mock_GetSegment :: "mock_store \<Rightarrow> string \<Rightarrow> err + segment" where
  "Mock_GetSegment s sid =
     (case map_of (ms_Segments s) sid of
        None \<Rightarrow> Inl (''segment '' @ sid @ '' not found'') | Some seg \<Rightarrow> Inr seg)"

definition Mock_ListSegments :: "mock_store \<Rightarrow> err + segment list" where
  "Mock_ListSegments s = Inr (map snd (ms_Segments s))"

definition Mock_DeleteSegment :: "string \<Rightarrow> mock_store \<Rightarrow> err option \<times> mock_store" where
  "Mock_DeleteSegment sid s =
     (if map_of (ms_Segments s) sid = None then (Some (''segment '' @ sid @ '' not found''), s)
      else (None, s\<lparr>ms_Segments := AList.delete sid (ms_Segments s)\<rparr>))"

definition Mock_SetContainerSegment :: "string \<Rightarrow> string option \<Rightarrow> mock_store \<Rightarrow> err option \<times> mock_store" where
  "Mock_SetContainerSegment cid seg s =
     (case map_of (ms_Containers s) cid of
        None \<Rightarrow> (Some (''container '' @ cid @ '' not found''), s)
      | Some c \<Rightarrow>
          (None, s\<lparr>ms_Containers := AList.update cid
             (c\<lparr>c_SegmentID := (case seg of None \<Rightarrow> '''' | Some g \<Rightarrow> g)\<rparr>) (ms_Containers s)\<rparr>))"

definition Mock_ListContainersByScope :: "mock_store \<Rightarrow> scope \<Rightarrow> err + container list" where
  "Mock_ListContainersByScope s scope =
     Inr (filter (\<lambda>c. scope = ScopeHost \<or> IsSegment scope \<and> c_SegmentID c = SegmentID scope)
            (map snd (ms_Containers s)))"

subsection \<open>The frozen flag and segment configuration\<close>

definition Mock_SetFrozen :: "string \<Rightarrow> bool \<Rightarrow> mock_store \<Rightarrow> err option \<times> mock_store" where
  "Mock_SetFrozen cid frozen s = (None, s\<lparr>ms_Frozen := (ms_Frozen s)(cid \<mapsto> frozen)\<rparr>)"

definition Mock_IsFrozen :: "mock_store \<Rightarrow> string \<Rightarrow> err + bool" where
  "Mock_IsFrozen s cid = Inr (mgetb (ms_Frozen s) cid)"

definition Mock_SetSegmentConfig :: "string \<Rightarrow> string \<Rightarrow> string \<Rightarrow> mock_store \<Rightarrow> err option \<times> mock_store" where
  "Mock_SetSegmentConfig sid key v s = (None, s\<lparr>ms_SegmentConfigs := nput sid key v (ms_SegmentConfigs s)\<rparr>)"

definition Mock_GetSegmentConfig :: "mock_store \<Rightarrow> string \<Rightarrow> string \<Rightarrow> err + string option" where
  "Mock_GetSegmentConfig s sid key =
     Inr (case ms_SegmentConfigs s sid of None \<Rightarrow> None | Some cfg \<Rightarrow> cfg key)"

definition Mock_GetAllSegmentConfig :: "mock_store \<Rightarrow> string \<Rightarrow> err + (string \<rightharpoonup> string)" where
  "Mock_GetAllSegmentConfig s sid = Inr (case ms_SegmentConfigs s sid of None \<Rightarrow> Map.empty | Some cfg \<Rightarrow> cfg)"

definition Mock_DeleteSegmentConfig :: "string \<Rightarrow> string \<Rightarrow> mock_store \<Rightarrow> err option \<times> mock_store" where
  "Mock_DeleteSegmentConfig sid key s =
     (case ms_SegmentConfigs s sid of
        None \<Rightarrow> (None, s)
      | Some cfg \<Rightarrow> (None, s\<lparr>ms_SegmentConfigs := (ms_SegmentConfigs s)(sid \<mapsto> cfg(key := None))\<rparr>))"

subsection \<open>Reading through the inner maps\<close>

lemma Mock_reads:
  "Mock_GetLimit s cid lt = Inr (mget0 (inner (ms_Limits s) cid) lt)"
  "Mock_GetAllLimits s cid = Inr (inner (ms_Limits s) cid)"
  "Mock_GetUsage s cid lt = Inr (mget0 (inner (ms_Usages s) cid) lt)"
  "Mock_GetAllUsage s cid = Inr (inner (ms_Usages s) cid)"
  "Mock_GetScopeLimit s sc lt = Inr (mget0 (inner (ms_ScopeLimits s) sc) lt)"
  "Mock_GetAllScopeLimits s sc = Inr (inner (ms_ScopeLimits s) sc)"
  "Mock_GetScopeUsageAccum s sc = Inr (inner (ms_ScopeUsageAccum s) sc)"
  "Mock_GetSegmentConfig s sid key = Inr (inner (ms_SegmentConfigs s) sid key)"
  "Mock_GetAllSegmentConfig s sid = Inr (inner (ms_SegmentConfigs s) sid)"
  by (simp_all add: Mock_GetLimit_def Mock_GetAllLimits_def Mock_GetUsage_def Mock_GetAllUsage_def Mock_GetScopeLimit_def
      Mock_GetAllScopeLimits_def Mock_GetScopeUsageAccum_def Mock_GetSegmentConfig_def Mock_GetAllSegmentConfig_def inner_def
      split: option.split)

text \<open>The mock honours the contracts of the limit and usage tables.\<close>

interpretation mock_limits: limit_table "\<lambda>_. True" in64
  "\<lambda>(cid, lt) v. Mock_SetLimit cid lt v" "\<lambda>s (cid, lt). Mock_GetLimit s cid lt"
  by unfold_locales (auto simp: Mock_reads Mock_SetLimit_def split: if_splits)

interpretation mock_scope_limits: limit_table "\<lambda>_. True" in64
  "\<lambda>(sc, lt) v. Mock_SetScopeLimit sc lt v" "\<lambda>s (sc, lt). Mock_GetScopeLimit s sc lt"
  by unfold_locales (auto simp: Mock_reads Mock_SetScopeLimit_def split: if_splits)

interpretation mock_usage: counter_table "\<lambda>_. True" in64
  "\<lambda>(cid, lt) v. Mock_SetUsage cid lt v" "\<lambda>s (cid, lt). Mock_GetUsage s cid lt" "\<lambda>(cid, lt) d. Mock_AddUsage cid lt d"
  by unfold_locales (auto simp: Mock_reads Mock_SetUsage_def Mock_AddUsage_def wrap64_id split: if_splits)

end
