(* ===== verification/MockStoreProps.thy ===== *)
theory MockStoreProps
  imports MockStore StoreProps "HOL-Library.Multiset"
begin

text \<open>
  How far the test double of the store stands for the real one: a simulation between them,
  kept by every operation under a condition that names what the mock leaves out.
\<close>

subsection \<open>The simulation\<close>

text \<open>What the two stores hold of a container apart from the time of its registration.\<close>

definition identity :: "container \<Rightarrow> string \<times> string \<times> string \<times> string" where
  "identity c = (c_ID c, c_DockerID c, c_Name c, c_SegmentID c)"

definition row_identity :: "container_row \<Rightarrow> string \<times> string \<times> string \<times> string" where
  "row_identity r = identity (row_to_container r)"

definition ints_agree :: "('a \<rightharpoonup> ('b \<rightharpoonup> int)) \<Rightarrow> (('a \<times> 'b) \<times> int) list \<Rightarrow> bool" where
  "ints_agree m t \<longleftrightarrow> (\<forall>a b. inner m a b = map_of t (a, b)) \<and> (\<forall>k v. map_of t k = Some v \<longrightarrow> in64 v)"

definition containers_agree :: "(string \<times> container) list \<Rightarrow> store \<Rightarrow> bool" where
  "containers_agree cs s \<longleftrightarrow> distinct (map fst cs) \<and>
     (\<forall>cid. map_option identity (map_of cs cid) = map_option row_identity (find_row cid s))"

definition mock_sim :: "mock_store \<Rightarrow> store \<Rightarrow> bool" where
  "mock_sim m s \<longleftrightarrow>
     containers_agree (ms_Containers m) s \<and>
     ints_agree (ms_Limits m) (t_limits s) \<and> ints_agree (ms_Usages m) (t_usage s) \<and>
     ints_agree (ms_ScopeLimits m) (t_scope_limits s) \<and> ints_agree (ms_ScopeUsageAccum m) (t_scope_usage_accum s) \<and>
     (\<forall>sid. map_option seg_Name (map_of (ms_Segments m) sid) = map_option sr_name (find_segment sid s)) \<and>
     (\<forall>sid k. inner (ms_SegmentConfigs m) sid k = map_of (t_segment_config s) (sid, k)) \<and>
     (\<forall>cid r. find_row cid s = Some r \<longrightarrow> mgetb (ms_Frozen m) cid = (r_frozen r \<noteq> 0))"

subsection \<open>The operations on both\<close>

fun mock_step :: "store_op \<Rightarrow> mock_store \<Rightarrow> mock_store" where
  "mock_step (OpRegister d n now) m = snd (Mock_RegisterContainer d n m)"
| "mock_step (OpRemove c) m = snd (Mock_RemoveContainer c m)"
| "mock_step (OpSetLimit c lt v) m = snd (Mock_SetLimit c lt v m)"
| "mock_step (OpSetUsage c lt v) m = snd (Mock_SetUsage c lt v m)"
| "mock_step (OpAddUsage c lt v) m = snd (Mock_AddUsage c lt v m)"
| "mock_step (OpCopyLimits a b) m = snd (Mock_CopyLimits a b m)"
| "mock_step (OpSetScopeLimit sc lt v) m = snd (Mock_SetScopeLimit sc lt v m)"
| "mock_step (OpCreateSegment c n now) m = snd (Mock_CreateSegment c n now m)"
| "mock_step (OpDeleteSegment c) m = snd (Mock_DeleteSegment c m)"
| "mock_step (OpSetContainerSegment c g) m = snd (Mock_SetContainerSegment c g m)"
| "mock_step (OpSetSegmentConfig g k v) m = snd (Mock_SetSegmentConfig g k v m)"
| "mock_step (OpDeleteSegmentConfig g k) m = snd (Mock_DeleteSegmentConfig g k m)"
| "mock_step (OpSetFrozen c b) m = snd (Mock_SetFrozen c b m)"
| "mock_step OpReopen m = m"
| "mock_step (OpFault a b c) m = m"

text \<open>
  What a test must keep to: Docker IDs of at least 12 bytes and a removed frozen container not
  registered again; values and sums of 64 bits; limits copied onto a container that has no type
  the source lacks; a removed container registered or unused; a segment deleted that exists, is
  empty and has neither limits nor removed usage; members assigned that are registered. The mock
  has no database file and no faults.
\<close>

fun mock_covers :: "store_op \<Rightarrow> mock_store \<Rightarrow> bool" where
  "mock_covers (OpRegister d n now) m \<longleftrightarrow> 12 \<le> length d \<and> \<not> mgetb (ms_Frozen m) (take 12 d)"
| "mock_covers (OpRemove c) m \<longleftrightarrow>
     (map_of (ms_Containers m) c = None \<longrightarrow> inner (ms_Usages m) c = Map.empty) \<and>
     (\<forall>sc lt. in64 (mget0 (inner (ms_ScopeUsageAccum m) sc) lt + mget0 (inner (ms_Usages m) c) lt))"
| "mock_covers (OpSetLimit c lt v) m \<longleftrightarrow> in64 v"
| "mock_covers (OpSetUsage c lt v) m \<longleftrightarrow> in64 v"
| "mock_covers (OpAddUsage c lt v) m \<longleftrightarrow> in64 (mget0 (inner (ms_Usages m) c) lt + v)"
| "mock_covers (OpCopyLimits a b) m \<longleftrightarrow>
     ms_Limits m a \<noteq> None \<longrightarrow> dom (inner (ms_Limits m) b) \<subseteq> dom (inner (ms_Limits m) a)"
| "mock_covers (OpSetScopeLimit sc lt v) m \<longleftrightarrow> in64 v"
| "mock_covers (OpCreateSegment c n now) m \<longleftrightarrow> True"
| "mock_covers (OpDeleteSegment g) m \<longleftrightarrow>
     map_of (ms_Segments m) g \<noteq> None \<and> (\<forall>(cid, c) \<in> set (ms_Containers m). c_SegmentID c \<noteq> g) \<and>
     inner (ms_ScopeLimits m) (SegmentScope g) = Map.empty \<and> inner (ms_ScopeUsageAccum m) (SegmentScope g) = Map.empty"
| "mock_covers (OpSetContainerSegment c g) m \<longleftrightarrow> map_of (ms_Containers m) c \<noteq> None"
| "mock_covers (OpSetSegmentConfig g k v) m \<longleftrightarrow> True"
| "mock_covers (OpDeleteSegmentConfig g k) m \<longleftrightarrow> True"
| "mock_covers (OpSetFrozen c b) m \<longleftrightarrow> True"
| "mock_covers OpReopen m \<longleftrightarrow> False"
| "mock_covers (OpFault a b c) m \<longleftrightarrow> False"

fun mock_run_covers :: "store_op list \<Rightarrow> mock_store \<Rightarrow> bool" where
  "mock_run_covers [] m \<longleftrightarrow> True"
| "mock_run_covers (a # as) m \<longleftrightarrow> mock_covers a m \<and> mock_run_covers as (mock_step a m)"

subsection \<open>Every operation keeps it\<close>

named_theorems sim_ops "operations that keep the simulation"

lemma ints_agree_put: "ints_agree m t \<Longrightarrow> in64 v \<Longrightarrow> ints_agree (nput a b v m) (tbl_put (a, b) v t)"
  by (auto simp: ints_agree_def)

lemma ints_agree_add:
  assumes "ints_agree m t" and "in64 (mget0 (inner m a) b + d)"
  shows "ints_agree (nadd a b d m) (tbl_add (a, b) d t)"
proof -
  have "mget0 (map_of t) (a, b) = mget0 (inner m a) b" using assms(1) by (simp add: ints_agree_def mget0_def)
  then show ?thesis using assms by (auto simp: ints_agree_def wrap64_id)
qed

lemma ints_agree_del: "ints_agree m t \<Longrightarrow> ints_agree (m(a := None)) (tbl_del (\<lambda>k. fst k = a) t)"
  by (auto simp: ints_agree_def)

lemma ints_agree_del_none:
  "ints_agree m t \<Longrightarrow> inner m a = Map.empty \<Longrightarrow> ints_agree m (tbl_del (\<lambda>k. fst k = a) t)"
  by (auto simp: ints_agree_def dest: fun_cong)

lemma sim_SetLimit [sim_ops]:
  "mock_sim m s \<Longrightarrow> in64 v \<Longrightarrow> db_ok s \<Longrightarrow> mock_sim (snd (Mock_SetLimit c lt v m)) (snd (SetLimit c lt v s))"
  by (simp add: mock_sim_def Mock_SetLimit_def SetLimit_def db_ok_def ints_agree_put containers_agree_def find_row_def find_segment_def)

lemma sim_SetUsage [sim_ops]:
  "mock_sim m s \<Longrightarrow> in64 v \<Longrightarrow> db_ok s \<Longrightarrow> mock_sim (snd (Mock_SetUsage c lt v m)) (snd (SetUsage c lt v s))"
  by (simp add: mock_sim_def Mock_SetUsage_def SetUsage_def db_ok_def ints_agree_put containers_agree_def find_row_def find_segment_def)

lemma sim_AddUsage [sim_ops]:
  "mock_sim m s \<Longrightarrow> in64 (mget0 (inner (ms_Usages m) c) lt + v) \<Longrightarrow> db_ok s \<Longrightarrow>
   mock_sim (snd (Mock_AddUsage c lt v m)) (snd (AddUsage c lt v s))"
  by (simp add: mock_sim_def Mock_AddUsage_def AddUsage_def db_ok_def ints_agree_add containers_agree_def find_row_def find_segment_def)

lemma sim_SetScopeLimit [sim_ops]:
  "mock_sim m s \<Longrightarrow> in64 v \<Longrightarrow> db_ok s \<Longrightarrow>
   mock_sim (snd (Mock_SetScopeLimit sc lt v m)) (snd (SetScopeLimit sc lt v s))"
  by (simp add: mock_sim_def Mock_SetScopeLimit_def SetScopeLimit_def db_ok_def ints_agree_put containers_agree_def
      find_row_def find_segment_def)

lemma inner_DeleteSegmentConfig:
  "inner (ms_SegmentConfigs (snd (Mock_DeleteSegmentConfig g k m))) sid =
     (if sid = g then (inner (ms_SegmentConfigs m) g)(k := None) else inner (ms_SegmentConfigs m) sid)"
  by (auto simp: Mock_DeleteSegmentConfig_def inner_def split: option.split)

lemma DeleteSegmentConfig_other [simp]:
  "ms_Containers (snd (Mock_DeleteSegmentConfig g k m)) = ms_Containers m"
  "ms_Limits (snd (Mock_DeleteSegmentConfig g k m)) = ms_Limits m"
  "ms_Usages (snd (Mock_DeleteSegmentConfig g k m)) = ms_Usages m"
  "ms_ScopeLimits (snd (Mock_DeleteSegmentConfig g k m)) = ms_ScopeLimits m"
  "ms_ScopeUsageAccum (snd (Mock_DeleteSegmentConfig g k m)) = ms_ScopeUsageAccum m"
  "ms_Segments (snd (Mock_DeleteSegmentConfig g k m)) = ms_Segments m"
  "ms_Frozen (snd (Mock_DeleteSegmentConfig g k m)) = ms_Frozen m"
  by (simp_all add: Mock_DeleteSegmentConfig_def split: option.split)

lemma sim_SetSegmentConfig [sim_ops]:
  "mock_sim m s \<Longrightarrow> db_ok s \<Longrightarrow> mock_sim (snd (Mock_SetSegmentConfig g k v m)) (snd (SetSegmentConfig g k v s))"
  by (simp add: mock_sim_def Mock_SetSegmentConfig_def SetSegmentConfig_def db_ok_def containers_agree_def find_row_def
      find_segment_def)

lemma sim_DeleteSegmentConfig [sim_ops]:
  "mock_sim m s \<Longrightarrow> db_ok s \<Longrightarrow> mock_sim (snd (Mock_DeleteSegmentConfig g k m)) (snd (DeleteSegmentConfig g k s))"
  by (simp add: mock_sim_def inner_DeleteSegmentConfig DeleteSegmentConfig_def db_ok_def containers_agree_def find_row_def
      find_segment_def)

lemma map_of_fold_put:
  "map_of (fold (\<lambda>(k, v). tbl_put (b, k) v) kvs t) (c, k) =
     (if c = b \<and> map_of (rev kvs) k \<noteq> None then map_of (rev kvs) k else map_of t (c, k))"
  by (induction kvs arbitrary: t) (auto simp: map_add_def split: option.splits)

lemma ints_agree_copy:
  assumes "ints_agree m t" and "m a = Some src" and "dom (inner m b) \<subseteq> dom src" and "tbl_wf t"
  shows "ints_agree (m(b \<mapsto> src)) (fold (\<lambda>(k, v). tbl_put (b, k) v) (tbl_part a t) t)"
proof -
  let ?t = "fold (\<lambda>(k, v). tbl_put (b, k) v) (tbl_part a t) t"
  have "inner m a = src" using assms(2) by (simp add: inner_def)
  then have src: "map_of t (a, k) = src k" for k using assms(1) by (auto simp: ints_agree_def)
  have "map_of (rev (tbl_part a t)) = map_of (tbl_part a t)"
    using tbl_wf_part [OF assms(4)] by (intro map_of_inject_set [THEN iffD2]) (simp_all add: rev_map [symmetric])
  then have look: "map_of ?t (c, k) = (if c = b \<and> src k \<noteq> None then src k else map_of t (c, k))" for c k
    by (auto simp: map_of_fold_put src)
  have "inner (m(b \<mapsto> src)) c k = map_of ?t (c, k)" for c k
  proof (cases "c = b \<and> src k = None")
    case True
    then have "inner m b k = None" using assms(3) by blast
    then show ?thesis using True assms(1) by (simp add: look ints_agree_def)
  next
    case False
    then show ?thesis using assms(1) by (auto simp: look ints_agree_def)
  qed
  moreover have "in64 v" if "map_of ?t k = Some v" for k v
  proof -
    obtain c lt where k: "k = (c, lt)" by force
    have "map_of t (a, lt) = Some v \<or> map_of t (c, lt) = Some v"
      using that unfolding k look src [symmetric] by (auto split: if_splits)
    then show ?thesis using assms(1) by (auto simp: ints_agree_def)
  qed
  ultimately show ?thesis by (simp add: ints_agree_def)
qed

lemma sim_CopyLimits [sim_ops]:
  assumes "mock_sim m s" and "db_ok s" and "wf_store s"
    and "ms_Limits m a \<noteq> None \<longrightarrow> dom (inner (ms_Limits m) b) \<subseteq> dom (inner (ms_Limits m) a)"
  shows "mock_sim (snd (Mock_CopyLimits a b m)) (snd (CopyLimits a b s))"
proof -
  have agree: "ints_agree (ms_Limits m) (t_limits s)" using assms(1) by (simp add: mock_sim_def)
  let ?t = "fold (\<lambda>(k, v). tbl_put (b, k) v) (tbl_part a (t_limits s)) (t_limits s)"
  have lim: "ints_agree (ms_Limits (snd (Mock_CopyLimits a b m))) ?t"
  proof (cases "ms_Limits m a")
    case None
    then have "inner (ms_Limits m) a = Map.empty" by (simp add: inner_def)
    then have "map_of (tbl_part a (t_limits s)) k = None" for k using agree by (simp add: ints_agree_def fun_eq_iff)
    then have "map_of (tbl_part a (t_limits s)) = Map.empty" by (rule ext)
    then have "tbl_part a (t_limits s) = []" by simp
    then show ?thesis using None agree by (simp add: Mock_CopyLimits_def)
  next
    case (Some src)
    then have "dom (inner (ms_Limits m) b) \<subseteq> dom src" using assms(4) by (simp add: inner_def)
    from ints_agree_copy [OF agree Some this wf_storeD(3) [OF assms(3)]] Some show ?thesis
      by (simp add: Mock_CopyLimits_def)
  qed
  have "ms_Containers (snd (Mock_CopyLimits a b m)) = ms_Containers m \<and> ms_Usages (snd (Mock_CopyLimits a b m)) = ms_Usages m \<and>
    ms_ScopeLimits (snd (Mock_CopyLimits a b m)) = ms_ScopeLimits m \<and>
    ms_ScopeUsageAccum (snd (Mock_CopyLimits a b m)) = ms_ScopeUsageAccum m \<and>
    ms_Segments (snd (Mock_CopyLimits a b m)) = ms_Segments m \<and>
    ms_SegmentConfigs (snd (Mock_CopyLimits a b m)) = ms_SegmentConfigs m \<and> ms_Frozen (snd (Mock_CopyLimits a b m)) = ms_Frozen m"
    by (simp add: Mock_CopyLimits_def split: option.split)
  then show ?thesis
    using lim assms(1,2) by (simp add: mock_sim_def CopyLimits_def db_ok_def containers_agree_def find_row_def find_segment_def)
qed

subsection \<open>Rows\<close>

lemma find_row_replace:
  "find_row cid (s\<lparr>t_containers := replace_row r (t_containers s)\<rparr>) = (if cid = r_id r then Some r else find_row cid s)"
proof -
  have "find (\<lambda>x. r_id x = cid) (filter (\<lambda>x. r_id x \<noteq> r_id r) rows @ [r]) =
        (if cid = r_id r then Some r else find (\<lambda>x. r_id x = cid) rows)" for rows
    by (induction rows) auto
  then show ?thesis by (simp add: find_row_def replace_row_def)
qed

lemma find_row_update:
  assumes "\<And>r. r_id (f r) = r_id r"
  shows "find_row cid (s\<lparr>t_containers := update_rows c f (t_containers s)\<rparr>) =
         (if cid = c then map_option f (find_row cid s) else find_row cid s)"
proof -
  have "find (\<lambda>x. r_id x = cid) (map (\<lambda>r. if r_id r = c then f r else r) rows) =
        (if cid = c then map_option f (find (\<lambda>x. r_id x = cid) rows) else find (\<lambda>x. r_id x = cid) rows)" for rows
    using assms by (induction rows) auto
  then show ?thesis by (simp add: find_row_def update_rows_def)
qed

lemma find_row_drop:
  "find_row cid (s\<lparr>t_containers := filter (\<lambda>r. r_id r \<noteq> c) (t_containers s)\<rparr>) =
     (if cid = c then None else find_row cid s)"
proof -
  have "find (\<lambda>x. r_id x = cid) (filter (\<lambda>r. r_id r \<noteq> c) rows) =
        (if cid = c then None else find (\<lambda>x. r_id x = cid) rows)" for rows
    by (induction rows) auto
  from this [of "t_containers s"] show ?thesis by (simp add: find_row_def)
qed

lemma containers_agree_lookup:
  "containers_agree cs s \<Longrightarrow> map_option identity (map_of cs cid) = map_option row_identity (find_row cid s)"
  by (simp add: containers_agree_def)

lemma containers_agree_put:
  assumes "containers_agree cs s" and "identity c = row_identity r"
    and "\<And>cid. find_row cid s' = (if cid = k then Some r else find_row cid s)"
  shows "containers_agree (AList.update k c cs) s'"
  using assms by (simp add: containers_agree_def distinct_update update_conv')

lemma sim_Register [sim_ops]:
  assumes "mock_sim m s" and "db_ok s" and "12 \<le> length d" and "\<not> mgetb (ms_Frozen m) (take 12 d)"
  shows "mock_sim (snd (Mock_RegisterContainer d n m)) (snd (RegisterContainer d n now s))"
proof -
  define r where "r = \<lparr>r_id = take 12 d, r_docker_id = d, r_name = n, r_registered_at = now div 1000000000,
      r_frozen = 0, r_segment_id = None\<rparr>"
  define c where "c = \<lparr>c_ID = take 12 d, c_DockerID = d, c_Name = n, c_RegisteredAt = 0, c_SegmentID = ''''\<rparr>"
  have s': "snd (RegisterContainer d n now s) = s\<lparr>t_containers := replace_row r (t_containers s)\<rparr>"
    using assms(2,3) by (simp add: RegisterContainer_def Let_def db_ok_def r_def)
  have m': "snd (Mock_RegisterContainer d n m) = m\<lparr>ms_Containers := AList.update (take 12 d) c (ms_Containers m)\<rparr>"
    using assms(3) by (simp add: Mock_RegisterContainer_def Let_def c_def)
  have f: "find_row cid (s\<lparr>t_containers := replace_row r (t_containers s)\<rparr>) =
      (if cid = take 12 d then Some r else find_row cid s)" for cid
    using find_row_replace [of cid r s] by (simp add: r_def)
  have "identity c = row_identity r" by (simp add: identity_def row_identity_def row_to_container_def c_def r_def)
  moreover have "containers_agree (ms_Containers m) s" using assms(1) by (simp add: mock_sim_def)
  ultimately have "containers_agree (AList.update (take 12 d) c (ms_Containers m))
      (s\<lparr>t_containers := replace_row r (t_containers s)\<rparr>)" using f by (intro containers_agree_put)
  then show ?thesis
    using assms f unfolding s' m' mock_sim_def by (auto simp: find_segment_def r_def)
qed

lemma sim_SetContainerSegment [sim_ops]:
  assumes "mock_sim m s" and "db_ok s" and "map_of (ms_Containers m) c \<noteq> None"
  shows "mock_sim (snd (Mock_SetContainerSegment c g m)) (snd (SetContainerSegment c g s))"
proof -
  obtain k where k: "map_of (ms_Containers m) c = Some k" using assms(3) by auto
  have agree: "containers_agree (ms_Containers m) s" using assms(1) by (simp add: mock_sim_def)
  then obtain r where r: "find_row c s = Some r" "identity k = row_identity r"
    using containers_agree_lookup [of "ms_Containers m" s c] k by (cases "find_row c s") auto
  let ?k = "k\<lparr>c_SegmentID := (case g of None \<Rightarrow> '''' | Some x \<Rightarrow> x)\<rparr>" and ?r = "r\<lparr>r_segment_id := g\<rparr>"
  let ?s = "s\<lparr>t_containers := update_rows c (\<lambda>r. r\<lparr>r_segment_id := g\<rparr>) (t_containers s)\<rparr>"
  have f: "find_row cid ?s = (if cid = c then Some ?r else find_row cid s)" for cid
    using find_row_update [of "\<lambda>r. r\<lparr>r_segment_id := g\<rparr>" cid c s] r(1) by simp
  have "identity ?k = row_identity ?r"
    using r(2) by (simp add: identity_def row_identity_def row_to_container_def)
  then have "containers_agree (AList.update c ?k (ms_Containers m)) ?s"
    using agree f by (intro containers_agree_put)
  then show ?thesis
    using assms f r(1) unfolding mock_sim_def Mock_SetContainerSegment_def SetContainerSegment_def
    by (auto simp: k db_ok_def find_segment_def)
qed

lemma sim_SetFrozen [sim_ops]:
  assumes "mock_sim m s" and "db_ok s"
  shows "mock_sim (snd (Mock_SetFrozen c b m)) (snd (SetFrozen c b s))"
proof -
  let ?f = "\<lambda>r :: container_row. r\<lparr>r_frozen := (if b then 1 else 0)\<rparr>"
  let ?s = "s\<lparr>t_containers := update_rows c ?f (t_containers s)\<rparr>"
  have f: "find_row cid ?s = (if cid = c then map_option ?f (find_row cid s) else find_row cid s)" for cid
    by (rule find_row_update) simp
  have "row_identity (?f r) = row_identity r" for r
    by (simp add: row_identity_def row_to_container_def)
  then have "containers_agree (ms_Containers m) ?s"
    using assms(1) f by (cases "find_row c s") (auto simp: mock_sim_def containers_agree_def)
  then show ?thesis
    using assms f unfolding mock_sim_def Mock_SetFrozen_def SetFrozen_def
    by (auto simp: db_ok_def find_segment_def split: if_splits)
qed


subsection \<open>Removing a container\<close>

lemma agree_accumulate:
  assumes "ints_agree acc (t_scope_usage_accum s)" and "db_ok s"
    and "\<And>k. usages k = map_of (t_usage s) (cid, k)" and "\<And>k v. usages k = Some v \<Longrightarrow> in64 v"
    and "c_SegmentID c = (case seg of None \<Rightarrow> '''' | Some g \<Rightarrow> g)"
    and "\<And>sc. in64 (mget0 (inner acc sc) lt + mget0 usages lt)"
  shows "ints_agree (mock_accumulate usages c lt acc) (t_scope_usage_accum (accumulate_type cid seg lt s))"
proof (cases "usages lt")
  case None
  then show ?thesis using assms(1,3) by (simp add: mock_accumulate_def accumulate_type_def)
next
  case (Some v)
  have d: "db_werr s = None" using assms(2) by (simp add: db_ok_def)
  show ?thesis
  proof (cases "0 < v")
    case False
    then show ?thesis using Some assms(1,3) by (simp add: mock_accumulate_def accumulate_type_def)
  next
    case True
    have v: "mget0 usages lt = v" "map_of (t_usage s) (cid, lt) = Some v" "in64 v"
      using Some assms(3,4) by (simp_all add: mget0_def)
    have host: "ints_agree (nadd ScopeHost lt v acc) (tbl_add (ScopeHost, lt) v (t_scope_usage_accum s))"
      using assms(6) [of ScopeHost] v(1) by (intro ints_agree_add [OF assms(1)]) simp
    have "ints_agree (nadd (SegmentScope g) lt v (nadd ScopeHost lt v acc))
            (tbl_add (SegmentScope g, lt) v (tbl_add (ScopeHost, lt) v (t_scope_usage_accum s)))" for g
      using assms(6) [of "SegmentScope g"] v(1) by (intro ints_agree_add [OF host]) simp
    then show ?thesis
      using True v Some d host assms(5)
      by (auto simp: mock_accumulate_def accumulate_type_def Let_def split: option.splits)
  qed
qed

lemma mock_accumulate_other:
  "lt' \<noteq> lt \<Longrightarrow> inner (mock_accumulate usages c lt acc) sc lt' = inner acc sc lt'"
  by (simp add: mock_accumulate_def Let_def split: option.split)

lemma agree_fold_accumulate:
  assumes "ints_agree acc (t_scope_usage_accum s)" and "db_ok s"
    and "\<And>k. usages k = map_of (t_usage s) (cid, k)" and "\<And>k v. usages k = Some v \<Longrightarrow> in64 v"
    and "c_SegmentID c = (case seg of None \<Rightarrow> '''' | Some g \<Rightarrow> g)" and "distinct lts"
    and "\<And>sc lt. lt \<in> set lts \<Longrightarrow> in64 (mget0 (inner acc sc) lt + mget0 usages lt)"
  shows "ints_agree (fold (mock_accumulate usages c) lts acc) (t_scope_usage_accum (fold (accumulate_type cid seg) lts s))"
  using assms(1,2,3,6,7)
proof (induction lts arbitrary: acc s)
  case Nil
  then show ?case by simp
next
  case (Cons lt lts)
  have s: "ints_agree (mock_accumulate usages c lt acc) (t_scope_usage_accum (accumulate_type cid seg lt s))"
    by (rule agree_accumulate [OF Cons.prems(1,2,3)]) (use assms(4,5) Cons.prems(5) in auto)
  have i: "in64 (mget0 (inner (mock_accumulate usages c lt acc) sc) lt' + mget0 usages lt')" if "lt' \<in> set lts" for sc lt'
  proof -
    have "lt' \<noteq> lt" using that Cons.prems(4) by auto
    then have "mget0 (inner (mock_accumulate usages c lt acc) sc) lt' = mget0 (inner acc sc) lt'"
      by (simp add: mget0_def mock_accumulate_other)
    then show ?thesis using Cons.prems(5) [of lt' sc] that by simp
  qed
  have d: "db_ok (accumulate_type cid seg lt s)" using Cons.prems(2) by (simp add: db_ok_def)
  have u: "usages k = map_of (t_usage (accumulate_type cid seg lt s)) (cid, k)" for k using Cons.prems(3) by simp
  have "distinct lts" using Cons.prems(4) by simp
  from Cons.IH [OF s d u this i] show ?case by simp
qed

lemma containers_agree_drop:
  assumes "containers_agree cs s" and "\<And>cid. find_row cid s' = (if cid = k then None else find_row cid s)"
  shows "containers_agree (AList.delete k cs) s'"
  using assms by (simp add: containers_agree_def distinct_delete delete_conv')

lemma sim_RemoveContainer [sim_ops]:
  assumes "mock_sim m s" and "db_ok s" and "wf_store s"
    and "map_of (ms_Containers m) cid = None \<longrightarrow> inner (ms_Usages m) cid = Map.empty"
    and "\<And>sc lt. in64 (mget0 (inner (ms_ScopeUsageAccum m) sc) lt + mget0 (inner (ms_Usages m) cid) lt)"
  shows "mock_sim (snd (Mock_RemoveContainer cid m)) (snd (RemoveContainer cid s))"
proof -
  let ?seg = "row_segment s cid" and ?u = "inner (ms_Usages m) cid"
  let ?S = "fold (accumulate_type cid ?seg) CumulativeLimitTypes s"
  let ?s = "?S\<lparr>t_usage := tbl_del (\<lambda>k. fst k = cid) (t_usage s), t_limits := tbl_del (\<lambda>k. fst k = cid) (t_limits s),
        t_containers := filter (\<lambda>r. r_id r \<noteq> cid) (t_containers s)\<rparr>"
  define acc where "acc = ms_ScopeUsageAccum (snd (Mock_RemoveContainer cid m))"
  have agree: "containers_agree (ms_Containers m) s" "ints_agree (ms_ScopeUsageAccum m) (t_scope_usage_accum s)"
    "ints_agree (ms_Usages m) (t_usage s)" "ints_agree (ms_Limits m) (t_limits s)"
    using assms(1) by (simp_all add: mock_sim_def)
  have u: "?u k = map_of (t_usage s) (cid, k)" "?u k = Some v \<Longrightarrow> in64 v" for k v
    using agree(3) by (auto simp: ints_agree_def)
  have row: "map_option identity (map_of (ms_Containers m) cid) = map_option row_identity (find_row cid s)"
    using agree(1) by (rule containers_agree_lookup)
  have fold: "ints_agree (fold (mock_accumulate ?u c) CumulativeLimitTypes (ms_ScopeUsageAccum m)) (t_scope_usage_accum ?S)"
    if "c_SegmentID c = (case ?seg of None \<Rightarrow> '''' | Some g \<Rightarrow> g)" for c
    using that assms(2,5) agree(2) u by (intro agree_fold_accumulate) auto
  have acc: "ints_agree acc (t_scope_usage_accum ?S)"
  proof (cases "map_of (ms_Containers m) cid")
    case None
    then have e: "?u = Map.empty" using assms(4) by simp
    have "fold (mock_accumulate ?u c) lts a = a" for c lts a
      by (induction lts) (simp_all add: mock_accumulate_def e)
    moreover have "find_row cid s = None" using row None by (cases "find_row cid s") auto
    ultimately show ?thesis
      using fold [of "\<lparr>c_ID = '''', c_DockerID = '''', c_Name = '''', c_RegisteredAt = 0, c_SegmentID = ''''\<rparr>"] None
      by (simp add: acc_def Mock_RemoveContainer_def Let_def)
  next
    case (Some c)
    then obtain r where r: "find_row cid s = Some r" "identity c = row_identity r" using row by (cases "find_row cid s") auto
    then have c: "c_SegmentID c = (case ?seg of None \<Rightarrow> '''' | Some g \<Rightarrow> g)"
      by (simp add: identity_def row_identity_def row_to_container_def)
    have "acc = fold (mock_accumulate ?u c) CumulativeLimitTypes (ms_ScopeUsageAccum m)"
    proof (cases "ms_Usages m cid")
      case None
      have "fold (mock_accumulate Map.empty c) lts a = a" for lts a
        by (induction lts) (simp_all add: mock_accumulate_def)
      with None Some show ?thesis by (simp add: acc_def Mock_RemoveContainer_def Let_def inner_def)
    next
      case (Some u)
      with \<open>map_of (ms_Containers m) cid = Some c\<close> show ?thesis
        by (simp add: acc_def Mock_RemoveContainer_def Let_def inner_def)
    qed
    then show ?thesis using fold [OF c] by simp
  qed
  have f: "find_row k ?s = (if k = cid then None else find_row k s)" for k
    using find_row_drop [of k cid s] by (simp add: find_row_def)
  have "AList.delete cid (ms_Containers m) = ms_Containers m" if "map_of (ms_Containers m) cid = None"
    using that by (simp add: map_of_eq_None_iff delete_id)
  then have m: "snd (Mock_RemoveContainer cid m) = m\<lparr>ms_ScopeUsageAccum := acc, ms_Containers := AList.delete cid (ms_Containers m),
      ms_Limits := (ms_Limits m)(cid := None), ms_Usages := (ms_Usages m)(cid := None)\<rparr>"
    by (auto simp: acc_def Mock_RemoveContainer_def Let_def split: option.split)
  have s: "snd (RemoveContainer cid s) = ?s" using RemoveContainer_ok [OF assms(2)] by simp
  show ?thesis
    unfolding mock_sim_def m s
    using assms(1) f acc containers_agree_drop [OF agree(1) f]
      ints_agree_del [OF agree(3)] ints_agree_del [OF agree(4)]
    by (auto simp: mock_sim_def find_segment_def)
qed

subsection \<open>Segments\<close>

lemma sim_CreateSegment [sim_ops]:
  assumes "mock_sim m s" and "db_ok s"
  shows "mock_sim (snd (Mock_CreateSegment g n now m)) (snd (CreateSegment g n now s))"
proof -
  have n: "map_option seg_Name (map_of (ms_Segments m) k) = map_option sr_name (find_segment k s)" for k
    using assms(1) by (simp add: mock_sim_def)
  show ?thesis
  proof (cases "find_segment g s")
    case (Some r)
    then have "map_of (ms_Segments m) g \<noteq> None" using n [of g] by auto
    then show ?thesis using Some assms by (simp add: Mock_CreateSegment_def CreateSegment_def db_ok_def)
  next
    case None
    then have g: "map_of (ms_Segments m) g = None" using n [of g] by auto
    have "find P (xs @ [x]) = (case find P xs of None \<Rightarrow> if P x then Some x else None | Some y \<Rightarrow> Some y)"
      for P and x :: segment_row and xs by (induction xs) auto
    then have "find (\<lambda>r. sr_id r = k) (t_segments s @ [\<lparr>sr_id = g, sr_name = n, sr_created_at = now div 1000000000\<rparr>]) =
       (if k = g then Some \<lparr>sr_id = g, sr_name = n, sr_created_at = now div 1000000000\<rparr> else find_segment k s)" for k
      using None by (auto simp: find_segment_def split: option.split)
    then show ?thesis
      using None g n assms
      by (simp add: mock_sim_def Mock_CreateSegment_def CreateSegment_def Let_def db_ok_def update_conv' containers_agree_def
          find_row_def find_segment_def)
  qed
qed

lemma sim_DeleteSegment [sim_ops]:
  assumes "mock_sim m s" and "db_ok s" and "wf_store s"
    and "map_of (ms_Segments m) g \<noteq> None" and "\<forall>(cid, c) \<in> set (ms_Containers m). c_SegmentID c \<noteq> g"
    and "inner (ms_ScopeLimits m) (SegmentScope g) = Map.empty"
    and "inner (ms_ScopeUsageAccum m) (SegmentScope g) = Map.empty"
  shows "mock_sim (snd (Mock_DeleteSegment g m)) (snd (DeleteSegment g s))"
proof -
  have "r_segment_id r \<noteq> Some g" if r: "r \<in> set (t_containers s)" for r
  proof
    assume g: "r_segment_id r = Some g"
    have "find_row (r_id r) s = Some r" using find_row_unique [OF wf_storeD(1) [OF assms(3)] r] .
    then have "map_option identity (map_of (ms_Containers m) (r_id r)) = Some (row_identity r)"
      using assms(1) containers_agree_lookup [of "ms_Containers m" s "r_id r"] by (simp add: mock_sim_def)
    then obtain c where "map_of (ms_Containers m) (r_id r) = Some c" "identity c = row_identity r" by auto
    then show False
      using assms(5) g by (auto dest!: map_of_SomeD simp: identity_def row_identity_def row_to_container_def)
  qed
  then have none: "filter (\<lambda>r. r_segment_id r = Some g) (t_containers s) = []" by (simp add: filter_empty_conv)
  have f: "find (\<lambda>r. sr_id r = k) (filter (\<lambda>r. sr_id r \<noteq> g) xs) = (if k = g then None else find (\<lambda>r. sr_id r = k) xs)" for k xs
    by (induction xs) auto
  show ?thesis
    using assms none f [of _ "t_segments s"] ints_agree_del_none [OF _ assms(6)] ints_agree_del_none [OF _ assms(7)]
    by (auto simp: mock_sim_def Mock_DeleteSegment_def DeleteSegment_def Let_def db_ok_def delete_conv' containers_agree_def
        find_row_def find_segment_def)
qed

lemma sim_step:
  assumes "mock_sim m s" and "db_ok s" and "wf_store s" and "mock_covers a m"
  shows "mock_sim (mock_step a m) (store_step a s)"
  using assms by (cases a) (auto intro: sim_ops)


lemma db_ok_step: "db_ok s \<Longrightarrow> mock_covers a m \<Longrightarrow> db_ok (store_step a s)"
  by (cases a)
     (simp_all add: db_ok_def RegisterContainer_def RemoveContainer_def SetLimit_def SetUsage_def AddUsage_def CopyLimits_def
      SetScopeLimit_def CreateSegment_def DeleteSegment_def SetContainerSegment_def SetSegmentConfig_def
      DeleteSegmentConfig_def SetFrozen_def Let_def)

lemma sim_run:
  assumes "mock_sim m s" and "db_ok s" and "wf_store s" and "mock_run_covers ops m"
  shows "mock_sim (fold mock_step ops m) (fold store_step ops s) \<and> db_ok (fold store_step ops s)"
  using assms
proof (induction ops arbitrary: m s)
  case (Cons a ops)
  then have "mock_covers a m" "mock_run_covers ops (mock_step a m)" by simp_all
  then show ?case using Cons.IH [OF sim_step db_ok_step wf_store_step] Cons.prems(1-3) by simp
qed simp

lemma sim_new: "mock_sim NewMockStore empty_store"
  by (simp add: mock_sim_def NewMockStore_def empty_store_def containers_agree_def ints_agree_def find_row_def find_segment_def)

text \<open>The answers that follow.\<close>

lemma sim_ints:
  assumes "ints_agree m t" and "db_rerr s = None"
  shows "query_int s (map_of t (a, b)) = Inr (mget0 (inner m a) b)"
    and "tbl_wf t \<Longrightarrow> map_sum (\<lambda>e. e) map_of (query_rows s (tbl_part a t)) = Inr (inner m a)"
proof -
  have look: "inner m a b = map_of t (a, b)" "map_of t (a, b) = Some v \<Longrightarrow> in64 v" for b v
    using assms(1) by (auto simp: ints_agree_def)
  show "query_int s (map_of t (a, b)) = Inr (mget0 (inner m a) b)"
    using assms(2) look by (auto simp: query_int_def mget0_def scan_int_def split: option.split)
  assume t: "tbl_wf t"
  have "in64 v" if "(b, v) \<in> set (tbl_part a t)" for b v
    using look(2) [of b v] map_of_is_SomeI [OF tbl_wf_part [OF t] that] by simp
  then have "list_all (\<lambda>r. in64 (snd r)) (tbl_part a t)" by (auto simp: list_all_iff)
  moreover have "map_of (tbl_part a t) = inner m a" by (rule ext) (simp add: look)
  ultimately show "map_sum (\<lambda>e. e) map_of (query_rows s (tbl_part a t)) = Inr (inner m a)"
    using assms(2) by (simp add: query_rows_def)
qed

lemma agree_rows_mset:
  assumes "containers_agree cs s" and "distinct (map r_id (t_containers s))"
  shows "image_mset identity (mset (map snd cs)) = image_mset row_identity (mset (t_containers s))"
proof -
  have "fst (identity c) = k" if "(k, c) \<in> set cs" for k c
  proof -
    have "map_of cs k = Some c" using that assms(1) by (simp add: containers_agree_def)
    then obtain r where r: "find_row k s = Some r" "identity c = row_identity r"
      using containers_agree_lookup [OF assms(1), of k] by (cases "find_row k s") auto
    then show ?thesis using find_row_Some [OF r(1)] by (simp add: row_identity_def identity_def row_to_container_def)
  qed
  then have k: "map (fst \<circ> identity \<circ> snd) cs = map fst cs" by auto
  have "distinct (map (fst \<circ> identity \<circ> snd) cs)" unfolding k using assms(1) by (simp add: containers_agree_def)
  then have d: "distinct (map (identity \<circ> snd) cs)"
    by (metis (no_types, lifting) comp_assoc distinct_map map_map)
  have "map (fst \<circ> row_identity) (t_containers s) = map r_id (t_containers s)"
    by (simp add: row_identity_def identity_def row_to_container_def)
  then have d': "distinct (map row_identity (t_containers s))"
    using assms(2) by (metis distinct_map map_map)
  have "set (map (identity \<circ> snd) cs) = set (map row_identity (t_containers s))"
  proof (intro set_eqI iffI)
    fix x assume "x \<in> set (map (identity \<circ> snd) cs)"
    then obtain k c where c: "(k, c) \<in> set cs" "x = identity c" by auto
    then have "map_of cs k = Some c" using assms(1) by (simp add: containers_agree_def)
    then obtain r where "find_row k s = Some r" "identity c = row_identity r"
      using containers_agree_lookup [OF assms(1), of k] by (cases "find_row k s") auto
    then show "x \<in> set (map row_identity (t_containers s))" using c find_row_Some by auto
  next
    fix x assume "x \<in> set (map row_identity (t_containers s))"
    then obtain r where r: "r \<in> set (t_containers s)" "x = row_identity r" by auto
    then have "map_option identity (map_of cs (r_id r)) = Some x"
      using containers_agree_lookup [OF assms(1), of "r_id r"] find_row_unique [OF assms(2) r(1)] by simp
    then show "x \<in> set (map (identity \<circ> snd) cs)" by (force dest: map_of_SomeD)
  qed
  then have "mset (map (identity \<circ> snd) cs) = mset (map row_identity (t_containers s))"
    by (rule set_eq_iff_mset_eq_distinct [OF d d', THEN iffD1])
  then show ?thesis by (simp add: multiset.map_comp)
qed


lemma identity_row: "identity (row_to_container r) = row_identity r"
  by (simp add: row_identity_def)

lemma listing_agrees:
  assumes "mock_sim m s" and "db_ok s" and "wf_store s" and "real_scope sc"
  shows "\<exists>cs ds. Mock_ListContainersByScope m sc = Inr cs \<and> ListContainersByScope s sc = Inr ds \<and>
                 mset (map identity cs) = mset (map identity ds)"
proof -
  have agree: "containers_agree (ms_Containers m) s" using assms(1) by (simp add: mock_sim_def)
  note all = agree_rows_mset [OF agree wf_storeD(1) [OF assms(3)]]
  have rows: "mset (map (identity \<circ> row_to_container) (sort_key r_registered_at rs)) = image_mset row_identity (mset rs)" for rs
    by (simp add: comp_def identity_row)
  define P where "P = (\<lambda>(a :: string, b :: string, c :: string, g). sc = ScopeHost \<or> g = SegmentID sc)"
  have "mset (map identity (filter (\<lambda>c. P (identity c)) (map snd (ms_Containers m)))) =
        filter_mset P (image_mset identity (mset (map snd (ms_Containers m))))"
    by (simp add: image_mset_filter_mset_swap [symmetric])
  also have "\<dots> = image_mset row_identity (mset (filter (\<lambda>r. P (row_identity r)) (t_containers s)))"
    unfolding all by (simp add: image_mset_filter_mset_swap [symmetric])
  finally have "mset (map identity (filter (\<lambda>c. P (identity c)) (map snd (ms_Containers m)))) =
      image_mset row_identity (mset (filter (\<lambda>r. P (row_identity r)) (t_containers s)))" .
  moreover have "P (identity c) \<longleftrightarrow> sc = ScopeHost \<or> IsSegment sc \<and> c_SegmentID c = SegmentID sc" for c
    using assms(4) by (auto simp: P_def identity_def real_scope_def)
  moreover have "P (row_identity r) \<longleftrightarrow> sc = ScopeHost \<or> r_segment_id r = Some (SegmentID sc)" for r
    using assms(4) by (auto simp: P_def row_identity_def identity_def row_to_container_def real_scope_def split: option.split)
  ultimately show ?thesis
    using assms(2) unfolding Mock_ListContainersByScope_def ListContainersByScope_def
    by (auto simp: db_ok_def rows Let_def simp del: mset_map)
qed




text \<open>
  Outside of what it covers the mock answers differently: an ID prefix is not resolved, a copy of
  limits drops those only the target has, a segment with members is deleted, the assignment of an
  unknown container fails, and a container registered again stays frozen.
\<close>

theorem mock_store_diverges:
  assumes "m = fold mock_step ops NewMockStore" and "s = run_store ops"
    and "ops = [OpRegister ''0123456789abcdef'' ''web'' 5, OpCreateSegment ''team'' ''Team'' 6,
                OpSetContainerSegment ''0123456789ab'' (Some ''team''), OpSetLimit ''0123456789ab'' LimitRAM 1,
                OpSetLimit ''fedcba987654'' LimitCPU 9, OpSetFrozen ''0123456789ab'' True]"
  shows "ResolveContainerID s ''0123'' = Inr ''0123456789ab'' \<and> (\<exists>e. Mock_ResolveContainerID m ''0123'' = Inl e)"
    and "fst (DeleteSegment ''team'' s) \<noteq> None \<and> fst (Mock_DeleteSegment ''team'' m) = None"
    and "GetLimit (snd (CopyLimits ''0123456789ab'' ''fedcba987654'' s)) ''fedcba987654'' LimitCPU = Inr 9 \<and>
         Mock_GetLimit (snd (Mock_CopyLimits ''0123456789ab'' ''fedcba987654'' m)) ''fedcba987654'' LimitCPU = Inr 0"
    and "fst (SetContainerSegment ''fedcba987654'' None s) = None \<and> fst (Mock_SetContainerSegment ''fedcba987654'' None m) \<noteq> None"
    and "IsFrozenRow (snd (RegisterContainer ''0123456789abcdef'' ''web'' 7 s)) ''0123456789ab'' = Inr False \<and>
         Mock_IsFrozen (snd (Mock_RegisterContainer ''0123456789abcdef'' ''web'' m)) ''0123456789ab'' = Inr True"
proof -
  have s: "s = \<lparr>t_containers = [\<lparr>r_id = ''0123456789ab'', r_docker_id = ''0123456789abcdef'', r_name = ''web'', r_registered_at = 0,
        r_frozen = 1, r_segment_id = Some ''team''\<rparr>],
      t_limits = [((''0123456789ab'', LimitRAM), 1), ((''fedcba987654'', LimitCPU), 9)], t_usage = [], t_global_limits = [],
      t_global_usage_accum = [], t_scope_limits = [], t_scope_usage_accum = [],
      t_segments = [\<lparr>sr_id = ''team'', sr_name = ''Team'', sr_created_at = 0\<rparr>], t_segment_config = [],
      db_rerr = None, db_werr = None, db_cerr = None\<rparr>"
    by (simp add: assms run_store_def empty_store_def RegisterContainer_def CreateSegment_def SetContainerSegment_def SetLimit_def
        SetFrozen_def Let_def replace_row_def update_rows_def find_segment_def tbl_put_def)
  show "ResolveContainerID s ''0123'' = Inr ''0123456789ab'' \<and> (\<exists>e. Mock_ResolveContainerID m ''0123'' = Inl e)"
    by (simp add: s ResolveContainerID_def find_row_def Let_def Mock_ResolveContainerID_def assms(1,3) to_lower_char_def
        Mock_RegisterContainer_def Mock_CreateSegment_def Mock_SetContainerSegment_def Mock_SetLimit_def Mock_SetFrozen_def
        NewMockStore_def)
  note mock = assms(1,3) Mock_RegisterContainer_def Mock_CreateSegment_def Mock_SetContainerSegment_def Mock_SetLimit_def
    Mock_SetFrozen_def NewMockStore_def Let_def
  show "fst (DeleteSegment ''team'' s) \<noteq> None \<and> fst (Mock_DeleteSegment ''team'' m) = None"
    by (simp add: s DeleteSegment_def Let_def Mock_DeleteSegment_def mock)
  show "GetLimit (snd (CopyLimits ''0123456789ab'' ''fedcba987654'' s)) ''fedcba987654'' LimitCPU = Inr 9 \<and>
         Mock_GetLimit (snd (Mock_CopyLimits ''0123456789ab'' ''fedcba987654'' m)) ''fedcba987654'' LimitCPU = Inr 0"
    by (simp add: s CopyLimits_def store_reads tbl_part_def in64_def Mock_CopyLimits_def Mock_reads mock nput_def inner_def mget0_def)
  show "fst (SetContainerSegment ''fedcba987654'' None s) = None \<and> fst (Mock_SetContainerSegment ''fedcba987654'' None m) \<noteq> None"
    by (simp add: s SetContainerSegment_def mock)
  show "IsFrozenRow (snd (RegisterContainer ''0123456789abcdef'' ''web'' 7 s)) ''0123456789ab'' = Inr False \<and>
         Mock_IsFrozen (snd (Mock_RegisterContainer ''0123456789abcdef'' ''web'' m)) ''0123456789ab'' = Inr True"
    by (simp add: s RegisterContainer_def IsFrozenRow_def find_row_def replace_row_def Let_def Mock_IsFrozen_def mock mgetb_def)
qed

end
