(* ===== verification/MockManagers.thy ===== *)
theory MockManagers
  imports ProxyProps
begin

text \<open>
  The in-memory \<^verbatim>\<open>MockEnforcement\<close> and \<^verbatim>\<open>MockProxy\<close> of \<^verbatim>\<open>internal/testutil/mocks.go\<close>, which stand
  for the enforcement manager and the spending proxy in the tests of the API.
\<close>

subsection \<open>MockEnforcement\<close>

record mock_enforcement =
  me_Started :: "string \<rightharpoonup> string"
  me_Stopped :: "string list"
  me_Enforced :: "string \<rightharpoonup> (limit_type \<times> bool) list"
  me_FrozenMap :: "string \<rightharpoonup> bool"
  me_Notified :: "string list"
  me_ScopeEnforced :: "scope \<rightharpoonup> (limit_type \<times> bool) list"
  me_ScopeStarted :: "scope \<rightharpoonup> bool"

definition NewMockEnforcement :: mock_enforcement where
  "NewMockEnforcement =
     \<lparr>me_Started = Map.empty, me_Stopped = [], me_Enforced = Map.empty, me_FrozenMap = Map.empty, me_Notified = [],
      me_ScopeEnforced = Map.empty, me_ScopeStarted = Map.empty\<rparr>"

definition MockE_StartContainer :: "string \<Rightarrow> string \<Rightarrow> mock_enforcement \<Rightarrow> mock_enforcement" where
  "MockE_StartContainer cid did e = e\<lparr>me_Started := (me_Started e)(cid \<mapsto> did)\<rparr>"

definition MockE_StopContainer :: "string \<Rightarrow> string \<Rightarrow> mock_enforcement \<Rightarrow> mock_enforcement" where
  "MockE_StopContainer cid reason e =
     e\<lparr>me_Stopped := me_Stopped e @ [cid], me_Started := (me_Started e)(cid := None)\<rparr>"

definition MockE_IsEnforced :: "mock_enforcement \<Rightarrow> string \<Rightarrow> limit_type \<Rightarrow> bool" where
  "MockE_IsEnforced e cid lt = (case me_Enforced e cid of None \<Rightarrow> False | Some m \<Rightarrow> mgetb (map_of m) lt)"

definition MockE_GetEnforced :: "mock_enforcement \<Rightarrow> string \<Rightarrow> (limit_type \<times> bool) list" where
  "MockE_GetEnforced e cid = (case me_Enforced e cid of None \<Rightarrow> [] | Some m \<Rightarrow> m)"

definition MockE_NotifyLimitChanged :: "string \<Rightarrow> mock_enforcement \<Rightarrow> mock_enforcement" where
  "MockE_NotifyLimitChanged cid e = e\<lparr>me_Notified := me_Notified e @ [cid]\<rparr>"

definition MockE_WasStarted :: "mock_enforcement \<Rightarrow> string \<Rightarrow> bool" where
  "MockE_WasStarted e cid \<longleftrightarrow> me_Started e cid \<noteq> None"

definition MockE_WasStopped :: "mock_enforcement \<Rightarrow> string \<Rightarrow> bool" where
  "MockE_WasStopped e cid \<longleftrightarrow> cid \<in> set (me_Stopped e)"

definition MockE_WasNotified :: "mock_enforcement \<Rightarrow> bool" where
  "MockE_WasNotified e \<longleftrightarrow> 0 < length (me_Notified e)"

definition MockE_StartScopeEnforcement :: "mock_enforcement \<Rightarrow> mock_enforcement" where
  "MockE_StartScopeEnforcement e = e\<lparr>me_ScopeStarted := (me_ScopeStarted e)(ScopeHost \<mapsto> True)\<rparr>"

definition MockE_IsScopeEnforced :: "mock_enforcement \<Rightarrow> scope \<Rightarrow> limit_type \<Rightarrow> bool" where
  "MockE_IsScopeEnforced e sc lt = (case me_ScopeEnforced e sc of None \<Rightarrow> False | Some m \<Rightarrow> mgetb (map_of m) lt)"

definition MockE_GetScopeEnforced :: "mock_enforcement \<Rightarrow> scope \<Rightarrow> (limit_type \<times> bool) list" where
  "MockE_GetScopeEnforced e sc = (case me_ScopeEnforced e sc of None \<Rightarrow> [] | Some m \<Rightarrow> m)"

definition MockE_Freeze :: "string \<Rightarrow> mock_enforcement \<Rightarrow> err option \<times> mock_enforcement" where
  "MockE_Freeze cid e = (None, e\<lparr>me_FrozenMap := (me_FrozenMap e)(cid \<mapsto> True)\<rparr>)"

definition MockE_Unfreeze :: "string \<Rightarrow> mock_enforcement \<Rightarrow> (err + bool) \<times> mock_enforcement" where
  "MockE_Unfreeze cid e =
     (let e1 = e\<lparr>me_FrozenMap := (me_FrozenMap e)(cid \<mapsto> False)\<rparr>
      in (Inr (case me_Enforced e cid of None \<Rightarrow> False | Some m \<Rightarrow> list_ex snd m), e1))"

definition MockE_IsFrozen :: "mock_enforcement \<Rightarrow> string \<Rightarrow> bool" where
  "MockE_IsFrozen e cid = mgetb (me_FrozenMap e) cid"

text \<open>Like the manager's, its answer to an unfreeze is whether a limit is still enforced.\<close>

lemma MockE_Unfreeze_enforced:
  assumes "\<And>m. me_Enforced e cid = Some m \<Longrightarrow> distinct (map fst m)"
  shows "fst (MockE_Unfreeze cid e) = Inr (\<exists>lt. MockE_IsEnforced e cid lt)"
proof (cases "me_Enforced e cid")
  case None
  then show ?thesis by (simp add: MockE_Unfreeze_def MockE_IsEnforced_def Let_def)
next
  case (Some m)
  have "list_ex snd m \<longleftrightarrow> (\<exists>lt. map_of m lt = Some True)"
    using assms [OF Some] by (force simp: list_ex_iff dest: map_of_SomeD)
  then show ?thesis
    using Some by (auto simp: MockE_Unfreeze_def MockE_IsEnforced_def Let_def mgetb_def split: option.splits)
qed

subsection \<open>MockProxy\<close>

record mock_proxy =
  mp_Spending :: "string \<rightharpoonup> int"
  mp_Budgets :: "string \<rightharpoonup> int"
  mp_Addrs :: "(string \<times> string) list"
  mp_Activity :: "string \<rightharpoonup> proxy_activity list"
  mp_ScopeSpendingBlocked :: "scope \<rightharpoonup> bool"

definition NewMockProxy :: mock_proxy where
  "NewMockProxy =
     \<lparr>mp_Spending = Map.empty, mp_Budgets = Map.empty, mp_Addrs = [], mp_Activity = Map.empty,
      mp_ScopeSpendingBlocked = Map.empty\<rparr>"

definition MockP_RegisterContainer :: "string \<Rightarrow> int \<Rightarrow> int \<Rightarrow> mock_proxy \<Rightarrow> (err + string) \<times> mock_proxy" where
  "MockP_RegisterContainer cid budget existing p =
     (let addr = ''127.0.0.1:'' @ show_int (10000 + int (length (mp_Addrs p)))
      in (Inr addr, p\<lparr>mp_Addrs := AList.update cid addr (mp_Addrs p), mp_Spending := (mp_Spending p)(cid \<mapsto> existing),
                      mp_Budgets := (mp_Budgets p)(cid \<mapsto> budget)\<rparr>))"

definition MockP_UpdateBudget :: "string \<Rightarrow> int \<Rightarrow> mock_proxy \<Rightarrow> mock_proxy" where
  "MockP_UpdateBudget cid budget p = p\<lparr>mp_Budgets := (mp_Budgets p)(cid \<mapsto> budget)\<rparr>"

definition MockP_GetSpending :: "mock_proxy \<Rightarrow> string \<Rightarrow> int" where
  "MockP_GetSpending p cid = mget0 (mp_Spending p) cid"

definition MockP_SetSpending :: "string \<Rightarrow> int \<Rightarrow> mock_proxy \<Rightarrow> mock_proxy" where
  "MockP_SetSpending cid v p = p\<lparr>mp_Spending := (mp_Spending p)(cid \<mapsto> v)\<rparr>"

definition MockP_GetProxyAddr :: "mock_proxy \<Rightarrow> string \<Rightarrow> string" where
  "MockP_GetProxyAddr p cid = mgets (map_of (mp_Addrs p)) cid"

definition MockP_GetBudget :: "mock_proxy \<Rightarrow> string \<Rightarrow> int" where
  "MockP_GetBudget p cid = mget0 (mp_Budgets p) cid"

definition MockP_AddSpending :: "string \<Rightarrow> int \<Rightarrow> mock_proxy \<Rightarrow> mock_proxy" where
  "MockP_AddSpending cid d p = p\<lparr>mp_Spending := (mp_Spending p)(cid \<mapsto> wrap64 (mget0 (mp_Spending p) cid + d))\<rparr>"

definition MockP_GetActivity :: "mock_proxy \<Rightarrow> string \<Rightarrow> proxy_activity list" where
  "MockP_GetActivity p cid = mgets (mp_Activity p) cid"

definition MockP_RecordActivity :: "string \<Rightarrow> proxy_activity \<Rightarrow> mock_proxy \<Rightarrow> mock_proxy" where
  "MockP_RecordActivity cid a p = p\<lparr>mp_Activity := (mp_Activity p)(cid \<mapsto> mgets (mp_Activity p) cid @ [a])\<rparr>"

definition MockP_SetScopeSpendingBlocked :: "scope \<Rightarrow> bool \<Rightarrow> mock_proxy \<Rightarrow> mock_proxy" where
  "MockP_SetScopeSpendingBlocked sc b p = p\<lparr>mp_ScopeSpendingBlocked := (mp_ScopeSpendingBlocked p)(sc \<mapsto> b)\<rparr>"

definition MockP_IsScopeSpendingBlocked :: "mock_proxy \<Rightarrow> scope \<Rightarrow> bool" where
  "MockP_IsScopeSpendingBlocked p sc = mgetb (mp_ScopeSpendingBlocked p) sc"

interpretation mock_spend: counter_table "\<lambda>_. True" in64
  "\<lambda>c v p. (None, MockP_SetSpending c v p)" "\<lambda>p c. Inr (MockP_GetSpending p c)" "\<lambda>c d p. (None, MockP_AddSpending c d p)"
  by unfold_locales (auto simp: MockP_SetSpending_def MockP_GetSpending_def MockP_AddSpending_def wrap64_id)

text \<open>
  The mock counts as the tracker does: the two are instances of one contract, so equal amounts
  added to both, starting from equal spending, leave equal spending.
\<close>

lemma mock_counts_alike:
  assumes "tracker_ok st" and "GetSpending st c = MockP_GetSpending p c" and "\<forall>d \<in> set ds. 0 \<le> d"
    and "\<forall>x. GetSpending st c \<le> x \<and> x \<le> GetSpending st c + sum_list ds \<longrightarrow> mc_ok x \<and> in64 x"
  shows "GetSpending (spend.add_all c ds st) c = MockP_GetSpending (mock_spend.add_all c ds p) c"
  using spend.get_add_all [OF assms(1) refl assms(3), of c] mock_spend.get_add_all [OF TrueI refl assms(3), of p c] assms(2,4)
  by simp

text \<open>
  Addresses are numbered by how many are known, so that registering a container twice makes the
  next one share its address.
\<close>

lemma mock_address_clash:
  assumes "p = snd (MockP_RegisterContainer a b1 s1 (snd (MockP_RegisterContainer a b2 s2 NewMockProxy)))" and "c \<noteq> a"
  shows "fst (MockP_RegisterContainer c b s p) = Inr (MockP_GetProxyAddr p a)"
  using assms by (simp add: MockP_RegisterContainer_def MockP_GetProxyAddr_def NewMockProxy_def mgets_def Let_def)

end
