(* ===== verification/Spec2Isabelle.thy ===== *)
theory Spec2Isabelle
  imports ProxyPort EndToEnd ErrorProps Dashboard CliHostProps EventProps MockStoreProps MockManagers
begin

text \<open>
  \<^bold>\<open>Docker Dynamic Limits\<close>: a daemon (\<^verbatim>\<open>ddld\<close>) that limits what Docker containers use of CPU time,
  memory, disk, network and paid model APIs, alone and together in \<^emph>\<open>scopes\<close> (the host and named
  segments), and the programs that talk to it (\<^verbatim>\<open>ddl\<close>, \<^verbatim>\<open>ddl-guest\<close>).

  \<^bold>\<open>How the parts interact.\<close> The API server (\<^verbatim>\<open>internal/api\<close>) registers containers in the store
  (\<^verbatim>\<open>internal/store\<close>, SQLite), in the enforcement manager and in the spending proxy. The enforcement
  manager (\<^verbatim>\<open>internal/enforcement\<close>) runs a loop for every container, which reads cgroups
  (\<^verbatim>\<open>internal/cgroup\<close>), adds to the usage in the store and pauses, throttles, disconnects or stops
  the container through Docker (\<^verbatim>\<open>internal/docker\<close>) when a limit is reached, and one loop for the
  scopes, which adds up the usage of their members. Containers send their API traffic through the proxy
  (\<^verbatim>\<open>internal/proxy\<close>), which prices every answer, refuses containers over their budget and hands requests
  for local models to the Ollama queue (\<^verbatim>\<open>internal/ollama\<close>), an auction that one processor serves. What
  happens is published on the event bus (\<^verbatim>\<open>internal/events\<close>) and streamed to \<^verbatim>\<open>ddl events\<close>.

  \<^bold>\<open>Theories, bottom up.\<close>
  \<^item> \<^verbatim>\<open>Prelude\<close>: generic lemmas, tables as association lists, 64-bit wrap-around (\<open>wrap64\<close>, \<open>in64\<close>).
    \<^verbatim>\<open>Gotext\<close>, \<^verbatim>\<open>Gofloat\<close>, \<^verbatim>\<open>Durations\<close>: the parts of Go's \<^verbatim>\<open>strings\<close>, \<^verbatim>\<open>strconv\<close>, \<^verbatim>\<open>fmt\<close>, float64 and
    \<^verbatim>\<open>time.Duration\<close> that the program uses, with round trips for integers and durations.
    \<^verbatim>\<open>Contracts\<close>: the interfaces as locales (a table of limits, a table of counters, a priority queue).
  \<^item> \<^verbatim>\<open>Model\<close>: \<^verbatim>\<open>internal/model/model.go\<close>. \<^verbatim>\<open>Store\<close>, \<^verbatim>\<open>StoreProps\<close>: \<^verbatim>\<open>internal/store/store.go\<close>, one definition per
    method over the tables of the database and its faults; the invariant of the tables, what is kept of the
    usage of removed containers, migration, errors.
  \<^item> \<^verbatim>\<open>Events\<close>: \<^verbatim>\<open>internal/events/events.go\<close>. \<^verbatim>\<open>Docker\<close>, \<^verbatim>\<open>Cgroup\<close>: the two interfaces to the host as records of
    functions on an opaque state, the clients over their parameters, and \<^verbatim>\<open>MockDocker\<close>, \<^verbatim>\<open>MockCgroup\<close> of
    \<^verbatim>\<open>internal/testutil/mocks.go\<close>; the locales \<open>pausable_docker\<close>, \<open>reliable_docker\<close> and \<open>reliable_cgroup\<close>.
  \<^item> \<^verbatim>\<open>Proxy\<close>, \<^verbatim>\<open>ProxyProps\<close>: \<^verbatim>\<open>internal/proxy/proxy.go\<close>, pricing, gates, relaying and tunnelling.
  \<^item> \<^verbatim>\<open>Enforcement\<close>: \<^verbatim>\<open>internal/enforcement/enforcement.go\<close> as steps on the \<open>world\<close> (the store, the proxy, the bus,
    Docker, cgroups and the manager's maps). \<^verbatim>\<open>EnforcementProps\<close>: the container loop and the freeze
    invariant over all interleavings of the daemon's steps; \<^verbatim>\<open>ScopeProps\<close>: the scope loop against
    the abstract ledger; \<^verbatim>\<open>FreezeProps\<close>: freezing and byte-seconds.
  \<^item> \<^verbatim>\<open>Ollama\<close>, \<^verbatim>\<open>OllamaProps\<close>: \<^verbatim>\<open>internal/ollama/ollama.go\<close>, the queue as a heap of entries with the processor as a
    state machine; order, termination of a drain, billing, races.
  \<^item> \<^verbatim>\<open>Http\<close>, \<^verbatim>\<open>Api\<close>, \<^verbatim>\<open>ApiConfig\<close>, \<^verbatim>\<open>ApiServer\<close>, \<^verbatim>\<open>ApiProps\<close>: \<^verbatim>\<open>internal/api\<close>, every handler and every route, as
    functions from a request and the \<open>server\<close> to a reply and the server. \<^verbatim>\<open>ErrorProps\<close>: the replies that report an
    error, handler by handler.
  \<^item> \<^verbatim>\<open>Daemon\<close>, \<^verbatim>\<open>DaemonProps\<close>: \<^verbatim>\<open>cmd/ddld/main.go\<close>, the environment, the sockets and what they serve,
    what a start restores and what it forgets. \<^verbatim>\<open>ProxyPort\<close>: a container's request through the shared proxy, with
    the proxy, the addresses and the store together.
  \<^item> \<^verbatim>\<open>Cli\<close>, \<^verbatim>\<open>CliCommands\<close>, \<^verbatim>\<open>CliProps\<close>: \<^verbatim>\<open>cmd/ddl\<close> (\<^verbatim>\<open>format.go\<close>, \<^verbatim>\<open>main.go\<close>, \<^verbatim>\<open>segments.go\<close>, \<^verbatim>\<open>scope.go\<close>, \<^verbatim>\<open>config.go\<close>) and
    \<^verbatim>\<open>cmd/ddl-guest\<close>: values as text, and every command as an interaction tree that is run against the
    handlers of the server.
  \<^item> \<^verbatim>\<open>CliHost\<close>, \<^verbatim>\<open>CliHostProps\<close>: \<^verbatim>\<open>daemon.go\<close>, \<^verbatim>\<open>hooks.go\<close> and \<^verbatim>\<open>docker_transport.go\<close>: the commands
    that run the program \<^verbatim>\<open>docker\<close>, as interactions with the host. \<^verbatim>\<open>Dashboard\<close>: \<^verbatim>\<open>dashboard.go\<close>, the handler in
    front of the daemon and the process with its PID file.
  \<^item> \<^verbatim>\<open>EventWire\<close>, \<^verbatim>\<open>EventProps\<close>: the event payloads and \<^verbatim>\<open>cmd/ddl/events.go\<close>, the two ends of the event stream.
  \<^item> \<^verbatim>\<open>MockStore\<close>, \<^verbatim>\<open>MockStoreProps\<close>, \<^verbatim>\<open>MockManagers\<close>: the other test doubles of \<^verbatim>\<open>internal/testutil/mocks.go\<close>, and in
    how far they stand for what they replace.
  \<^item> \<^verbatim>\<open>EndToEnd\<close>: what joins the command line, the server and the enforcement, for the claim of this theory.

  \<^bold>\<open>What the claims show.\<close> C1, C2, C10 to C12: enforcement of a container, freezing and unfreezing. C3, C8,
  C9: the spending proxy. C4 to C7: the scope loop and the store under it. C13: what a request
  that fails leaves behind. C14 to C18: the API and the daemon, with its configuration, its ports and its restart.
  C19, below: what the user is shown is what the daemon enforces. C20 to C23: the Ollama queue. C24 to C33: the
  programs of the user, each against the server or the host that answers it, the dashboard (C27) among
  them, and the test store (C30). C34 to C38: behaviour that the
  documentation does not lead to expect, each with a concrete run. C39, C40: the event bus and the
  parsing of \<^verbatim>\<open>io.stat\<close>.

  \<^bold>\<open>Conventions.\<close> A Go \<^verbatim>\<open>int64\<close> is an \<open>int\<close> with the wrap-around written out where the code can reach it; a
  string is its bytes; an error is its text, so that \<open>err + 'a\<close> and \<open>err option\<close> are the results
  of fallible calls. A map that is only read by key is a map, one that is ranged over an association list, whose
  order stands for the one Go happens to take. Times are nanoseconds. A mutex-protected section, and
  a handler, is one atomic step; where the code has two sections, the model has two steps, and the
  claims on interleavings (C1, C21, \<open>one_per_container_race\<close>) range over all sequences of them.

  \<^bold>\<open>Parameters and hypotheses.\<close> Code that is not in the repository is a parameter: the Docker Engine and the
  program \<^verbatim>\<open>docker\<close>, the cgroup files, SQLite's faults, JSON and HTTP encoding, DNS and the network, the
  clock and the time zone, signals and the file system. What a claim needs of it is a named
  hypothesis (\<open>reliable_docker\<close>, \<open>reliable_cgroup\<close>, \<open>docker_program\<close>, \<open>config_codec\<close>) or a premise on
  one call, and its witness instantiates the parameter with the test doubles of the repository or
  with a small host of its own. A fault of the database lasts for the whole of a request.

  \<^bold>\<open>Termination and bounds.\<close> All definitions are total. Loops over data are structural or have a measure; the
  endless loops of the daemon are step relations, of which a claim speaks by reachability. The one
  loop that waits (\<open>wait_ready\<close>) has the bound of the code, six rounds. No fuel is used.

  \<^bold>\<open>Not modelled.\<close> The web pages and the file server of the dashboard, the headers its reverse proxy sets; the accept loops,
  signal delivery and logging of the daemon; flag parsing and help texts (cobra) and column alignment (tabwriter);
  the bytes of JSON, HTTP and WebSocket frames; the copying of a tunnel's bytes; the tests and their
  end-to-end harness. Data races are left out: the mutexes are taken to exclude each other.
\<close>

subsection \<open>From the check to the screen of the user\<close>

text \<open>C19: what the user sees is what is enforced. After a check of a running, unfrozen container on a healthy
  host, "ddl usage" of it, served by the daemon, prints a row for every type of limit; for one that is
  set it shows the recorded usage, the limit and their ratio, and is marked ENFORCED exactly when the
  daemon holds that limit enforced. (Amounts are below 2^53, from where on they are rounded.)\<close>

theorem usage_shows_enforcement:
  fixes w :: "('d, 'c, 'z) server_scheme"
  assumes "enforcement_host dc known cg ready" and "host_ok known ready cid did p w"
    and "g_find cg (w_cgroup w) did = Inr p" and "d_running dc (w_docker w) did = Inr True"
    and "\<not> IsFrozen w cid" and "GetAllLimits (w_store w) cid = Inr limits"
    and "ResolveContainerID (w_store w) c = Inr cid" and "CHR ''/'' \<notin> set c" and "\<not> cx_json cx"
    and "w1 = checkAndEnforce dc cg cid did slept w" and "GetAllUsage (w_store w1) cid = Inr usage"
  shows "\<exists>rows. run_cli (serve (Handler ae) marshal) (usageCmd cx c) w1 =
      (Some (Inr [Print (''TYPE'' @ tab @ ''USAGE'' @ tab @ ''LIMIT'' @ tab @ ''STATUS'' @ nl @ concat (map rows all_types))]), w1) \<and>
    (\<forall>lt L. lt \<in> set AllLimitTypes \<and> map_of limits lt = Some L \<and> 0 < L \<and> L < 2 ^ 53 \<and> \<bar>mget0 (map_of usage) lt\<bar> < 2 ^ 53 \<longrightarrow>
       rows lt = lt @ tab @ formatValue lt (mget0 (map_of usage) lt) @ tab @ formatValue lt L @ tab @
         show_fixed 1 (percentage (fl_of_int (mget0 (map_of usage) lt)) (fl_of_int L)) @ ''%'' @
         (if IsEnforced w1 cid lt then '' ENFORCED'' else '''') @ nl)"
proof (intro exI conjI allI impI)
  let ?u = "map (\<lambda>(k, v). (k, JInt v)) usage" and ?l = "map (\<lambda>(k, v). (k, JInt v)) limits"
  note reads = besides_reads [OF check_besides, of dc cg cid did slept w, folded assms(10)]
  show "run_cli (serve (Handler ae) marshal) (usageCmd cx c) w1 =
      (Some (Inr [Print (''TYPE'' @ tab @ ''USAGE'' @ tab @ ''LIMIT'' @ tab @ ''STATUS'' @ nl @
         concat (map (usage_row ?u ?l) all_types))]), w1)"
    using usage_replies [of w1 c cid cx usage limits ae marshal] assms(6-9,11) reads by (simp add: usage_table_def)
  fix lt L
  assume a: "lt \<in> set AllLimitTypes \<and> map_of limits lt = Some L \<and> 0 < L \<and> L < 2 ^ 53 \<and> \<bar>mget0 (map_of usage) lt\<bar> < 2 ^ 53"
  have "IsEnforced w1 cid lt \<longleftrightarrow> L \<le> or0 (GetUsage (w_store w1) cid lt)"
    using enforcement_host.check_settles [OF assms(1-6), of lt L slept] a assms(10) by simp
  moreover have "or0 (GetUsage (w_store w1) cid lt) = mget0 (map_of usage) lt" using assms(11) by (rule usage_cell)
  ultimately show "usage_row ?u ?l lt = lt @ tab @ formatValue lt (mget0 (map_of usage) lt) @ tab @ formatValue lt L @ tab @
         show_fixed 1 (percentage (fl_of_int (mget0 (map_of usage) lt)) (fl_of_int L)) @ ''%'' @
         (if IsEnforced w1 cid lt then '' ENFORCED'' else '''') @ nl"
    using a usage_row_small [of "mget0 (map_of usage) lt" L ?u lt ?l] by (simp add: getJSONFloat_ints mget0_def)
qed

theorem usage_shows_enforcement_witness:
  "\<exists>rows. fst (run_cli (serve (Handler (demo_env \<lparr>lr_Type = LimitCPU, lr_Value = 1, lr_Operation = ''set''\<rparr> [])) (\<lambda>_. ''{}''))
       (usageCmd demo_cli ''0123456789ab'') checked_server) =
     Some (Inr [Print (''TYPE'' @ tab @ ''USAGE'' @ tab @ ''LIMIT'' @ tab @ ''STATUS'' @ nl @ concat (map rows all_types))]) \<and>
   rows LimitCPU = ''cpu'' @ tab @ ''33m20s'' @ tab @ ''16m40s'' @ tab @
     show_fixed 1 (percentage (fl_of_int 2000) (fl_of_int 1000)) @ ''%'' @ '' ENFORCED'' @ nl"
proof -
  have "IsEnforced checked_server ''0123456789ab'' LimitCPU"
    using mockhost.check_settles [OF busy_server_facts(1-5), of LimitCPU 1000 False] usage_cell [OF busy_check_usage, of LimitCPU]
    by (simp add: AllLimitTypes_def mget0_def)
  moreover have "formatValue LimitCPU 2000 = ''33m20s''" "formatValue LimitCPU 1000 = ''16m40s''"
    by (simp_all add: formatValue_def format_seconds_def show_eval)
  ultimately show ?thesis
    using usage_shows_enforcement [OF mockhost.enforcement_host_axioms busy_server_facts _ _ refl busy_check_usage,
        of demo_cli "demo_env \<lparr>lr_Type = LimitCPU, lr_Value = 1, lr_Operation = ''set''\<rparr> []" "\<lambda>_. ''{}''"]
    by (force simp: AllLimitTypes_def mget0_def demo_cli_def)
qed

end
